(* ===== verification/Prelude.thy ===== *)
theory Prelude
  imports Main "HOL-Library.Word" "HOL-Library.List_Lexorder" "HOL-Library.Char_ord"
begin

text \<open>
  What every component of the development shares: the type of results of the fallible
  Go functions, 64-bit signed arithmetic, lookups and updates of lists of rows, and the
  two collections \<open>result_simps\<close> (how a result is taken apart) and \<open>table_simps\<close>
  (how a query or an update of a list of rows is rewritten).
\<close>

named_theorems result_simps \<open>rewriting of results and of their sequencing\<close>
named_theorems table_simps \<open>rewriting of queries and updates on lists of rows\<close>

section \<open>Results\<close>

text \<open>
  A Go function that returns \<open>(value, error)\<close> is modelled by a sum: \<open>Inl\<close> holds the
  error, \<open>Inr\<close> the value. \<open>bind_ok\<close> is the statement pair
  \<^verbatim>\<open>x, err := m; if err != nil { return err }\<close>.
\<close>

type_synonym ('e, 'a) result = "'e + 'a"

definition bind_ok :: "('e, 'a) result \<Rightarrow> ('a \<Rightarrow> ('e, 'b) result) \<Rightarrow> ('e, 'b) result" where
  "bind_ok m f = (case m of Inl e \<Rightarrow> Inl e | Inr x \<Rightarrow> f x)"

definition guard_ok :: "bool \<Rightarrow> 'e \<Rightarrow> ('e, unit) result" where
  "guard_ok b e = (if b then Inr () else Inl e)"

lemma bind_ok_Inl [simp, result_simps]: "bind_ok (Inl e) f = Inl e"
  by (simp add: bind_ok_def)

lemma bind_ok_Inr [simp, result_simps]: "bind_ok (Inr x) f = f x"
  by (simp add: bind_ok_def)

lemma bind_ok_eq_Inr [result_simps]:
  "bind_ok m f = Inr y \<longleftrightarrow> (\<exists>x. m = Inr x \<and> f x = Inr y)"
  by (cases m) auto

lemma bind_ok_eq_Inl [result_simps]:
  "bind_ok m f = Inl e \<longleftrightarrow> m = Inl e \<or> (\<exists>x. m = Inr x \<and> f x = Inl e)"
  by (cases m) auto

lemma guard_ok_eq_Inr [simp, result_simps]: "guard_ok b e = Inr u \<longleftrightarrow> b"
  by (auto simp: guard_ok_def)

lemma guard_ok_eq_Inl [simp, result_simps]: "guard_ok b e = Inl e' \<longleftrightarrow> \<not> b \<and> e' = e"
  by (auto simp: guard_ok_def)

lemma guard_ok_True [simp]: "guard_ok True e = Inr ()"
  by (simp add: guard_ok_def)

lemma guard_ok_False [simp]: "guard_ok False e = Inl e"
  by (simp add: guard_ok_def)

text \<open>A sequence that succeeded, taken apart.\<close>

lemma bind_okE:
  assumes "bind_ok m f = Inr y"
  obtains x where "m = Inr x" and "f x = Inr y"
  using assms by (auto simp: bind_ok_eq_Inr)

lemma if_InlE:
  assumes "(if b then Inl e else m) = Inr y"
  obtains "\<not> b" and "m = Inr y"
  using assms by (auto split: if_splits)

fun is_ok :: "('e, 'a) result \<Rightarrow> bool" where
  "is_ok (Inl e) = False"
| "is_ok (Inr x) = True"

lemma is_ok_iff: "is_ok m \<longleftrightarrow> (\<exists>x. m = Inr x)"
  by (cases m) auto

section \<open>64-bit signed arithmetic\<close>

text \<open>
  Go's \<open>int\<close> and \<open>int64\<close> wrap around at 64 bits. A value is kept as an \<open>int\<close> and the
  result of an operation that may overflow is reduced by \<open>int64\<close>.
\<close>

definition int64 :: "int \<Rightarrow> int" where
  "int64 x = signed_take_bit 63 x"

definition in_int64 :: "int \<Rightarrow> bool" where
  "in_int64 x \<longleftrightarrow> - (2 ^ 63) \<le> x \<and> x < 2 ^ 63"

lemma int64_id [simp]: "in_int64 x \<Longrightarrow> int64 x = x"
  by (simp add: int64_def in_int64_def signed_take_bit_int_eq_self)

lemma in_int64_int64: "in_int64 (int64 x)"
  using signed_take_bit_int_greater_eq_minus_exp [of 63 x] signed_take_bit_int_less_exp [of 63 x]
  by (simp add: int64_def in_int64_def)

lemma in_int64_nonneg: "0 \<le> x \<Longrightarrow> x < 2 ^ 63 \<Longrightarrow> in_int64 x"
  by (simp add: in_int64_def)

section \<open>Rows\<close>

text \<open>
  A table is a list of rows. \<open>update_where P f\<close> is \<^verbatim>\<open>UPDATE ... SET f WHERE P\<close>;
  a query of one row is \<open>find P\<close>.
\<close>

definition update_where :: "('r \<Rightarrow> bool) \<Rightarrow> ('r \<Rightarrow> 'r) \<Rightarrow> 'r list \<Rightarrow> 'r list" where
  "update_where P f rows = map (\<lambda>r. if P r then f r else r) rows"

definition delete_where :: "('r \<Rightarrow> bool) \<Rightarrow> 'r list \<Rightarrow> 'r list" where
  "delete_where P rows = filter (\<lambda>r. \<not> P r) rows"

definition exists_where :: "('r \<Rightarrow> bool) \<Rightarrow> 'r list \<Rightarrow> bool" where
  "exists_where P rows = list_ex P rows"

lemma exists_where_iff [table_simps]: "exists_where P rows \<longleftrightarrow> (\<exists>r \<in> set rows. P r)"
  by (simp add: exists_where_def list_ex_iff)

lemma update_where_Nil [simp]: "update_where P f [] = []"
  by (simp add: update_where_def)

lemma update_where_Cons [simp]:
  "update_where P f (r # rows) = (if P r then f r else r) # update_where P f rows"
  by (simp add: update_where_def)

lemma update_where_append [simp]:
  "update_where P f (xs @ ys) = update_where P f xs @ update_where P f ys"
  by (simp add: update_where_def)

lemma length_update_where [simp]: "length (update_where P f rows) = length rows"
  by (simp add: update_where_def)

lemma set_update_where [table_simps]:
  "set (update_where P f rows) = {r'. \<exists>r \<in> set rows. r' = (if P r then f r else r)}"
  by (auto simp: update_where_def)

lemma map_update_where_same [table_simps]:
  "(\<And>r. P r \<Longrightarrow> k (f r) = k r) \<Longrightarrow> map k (update_where P f rows) = map k rows"
  by (auto simp: update_where_def)

lemma update_where_none [table_simps]:
  "(\<And>r. r \<in> set rows \<Longrightarrow> \<not> P r) \<Longrightarrow> update_where P f rows = rows"
  by (induction rows) auto

lemma set_delete_where [table_simps]: "set (delete_where P rows) = {r \<in> set rows. \<not> P r}"
  by (auto simp: delete_where_def)

lemma find_Some_iff_mem: "find P xs = Some x \<Longrightarrow> x \<in> set xs \<and> P x"
  by (induction xs) (auto split: if_splits)

lemma find_None_iff_mem: "find P xs = None \<longleftrightarrow> (\<forall>x \<in> set xs. \<not> P x)"
  by (induction xs) auto

lemma distinct_key_unique:
  "distinct (map k xs) \<Longrightarrow> x \<in> set xs \<Longrightarrow> y \<in> set xs \<Longrightarrow> k x = k y \<Longrightarrow> x = y"
  by (metis distinct_map inj_on_eq_iff)

lemma distinct_map_filter_keys: "distinct (map k xs) \<Longrightarrow> distinct (map k (filter P xs))"
  by (induction xs) auto

lemma sort_key_eq_Nil [simp]: "sort_key f xs = [] \<longleftrightarrow> xs = []"
  by (metis set_empty set_sort)

end
