(* ===== verification/Go_Strings.thy ===== *)
theory Go_Strings
  imports Prelude
begin

text \<open>
  The functions of Go's \<open>strings\<close>, \<open>strconv\<close>, \<open>net\<close> and \<open>net/textproto\<close> packages the
  program uses. A Go string is a sequence of bytes, here a \<open>string\<close> whose characters are
  the bytes.
\<close>

section \<open>Bytes\<close>

abbreviation byte_of :: "char \<Rightarrow> nat" where
  "byte_of c \<equiv> (of_char c :: nat)"

definition is_digit :: "char \<Rightarrow> bool" where
  "is_digit c \<longleftrightarrow> 48 \<le> byte_of c \<and> byte_of c \<le> 57"

definition is_lower :: "char \<Rightarrow> bool" where
  "is_lower c \<longleftrightarrow> 97 \<le> byte_of c \<and> byte_of c \<le> 122"

definition is_upper :: "char \<Rightarrow> bool" where
  "is_upper c \<longleftrightarrow> 65 \<le> byte_of c \<and> byte_of c \<le> 90"

definition is_lower_hex :: "char \<Rightarrow> bool" where
  "is_lower_hex c \<longleftrightarrow> is_digit c \<or> 97 \<le> byte_of c \<and> byte_of c \<le> 102"

definition upper_byte :: "char \<Rightarrow> char" where
  "upper_byte c = (if is_lower c then char_of (byte_of c - 32) else c)"

definition lower_byte :: "char \<Rightarrow> char" where
  "lower_byte c = (if is_upper c then char_of (byte_of c + 32) else c)"

lemmas byte_eval = is_digit_def is_lower_def is_upper_def is_lower_hex_def upper_byte_def
  lower_byte_def char_of_def bit_0

lemma byte_of_less [simp]: "byte_of c < 256"
  by (cases c) (auto simp: of_char_def horner_sum_of_bool_2_less split: prod.splits
      intro: order.strict_trans2 [OF horner_sum_of_bool_2_less])

section \<open>Searching and splitting\<close>

definition has_prefix :: "string \<Rightarrow> string \<Rightarrow> bool" where
  "has_prefix s p \<longleftrightarrow> take (length p) s = p"

definition contains_any :: "string \<Rightarrow> char list \<Rightarrow> bool" where
  "contains_any s cs \<longleftrightarrow> list_ex (\<lambda>c. c \<in> set cs) s"

fun split_on :: "char \<Rightarrow> string \<Rightarrow> string list" where
  "split_on d [] = [[]]"
| "split_on d (c # cs) =
     (if c = d then [] # split_on d cs
      else (case split_on d cs of [] \<Rightarrow> [[c]] | w # ws \<Rightarrow> (c # w) # ws))"

fun join_with :: "string \<Rightarrow> string list \<Rightarrow> string" where
  "join_with sep [] = []"
| "join_with sep [w] = w"
| "join_with sep (w # ws) = w @ sep @ join_with sep ws"

definition before_byte :: "char \<Rightarrow> string \<Rightarrow> string" where
  "before_byte d s = takeWhile (\<lambda>c. c \<noteq> d) s"

lemma has_prefix_append [simp]: "has_prefix (p @ s) p"
  by (simp add: has_prefix_def)

lemma has_prefix_iff: "has_prefix s p \<longleftrightarrow> (\<exists>t. s = p @ t)"
  unfolding has_prefix_def by (metis append_eq_conv_conj append_take_drop_id)

lemma contains_any_iff: "contains_any s cs \<longleftrightarrow> (\<exists>c \<in> set s. c \<in> set cs)"
  by (auto simp: contains_any_def list_ex_iff)

lemma split_on_nonempty [simp]: "split_on d s \<noteq> []"
  by (induction s) (auto split: list.splits)

lemma split_on_no_delim: "w \<in> set (split_on d s) \<Longrightarrow> d \<notin> set w"
proof (induction s arbitrary: w)
  case Nil
  then show ?case by simp
next
  case (Cons c cs)
  then show ?case by (cases "split_on d cs") (auto split: if_splits)
qed

lemma join_split_on: "join_with [d] (split_on d s) = s"
proof (induction s)
  case Nil
  then show ?case by simp
next
  case (Cons c cs)
  obtain w ws where w: "split_on d cs = w # ws"
    by (cases "split_on d cs") auto
  show ?case using Cons.IH by (cases ws) (auto simp: w)
qed

lemma split_on_id: "d \<notin> set s \<Longrightarrow> split_on d s = [s]"
  by (induction s) auto

lemma split_on_append: "d \<notin> set w \<Longrightarrow> split_on d (w @ d # s) = w # split_on d s"
  by (induction w) auto

lemma split_on_join: "ws \<noteq> [] \<Longrightarrow> \<forall>w \<in> set ws. d \<notin> set w \<Longrightarrow> split_on d (join_with [d] ws) = ws"
proof (induction ws)
  case Nil
  then show ?case by simp
next
  case (Cons w ws)
  then show ?case by (cases ws) (auto simp: split_on_id split_on_append)
qed

section \<open>White space\<close>

text \<open>
  The encodings of the runes that \<open>unicode.IsSpace\<close> accepts: six of one byte, U+0085 and
  U+00A0 of two, and the others of three.
\<close>

definition space_encodings :: "string list" where
  "space_encodings =
     [[CHR 0x09], [CHR 0x0A], [CHR 0x0B], [CHR 0x0C], [CHR 0x0D], [CHR 0x20],
      [CHR 0xC2, CHR 0x85], [CHR 0xC2, CHR 0xA0],
      [CHR 0xE1, CHR 0x9A, CHR 0x80],
      [CHR 0xE2, CHR 0x80, CHR 0x80], [CHR 0xE2, CHR 0x80, CHR 0x81], [CHR 0xE2, CHR 0x80, CHR 0x82],
      [CHR 0xE2, CHR 0x80, CHR 0x83], [CHR 0xE2, CHR 0x80, CHR 0x84], [CHR 0xE2, CHR 0x80, CHR 0x85],
      [CHR 0xE2, CHR 0x80, CHR 0x86], [CHR 0xE2, CHR 0x80, CHR 0x87], [CHR 0xE2, CHR 0x80, CHR 0x88],
      [CHR 0xE2, CHR 0x80, CHR 0x89], [CHR 0xE2, CHR 0x80, CHR 0x8A], [CHR 0xE2, CHR 0x80, CHR 0xA8],
      [CHR 0xE2, CHR 0x80, CHR 0xA9], [CHR 0xE2, CHR 0x80, CHR 0xAF], [CHR 0xE2, CHR 0x81, CHR 0x9F],
      [CHR 0xE3, CHR 0x80, CHR 0x80]]"

definition strip_space_prefix :: "string \<Rightarrow> string option" where
  "strip_space_prefix s =
     (case find (\<lambda>w. has_prefix s w) space_encodings of
        None \<Rightarrow> None | Some w \<Rightarrow> Some (drop (length w) s))"

function trim_left_space :: "string \<Rightarrow> string" where
  "trim_left_space s =
     (case strip_space_prefix s of None \<Rightarrow> s | Some t \<Rightarrow> trim_left_space t)"
  by pat_completeness auto
termination
proof (relation "measure length")
  fix s t :: string
  assume "strip_space_prefix s = Some t"
  then obtain w where w: "find (\<lambda>w. has_prefix s w) space_encodings = Some w"
    and t: "t = drop (length w) s"
    by (auto simp: strip_space_prefix_def split: option.splits)
  from w have "w \<in> set space_encodings" and p: "has_prefix s w"
    by (auto dest: find_Some_iff_mem)
  then have "w \<noteq> []" by (auto simp: space_encodings_def)
  with p t show "(t, s) \<in> measure length"
    by (cases s) (auto simp: has_prefix_def)
qed simp

text \<open>
  \<open>strings.TrimSpace\<close>: white space is stripped rune by rune at both ends. At the right end
  the last rune is white space exactly when one of the encodings is a suffix.
\<close>

definition strip_space_suffix :: "string \<Rightarrow> string option" where
  "strip_space_suffix s =
     (case find (\<lambda>w. has_prefix (rev s) (rev w)) space_encodings of
        None \<Rightarrow> None | Some w \<Rightarrow> Some (take (length s - length w) s))"

function trim_right_space :: "string \<Rightarrow> string" where
  "trim_right_space s =
     (case strip_space_suffix s of None \<Rightarrow> s | Some t \<Rightarrow> trim_right_space t)"
  by pat_completeness auto
termination
proof (relation "measure length")
  fix s t :: string
  assume "strip_space_suffix s = Some t"
  then obtain w where w: "find (\<lambda>w. has_prefix (rev s) (rev w)) space_encodings = Some w"
    and t: "t = take (length s - length w) s"
    by (auto simp: strip_space_suffix_def split: option.splits)
  from w have "w \<in> set space_encodings" and p: "has_prefix (rev s) (rev w)"
    by (auto dest: find_Some_iff_mem)
  then have "0 < length w" and "s \<noteq> []" by (auto simp: space_encodings_def has_prefix_def)
  with t show "(t, s) \<in> measure length"
    by simp
qed simp

declare trim_left_space.simps [simp del] trim_right_space.simps [simp del]

definition trim_space :: "string \<Rightarrow> string" where
  "trim_space s = trim_right_space (trim_left_space s)"

lemma space_bytes:
  "list_all (\<lambda>w. w \<noteq> [] \<and> (byte_of (hd w) < 33 \<or> 128 \<le> byte_of (hd w))
     \<and> (byte_of (last w) < 33 \<or> 128 \<le> byte_of (last w))) space_encodings"
  by (simp add: space_encodings_def)

lemma trim_space_plain:
  assumes "s \<noteq> []" and "33 \<le> byte_of (hd s)" "byte_of (hd s) < 128"
    and "33 \<le> byte_of (last s)" "byte_of (last s) < 128"
  shows "trim_space s = s"
proof -
  have hd_of: "hd s = hd w" if "has_prefix s w" "w \<noteq> []" for s w :: string
    using that by (cases s; cases w) (auto simp: has_prefix_def)
  have "find (\<lambda>w. has_prefix s w) space_encodings = None"
    using space_bytes assms(2,3) hd_of by (fastforce simp: find_None_iff_mem list_all_iff)
  moreover have "\<not> has_prefix (rev s) (rev w)" if "w \<in> set space_encodings" for w
    using space_bytes assms(4,5) hd_of [of "rev s" "rev w"] that
    by (auto simp: list_all_iff hd_rev)
  then have "find (\<lambda>w. has_prefix (rev s) (rev w)) space_encodings = None"
    by (simp add: find_None_iff_mem)
  ultimately show ?thesis
    by (simp add: trim_space_def trim_left_space.simps trim_right_space.simps strip_space_prefix_def
        strip_space_suffix_def)
qed

lemma strip_space_prefix_shorter: "strip_space_prefix s = Some t \<Longrightarrow> length t < length s"
proof -
  assume "strip_space_prefix s = Some t"
  then obtain w where w: "find (\<lambda>w. has_prefix s w) space_encodings = Some w" and t: "t = drop (length w) s"
    by (auto simp: strip_space_prefix_def split: option.splits)
  from find_Some_iff_mem [OF w] have "w \<noteq> []" and "has_prefix s w"
    by (auto simp: space_encodings_def)
  with t show ?thesis by (cases s) (auto simp: has_prefix_def)
qed

lemma no_space_prefix: "s = [] \<or> 33 \<le> byte_of (hd s) \<and> byte_of (hd s) < 128 \<Longrightarrow> strip_space_prefix s = None"
proof -
  assume s: "s = [] \<or> 33 \<le> byte_of (hd s) \<and> byte_of (hd s) < 128"
  have "\<not> has_prefix s w" if "w \<in> set space_encodings" for w
    using space_bytes that s by (cases w) (auto simp: list_all_iff has_prefix_iff)
  then show ?thesis by (simp add: strip_space_prefix_def find_None_iff_mem split: option.split)
qed

lemma trim_right_space_id: "strip_space_suffix s = None \<Longrightarrow> trim_right_space s = s"
  by (subst trim_right_space.simps) simp

lemma trim_left_space_id: "strip_space_prefix s = None \<Longrightarrow> trim_left_space s = s"
  by (subst trim_left_space.simps) simp

lemma trim_right_space_done: "strip_space_suffix (trim_right_space s) = None"
  by (induction s rule: trim_right_space.induct) (subst trim_right_space.simps, auto split: option.split)

lemma trim_left_space_done: "strip_space_prefix (trim_left_space s) = None"
  by (induction s rule: trim_left_space.induct) (subst trim_left_space.simps, auto split: option.split)

lemma trim_right_space_prefix: "\<exists>t. s = trim_right_space s @ t"
proof (induction s rule: trim_right_space.induct)
  case (1 s)
  show ?case
  proof (cases "strip_space_suffix s")
    case None
    then show ?thesis by (simp add: trim_right_space_id)
  next
    case (Some u)
    then have "trim_right_space s = trim_right_space u" by (subst trim_right_space.simps) simp
    moreover from Some obtain n where "u = take n s"
      by (auto simp: strip_space_suffix_def split: option.splits)
    then have "s = u @ drop n s" by simp
    ultimately show ?thesis using 1 [OF Some] by (metis append.assoc)
  qed
qed

lemma strip_space_prefix_append: "strip_space_prefix (s @ t) = None \<Longrightarrow> strip_space_prefix s = None"
  by (auto simp: strip_space_prefix_def find_None_iff has_prefix_iff split: option.splits)

lemma trim_space_idem [simp]: "trim_space (trim_space s) = trim_space s"
proof -
  obtain t where "trim_left_space s = trim_space s @ t"
    using trim_right_space_prefix [of "trim_left_space s"] by (auto simp: trim_space_def)
  then have "trim_left_space (trim_space s) = trim_space s"
    using trim_left_space_done [of s] strip_space_prefix_append by (intro trim_left_space_id) metis
  then show ?thesis
    by (simp add: trim_space_def trim_right_space_id trim_right_space_done)
qed

section \<open>Case\<close>

text \<open>
  \<open>strings.ToUpper\<close> and \<open>strings.ToLower\<close>. Beside the ASCII letters, four letters outside
  ASCII have an ASCII letter as their other case: U+0131 and U+017F in upper case, U+0130 and
  U+212A in lower case. Other bytes are left alone: letters that stay outside ASCII do not
  matter to the program, which compares the results with ASCII strings.
\<close>

fun to_upper :: "string \<Rightarrow> string" where
  "to_upper [] = []"
| "to_upper [c] = [upper_byte c]"
| "to_upper (c # d # cs) =
     (if c = CHR 0xC4 \<and> d = CHR 0xB1 then CHR ''I'' # to_upper cs
      else if c = CHR 0xC5 \<and> d = CHR 0xBF then CHR ''S'' # to_upper cs
      else upper_byte c # to_upper (d # cs))"

fun to_lower :: "string \<Rightarrow> string" where
  "to_lower [] = []"
| "to_lower (c # cs) =
     (if c = CHR 0xC4 \<and> has_prefix cs [CHR 0xB0] then CHR ''i'' # to_lower (drop 1 cs)
      else if c = CHR 0xE2 \<and> has_prefix cs [CHR 0x84, CHR 0xAA]
        then CHR ''k'' # to_lower (drop 2 cs)
      else lower_byte c # to_lower cs)"

lemma length_to_upper_le: "length (to_upper s) \<le> length s"
  by (induction s rule: to_upper.induct) auto

lemma to_upper_eq_Nil [simp]: "to_upper s = [] \<longleftrightarrow> s = []"
  by (cases s rule: to_upper.cases) auto

section \<open>Decimal numbers\<close>

fun digits_value :: "int \<Rightarrow> string \<Rightarrow> int option" where
  "digits_value acc [] = Some acc"
| "digits_value acc (c # cs) =
     (if is_digit c then digits_value (10 * acc + int (byte_of c - 48)) cs else None)"

text \<open>\<open>strconv.ParseInt(s, 10, bits)\<close>: an optional sign, at least one digit, in range.\<close>

definition parse_int :: "nat \<Rightarrow> string \<Rightarrow> int option" where
  "parse_int bits s =
     (let neg = has_prefix s ''-'';
          ds = (if neg \<or> has_prefix s ''+'' then drop 1 s else s)
      in if ds = [] then None
         else (case digits_value 0 ds of
                 None \<Rightarrow> None
               | Some n \<Rightarrow>
                   let v = (if neg then - n else n)
                   in if - (2 ^ (bits - 1)) \<le> v \<and> v < 2 ^ (bits - 1) then Some v else None))"

definition atoi :: "string \<Rightarrow> int option" where
  "atoi s = parse_int 64 s"

lemma digits_value_nonneg: "digits_value acc s = Some n \<Longrightarrow> 0 \<le> acc \<Longrightarrow> 0 \<le> n"
  by (induction acc s rule: digits_value.induct) (auto split: if_splits)

lemma atoi_in_int64: "atoi s = Some n \<Longrightarrow> in_int64 n"
  by (auto simp: atoi_def parse_int_def in_int64_def Let_def split: option.splits if_splits)

section \<open>Addresses with ports\<close>

definition last_index :: "char \<Rightarrow> string \<Rightarrow> nat option" where
  "last_index c s =
     (if c \<in> set s then Some (length s - 1 - length (takeWhile (\<lambda>d. d \<noteq> c) (rev s))) else None)"

definition index_byte :: "char \<Rightarrow> string \<Rightarrow> nat option" where
  "index_byte c s = (if c \<in> set s then Some (length (before_byte c s)) else None)"

text \<open>\<open>net.SplitHostPort\<close>: \<open>None\<close> is the error.\<close>

definition split_host_port :: "string \<Rightarrow> (string \<times> string) option" where
  "split_host_port s =
     (case last_index CHR '':'' s of
        None \<Rightarrow> None
      | Some i \<Rightarrow>
          if has_prefix s ''['' then
            (case index_byte CHR '']'' s of
               None \<Rightarrow> None
             | Some e \<Rightarrow>
                 if e + 1 \<noteq> i then None
                 else if CHR ''['' \<in> set (drop 1 s) \<or> CHR '']'' \<in> set (drop (e + 1) s) then None
                 else Some (take (e - 1) (drop 1 s), drop (i + 1) s))
          else if CHR '':'' \<in> set (take i s) then None
          else if CHR ''['' \<in> set s \<or> CHR '']'' \<in> set s then None
          else Some (take i s, drop (i + 1) s))"

section \<open>Header names\<close>

text \<open>
  \<open>textproto.CanonicalMIMEHeaderKey\<close>: the first letter and each letter after a hyphen in
  upper case, the others in lower case; a name with a byte that is not a token byte is
  left as it is.
\<close>

definition is_token_byte :: "char \<Rightarrow> bool" where
  "is_token_byte c \<longleftrightarrow>
     is_digit c \<or> is_lower c \<or> is_upper c \<or> c \<in> set ''!#$%&*+-.^_|~'' \<or> byte_of c = 39 \<or> byte_of c = 96"

fun canonical_from :: "bool \<Rightarrow> string \<Rightarrow> string" where
  "canonical_from up [] = []"
| "canonical_from up (c # cs) =
     (if up then upper_byte c else lower_byte c) # canonical_from (c = CHR ''-'') cs"

definition canonical_key :: "string \<Rightarrow> string" where
  "canonical_key s = (if list_all is_token_byte s then canonical_from True s else s)"

text \<open>A header maps a canonical name to its values, as \<open>http.Header\<close> does.\<close>

type_synonym header = "string \<rightharpoonup> string list"

definition header_values :: "header \<Rightarrow> string \<Rightarrow> string list" where
  "header_values h name = (case h (canonical_key name) of None \<Rightarrow> [] | Some vs \<Rightarrow> vs)"

definition header_get :: "header \<Rightarrow> string \<Rightarrow> string" where
  "header_get h name = (case header_values h name of [] \<Rightarrow> [] | v # _ \<Rightarrow> v)"

definition header_del :: "string \<Rightarrow> header \<Rightarrow> header" where
  "header_del name h = h(canonical_key name := None)"

definition header_set :: "string \<Rightarrow> string \<Rightarrow> header \<Rightarrow> header" where
  "header_set name v h = h(canonical_key name \<mapsto> [v])"

lemma header_values_del:
  "header_values (header_del n h) m = (if canonical_key m = canonical_key n then [] else header_values h m)"
  by (simp add: header_values_def header_del_def)

lemma header_values_set:
  "header_values (header_set n v h) m =
     (if canonical_key m = canonical_key n then [v] else header_values h m)"
  by (simp add: header_values_def header_set_def)

section \<open>Printing numbers and bytes\<close>

text \<open>\<open>fmt\<close>'s \<^verbatim>\<open>%d\<close> and \<open>hex.EncodeToString\<close>.\<close>

definition digit_char :: "nat \<Rightarrow> char" where
  "digit_char d = char_of (48 + d)"

fun show_nat :: "nat \<Rightarrow> string" where
  "show_nat n = (if n < 10 then [digit_char n] else show_nat (n div 10) @ [digit_char (n mod 10)])"

declare show_nat.simps [simp del]

definition show_int :: "int \<Rightarrow> string" where
  "show_int i = (if i < 0 then CHR ''-'' # show_nat (nat (- i)) else show_nat (nat i))"

definition pad_zero :: "nat \<Rightarrow> string \<Rightarrow> string" where
  "pad_zero w s = replicate (w - length s) CHR ''0'' @ s"

definition hex_digit :: "nat \<Rightarrow> char" where
  "hex_digit n = (if n < 10 then char_of (48 + n) else char_of (87 + n))"

definition hex_encode :: "string \<Rightarrow> string" where
  "hex_encode bs = concat (map (\<lambda>c. [hex_digit (byte_of c div 16), hex_digit (byte_of c mod 16)]) bs)"

lemma byte_of_digit_char: "d < 10 \<Longrightarrow> byte_of (digit_char d) = 48 + d"
  by (simp add: digit_char_def)

lemma is_digit_digit_char: "d < 10 \<Longrightarrow> is_digit (digit_char d)"
  by (simp add: is_digit_def byte_of_digit_char)

lemma show_nat_digits: "c \<in> set (show_nat n) \<Longrightarrow> is_digit c"
proof (induction n arbitrary: c rule: show_nat.induct)
  case (1 n)
  then show ?case
    by (subst (asm) (2) show_nat.simps) (auto simp: is_digit_digit_char split: if_splits)
qed

lemma show_int_no_colon: "CHR '':'' \<notin> set (show_int i)"
  by (auto simp: show_int_def is_digit_def dest!: show_nat_digits)

lemma byte_of_hex_digit: "n < 16 \<Longrightarrow> byte_of (hex_digit n) = (if n < 10 then 48 + n else 87 + n)"
  by (simp add: hex_digit_def)

lemma is_lower_hex_digit: "n < 16 \<Longrightarrow> is_lower_hex (hex_digit n)"
  by (auto simp: is_lower_hex_def is_digit_def byte_of_hex_digit)

lemma byte_nibbles: "byte_of c div 16 < 16" "byte_of c mod 16 < 16"
  using less_mult_imp_div_less [of "byte_of c" 16 16] byte_of_less [of c] by simp_all

lemma hex_encode_chars: "c \<in> set (hex_encode bs) \<Longrightarrow> is_lower_hex c"
  using byte_nibbles by (auto simp: hex_encode_def intro!: is_lower_hex_digit)

lemma length_hex_encode [simp]: "length (hex_encode bs) = 2 * length bs"
  by (induction bs) (auto simp: hex_encode_def)

lemma hex_encode_append: "hex_encode (xs @ ys) = hex_encode xs @ hex_encode ys"
  by (simp add: hex_encode_def)

lemma digits_value_append:
  "digits_value acc (xs @ ys) = Option.bind (digits_value acc xs) (\<lambda>v. digits_value v ys)"
  by (induction acc xs rule: digits_value.induct) auto

lemma digits_value_show_nat: "digits_value 0 (show_nat n) = Some (int n)"
proof (induction n rule: show_nat.induct)
  case (1 n)
  show ?case
  proof (cases "n < 10")
    case True
    then show ?thesis
      by (subst show_nat.simps) (simp add: is_digit_digit_char byte_of_digit_char)
  next
    case False
    then have "digits_value 0 (show_nat n) =
        digits_value (int (n div 10)) [digit_char (n mod 10)]"
      by (subst show_nat.simps) (simp add: digits_value_append "1.IH")
    then have "digits_value 0 (show_nat n) = Some (10 * int (n div 10) + int (n mod 10))"
      by (simp add: is_digit_digit_char byte_of_digit_char)
    moreover have "10 * int (n div 10) + int (n mod 10) = int (10 * (n div 10) + n mod 10)"
      by (simp only: of_nat_add of_nat_mult of_nat_numeral)
    ultimately show ?thesis by (simp only: mult_div_mod_eq)
  qed
qed

lemma show_nat_nonempty [simp]: "show_nat n \<noteq> []"
  by (subst show_nat.simps) simp

lemma show_nat_no_sign: "\<not> has_prefix (show_nat n) ''-''" "\<not> has_prefix (show_nat n) ''+''"
  using show_nat_digits [of "hd (show_nat n)" n]
  by (cases "show_nat n"; auto simp: has_prefix_def is_digit_def)+

text \<open>Printing and parsing a 64-bit number: \<open>strconv.Atoi\<close> reads back what \<^verbatim>\<open>%d\<close> prints.\<close>

lemma atoi_show_int: "in_int64 i \<Longrightarrow> atoi (show_int i) = Some i"
  using show_nat_no_sign
  by (auto simp: atoi_def parse_int_def show_int_def Let_def in_int64_def digits_value_show_nat
      has_prefix_def)

lemma show_int_decode:
  "(if has_prefix (show_int i) ''-'' then map_option uminus (digits_value 0 (tl (show_int i)))
    else digits_value 0 (show_int i)) = Some i"
proof (cases "i < 0")
  case True
  then have "show_int i = CHR ''-'' # show_nat (nat (- i))" by (simp add: show_int_def)
  with True show ?thesis by (simp add: has_prefix_def digits_value_show_nat)
next
  case False
  then have "show_int i = show_nat (nat i)" by (simp add: show_int_def)
  with False show ?thesis by (simp add: show_nat_no_sign digits_value_show_nat)
qed

lemma show_int_inj: "show_int i = show_int j \<Longrightarrow> i = j"
  using show_int_decode [of i] show_int_decode [of j] by (metis option.inject)

end
