(* ===== verification/Netip.thy ===== *)
theory Netip
  imports Go_Strings
begin

text \<open>
  Go's \<open>net/netip\<close>: addresses, CIDR prefixes and their parsers, as the gateway uses them
  for the trusted proxies and for the allowlist of upstream addresses.
\<close>

unbundle bit_operations_syntax

section \<open>Addresses and prefixes\<close>

text \<open>An IPv6 address carries its zone, empty when there is none.\<close>

datatype addr = V4 "32 word" | V6 "128 word" string

datatype cidr = Cidr (cidr_addr: addr) (cidr_bits: nat)

fun bit_len :: "addr \<Rightarrow> nat" where
  "bit_len (V4 _) = 32"
| "bit_len (V6 _ _) = 128"

fun has_zone :: "addr \<Rightarrow> bool" where
  "has_zone (V4 _) = False"
| "has_zone (V6 _ z) = (z \<noteq> [])"

definition cidr_valid :: "cidr \<Rightarrow> bool" where
  "cidr_valid p \<longleftrightarrow> cidr_bits p \<le> bit_len (cidr_addr p) \<and> \<not> has_zone (cidr_addr p)"

text \<open>\<open>Prefix.Contains\<close>: same family, no zone, and the leading bits agree.\<close>

fun cidr_contains :: "cidr \<Rightarrow> addr \<Rightarrow> bool" where
  "cidr_contains (Cidr (V4 p) n) (V4 a) = (n \<le> 32 \<and> drop_bit (32 - n) (a XOR p) = 0)"
| "cidr_contains (Cidr (V6 p zp) n) (V6 a za) =
     (n \<le> 128 \<and> zp = [] \<and> za = [] \<and> drop_bit (128 - n) (a XOR p) = 0)"
| "cidr_contains _ _ = False"

text \<open>\<open>Prefix.Masked\<close>.\<close>

fun cidr_masked :: "cidr \<Rightarrow> cidr" where
  "cidr_masked (Cidr (V4 p) n) = Cidr (V4 (push_bit (32 - n) (drop_bit (32 - n) p))) n"
| "cidr_masked (Cidr (V6 p z) n) = Cidr (V6 (push_bit (128 - n) (drop_bit (128 - n) p)) z) n"

lemma cidr_contains_family: "cidr_contains p a \<Longrightarrow> bit_len a = bit_len (cidr_addr p)"
  by (cases "(p, a)" rule: cidr_contains.cases) auto

lemma cidr_contains_no_zone: "cidr_contains p a \<Longrightarrow> \<not> has_zone a"
  by (cases "(p, a)" rule: cidr_contains.cases) auto

lemma drop_bit_xor_eq_0:
  fixes a p :: "'w::len word"
  shows "drop_bit k (a XOR p) = 0 \<longleftrightarrow> drop_bit k a = drop_bit k p"
  by (auto simp: bit_eq_iff bit_simps)

lemma cidr_contains_V4:
  "cidr_contains (Cidr (V4 p) n) (V4 a) \<longleftrightarrow> n \<le> 32 \<and> drop_bit (32 - n) a = drop_bit (32 - n) p"
  by (simp only: cidr_contains.simps drop_bit_xor_eq_0)

lemma drop_push_drop:
  fixes p :: "'w::len word"
  shows "drop_bit k (push_bit k (drop_bit k p)) = drop_bit k p"
  by (auto simp: bit_eq_iff bit_simps dest: bit_imp_le_length)

lemma cidr_contains_masked: "cidr_contains (cidr_masked p) a \<longleftrightarrow> cidr_contains p a"
  by (cases "(p, a)" rule: cidr_contains.cases)
     (auto simp: drop_bit_xor_eq_0 drop_push_drop simp del: drop_bit_xor)

section \<open>Parsing\<close>

text \<open>
  \<open>parseIPv4Fields\<close>: four decimal fields of at most 255, no leading zero. The state of the
  scan is the value and the number of digits of the current field and the fields so far.
\<close>

fun v4_fields :: "nat \<Rightarrow> nat \<Rightarrow> nat list \<Rightarrow> string \<Rightarrow> nat list option" where
  "v4_fields val digits done [] =
     (if length done < 3 \<or> digits = 0 then None else Some (done @ [val]))"
| "v4_fields val digits done (c # cs) =
     (if is_digit c then
        (if digits = 1 \<and> val = 0 then None
         else let v = 10 * val + (byte_of c - 48)
              in if v > 255 then None else v4_fields v (digits + 1) done cs)
      else if c = CHR ''.'' then
        (if digits = 0 \<or> cs = [] \<or> length done = 3 then None
         else v4_fields 0 0 (done @ [val]) cs)
      else None)"

definition v4_word :: "nat list \<Rightarrow> 32 word" where
  "v4_word fs = foldl (\<lambda>acc f. push_bit 8 acc OR of_nat f) 0 fs"

definition parse_v4 :: "string \<Rightarrow> addr option" where
  "parse_v4 s = map_option (\<lambda>fs. V4 (v4_word fs)) (v4_fields 0 0 [] s)"

definition hex_value :: "char \<Rightarrow> nat option" where
  "hex_value c =
     (if is_digit c then Some (byte_of c - 48)
      else if 97 \<le> byte_of c \<and> byte_of c \<le> 102 then Some (byte_of c - 87)
      else if 65 \<le> byte_of c \<and> byte_of c \<le> 70 then Some (byte_of c - 55)
      else None)"

text \<open>The leading hexadecimal digits: their number, their value and what follows.\<close>

fun hex_run :: "nat \<Rightarrow> nat \<Rightarrow> string \<Rightarrow> nat \<times> nat \<times> string" where
  "hex_run n acc [] = (n, acc, [])"
| "hex_run n acc (c # cs) =
     (case hex_value c of
        None \<Rightarrow> (n, acc, c # cs)
      | Some d \<Rightarrow> hex_run (n + 1) (16 * acc + d) cs)"

lemma hex_run_length: "hex_run n acc s = (m, v, t) \<Longrightarrow> length t + m = length s + n"
  by (induction n acc s rule: hex_run.induct) (auto split: option.splits)

text \<open>
  The loop of \<open>parseIPv6\<close>. \<open>out\<close> holds the 16-bit groups read, \<open>ell\<close> the number of groups
  before the ellipsis. The loop stops after eight groups, so \<open>rest\<close> may be left over.
\<close>

function v6_groups :: "nat list \<Rightarrow> nat option \<Rightarrow> string \<Rightarrow> (nat list \<times> nat option \<times> string) option" where
  "v6_groups out ell s =
     (if 8 \<le> length out then Some (out, ell, s)
      else case hex_run 0 0 s of (n, acc, t) \<Rightarrow>
        if n > 4 \<or> n = 0 then None
        else if has_prefix t ''.'' then
          (if ell = None \<and> length out \<noteq> 6 \<or> 6 < length out then None
           else case v4_fields 0 0 [] s of
                  Some [f1, f2, f3, f4] \<Rightarrow> Some (out @ [256 * f1 + f2, 256 * f3 + f4], ell, [])
                | _ \<Rightarrow> None)
        else (let out' = out @ [acc]
              in if t = [] then Some (out', ell, [])
                 else if \<not> has_prefix t '':'' \<or> length t = 1 then None
                 else let u = drop 1 t
                      in if has_prefix u '':'' then
                           (if ell \<noteq> None then None
                            else if drop 1 u = [] then Some (out', Some (length out'), [])
                            else v6_groups out' (Some (length out')) (drop 1 u))
                         else v6_groups out' ell u))"
  by pat_completeness auto
termination
  by (relation "measure (\<lambda>(out, ell, s). 8 - length out)") (auto simp: Let_def)

declare v6_groups.simps [simp del]

definition v6_word :: "nat list \<Rightarrow> 128 word" where
  "v6_word gs = foldl (\<lambda>acc g. push_bit 16 acc OR of_nat g) 0 gs"

definition v6_finish :: "nat list \<times> nat option \<times> string \<Rightarrow> 128 word option" where
  "v6_finish r =
     (case r of (out, ell, rest) \<Rightarrow>
        if rest \<noteq> [] then None
        else if length out < 8 then
          (case ell of None \<Rightarrow> None
           | Some k \<Rightarrow> Some (v6_word (take k out @ replicate (8 - length out) 0 @ drop k out)))
        else if ell \<noteq> None then None
        else Some (v6_word out))"

definition parse_v6 :: "string \<Rightarrow> addr option" where
  "parse_v6 s =
     (let hasz = CHR ''%'' \<in> set s;
          body = before_byte CHR ''%'' s;
          zone = drop (length body + 1) s
      in if hasz \<and> zone = [] then None
         else if has_prefix body ''::'' then
           (if drop 2 body = [] then Some (V6 0 zone)
            else map_option (\<lambda>w. V6 w zone)
                   (Option.bind (v6_groups [] (Some 0) (drop 2 body)) v6_finish))
         else map_option (\<lambda>w. V6 w zone) (Option.bind (v6_groups [] None body) v6_finish))"

text \<open>\<open>netip.ParseAddr\<close>: the first of the bytes \<open>.\<close>, \<open>:\<close> and \<open>%\<close> decides the family.\<close>

definition parse_addr :: "string \<Rightarrow> addr option" where
  "parse_addr s =
     (case find (\<lambda>c. c = CHR ''.'' \<or> c = CHR '':'' \<or> c = CHR ''%'') s of
        Some c \<Rightarrow> (if c = CHR ''.'' then parse_v4 s else if c = CHR '':'' then parse_v6 s else None)
      | None \<Rightarrow> None)"

text \<open>
  \<open>netip.ParsePrefix\<close>: the part after the last slash has no sign and no leading zero and is at
  most the family's length; the address has no zone.
\<close>

definition parse_cidr :: "string \<Rightarrow> cidr option" where
  "parse_cidr s =
     (case last_index CHR ''/'' s of
        None \<Rightarrow> None
      | Some i \<Rightarrow>
          (case parse_addr (take i s) of
             None \<Rightarrow> None
           | Some a \<Rightarrow>
               let bs = drop (i + 1) s
               in if has_zone a then None
                  else if 1 < length bs \<and> (byte_of (hd bs) < 49 \<or> 57 < byte_of (hd bs)) then None
                  else (case atoi bs of
                          None \<Rightarrow> None
                        | Some n \<Rightarrow> if n < 0 \<or> int (bit_len a) < n then None
                                    else Some (Cidr a (nat n)))))"

lemma parse_cidr_valid: "parse_cidr s = Some p \<Longrightarrow> cidr_valid p"
  by (auto simp: parse_cidr_def cidr_valid_def Let_def split: option.splits if_splits)

lemma v4_fields_bounds:
  "v4_fields val digits done s = Some fs \<Longrightarrow> val \<le> 255 \<Longrightarrow> \<forall>f \<in> set done. f \<le> 255 \<Longrightarrow>
   length done \<le> 3 \<Longrightarrow> length fs = 4 \<and> (\<forall>f \<in> set fs. f \<le> 255)"
proof (induction val digits "done" s rule: v4_fields.induct)
  case (1 val digits "done")
  then show ?case by (auto split: if_splits)
next
  case (2 val digits "done" c cs)
  then show ?case by (auto simp: Let_def split: if_splits)
qed

end
