(* ===== verification/Snapshot.thy ===== *)
theory Snapshot
  imports Netip
begin

text \<open>
  The runtime snapshot of the gateway, \<^verbatim>\<open>internal/dataplane/snapshot.go\<close>: its data, the
  weighted round robin over the upstreams of a listener, and \<open>buildSnapshot\<close>, which checks
  a decoded configuration and turns it into a snapshot. A compiled regular expression is its
  match function; the compiler is an argument.
\<close>

section \<open>Data\<close>

type_synonym matcher = "string \<Rightarrow> bool"
type_synonym regex_compiler = "string \<Rightarrow> matcher option"

text \<open>
  \<open>u_ref\<close> is the identity of the \<open>Upstream\<close> object: listeners that use the same service
  version share the same objects. The atomic health flag of each object is in the snapshot's
  \<open>sn_health\<close>, a store indexed by these identities.
\<close>

record upstream =
  u_ID :: string
  u_Scheme :: string
  u_Address :: addr
  u_Port :: int
  u_Weight :: int
  u_HealthCheckPath :: string
  u_ref :: nat

record listener =
  l_ID :: string
  l_Port :: int
  l_Status :: string
  l_RequiredPermission :: string
  l_AllowedMethods :: "string list"
  l_AllowedContentTypes :: "string list"
  l_UnprotectedRouteRegex :: "matcher option"
  l_RequestTimeout :: int
  l_MaxRequestBytes :: int
  l_Upstreams :: "upstream list"
  l_RateLimitPerSecond :: int
  l_RateLimitBurst :: int
  l_QuotaRequestsPerMinute :: int
  l_CircuitFailureThreshold :: int
  l_CircuitOpen :: int
  l_cursor :: "64 word"

record credential =
  c_ID :: string
  c_ConsumerID :: string
  c_Prefix :: string
  c_Verifier :: string
  c_ExpiresAt :: "int option"
  c_Permissions :: "string list"

type_synonym health = "nat \<Rightarrow> bool"

record snapshot =
  sn_Version :: int
  sn_Environment :: string
  sn_Listeners :: "int \<rightharpoonup> listener"
  sn_Credentials :: "string \<rightharpoonup> credential"
  sn_LoadedAt :: int
  sn_health :: health

definition Healthy :: "health \<Rightarrow> upstream \<Rightarrow> bool" where
  "Healthy h u = h (u_ref u)"

definition SetHealthy :: "upstream \<Rightarrow> bool \<Rightarrow> health \<Rightarrow> health" where
  "SetHealthy u v h = h(u_ref u := v)"

text \<open>\<open>Authority\<close> names the address and the port, truncated to 16 bits.\<close>

definition Authority :: "upstream \<Rightarrow> addr \<times> 16 word" where
  "Authority u = (u_Address u, word_of_int (u_Port u))"

definition URLScheme :: "upstream \<Rightarrow> string" where
  "URLScheme u = (if u_Scheme u = ''https'' then ''https'' else ''http'')"

section \<open>Weighted round robin\<close>

text \<open>
  \<open>SelectUpstreamWhere\<close> reads each health flag twice: once to add the weights up and once to
  walk to the selected slot. Other goroutines may set a flag in between, so the two passes
  have each their own view \<open>h1\<close> and \<open>h2\<close> of the flags. The cursor is an atomic counter.
\<close>

definition admits :: "(upstream \<Rightarrow> bool) option \<Rightarrow> upstream \<Rightarrow> bool" where
  "admits allowed u = (case allowed of None \<Rightarrow> True | Some f \<Rightarrow> f u)"

definition eligible :: "health \<Rightarrow> (upstream \<Rightarrow> bool) option \<Rightarrow> upstream \<Rightarrow> bool" where
  "eligible h allowed u \<longleftrightarrow> Healthy h u \<and> admits allowed u"

fun total_weight :: "(upstream \<Rightarrow> bool) \<Rightarrow> int \<Rightarrow> upstream list \<Rightarrow> int" where
  "total_weight ok acc [] = acc"
| "total_weight ok acc (u # us) =
     total_weight ok (if ok u then int64 (acc + u_Weight u) else acc) us"

fun pick_slot :: "(upstream \<Rightarrow> bool) \<Rightarrow> int \<Rightarrow> upstream list \<Rightarrow> upstream option" where
  "pick_slot ok selected [] = None"
| "pick_slot ok selected (u # us) =
     (if \<not> ok u then pick_slot ok selected us
      else if selected < u_Weight u then Some u
      else pick_slot ok (int64 (selected - u_Weight u)) us)"

definition SelectUpstreamWhere ::
  "health \<Rightarrow> health \<Rightarrow> (upstream \<Rightarrow> bool) option \<Rightarrow> listener \<Rightarrow> upstream option \<times> listener" where
  "SelectUpstreamWhere h1 h2 allowed l =
     (let weight = total_weight (eligible h1 allowed) 0 (l_Upstreams l)
      in if weight = 0 then (None, l)
         else let cursor' = l_cursor l + 1;
                  selected = sint ((cursor' - 1) mod (word_of_int weight :: 64 word))
              in (pick_slot (eligible h2 allowed) selected (l_Upstreams l),
                  l\<lparr>l_cursor := cursor'\<rparr>))"

definition SelectUpstream :: "health \<Rightarrow> health \<Rightarrow> listener \<Rightarrow> upstream option \<times> listener" where
  "SelectUpstream h1 h2 l = SelectUpstreamWhere h1 h2 None l"

section \<open>The decoded configuration\<close>

record raw_service =
  rs_ID :: string
  rs_Enabled :: bool

record raw_service_version =
  rv_ID :: string
  rv_ServiceID :: string
  rv_HealthCheckPath :: string
  rv_RequestTimeoutMS :: int
  rv_MaxRequestBytes :: int
  rv_Enabled :: bool

record raw_upstream =
  ru_ID :: string
  ru_ServiceVersionID :: string
  ru_Scheme :: string
  ru_Address :: string
  ru_Port :: int
  ru_Weight :: int
  ru_HealthCheckPath :: string
  ru_Enabled :: bool

record raw_listener =
  rl_ID :: string
  rl_ListenPort :: int
  rl_ServiceVersionID :: string
  rl_RequiredPermission :: string
  rl_AllowedMethods :: "string list"
  rl_AllowedContentTypes :: "string list"
  rl_UnprotectedRouteRegex :: string
  rl_Status :: string
  rl_RateLimitPerSecond :: int
  rl_RateLimitBurst :: int
  rl_QuotaRequestsPerMinute :: int
  rl_CircuitFailureThreshold :: int
  rl_CircuitOpenMS :: int

record raw_snapshot =
  r_Environment :: string
  r_Services :: "raw_service list"
  r_ServiceVersions :: "raw_service_version list"
  r_Upstreams :: "raw_upstream list"
  r_Listeners :: "raw_listener list"

record credential_record =
  cr_ID :: string
  cr_ConsumerID :: string
  cr_Prefix :: string
  cr_Verifier :: string
  cr_ExpiresAt :: "int option"
  cr_Permissions :: "string list"

datatype snapshot_error =
    EnvironmentMismatch
  | VersionHealthPath string
  | UpstreamScheme string
  | UpstreamAllowlist string
  | UpstreamHealthPath string
  | ListenerVersion string
  | ListenerUpstreams string
  | ListenerPort string
  | ListenerPortDuplicated int
  | ListenerMethods string
  | ListenerRegex string
  | ListenerPolicy string
  | CredentialVerifier string

section \<open>Building a snapshot\<close>

definition allowedAddress :: "addr \<Rightarrow> cidr list \<Rightarrow> bool" where
  "allowedAddress a allowlist = list_ex (\<lambda>p. cidr_contains p a) allowlist"

definition enabled_services :: "raw_service list \<Rightarrow> string \<Rightarrow> bool" where
  "enabled_services ss = foldl (\<lambda>m s. m(rs_ID s := rs_Enabled s)) (\<lambda>_. False) ss"

definition default_health_path :: "raw_service_version \<Rightarrow> raw_service_version" where
  "default_health_path v =
     (if rv_HealthCheckPath v = [] then v\<lparr>rv_HealthCheckPath := ''/health''\<rparr> else v)"

fun load_versions ::
  "(string \<Rightarrow> bool) \<Rightarrow> raw_service_version list \<Rightarrow> (string \<rightharpoonup> raw_service_version) \<Rightarrow>
   (snapshot_error, string \<rightharpoonup> raw_service_version) result" where
  "load_versions enabled [] m = Inr m"
| "load_versions enabled (v0 # vs) m =
     (let v = default_health_path v0
      in if \<not> has_prefix (rv_HealthCheckPath v) ''/'' then Inl (VersionHealthPath (rv_ID v))
         else if rv_Enabled v \<and> enabled (rv_ServiceID v) \<and> 0 < rv_RequestTimeoutMS v
                 \<and> 0 < rv_MaxRequestBytes v
           then load_versions enabled vs (m(rv_ID v \<mapsto> v))
           else load_versions enabled vs m)"

type_synonym pools = "string \<Rightarrow> upstream list"

text \<open>
  One pass of the loop over the raw upstreams: \<open>Inr None\<close> is \<open>continue\<close>,
  \<open>Inr (Some u)\<close> appends \<open>u\<close> to the pool of its version.
\<close>

definition load_upstream ::
  "cidr list \<Rightarrow> (string \<rightharpoonup> raw_service_version) \<Rightarrow> nat \<Rightarrow> raw_upstream \<Rightarrow>
   (snapshot_error, upstream option) result" where
  "load_upstream allowlist versions ref item =
     (let scheme = (if ru_Scheme item = [] then ''http'' else ru_Scheme item)
      in if scheme \<noteq> ''http'' \<and> scheme \<noteq> ''https'' then Inl (UpstreamScheme (ru_ID item))
         else if \<not> ru_Enabled item \<or> ru_Port item < 1 \<or> 65535 < ru_Port item \<or> ru_Weight item < 1
           then Inr None
         else (case parse_addr (ru_Address item) of
                 None \<Rightarrow> Inl (UpstreamAllowlist (ru_ID item))
               | Some address \<Rightarrow>
                   if \<not> allowedAddress address allowlist then Inl (UpstreamAllowlist (ru_ID item))
                   else (case versions (ru_ServiceVersionID item) of
                           None \<Rightarrow> Inr None
                         | Some v \<Rightarrow>
                             let path = (if ru_HealthCheckPath item = [] then rv_HealthCheckPath v
                                         else ru_HealthCheckPath item)
                             in if \<not> has_prefix path ''/'' then Inl (UpstreamHealthPath (ru_ID item))
                                else Inr (Some \<lparr>u_ID = ru_ID item, u_Scheme = scheme,
                                                u_Address = address, u_Port = ru_Port item,
                                                u_Weight = ru_Weight item,
                                                u_HealthCheckPath = path, u_ref = ref\<rparr>))))"

fun load_upstreams ::
  "cidr list \<Rightarrow> (string \<rightharpoonup> raw_service_version) \<Rightarrow> nat \<Rightarrow> raw_upstream list \<Rightarrow> pools \<Rightarrow>
   (snapshot_error, pools) result" where
  "load_upstreams allowlist versions ref [] ps = Inr ps"
| "load_upstreams allowlist versions ref (item # items) ps =
     (case load_upstream allowlist versions ref item of
        Inl e \<Rightarrow> Inl e
      | Inr None \<Rightarrow> load_upstreams allowlist versions ref items ps
      | Inr (Some u) \<Rightarrow>
          load_upstreams allowlist versions (Suc ref) items
            (ps(ru_ServiceVersionID item := ps (ru_ServiceVersionID item) @ [u])))"

definition key_set :: "(string \<Rightarrow> string) \<Rightarrow> string list \<Rightarrow> string list" where
  "key_set f xs = foldl (\<lambda>acc x. List.insert (f x) acc) [] xs"

definition default_content_types :: "string list" where
  "default_content_types =
     [''application/json'', ''application/xml'', ''text/xml'', ''application/x-www-form-urlencoded'']"

definition compile_route_regex ::
  "regex_compiler \<Rightarrow> raw_listener \<Rightarrow> (snapshot_error, matcher option) result" where
  "compile_route_regex compile item =
     (if rl_UnprotectedRouteRegex item = [] then Inr None
      else if 2048 < length (rl_UnprotectedRouteRegex item)
              \<or> contains_any (rl_UnprotectedRouteRegex item) [CHR 0x00, CHR 0x0D, CHR 0x0A]
        then Inl (ListenerRegex (rl_ID item))
      else (case compile (rl_UnprotectedRouteRegex item) of
              None \<Rightarrow> Inl (ListenerRegex (rl_ID item))
            | Some re \<Rightarrow> Inr (Some re)))"

text \<open>Durations are nanoseconds in 64 bits.\<close>

definition milliseconds :: "int \<Rightarrow> int" where
  "milliseconds ms = int64 (ms * 1000000)"

text \<open>
  One pass of the loop over the raw listeners; \<open>Inr None\<close> is \<open>continue\<close>. The pool is sorted by
  identifier; \<^verbatim>\<open>sort.Slice\<close> promises no order among equal identifiers, where the model keeps that of
  the snapshot (the identifier of an upstream is the key of its table).
\<close>

definition load_listener ::
  "regex_compiler \<Rightarrow> (string \<rightharpoonup> raw_service_version) \<Rightarrow> pools \<Rightarrow> (int \<rightharpoonup> listener) \<Rightarrow>
   raw_listener \<Rightarrow> (snapshot_error, listener option) result" where
  "load_listener compile versions ps ls item =
     (if rl_Status item = ''disabled'' \<or> rl_Status item = ''draining'' then Inr None
      else (case versions (rl_ServiceVersionID item) of
        None \<Rightarrow> Inl (ListenerVersion (rl_ID item))
      | Some version \<Rightarrow>
          let pool = ps (rl_ServiceVersionID item);
              methods = key_set to_upper (rl_AllowedMethods item);
              types = (if rl_AllowedContentTypes item = [] then default_content_types
                       else rl_AllowedContentTypes item)
          in if pool = [] then Inl (ListenerUpstreams (rl_ID item))
             else if rl_ListenPort item < 1 \<or> 65535 < rl_ListenPort item
               then Inl (ListenerPort (rl_ID item))
             else if ls (rl_ListenPort item) \<noteq> None
               then Inl (ListenerPortDuplicated (rl_ListenPort item))
             else if methods = [] then Inl (ListenerMethods (rl_ID item))
             else bind_ok (compile_route_regex compile item) (\<lambda>re.
               if rl_RateLimitPerSecond item < 0 \<or> rl_RateLimitBurst item < 0
                  \<or> rl_QuotaRequestsPerMinute item < 0 \<or> rl_CircuitFailureThreshold item < 0
                  \<or> rl_CircuitOpenMS item < 0
                 then Inl (ListenerPolicy (rl_ID item))
               else Inr (Some \<lparr>l_ID = rl_ID item, l_Port = rl_ListenPort item,
                     l_Status = ''active'', l_RequiredPermission = rl_RequiredPermission item,
                     l_AllowedMethods = methods, l_AllowedContentTypes = key_set to_lower types,
                     l_UnprotectedRouteRegex = re,
                     l_RequestTimeout = milliseconds (rv_RequestTimeoutMS version),
                     l_MaxRequestBytes = rv_MaxRequestBytes version,
                     l_Upstreams = sort_key u_ID pool,
                     l_RateLimitPerSecond = rl_RateLimitPerSecond item,
                     l_RateLimitBurst = rl_RateLimitBurst item,
                     l_QuotaRequestsPerMinute = rl_QuotaRequestsPerMinute item,
                     l_CircuitFailureThreshold = rl_CircuitFailureThreshold item,
                     l_CircuitOpen = milliseconds (rl_CircuitOpenMS item),
                     l_cursor = 0\<rparr>))))"

fun load_listeners ::
  "regex_compiler \<Rightarrow> (string \<rightharpoonup> raw_service_version) \<Rightarrow> pools \<Rightarrow> raw_listener list \<Rightarrow>
   (int \<rightharpoonup> listener) \<Rightarrow> (snapshot_error, int \<rightharpoonup> listener) result" where
  "load_listeners compile versions ps [] ls = Inr ls"
| "load_listeners compile versions ps (item # items) ls =
     (case load_listener compile versions ps ls item of
        Inl e \<Rightarrow> Inl e
      | Inr None \<Rightarrow> load_listeners compile versions ps items ls
      | Inr (Some l) \<Rightarrow> load_listeners compile versions ps items (ls(rl_ListenPort item \<mapsto> l)))"

fun load_credentials ::
  "credential_record list \<Rightarrow> (string \<rightharpoonup> credential) \<Rightarrow>
   (snapshot_error, string \<rightharpoonup> credential) result" where
  "load_credentials [] cs = Inr cs"
| "load_credentials (record # records) cs =
     (if length (cr_Verifier record) \<noteq> 32 \<or> cr_Prefix record = []
        then Inl (CredentialVerifier (cr_ID record))
      else load_credentials records
             (cs(cr_Prefix record \<mapsto> \<lparr>c_ID = cr_ID record, c_ConsumerID = cr_ConsumerID record,
                  c_Prefix = cr_Prefix record, c_Verifier = cr_Verifier record,
                  c_ExpiresAt = cr_ExpiresAt record,
                  c_Permissions = key_set id (cr_Permissions record)\<rparr>)))"

definition buildSnapshot ::
  "regex_compiler \<Rightarrow> int \<Rightarrow> int \<Rightarrow> string \<Rightarrow> raw_snapshot \<Rightarrow> credential_record list \<Rightarrow>
   cidr list \<Rightarrow> (snapshot_error, snapshot) result" where
  "buildSnapshot compile now version expected raw records allowlist =
     (if r_Environment raw \<noteq> expected then Inl EnvironmentMismatch
      else bind_ok (load_versions (enabled_services (r_Services raw)) (r_ServiceVersions raw) Map.empty)
        (\<lambda>versions.
      bind_ok (load_upstreams allowlist versions 0 (r_Upstreams raw) (\<lambda>_. []))
        (\<lambda>pools.
      bind_ok (load_listeners compile versions pools (r_Listeners raw) Map.empty)
        (\<lambda>listeners.
      bind_ok (load_credentials records Map.empty)
        (\<lambda>credentials.
      Inr \<lparr>sn_Version = version, sn_Environment = expected, sn_Listeners = listeners,
           sn_Credentials = credentials, sn_LoadedAt = now, sn_health = (\<lambda>_. True)\<rparr>)))))"

end
