(* ===== verification/Metrics.thy ===== *)
theory Metrics
  imports Go_Strings
begin

text \<open>
  The process metrics, \<^verbatim>\<open>internal/observability/metrics.go\<close>: atomic counters and gauges, the
  request classes and latency buckets, and the numbers the exposition prints. Durations are
  nanoseconds. The text of the exposition is in \<open>Exposition\<close>.
\<close>

record metrics =
  m_requests :: "64 word list"
  m_latency :: "64 word list"
  m_latencyNanoseconds :: "64 word"
  m_authFailures :: "64 word"
  m_upstreamFailures :: "64 word"
  m_configRefreshFailures :: "64 word"
  m_configVersion :: int
  m_healthyUpstreams :: int
  m_totalUpstreams :: int
  m_rateLimited :: "64 word"
  m_quotaExceeded :: "64 word"
  m_circuitOpen :: "64 word"
  m_coordinationFailures :: "64 word"
  m_configRefreshSkipped :: "64 word"
  m_inFlight :: int
  m_snapshotRefreshedUnix :: int
  m_gatewayReplicasReady :: int
  m_gatewayReplicasTotal :: int
  m_gatewayReplicasCurrent :: int
  m_listenerPortsUsed :: int
  m_listenerPortsTotal :: int
  m_databaseConnections :: int
  m_databaseConnectionsMax :: int

definition latencyBounds :: "int list" where
  "latencyBounds = map ((*) 1000000) [1, 5, 10, 25, 50, 100, 250, 500, 1000, 5000]"

definition new_metrics :: metrics where
  "new_metrics = \<lparr>m_requests = replicate 5 0, m_latency = replicate 11 0, m_latencyNanoseconds = 0,
     m_authFailures = 0, m_upstreamFailures = 0, m_configRefreshFailures = 0, m_configVersion = 0,
     m_healthyUpstreams = 0, m_totalUpstreams = 0, m_rateLimited = 0, m_quotaExceeded = 0,
     m_circuitOpen = 0, m_coordinationFailures = 0, m_configRefreshSkipped = 0, m_inFlight = 0,
     m_snapshotRefreshedUnix = 0, m_gatewayReplicasReady = 0, m_gatewayReplicasTotal = 0,
     m_gatewayReplicasCurrent = 0, m_listenerPortsUsed = 0, m_listenerPortsTotal = 0,
     m_databaseConnections = 0, m_databaseConnectionsMax = 0\<rparr>"

text \<open>Go's integer division truncates towards zero.\<close>

definition trunc_div :: "int \<Rightarrow> int \<Rightarrow> int" where
  "trunc_div a d = sgn a * (\<bar>a\<bar> div d)"

definition status_class :: "int \<Rightarrow> nat" where
  "status_class status =
     (let class = trunc_div status 100 - 1 in if class < 0 \<or> 5 \<le> class then 4 else nat class)"

fun bucket_from :: "nat \<Rightarrow> int list \<Rightarrow> int \<Rightarrow> nat option" where
  "bucket_from i [] d = None"
| "bucket_from i (bound # bounds) d = (if d \<le> bound then Some i else bucket_from (Suc i) bounds d)"

definition latency_index :: "int \<Rightarrow> nat" where
  "latency_index d =
     (case bucket_from 0 latencyBounds d of None \<Rightarrow> length latencyBounds | Some i \<Rightarrow> i)"

definition ObserveRequest :: "int \<Rightarrow> int \<Rightarrow> metrics \<Rightarrow> metrics" where
  "ObserveRequest status duration m =
     (let c = status_class status; i = latency_index duration
      in m\<lparr>m_requests := (m_requests m)[c := m_requests m ! c + 1],
           m_latencyNanoseconds := m_latencyNanoseconds m + word_of_int (max duration 0),
           m_latency := (m_latency m)[i := m_latency m ! i + 1]\<rparr>)"

text \<open>The single-counter operations, by name.\<close>

datatype metric_event =
    AuthenticationFailure
  | UpstreamFailure
  | ConfigurationRefreshFailure
  | RateLimited
  | QuotaExceeded
  | CircuitOpenRejection
  | CoordinationFailure
  | ConfigurationRefreshSkipped
  | BeginRequest
  | EndRequest

fun record_event :: "metric_event \<Rightarrow> metrics \<Rightarrow> metrics" where
  "record_event AuthenticationFailure m = m\<lparr>m_authFailures := m_authFailures m + 1\<rparr>"
| "record_event UpstreamFailure m = m\<lparr>m_upstreamFailures := m_upstreamFailures m + 1\<rparr>"
| "record_event ConfigurationRefreshFailure m =
     m\<lparr>m_configRefreshFailures := m_configRefreshFailures m + 1\<rparr>"
| "record_event RateLimited m = m\<lparr>m_rateLimited := m_rateLimited m + 1\<rparr>"
| "record_event QuotaExceeded m = m\<lparr>m_quotaExceeded := m_quotaExceeded m + 1\<rparr>"
| "record_event CircuitOpenRejection m = m\<lparr>m_circuitOpen := m_circuitOpen m + 1\<rparr>"
| "record_event CoordinationFailure m = m\<lparr>m_coordinationFailures := m_coordinationFailures m + 1\<rparr>"
| "record_event ConfigurationRefreshSkipped m =
     m\<lparr>m_configRefreshSkipped := m_configRefreshSkipped m + 1\<rparr>"
| "record_event BeginRequest m = m\<lparr>m_inFlight := int64 (m_inFlight m + 1)\<rparr>"
| "record_event EndRequest m = m\<lparr>m_inFlight := int64 (m_inFlight m - 1)\<rparr>"

definition SetConfigurationVersion :: "int \<Rightarrow> metrics \<Rightarrow> metrics" where
  "SetConfigurationVersion v m = m\<lparr>m_configVersion := v\<rparr>"

definition SnapshotRefreshed :: "int \<Rightarrow> metrics \<Rightarrow> metrics" where
  "SnapshotRefreshed at m = m\<lparr>m_snapshotRefreshedUnix := at div 1000000000\<rparr>"

definition SetUpstreams :: "int \<Rightarrow> int \<Rightarrow> metrics \<Rightarrow> metrics" where
  "SetUpstreams healthy all m = m\<lparr>m_healthyUpstreams := healthy, m_totalUpstreams := all\<rparr>"

definition SetGatewayReplicas :: "int \<Rightarrow> int \<Rightarrow> int \<Rightarrow> metrics \<Rightarrow> metrics" where
  "SetGatewayReplicas ready current all m =
     m\<lparr>m_gatewayReplicasReady := ready, m_gatewayReplicasCurrent := current,
       m_gatewayReplicasTotal := all\<rparr>"

definition SetListenerPorts :: "int \<Rightarrow> int \<Rightarrow> metrics \<Rightarrow> metrics" where
  "SetListenerPorts used all m = m\<lparr>m_listenerPortsUsed := used, m_listenerPortsTotal := all\<rparr>"

definition SetDatabaseConnections :: "int \<Rightarrow> int \<Rightarrow> metrics \<Rightarrow> metrics" where
  "SetDatabaseConnections acquired maximum m =
     m\<lparr>m_databaseConnections := acquired, m_databaseConnectionsMax := maximum\<rparr>"

text \<open>The cumulative bucket counts the exposition prints, \<open>+Inf\<close> last, and the count line.\<close>

fun running_sums :: "64 word \<Rightarrow> 64 word list \<Rightarrow> 64 word list" where
  "running_sums acc [] = []"
| "running_sums acc (x # xs) = (acc + x) # running_sums (acc + x) xs"

definition exposed_buckets :: "metrics \<Rightarrow> 64 word list" where
  "exposed_buckets m = running_sums 0 (m_latency m)"

definition exposed_count :: "metrics \<Rightarrow> 64 word" where
  "exposed_count m = last (exposed_buckets m)"

section \<open>Observed requests\<close>

definition metrics_wf :: "metrics \<Rightarrow> bool" where
  "metrics_wf m \<longleftrightarrow> length (m_requests m) = 5 \<and> length (m_latency m) = 11
     \<and> sum_list (m_requests m) = sum_list (m_latency m)"

lemma status_class_less: "status_class s < 5"
  by (auto simp: status_class_def Let_def)

lemma bucket_from_Some:
  "bucket_from i bounds d = Some j \<Longrightarrow>
   i \<le> j \<and> j - i < length bounds \<and> d \<le> bounds ! (j - i) \<and> (\<forall>k < j - i. bounds ! k < d)"
proof (induction i bounds d rule: bucket_from.induct)
  case (2 i bound bounds d)
  show ?case
  proof (cases "d \<le> bound")
    case False
    with "2.prems" have "bucket_from (Suc i) bounds d = Some j" by simp
    note IH = "2.IH" [OF False this]
    then have "Suc i \<le> j" by blast
    then have "j - i = Suc (j - Suc i)" by (simp add: Suc_diff_le Suc_diff_Suc)
    with IH False show ?thesis by (auto simp: less_Suc_eq_0_disj)
  qed (use "2.prems" in simp)
qed simp

lemma bucket_from_None: "bucket_from i bounds d = None \<longleftrightarrow> (\<forall>x \<in> set bounds. x < d)"
  by (induction i bounds d rule: bucket_from.induct) auto

lemma latency_index_less: "latency_index d < 11"
  by (auto simp: latency_index_def latencyBounds_def split: option.splits dest!: bucket_from_Some)

lemma sum_list_bump:
  fixes xs :: "64 word list"
  shows "i < length xs \<Longrightarrow> sum_list (xs[i := xs ! i + 1]) = sum_list xs + 1"
  by (induction xs arbitrary: i) (auto split: nat.splits)

lemma last_running_sums: "xs \<noteq> [] \<Longrightarrow> last (running_sums acc xs) = acc + sum_list xs"
proof (induction acc xs rule: running_sums.induct)
  case (2 acc x xs)
  then show ?case by (cases xs) (auto simp: add.assoc)
qed simp

lemma running_sums_nth:
  "i < length xs \<Longrightarrow> running_sums acc xs ! i = acc + sum_list (take (Suc i) xs)"
  by (induction xs arbitrary: acc i) (auto simp: less_Suc_eq_0_disj add.assoc)

text \<open>
  Observing a request keeps the metrics consistent: the request counters by
  class and the latency buckets keep adding up to the same number, which grows by one and is
  the count the exposition prints (the \<open>+Inf\<close> bucket).
\<close>

lemma observe_consistent:
  assumes "metrics_wf m"
  shows "metrics_wf (ObserveRequest status duration m)
    \<and> exposed_count (ObserveRequest status duration m) = exposed_count m + 1
    \<and> exposed_count m = sum_list (m_requests m)"
  using assms status_class_less [of status] latency_index_less [of duration]
    last_running_sums [of "m_latency m" 0]
  by (auto simp: metrics_wf_def ObserveRequest_def Let_def sum_list_bump exposed_count_def
      exposed_buckets_def last_running_sums simp flip: length_greater_0_conv)

text \<open>
  The bucket an observation falls in is the first whose bound is not below
  the duration, and \<open>+Inf\<close> when the duration exceeds every bound.
\<close>

lemma latency_index_first:
  "(\<forall>k < latency_index d. latencyBounds ! k < d)
   \<and> (latency_index d < length latencyBounds \<longrightarrow> d \<le> latencyBounds ! latency_index d)"
proof (cases "bucket_from 0 latencyBounds d")
  case None
  then have "latency_index d = length latencyBounds" by (simp add: latency_index_def)
  moreover have "\<forall>x \<in> set latencyBounds. x < d" using None by (simp add: bucket_from_None)
  ultimately show ?thesis by simp
next
  case (Some j)
  then have "latency_index d = j" by (simp add: latency_index_def)
  with bucket_from_Some [OF Some] show ?thesis by simp
qed

end
