(* ===== verification/Coordination.thy ===== *)
theory Coordination
  imports Go_Strings
begin

text \<open>
  The distributed coordination client, \<^verbatim>\<open>internal/coordination/redis.go\<close>: the keys, the
  two Lua scripts and the calls built on them. The Redis server is not part of the program: its
  commands are the fields of the record \<open>redis\<close>, and the locale \<open>redis_server\<close> states what
  Redis documents about them. A script runs atomically on the server, so it is a function of the
  server's state. Between the calls time passes at the server, and keys expire. Whether a call
  reaches the server is an argument of the call.
\<close>

section \<open>Keys\<close>

definition eventChannel :: "string \<Rightarrow> string" where
  "eventChannel environment = ''shinmon:'' @ environment @ '':events''"

definition circuitFailureKey :: "string \<Rightarrow> string \<Rightarrow> string" where
  "circuitFailureKey environment upstreamID =
     ''shinmon:'' @ environment @ '':circuit:'' @ upstreamID @ '':failures''"

definition circuitOpenKey :: "string \<Rightarrow> string \<Rightarrow> string" where
  "circuitOpenKey environment upstreamID =
     ''shinmon:'' @ environment @ '':circuit:'' @ upstreamID @ '':open''"

text \<open>
  The date of a UTC time (nanoseconds since the Unix epoch), as \<open>time.Format\<close> computes it with
  the layout \<^verbatim>\<open>200601021504\<close>: year, month, day, hour and minute.
\<close>

definition civil_date :: "int \<Rightarrow> int \<times> int \<times> int" where
  "civil_date days =
     (let z = days + 719468;
          era = z div 146097;
          doe = z mod 146097;
          yoe = (doe - doe div 1460 + doe div 36524 - doe div 146096) div 365;
          doy = doe - (365 * yoe + yoe div 4 - yoe div 100);
          mp = (5 * doy + 2) div 153;
          d = doy - (153 * mp + 2) div 5 + 1;
          m = (if mp < 10 then mp + 3 else mp - 9)
      in (yoe + era * 400 + (if m \<le> 2 then 1 else 0), m, d))"

definition minute_stamp :: "int \<Rightarrow> string" where
  "minute_stamp now =
     (let minute = now div 60000000000;
          of_day = minute mod 1440
      in case civil_date (minute div 1440) of (y, m, d) \<Rightarrow>
           pad_zero 4 (show_int y) @ pad_zero 2 (show_int m) @ pad_zero 2 (show_int d)
           @ pad_zero 2 (show_int (of_day div 60)) @ pad_zero 2 (show_int (of_day mod 60)))"

definition policy_base :: "string \<Rightarrow> string \<Rightarrow> string \<Rightarrow> string" where
  "policy_base environment listenerID consumerID =
     ''shinmon:'' @ environment @ '':'' @ listenerID @ '':'' @ consumerID"

definition rateKey :: "string \<Rightarrow> string \<Rightarrow> string \<Rightarrow> int \<Rightarrow> string" where
  "rateKey environment listenerID consumerID now =
     policy_base environment listenerID consumerID @ '':rate:'' @ show_int (now div 1000000000)"

definition quotaKey :: "string \<Rightarrow> string \<Rightarrow> string \<Rightarrow> int \<Rightarrow> string" where
  "quotaKey environment listenerID consumerID now =
     policy_base environment listenerID consumerID @ '':quota:'' @ minute_stamp now"

section \<open>Redis\<close>

record 's redis =
  rd_incr :: "string \<Rightarrow> 's \<Rightarrow> int \<times> 's"
  rd_pexpire :: "string \<Rightarrow> int \<Rightarrow> 's \<Rightarrow> 's"
  rd_exists :: "string \<Rightarrow> 's \<Rightarrow> bool"
  rd_set_px :: "string \<Rightarrow> string \<Rightarrow> int \<Rightarrow> 's \<Rightarrow> 's"
  rd_del :: "string \<Rightarrow> 's \<Rightarrow> 's"
  rd_pass :: "nat \<Rightarrow> 's \<Rightarrow> 's"
  rd_value :: "'s \<Rightarrow> string \<Rightarrow> int"
  rd_ttl :: "'s \<Rightarrow> string \<Rightarrow> int option"

text \<open>
  \<open>rd_pass\<close> lets milliseconds go by. The last two fields observe the server: the integer a counter
  holds (0 when the key is absent) and the milliseconds the key has left (\<open>None\<close> when it has no
  expiry). The laws are those of the command reference: INCR treats an absent key as 0 and keeps
  the time to live, PEXPIRE with a positive time changes nothing else, SET PX replaces value and
  expiry, DEL removes the key. A key is there until its time to live has passed and is gone
  afterwards; in the very millisecond in which it ends (Redis documents an expire error of up to
  one) either may be.
\<close>

locale redis_server =
  fixes R :: "'s redis"
  assumes incr_result: "fst (rd_incr R k s) = rd_value R s k + 1"
    and incr_value: "rd_value R (snd (rd_incr R k s)) j =
           (if j = k then rd_value R s k + 1 else rd_value R s j)"
    and incr_exists: "rd_exists R j (snd (rd_incr R k s)) \<longleftrightarrow> j = k \<or> rd_exists R j s"
    and incr_ttl: "rd_ttl R (snd (rd_incr R k s)) j = rd_ttl R s j"
    and pexpire_value: "0 < ms \<Longrightarrow> rd_value R (rd_pexpire R k ms s) j = rd_value R s j"
    and pexpire_exists: "0 < ms \<Longrightarrow> rd_exists R j (rd_pexpire R k ms s) \<longleftrightarrow> rd_exists R j s"
    and pexpire_ttl: "0 < ms \<Longrightarrow> rd_ttl R (rd_pexpire R k ms s) j =
           (if j = k \<and> rd_exists R k s then Some ms else rd_ttl R s j)"
    and set_value: "0 < ms \<Longrightarrow> j \<noteq> k \<Longrightarrow> rd_value R (rd_set_px R k v ms s) j = rd_value R s j"
    and set_exists: "0 < ms \<Longrightarrow> rd_exists R j (rd_set_px R k v ms s) \<longleftrightarrow> j = k \<or> rd_exists R j s"
    and set_ttl: "0 < ms \<Longrightarrow> rd_ttl R (rd_set_px R k v ms s) j =
           (if j = k then Some ms else rd_ttl R s j)"
    and del_value: "rd_value R (rd_del R k s) j = (if j = k then 0 else rd_value R s j)"
    and del_exists: "rd_exists R j (rd_del R k s) \<longleftrightarrow> j \<noteq> k \<and> rd_exists R j s"
    and del_ttl: "rd_ttl R (rd_del R k s) j = (if j = k then None else rd_ttl R s j)"
    and absent: "\<not> rd_exists R j s \<Longrightarrow> rd_value R s j = 0 \<and> rd_ttl R s j = None"
    and pass_forever: "rd_ttl R s j = None \<Longrightarrow> rd_value R (rd_pass R d s) j = rd_value R s j
           \<and> (rd_exists R j (rd_pass R d s) \<longleftrightarrow> rd_exists R j s) \<and> rd_ttl R (rd_pass R d s) j = None"
    and pass_kept: "rd_ttl R s j = Some t \<Longrightarrow> int d < t \<Longrightarrow> rd_value R (rd_pass R d s) j = rd_value R s j
           \<and> rd_exists R j (rd_pass R d s) \<and> rd_ttl R (rd_pass R d s) j = Some (t - int d)"
    and pass_gone: "rd_ttl R s j = Some t \<Longrightarrow> t < int d \<Longrightarrow> \<not> rd_exists R j (rd_pass R d s)"
    and pass_end: "rd_ttl R s j = Some (int d) \<Longrightarrow> rd_exists R j (rd_pass R d s) \<Longrightarrow>
           rd_value R (rd_pass R d s) j = rd_value R s j \<and> rd_ttl R (rd_pass R d s) j = Some 0"
begin

lemmas redis_laws = incr_result incr_value incr_exists incr_ttl pexpire_value pexpire_exists
  pexpire_ttl set_value set_exists set_ttl del_value del_exists del_ttl

text \<open>What became of a key: it is as it was with less time left, or gone.\<close>

lemma pass_cases:
  obtains (kept) "rd_value R (rd_pass R d s) j = rd_value R s j"
      "rd_exists R j (rd_pass R d s) \<longleftrightarrow> rd_exists R j s"
      "rd_ttl R (rd_pass R d s) j = map_option (\<lambda>t. t - int d) (rd_ttl R s j)"
      "\<And>t. rd_ttl R s j = Some t \<Longrightarrow> int d \<le> t"
    | (gone) t where "rd_ttl R s j = Some t" "t \<le> int d" "rd_value R (rd_pass R d s) j = 0"
      "\<not> rd_exists R j (rd_pass R d s)" "rd_ttl R (rd_pass R d s) j = None"
proof (cases "rd_ttl R s j")
  case None
  from pass_forever [OF this, of d] None show thesis by (intro kept) simp_all
next
  case (Some t)
  then have "rd_exists R j s" using absent [of j s] by auto
  note here = Some this
  consider "int d < t" | "t < int d" | "t = int d" "rd_exists R j (rd_pass R d s)"
    | "t = int d" "\<not> rd_exists R j (rd_pass R d s)" by linarith
  then show thesis
  proof cases
    case 1
    with pass_kept [OF Some 1] here show ?thesis by (intro kept) simp_all
  next
    case 2
    with absent [OF pass_gone [OF Some 2]] pass_gone [OF Some 2] here show ?thesis by (intro gone [of t]) auto
  next
    case 3
    with pass_end [of s j d] here show ?thesis by (intro kept) simp_all
  next
    case 4
    with absent [OF 4(2)] here show ?thesis by (intro gone [of t]) auto
  qed
qed

end

section \<open>The request policy\<close>

definition DecisionAllow :: int where "DecisionAllow = 0"
definition DecisionRateLimited :: int where "DecisionRateLimited = 1"
definition DecisionQuotaExceeded :: int where "DecisionQuotaExceeded = 2"

text \<open>
  One counted window of the script: increment, start the expiry with the first request of the
  window, and report the count.
\<close>

definition count_window :: "'s redis \<Rightarrow> string \<Rightarrow> int \<Rightarrow> 's \<Rightarrow> int \<times> 's" where
  "count_window R key ms s =
     (case rd_incr R key s of (count, s1) \<Rightarrow>
        (count, if count = 1 then rd_pexpire R key ms s1 else s1))"

definition requestPolicyScript ::
  "'s redis \<Rightarrow> string \<Rightarrow> string \<Rightarrow> int \<Rightarrow> int \<Rightarrow> int \<Rightarrow> 's \<Rightarrow> int \<times> 's" where
  "requestPolicyScript R key1 key2 rate burst quota s =
     (let quota_part = (\<lambda>s. if 0 < quota then
             (case count_window R key2 60000 s of (count, s') \<Rightarrow>
                (if quota < count then (2, s') else (0, s')))
           else (0, s))
      in if 0 < rate then
           (case count_window R key1 1000 s of (count, s') \<Rightarrow>
              (if rate + burst < count then (1, s') else quota_part s'))
         else quota_part s)"

definition AllowRequest ::
  "'s redis \<Rightarrow> bool \<Rightarrow> int \<Rightarrow> string \<Rightarrow> string \<Rightarrow> string \<Rightarrow> int \<Rightarrow> int \<Rightarrow> int \<Rightarrow> 's \<Rightarrow>
   (unit, int) result \<times> 's" where
  "AllowRequest R online now environment listenerID consumerID rate burst quota s =
     (if \<not> online then (Inl (), s)
      else (case requestPolicyScript R (rateKey environment listenerID consumerID now)
                   (quotaKey environment listenerID consumerID now) rate burst quota s of
              (decision, s') \<Rightarrow> (Inr decision, s')))"

section \<open>The circuit breaker\<close>

definition CircuitOpen ::
  "'s redis \<Rightarrow> bool \<Rightarrow> string \<Rightarrow> string \<Rightarrow> 's \<Rightarrow> (unit, bool) result" where
  "CircuitOpen R online environment upstreamID s =
     (if \<not> online then Inl () else Inr (rd_exists R (circuitOpenKey environment upstreamID) s))"

definition circuitFailureScript ::
  "'s redis \<Rightarrow> string \<Rightarrow> string \<Rightarrow> int \<Rightarrow> int \<Rightarrow> 's \<Rightarrow> int \<times> 's" where
  "circuitFailureScript R key1 key2 threshold open_ms s =
     (case rd_incr R key1 s of (failures, s1) \<Rightarrow>
        let s2 = (if failures = 1 then rd_pexpire R key1 open_ms s1 else s1)
        in (failures,
            if threshold \<le> failures then rd_del R key1 (rd_set_px R key2 ''1'' open_ms s2) else s2))"

text \<open>
  \<open>RecordUpstream\<close>: the result says whether the call failed; \<open>openFor\<close> is in nanoseconds.
\<close>

definition RecordUpstream ::
  "'s redis \<Rightarrow> bool \<Rightarrow> string \<Rightarrow> string \<Rightarrow> bool \<Rightarrow> int \<Rightarrow> int \<Rightarrow> 's \<Rightarrow> (unit, unit) result \<times> 's" where
  "RecordUpstream R online environment upstreamID success threshold openFor s =
     (if \<not> online then (Inl (), s)
      else if success then (Inr (), rd_del R (circuitFailureKey environment upstreamID) s)
      else (Inr (), snd (circuitFailureScript R (circuitFailureKey environment upstreamID)
              (circuitOpenKey environment upstreamID) threshold (openFor div 1000000) s)))"

section \<open>Lemmas\<close>

lemma keys_distinct: "circuitFailureKey e u \<noteq> circuitOpenKey e u'"
proof
  assume "circuitFailureKey e u = circuitOpenKey e u'"
  then have "last (circuitFailureKey e u) = last (circuitOpenKey e u')" by simp
  then show False by (simp add: circuitFailureKey_def circuitOpenKey_def)
qed

text \<open>With identifiers free of colons a key is the list of its parts joined by colons.\<close>

lemma rateKey_join:
  "rateKey e l c now = join_with '':'' [''shinmon'', e, l, c, ''rate'', show_int (now div 1000000000)]"
  by (simp add: rateKey_def policy_base_def)

lemma minute_stamp_no_colon: "CHR '':'' \<notin> set (minute_stamp now)"
  by (simp add: minute_stamp_def pad_zero_def Let_def split_def show_int_no_colon)

lemma quotaKey_join:
  "quotaKey e l c now = join_with '':'' [''shinmon'', e, l, c, ''quota'', minute_stamp now]"
  by (simp add: quotaKey_def policy_base_def)

lemma join_inj:
  assumes "join_with '':'' xs = join_with '':'' ys" and "xs \<noteq> []" and "ys \<noteq> []"
    and "\<forall>w \<in> set xs. CHR '':'' \<notin> set w" and "\<forall>w \<in> set ys. CHR '':'' \<notin> set w"
  shows "xs = ys"
proof -
  have "split_on CHR '':'' (join_with '':'' xs) = xs" using assms by (intro split_on_join)
  moreover have "split_on CHR '':'' (join_with '':'' ys) = ys" using assms by (intro split_on_join)
  ultimately show ?thesis using assms(1) by metis
qed

definition colon_free :: "string \<Rightarrow> bool" where
  "colon_free s \<longleftrightarrow> CHR '':'' \<notin> set s"

lemma rateKey_inj:
  assumes "rateKey e l c now = rateKey e' l' c' now'"
    and "list_all colon_free [e, l, c, e', l', c']"
  shows "e = e' \<and> l = l' \<and> c = c' \<and> show_int (now div 1000000000) = show_int (now' div 1000000000)"
proof -
  have "[''shinmon'', e, l, c, ''rate'', show_int (now div 1000000000)] =
      [''shinmon'', e', l', c', ''rate'', show_int (now' div 1000000000)]"
    by (rule join_inj [OF assms(1) [unfolded rateKey_join]])
      (use assms(2) in \<open>simp_all add: colon_free_def show_int_no_colon\<close>)
  then show ?thesis by simp
qed

lemma rateKey_quotaKey:
  assumes "list_all colon_free [e, l, c, e', l', c']"
  shows "rateKey e l c now \<noteq> quotaKey e' l' c' now'"
proof
  assume "rateKey e l c now = quotaKey e' l' c' now'"
  then have "[''shinmon'', e, l, c, ''rate'', show_int (now div 1000000000)] =
      [''shinmon'', e', l', c', ''quota'', minute_stamp now']"
    unfolding rateKey_join quotaKey_join
    by (rule join_inj) (use assms in \<open>simp_all add: colon_free_def show_int_no_colon
        minute_stamp_no_colon\<close>)
  then show False by simp
qed

section \<open>What the scripts do, on any server with the laws\<close>

context redis_server
begin

lemma count_window_count: "0 < ms \<Longrightarrow> fst (count_window R k ms s) = rd_value R s k + 1"
  by (simp add: count_window_def split_def redis_laws)

lemma count_window_value:
  "0 < ms \<Longrightarrow> rd_value R (snd (count_window R k ms s)) j =
     (if j = k then rd_value R s k + 1 else rd_value R s j)"
  by (simp add: count_window_def split_def redis_laws)

lemma policy_value_other:
  "j \<noteq> k1 \<Longrightarrow> j \<noteq> k2 \<Longrightarrow>
   rd_value R (snd (requestPolicyScript R k1 k2 rate burst quota s)) j = rd_value R s j"
  by (auto simp: requestPolicyScript_def Let_def split_def count_window_value)

lemma policy_value_rate:
  "0 < rate \<Longrightarrow> k1 \<noteq> k2 \<Longrightarrow>
   rd_value R (snd (requestPolicyScript R k1 k2 rate burst quota s)) k1 = rd_value R s k1 + 1"
  by (auto simp: requestPolicyScript_def Let_def split_def count_window_value)

lemma count_window_ttl:
  "0 < ms \<Longrightarrow> rd_ttl R (snd (count_window R k ms s)) j =
     (if j = k \<and> rd_value R s k = 0 then Some ms else rd_ttl R s j)"
  by (simp add: count_window_def split_def redis_laws)

lemma policy_ttl_other:
  "j \<noteq> k1 \<Longrightarrow> j \<noteq> k2 \<Longrightarrow>
   rd_ttl R (snd (requestPolicyScript R k1 k2 rate burst quota s)) j = rd_ttl R s j"
  by (auto simp: requestPolicyScript_def Let_def split_def count_window_ttl)

text \<open>The first request of a window starts its expiry, the others leave it alone.\<close>

lemma policy_ttl_rate:
  "0 < rate \<Longrightarrow> k1 \<noteq> k2 \<Longrightarrow>
   rd_ttl R (snd (requestPolicyScript R k1 k2 rate burst quota s)) k1 =
     (if rd_value R s k1 = 0 then Some 1000 else rd_ttl R s k1)"
  by (auto simp: requestPolicyScript_def Let_def split_def count_window_ttl)

lemma policy_decision_limited:
  "fst (requestPolicyScript R k1 k2 rate burst quota s) = DecisionRateLimited \<longleftrightarrow>
   0 < rate \<and> rate + burst < rd_value R s k1 + 1"
  by (auto simp: requestPolicyScript_def Let_def split_def count_window_count DecisionRateLimited_def)

lemma policy_decision_range:
  "fst (requestPolicyScript R k1 k2 rate burst quota s)
     \<in> {DecisionAllow, DecisionRateLimited, DecisionQuotaExceeded}"
  by (auto simp: requestPolicyScript_def Let_def split_def DecisionAllow_def
      DecisionRateLimited_def DecisionQuotaExceeded_def)

lemma limited_keeps_quota:
  "fst (requestPolicyScript R k1 k2 rate burst quota s) = DecisionRateLimited \<Longrightarrow> k1 \<noteq> k2 \<Longrightarrow>
   rd_value R (snd (requestPolicyScript R k1 k2 rate burst quota s)) k2 = rd_value R s k2"
  by (auto simp: requestPolicyScript_def Let_def split_def count_window_value
      DecisionRateLimited_def split: if_splits)

lemma policy_no_quota:
  "0 < rate \<Longrightarrow> quota \<le> 0 \<Longrightarrow>
   fst (requestPolicyScript R k1 k2 rate burst quota s) =
     (if rate + burst < rd_value R s k1 + 1 then DecisionRateLimited else DecisionAllow)"
  by (simp add: requestPolicyScript_def Let_def split_def count_window_count
      DecisionRateLimited_def DecisionAllow_def)

lemma failure_script_value:
  "0 < ms \<Longrightarrow> k1 \<noteq> k2 \<Longrightarrow>
   rd_value R (snd (circuitFailureScript R k1 k2 threshold ms s)) k1 =
     (if threshold \<le> rd_value R s k1 + 1 then 0 else rd_value R s k1 + 1)"
  by (simp add: circuitFailureScript_def Let_def split_def redis_laws)

lemma failure_script_open:
  "0 < ms \<Longrightarrow> k1 \<noteq> k2 \<Longrightarrow>
   rd_exists R k2 (snd (circuitFailureScript R k1 k2 threshold ms s)) \<longleftrightarrow>
     threshold \<le> rd_value R s k1 + 1 \<or> rd_exists R k2 s"
  by (simp add: circuitFailureScript_def Let_def split_def redis_laws)

lemma failure_script_ttl:
  "0 < ms \<Longrightarrow> k1 \<noteq> k2 \<Longrightarrow> threshold \<le> rd_value R s k1 + 1 \<Longrightarrow>
   rd_ttl R (snd (circuitFailureScript R k1 k2 threshold ms s)) k2 = Some ms"
  by (simp add: circuitFailureScript_def Let_def split_def redis_laws)

lemma failure_script_count_ttl:
  "0 < ms \<Longrightarrow> k1 \<noteq> k2 \<Longrightarrow> rd_value R s k1 + 1 < threshold \<Longrightarrow>
   rd_ttl R (snd (circuitFailureScript R k1 k2 threshold ms s)) k1 =
     (if rd_value R s k1 = 0 then Some ms else rd_ttl R s k1)"
  by (simp add: circuitFailureScript_def Let_def split_def redis_laws)

end

section \<open>A server in memory\<close>

text \<open>
  An executable server: each key has an integer and, possibly, milliseconds to live. It
  satisfies the laws, so that they are consistent and the properties can be evaluated.
\<close>

type_synonym mem = "string \<rightharpoonup> int \<times> int option"

definition mem_value :: "mem \<Rightarrow> string \<Rightarrow> int" where
  "mem_value s k = (case s k of None \<Rightarrow> 0 | Some (v, t) \<Rightarrow> v)"

definition mem_ttl :: "mem \<Rightarrow> string \<Rightarrow> int option" where
  "mem_ttl s k = (case s k of None \<Rightarrow> None | Some (v, t) \<Rightarrow> t)"

definition mem_redis :: "mem redis" where
  "mem_redis = \<lparr>
     rd_incr = (\<lambda>k s. (mem_value s k + 1, s(k \<mapsto> (mem_value s k + 1, mem_ttl s k)))),
     rd_pexpire = (\<lambda>k ms s. case s k of None \<Rightarrow> s
        | Some (v, t) \<Rightarrow> if ms \<le> 0 then s(k := None) else s(k \<mapsto> (v, Some ms))),
     rd_exists = (\<lambda>k s. s k \<noteq> None),
     rd_set_px = (\<lambda>k v ms s. s(k \<mapsto> (case atoi v of None \<Rightarrow> 0 | Some n \<Rightarrow> n, Some ms))),
     rd_del = (\<lambda>k s. s(k := None)),
     rd_pass = (\<lambda>d s k. case s k of None \<Rightarrow> None
        | Some (v, None) \<Rightarrow> Some (v, None)
        | Some (v, Some t) \<Rightarrow> if int d < t then Some (v, Some (t - int d)) else None),
     rd_value = mem_value,
     rd_ttl = mem_ttl\<rparr>"

interpretation mem_server: redis_server mem_redis
  by unfold_locales
    (auto simp: mem_redis_def mem_value_def mem_ttl_def split: option.splits)

section \<open>Interleaved requests\<close>

text \<open>
  Calls of \<open>AllowRequest\<close> by any number of gateway replicas, for any listeners and consumers,
  in the order the server executes them. \<open>pc_at\<close> is the time of the server, in milliseconds, at
  which it executes a call, \<open>pc_now\<close> what the clock of the calling replica said, in nanoseconds.
\<close>

record policy_call =
  pc_at :: int
  pc_online :: bool
  pc_now :: int
  pc_environment :: string
  pc_listener :: string
  pc_consumer :: string
  pc_rate :: int
  pc_burst :: int
  pc_quota :: int

definition perform :: "'s redis \<Rightarrow> policy_call \<Rightarrow> 's \<Rightarrow> (unit, int) result \<times> 's" where
  "perform R c = AllowRequest R (pc_online c) (pc_now c) (pc_environment c) (pc_listener c)
     (pc_consumer c) (pc_rate c) (pc_burst c) (pc_quota c)"

text \<open>From the time \<open>at\<close> of the state on; until a call is executed, its server ages.\<close>

fun perform_all :: "'s redis \<Rightarrow> policy_call list \<Rightarrow> int \<Rightarrow> 's \<Rightarrow> (policy_call \<times> (unit, int) result) list" where
  "perform_all R [] at s = []"
| "perform_all R (c # cs) at s =
     (case perform R c (rd_pass R (nat (pc_at c - at)) s) of
        (r, s') \<Rightarrow> (c, r) # perform_all R cs (pc_at c) s')"

text \<open>The calls come in the order of their times.\<close>

fun in_order :: "int \<Rightarrow> policy_call list \<Rightarrow> bool" where
  "in_order at [] = True"
| "in_order at (c # cs) \<longleftrightarrow> at \<le> pc_at c \<and> in_order (pc_at c) cs"

definition call_ids_ok :: "policy_call \<Rightarrow> bool" where
  "call_ids_ok c \<longleftrightarrow> list_all colon_free [pc_environment c, pc_listener c, pc_consumer c]"

text \<open>The calls of one consumer on one listener within one second.\<close>

definition in_window :: "string \<Rightarrow> string \<Rightarrow> string \<Rightarrow> int \<Rightarrow> policy_call \<Rightarrow> bool" where
  "in_window e l k second c \<longleftrightarrow> pc_environment c = e \<and> pc_listener c = l \<and> pc_consumer c = k
     \<and> pc_now c div 1000000000 = second"

definition granted :: "string \<Rightarrow> string \<Rightarrow> string \<Rightarrow> int \<Rightarrow> (policy_call \<times> (unit, int) result) list \<Rightarrow> nat" where
  "granted e l k second rs =
     length (filter (\<lambda>(c, r). in_window e l k second c \<and> r = Inr DecisionAllow) rs)"

definition window_key :: "string \<Rightarrow> string \<Rightarrow> string \<Rightarrow> int \<Rightarrow> string" where
  "window_key e l k second = rateKey e l k (second * 1000000000)"

lemma in_window_key:
  assumes "call_ids_ok c" and "list_all colon_free [e, l, k]"
  shows "in_window e l k second c \<longleftrightarrow>
     rateKey (pc_environment c) (pc_listener c) (pc_consumer c) (pc_now c) = window_key e l k second"
proof
  assume "in_window e l k second c"
  then show "rateKey (pc_environment c) (pc_listener c) (pc_consumer c) (pc_now c) = window_key e l k second"
    by (simp add: in_window_def window_key_def rateKey_def)
next
  assume "rateKey (pc_environment c) (pc_listener c) (pc_consumer c) (pc_now c) = window_key e l k second"
  from rateKey_inj [OF this [unfolded window_key_def]] assms show "in_window e l k second c"
    by (auto simp: in_window_def call_ids_ok_def dest: show_int_inj)
qed

end
