(* ===== verification/Gateway.thy ===== *)
theory Gateway
  imports Snapshot Metrics Coordination "HOL-Library.AList"
begin

text \<open>
  The request handler of the data plane, \<^verbatim>\<open>internal/dataplane/handler.go\<close>: authentication,
  the guards of a listener, the distributed policies, the choice of an upstream and the reverse
  proxy. \<open>httputil.ReverseProxy\<close> is modelled for the way the handler sets it up. The transport,
  HMAC-SHA256 and the media type parser are fields of the environment \<open>env\<close>.
\<close>

section \<open>Requests, responses and the state\<close>

record request =
  q_Method :: string
  q_Path :: string
  q_RemoteAddr :: string
  q_Header :: header
  q_ContentLength :: int
  q_HasBody :: bool
  q_CorrelationID :: string

text \<open>
  The request the proxy sends. \<open>o_BodyLimit\<close> is the limit of the \<open>limitedBody\<close> around the
  body, \<open>o_Timeout\<close> the deadline of its context in nanoseconds, \<open>o_Host\<close> the authority once the
  proxy has set it.
\<close>

record out_request =
  o_Method :: string
  o_Path :: string
  o_Scheme :: string
  o_Host :: "(addr \<times> 16 word) option"
  o_Header :: header
  o_BodyLimit :: "int option"
  o_Timeout :: int

record upstream_response =
  ur_StatusCode :: int
  ur_Header :: header
  ur_Body :: string

datatype body = ErrorBody (eb_Code: string) (eb_CorrelationID: string) | UpstreamBody string

record response =
  p_Status :: int
  p_Header :: header
  p_Body :: body

text \<open>An error, by the sentinels that \<open>errors.Is\<close> finds in it.\<close>

record proxy_error =
  pe_TooLarge :: bool
  pe_Coordination :: bool
  pe_Deadline :: bool

text \<open>
  The coordinator interface. Each call may change the coordinator's state, on behalf of the
  caller and of every other client that used it since the last call.
\<close>

record 'c coordinator =
  co_AllowRequest :: "string \<Rightarrow> string \<Rightarrow> string \<Rightarrow> int \<Rightarrow> int \<Rightarrow> int \<Rightarrow> 'c \<Rightarrow> (unit, int) result \<times> 'c"
  co_CircuitOpen :: "string \<Rightarrow> string \<Rightarrow> 'c \<Rightarrow> (unit, bool) result \<times> 'c"
  co_RecordUpstream :: "string \<Rightarrow> string \<Rightarrow> bool \<Rightarrow> int \<Rightarrow> int \<Rightarrow> 'c \<Rightarrow> (unit, unit) result \<times> 'c"

record 'c gateway_handler =
  gh_trusted :: "cidr list"
  gh_pepper :: string
  gh_coordinator :: "'c coordinator option"

text \<open>
  What happens around one request: the clock, HMAC-SHA256 (of a key and a message), the media
  type parser, the two readings of the health flags, the answer of the transport, whether the
  deadline of the request has passed when the error handler runs, and the outcome of handing
  the connection over after a 101 response.
\<close>

record env =
  e_now :: int
  e_hmac :: "string \<Rightarrow> string \<Rightarrow> string"
  e_parse_media :: "string \<Rightarrow> string option"
  e_health1 :: health
  e_health2 :: health
  e_roundtrip :: "out_request \<Rightarrow> (proxy_error, upstream_response) result"
  e_expired :: bool
  e_switch :: "out_request \<Rightarrow> upstream_response \<Rightarrow> proxy_error option"

record 'c gateway =
  g_coord :: 'c
  g_metrics :: "metrics option"
  g_snapshot :: "snapshot option"

definition count_event :: "metric_event \<Rightarrow> 'c gateway \<Rightarrow> 'c gateway" where
  "count_event ev g = g\<lparr>g_metrics := map_option (record_event ev) (g_metrics g)\<rparr>"

definition writeGatewayError :: "header \<Rightarrow> string \<Rightarrow> int \<Rightarrow> string \<Rightarrow> response" where
  "writeGatewayError w correlation status code =
     \<lparr>p_Status = status,
      p_Header = header_set ''Content-Type'' ''application/json; charset=utf-8'' w,
      p_Body = ErrorBody code correlation\<rparr>"

section \<open>Guards\<close>

definition ListenerPortHeader :: string where "ListenerPortHeader = ''X-Gateway-Listener-Port''"
definition APIKeyHeader :: string where "APIKeyHeader = ''X-API-Key''"

definition allowsPublicRequest :: "listener \<Rightarrow> string \<Rightarrow> string \<Rightarrow> bool" where
  "allowsPublicRequest l method path =
     (if method \<noteq> ''GET'' \<and> method \<noteq> ''HEAD'' \<or> \<not> has_prefix path ''/''
         \<or> contains_any path [CHR 0x00, CHR 0x0D, CHR 0x0A] then False
      else if list_ex (\<lambda>segment. segment = ''.'' \<or> segment = ''..'') (split_on CHR ''/'' path)
        then False
      else (case l_UnprotectedRouteRegex l of None \<Rightarrow> False | Some re \<Rightarrow> re path))"

definition trusted_peer :: "cidr list \<Rightarrow> addr \<Rightarrow> bool" where
  "trusted_peer prefixes address = list_ex (\<lambda>p. cidr_contains p address) prefixes"

definition listenerPort :: "cidr list \<Rightarrow> request \<Rightarrow> int option" where
  "listenerPort prefixes r =
     (case split_host_port (q_RemoteAddr r) of
        None \<Rightarrow> None
      | Some (host, _) \<Rightarrow>
          (case parse_addr host of
             None \<Rightarrow> None
           | Some address \<Rightarrow>
               if \<not> trusted_peer prefixes address then None
               else (case header_values (q_Header r) ListenerPortHeader of
                       [v] \<Rightarrow> (case atoi (trim_space v) of
                                 None \<Rightarrow> None
                               | Some port \<Rightarrow> if 1 \<le> port \<and> port \<le> 65535 then Some port else None)
                     | _ \<Rightarrow> None)))"

text \<open>
  The loop of \<open>keyPrefix\<close> runs over runes; a byte outside ASCII belongs to a rune that is
  rejected, so the check of each byte is the same.
\<close>

definition keyPrefix :: "string \<Rightarrow> string option" where
  "keyPrefix raw =
     (if length raw \<noteq> 69 \<or> \<not> has_prefix raw ''shn_'' \<or> raw ! 16 \<noteq> CHR ''.'' then None
      else if list_all (\<lambda>c. c = CHR ''.'' \<or> is_lower_hex c) (drop 4 raw)
        then Some (take 12 (drop 4 raw)) else None)"

definition authenticate ::
  "(string \<Rightarrow> string \<Rightarrow> string) \<Rightarrow> string \<Rightarrow> int \<Rightarrow> snapshot \<Rightarrow> string \<Rightarrow> credential option" where
  "authenticate hmac pepper now s raw =
     (case keyPrefix raw of
        None \<Rightarrow> None
      | Some prefix \<Rightarrow>
          (case sn_Credentials s prefix of
             None \<Rightarrow> None
           | Some credential \<Rightarrow>
               if (case c_ExpiresAt credential of None \<Rightarrow> False | Some t \<Rightarrow> \<not> now < t) then None
               else if hmac pepper raw \<noteq> c_Verifier credential then None
               else Some credential))"

definition contentTypeAllowed :: "(string \<Rightarrow> string option) \<Rightarrow> listener \<Rightarrow> request \<Rightarrow> bool" where
  "contentTypeAllowed parse_media l r =
     (if \<not> q_HasBody r \<or> q_ContentLength r = 0 then True
      else (case parse_media (header_get (q_Header r) ''Content-Type'') of
              None \<Rightarrow> False
            | Some media \<Rightarrow> to_lower media \<in> set (l_AllowedContentTypes l)))"

text \<open>
  \<open>slicesSort\<close>: the inner loop moves the element at \<open>j\<close> down; the outer one does so for every
  position from the left. The keys of a map come in any order.
\<close>

fun sift_down :: "nat \<Rightarrow> string list \<Rightarrow> string list" where
  "sift_down 0 items = items"
| "sift_down (Suc j) items =
     (if items ! Suc j < items ! j
      then sift_down j (items[Suc j := items ! j, j := items ! Suc j]) else items)"

definition slicesSort :: "string list \<Rightarrow> string list" where
  "slicesSort items = fold sift_down [1..<length items] items"

definition joinKeys :: "string list \<Rightarrow> string" where
  "joinKeys values = join_with '', '' (slicesSort values)"

definition stripForwardingHeaders :: "header \<Rightarrow> header" where
  "stripForwardingHeaders h =
     foldl (\<lambda>h name. header_del name h) h
       [''Forwarded'', ''X-Forwarded-For'', ''X-Forwarded-Host'', ''X-Forwarded-Proto'',
        ''X-Forwarded-Port'', ''X-Real-IP'']"

type_synonym circuits = "(string \<times> bool) list"

definition anyBlocked :: "circuits \<Rightarrow> bool" where
  "anyBlocked values = list_ex snd values"

definition is_blocked :: "circuits \<Rightarrow> string \<Rightarrow> bool" where
  "is_blocked values k = (case map_of values k of None \<Rightarrow> False | Some b \<Rightarrow> b)"

section \<open>The reverse proxy\<close>

text \<open>
  \<open>httputil.ReverseProxy.ServeHTTP\<close> as the handler uses it: the upgrade type of the request, the
  hop-by-hop headers, the rewriting, the round trip, the modification of the response and the
  error handler.
\<close>

definition trim_ows :: "string \<Rightarrow> string" where
  "trim_ows s = (let blank = (\<lambda>c. c = CHR '' '' \<or> c = CHR 0x09)
                 in rev (dropWhile blank (rev (dropWhile blank s))))"

definition trim_ascii :: "string \<Rightarrow> string" where
  "trim_ascii s = (let blank = (\<lambda>c. c = CHR '' '' \<or> c = CHR 0x09 \<or> c = CHR 0x0A \<or> c = CHR 0x0D)
                   in rev (dropWhile blank (rev (dropWhile blank s))))"

definition contains_token :: "string list \<Rightarrow> string \<Rightarrow> bool" where
  "contains_token values token =
     list_ex (\<lambda>v. list_ex (\<lambda>t. map lower_byte (trim_ows t) = map lower_byte token)
       (split_on CHR '','' v)) values"

definition upgradeType :: "header \<Rightarrow> string" where
  "upgradeType h =
     (if contains_token (header_values h ''Connection'') ''Upgrade'' then header_get h ''Upgrade'' else [])"

definition is_print :: "string \<Rightarrow> bool" where
  "is_print s = list_all (\<lambda>c. 32 \<le> byte_of c \<and> byte_of c \<le> 126) s"

definition hopHeaders :: "string list" where
  "hopHeaders = [''Connection'', ''Proxy-Connection'', ''Keep-Alive'', ''Proxy-Authenticate'',
     ''Proxy-Authorization'', ''Te'', ''Trailer'', ''Transfer-Encoding'', ''Upgrade'']"

definition delete_all :: "string list \<Rightarrow> header \<Rightarrow> header" where
  "delete_all names h = foldl (\<lambda>h name. header_del name h) h names"

definition connection_tokens :: "header \<Rightarrow> string list" where
  "connection_tokens h =
     filter (\<lambda>t. t \<noteq> []) (map trim_ascii
       (concat (map (split_on CHR '','') (header_values h ''Connection''))))"

definition removeHopByHopHeaders :: "header \<Rightarrow> header" where
  "removeHopByHopHeaders h = delete_all hopHeaders (delete_all (connection_tokens h) h)"

definition copy_header :: "header \<Rightarrow> header \<Rightarrow> header" where
  "copy_header dst src =
     (\<lambda>k. case src k of None \<Rightarrow> dst k
          | Some vs \<Rightarrow> (if vs = [] then dst k
                        else Some ((case dst k of None \<Rightarrow> [] | Some us \<Rightarrow> us) @ vs)))"

definition prepare_header :: "header \<Rightarrow> header" where
  "prepare_header h =
     (let up = upgradeType h;
          h1 = removeHopByHopHeaders h;
          h2 = (if contains_token (header_values h ''Te'') ''trailers''
                then header_set ''Te'' ''trailers'' h1 else h1);
          h3 = (if up \<noteq> [] then header_set ''Upgrade'' up (header_set ''Connection'' ''Upgrade'' h2)
                else h2)
      in delete_all [''Forwarded'', ''X-Forwarded-For'', ''X-Forwarded-Host'', ''X-Forwarded-Proto''] h3)"

definition default_user_agent :: "header \<Rightarrow> header" where
  "default_user_agent h = (if h ''User-Agent'' = None then header_set ''User-Agent'' [] h else h)"

definition other_error :: proxy_error where
  "other_error = \<lparr>pe_TooLarge = False, pe_Coordination = False, pe_Deadline = False\<rparr>"

definition reverse_proxy ::
  "(out_request \<Rightarrow> out_request) \<Rightarrow>
   (upstream_response \<Rightarrow> 'c gateway \<Rightarrow> (proxy_error, upstream_response) result \<times> 'c gateway) \<Rightarrow>
   (proxy_error \<Rightarrow> 'c gateway \<Rightarrow> response \<times> 'c gateway) \<Rightarrow>
   env \<Rightarrow> header \<Rightarrow> out_request \<Rightarrow> 'c gateway \<Rightarrow> (response \<times> out_request option) \<times> 'c gateway" where
  "reverse_proxy rewrite modify handle_error en w out0 g =
     (if \<not> is_print (upgradeType (o_Header out0)) then
        (case handle_error other_error g of (p, g1) \<Rightarrow> ((p, None), g1))
      else let out1 = rewrite (out0\<lparr>o_Header := prepare_header (o_Header out0)\<rparr>);
               out = out1\<lparr>o_Header := default_user_agent (o_Header out1)\<rparr>
           in case e_roundtrip en out of
                Inl e \<Rightarrow> (case handle_error e g of (p, g1) \<Rightarrow> ((p, Some out), g1))
              | Inr res \<Rightarrow>
                  let switching = (ur_StatusCode res = 101);
                      res1 = (if switching then res
                              else res\<lparr>ur_Header := removeHopByHopHeaders (ur_Header res)\<rparr>)
                  in case modify res1 g of
                       (Inl e, g1) \<Rightarrow> (case handle_error e g1 of (p, g2) \<Rightarrow> ((p, Some out), g2))
                     | (Inr res2, g1) \<Rightarrow>
                         (case (if switching then e_switch en out res2 else None) of
                            Some e \<Rightarrow> (case handle_error e g1 of (p, g2) \<Rightarrow> ((p, Some out), g2))
                          | None \<Rightarrow> ((\<lparr>p_Status = ur_StatusCode res2,
                                p_Header = copy_header w (ur_Header res2),
                                p_Body = UpstreamBody (ur_Body res2)\<rparr>, Some out), g1)))"

section \<open>The handler\<close>

text \<open>From the peer's address to the limit on the body: the guards that need no coordinator.\<close>

definition admit ::
  "'c gateway_handler \<Rightarrow> env \<Rightarrow> header \<Rightarrow> request \<Rightarrow> 'c gateway \<Rightarrow>
   (response, int \<times> snapshot \<times> listener \<times> credential option) result \<times> 'c gateway" where
  "admit h en w r g =
     (let deny = writeGatewayError w (q_CorrelationID r)
      in case listenerPort (gh_trusted h) r of
        None \<Rightarrow> (Inl (deny 404 ''GATEWAY_NOT_FOUND''), g)
      | Some port \<Rightarrow>
      (case g_snapshot g of
        None \<Rightarrow> (Inl (deny 503 ''GATEWAY_UNAVAILABLE''), g)
      | Some s \<Rightarrow>
      (case sn_Listeners s port of
        None \<Rightarrow> (Inl (deny 404 ''GATEWAY_NOT_FOUND''), g)
      | Some l \<Rightarrow>
          let public = allowsPublicRequest l (q_Method r) (q_Path r);
              cred = authenticate (e_hmac en) (gh_pepper h) (e_now en) s
                       (header_get (q_Header r) APIKeyHeader)
          in if cred = None \<and> \<not> public then
               (Inl (writeGatewayError (header_set ''WWW-Authenticate'' ''ApiKey'' w)
                  (q_CorrelationID r) 401 ''GATEWAY_UNAUTHORIZED''),
                count_event AuthenticationFailure g)
             else if \<not> public \<and> (case cred of None \<Rightarrow> False
                        | Some c \<Rightarrow> l_RequiredPermission l \<notin> set (c_Permissions c)) then
               (Inl (deny 403 ''GATEWAY_FORBIDDEN''), g)
             else if q_Method r \<notin> set (l_AllowedMethods l) then
               (Inl (writeGatewayError (header_set ''Allow'' (joinKeys (l_AllowedMethods l)) w)
                  (q_CorrelationID r) 405 ''GATEWAY_METHOD_NOT_ALLOWED''), g)
             else if \<not> contentTypeAllowed (e_parse_media en) l r then
               (Inl (deny 415 ''GATEWAY_UNSUPPORTED_MEDIA_TYPE''), g)
             else if l_MaxRequestBytes l < q_ContentLength r then
               (Inl (deny 413 ''GATEWAY_REQUEST_TOO_LARGE''), g)
             else (Inr (port, s, l, cred), g))))"

text \<open>The rate limit and the quota.\<close>

definition apply_policy ::
  "'c gateway_handler \<Rightarrow> header \<Rightarrow> request \<Rightarrow> snapshot \<Rightarrow> listener \<Rightarrow> credential option \<Rightarrow>
   'c gateway \<Rightarrow> (response, unit) result \<times> 'c gateway" where
  "apply_policy h w r s l cred g =
     (let deny = writeGatewayError w (q_CorrelationID r)
      in if 0 < l_RateLimitPerSecond l \<or> 0 < l_QuotaRequestsPerMinute l then
        (case gh_coordinator h of
           None \<Rightarrow> (Inl (deny 503 ''GATEWAY_POLICY_UNAVAILABLE''), g)
         | Some C \<Rightarrow>
             let consumer = (case cred of None \<Rightarrow> ''public'' | Some c \<Rightarrow> c_ConsumerID c)
             in case co_AllowRequest C (sn_Environment s) (l_ID l) consumer
                       (l_RateLimitPerSecond l) (l_RateLimitBurst l) (l_QuotaRequestsPerMinute l)
                       (g_coord g) of
                  (Inl _, c') \<Rightarrow> (Inl (deny 503 ''GATEWAY_POLICY_UNAVAILABLE''),
                                 count_event CoordinationFailure (g\<lparr>g_coord := c'\<rparr>))
                | (Inr decision, c') \<Rightarrow>
                    if decision = DecisionRateLimited then
                      (Inl (writeGatewayError (header_set ''Retry-After'' ''1'' w) (q_CorrelationID r)
                          429 ''GATEWAY_RATE_LIMITED''),
                       count_event RateLimited (g\<lparr>g_coord := c'\<rparr>))
                    else if decision = DecisionQuotaExceeded then
                      (Inl (writeGatewayError (header_set ''Retry-After'' ''60'' w) (q_CorrelationID r)
                          429 ''GATEWAY_QUOTA_EXCEEDED''),
                       count_event QuotaExceeded (g\<lparr>g_coord := c'\<rparr>))
                    else (Inr (), g\<lparr>g_coord := c'\<rparr>))
      else (Inr (), g))"

text \<open>The circuits of the listener's upstreams; the first failing call ends the loop.\<close>

fun query_circuits ::
  "'c coordinator \<Rightarrow> string \<Rightarrow> upstream list \<Rightarrow> circuits \<Rightarrow> 'c \<Rightarrow> (unit, circuits) result \<times> 'c" where
  "query_circuits C environment [] blocked c = (Inr blocked, c)"
| "query_circuits C environment (u # us) blocked c =
     (case co_CircuitOpen C environment (u_ID u) c of
        (Inl _, c') \<Rightarrow> (Inl (), c')
      | (Inr is_open, c') \<Rightarrow> query_circuits C environment us (AList.update (u_ID u) is_open blocked) c')"

definition check_circuits ::
  "'c gateway_handler \<Rightarrow> header \<Rightarrow> request \<Rightarrow> snapshot \<Rightarrow> listener \<Rightarrow> 'c gateway \<Rightarrow>
   (response, circuits) result \<times> 'c gateway" where
  "check_circuits h w r s l g =
     (let deny = writeGatewayError w (q_CorrelationID r)
      in if 0 < l_CircuitFailureThreshold l then
        (case gh_coordinator h of
           None \<Rightarrow> (Inl (deny 503 ''GATEWAY_POLICY_UNAVAILABLE''), g)
         | Some C \<Rightarrow>
             (case query_circuits C (sn_Environment s) (l_Upstreams l) [] (g_coord g) of
                (Inl _, c') \<Rightarrow> (Inl (deny 503 ''GATEWAY_POLICY_UNAVAILABLE''),
                               count_event CoordinationFailure (g\<lparr>g_coord := c'\<rparr>))
              | (Inr blocked, c') \<Rightarrow> (Inr blocked, g\<lparr>g_coord := c'\<rparr>)))
      else (Inr [], g))"

text \<open>The choice moves the cursor of the listener in the snapshot.\<close>

definition choose_upstream ::
  "env \<Rightarrow> header \<Rightarrow> request \<Rightarrow> int \<Rightarrow> listener \<Rightarrow> circuits \<Rightarrow> 'c gateway \<Rightarrow>
   (response, upstream) result \<times> 'c gateway" where
  "choose_upstream en w r port l blocked g =
     (case SelectUpstreamWhere (e_health1 en) (e_health2 en)
             (Some (\<lambda>u. \<not> is_blocked blocked (u_ID u))) l of
        (choice, l') \<Rightarrow>
          let g' = g\<lparr>g_snapshot :=
                map_option (\<lambda>s. s\<lparr>sn_Listeners := (sn_Listeners s)(port \<mapsto> l')\<rparr>) (g_snapshot g)\<rparr>
          in case choice of
               Some u \<Rightarrow> (Inr u, g')
             | None \<Rightarrow>
                 if blocked \<noteq> [] \<and> anyBlocked blocked then
                   (Inl (writeGatewayError w (q_CorrelationID r) 503 ''GATEWAY_CIRCUIT_OPEN''),
                    count_event CircuitOpenRejection g')
                 else (Inl (writeGatewayError w (q_CorrelationID r) 503
                          ''GATEWAY_NO_HEALTHY_UPSTREAM''), g'))"

definition rewrite_request :: "upstream \<Rightarrow> string \<Rightarrow> out_request \<Rightarrow> out_request" where
  "rewrite_request u correlation out =
     out\<lparr>o_Scheme := URLScheme u, o_Host := Some (Authority u),
         o_Header := header_set ''X-Correlation-ID'' correlation
           (header_del ''Authorization'' (header_del APIKeyHeader (header_del ListenerPortHeader
             (stripForwardingHeaders (o_Header out)))))\<rparr>"

text \<open>
  \<open>check_circuits\<close> has already rejected a request that needs a coordinator when there is none, so
  the second branch of \<open>modify_response\<close> is not reached (the code would dereference nil there).
\<close>

definition modify_response ::
  "'c gateway_handler \<Rightarrow> snapshot \<Rightarrow> listener \<Rightarrow> upstream \<Rightarrow> upstream_response \<Rightarrow> 'c gateway \<Rightarrow>
   (proxy_error, upstream_response) result \<times> 'c gateway" where
  "modify_response h s l u res g =
     (let res' = res\<lparr>ur_Header := header_del ''Server'' (ur_Header res)\<rparr>
      in if 0 < l_CircuitFailureThreshold l then
        (case gh_coordinator h of
           None \<Rightarrow> (Inl other_error, g)
         | Some C \<Rightarrow>
             (case co_RecordUpstream C (sn_Environment s) (u_ID u) (ur_StatusCode res < 500)
                     (l_CircuitFailureThreshold l) (l_CircuitOpen l) (g_coord g) of
                (Inl _, c') \<Rightarrow> (Inl (other_error\<lparr>pe_Coordination := True\<rparr>),
                               count_event CoordinationFailure (g\<lparr>g_coord := c'\<rparr>))
              | (Inr _, c') \<Rightarrow> (Inr res', g\<lparr>g_coord := c'\<rparr>)))
      else (Inr res', g))"

definition handle_error ::
  "'c gateway_handler \<Rightarrow> env \<Rightarrow> header \<Rightarrow> request \<Rightarrow> snapshot \<Rightarrow> listener \<Rightarrow> upstream \<Rightarrow>
   proxy_error \<Rightarrow> 'c gateway \<Rightarrow> response \<times> 'c gateway" where
  "handle_error h en w r s l u err g0 =
     (let deny = writeGatewayError w (q_CorrelationID r);
          g = count_event UpstreamFailure g0
      in if pe_TooLarge err then (deny 413 ''GATEWAY_REQUEST_TOO_LARGE'', g)
         else if pe_Coordination err then (deny 503 ''GATEWAY_POLICY_UNAVAILABLE'', g)
         else let g' = (if 0 < l_CircuitFailureThreshold l then
                          (case gh_coordinator h of
                             None \<Rightarrow> g
                           | Some C \<Rightarrow> g\<lparr>g_coord := snd (co_RecordUpstream C (sn_Environment s) (u_ID u)
                                False (l_CircuitFailureThreshold l) (l_CircuitOpen l) (g_coord g))\<rparr>)
                        else g)
              in if pe_Deadline err \<or> e_expired en then (deny 504 ''GATEWAY_UPSTREAM_TIMEOUT'', g')
                 else (deny 503 ''GATEWAY_UPSTREAM_UNAVAILABLE'', g'))"

definition forward_request ::
  "'c gateway_handler \<Rightarrow> env \<Rightarrow> header \<Rightarrow> request \<Rightarrow> snapshot \<Rightarrow> listener \<Rightarrow> upstream \<Rightarrow>
   'c gateway \<Rightarrow> (response \<times> out_request option) \<times> 'c gateway" where
  "forward_request h en w r s l u g =
     reverse_proxy (rewrite_request u (q_CorrelationID r)) (modify_response h s l u)
       (handle_error h en w r s l u) en w
       \<lparr>o_Method = q_Method r, o_Path = q_Path r, o_Scheme = [], o_Host = None,
        o_Header = q_Header r,
        o_BodyLimit = (if q_HasBody r \<and> q_ContentLength r \<noteq> 0 then Some (l_MaxRequestBytes l) else None),
        o_Timeout = l_RequestTimeout l\<rparr> g"

text \<open>A denied step ends the handler with its response and nothing sent.\<close>

definition and_then ::
  "(response, 'a) result \<times> 'c gateway \<Rightarrow>
   ('a \<Rightarrow> 'c gateway \<Rightarrow> (response \<times> out_request option) \<times> 'c gateway) \<Rightarrow>
   (response \<times> out_request option) \<times> 'c gateway" where
  "and_then m f = (case m of (Inl p, g) \<Rightarrow> ((p, None), g) | (Inr x, g) \<Rightarrow> f x g)"

definition ServeHTTP ::
  "'c gateway_handler \<Rightarrow> env \<Rightarrow> header \<Rightarrow> request \<Rightarrow> 'c gateway \<Rightarrow>
   (response \<times> out_request option) \<times> 'c gateway" where
  "ServeHTTP h en w r g =
     and_then (admit h en w r g) (\<lambda>(port, s, l, cred) g1.
     and_then (apply_policy h w r s l cred g1) (\<lambda>_ g2.
     and_then (check_circuits h w r s l g2) (\<lambda>blocked g3.
     and_then (choose_upstream en w r port l blocked g3) (\<lambda>u g4.
     forward_request h en w r s l u g4))))"

text \<open>
  The coordinator of the program is the Redis client: \<open>online\<close> says whether its calls reach the
  server, \<open>now\<close> is its clock.
\<close>

definition redis_coordinator :: "'s redis \<Rightarrow> bool \<Rightarrow> int \<Rightarrow> 's coordinator" where
  "redis_coordinator R online now =
     \<lparr>co_AllowRequest = AllowRequest R online now,
      co_CircuitOpen = (\<lambda>environment u s. (CircuitOpen R online environment u s, s)),
      co_RecordUpstream = RecordUpstream R online\<rparr>"

end
