(* ===== verification/Round_Robin.thy ===== *)
theory Round_Robin
  imports Snapshot "HOL-Library.Multiset"
begin

text \<open>
  What the weighted round robin of \<open>Listener.SelectUpstreamWhere\<close> promises: whatever it
  returns is eligible, it returns an upstream whenever one is eligible and stays so, and over one
  period every eligible upstream is chosen exactly as often as its weight says.
\<close>

section \<open>Weights\<close>

definition weight_sum :: "(upstream \<Rightarrow> bool) \<Rightarrow> upstream list \<Rightarrow> int" where
  "weight_sum ok us = (\<Sum>u \<leftarrow> filter ok us. u_Weight u)"

definition positive_weights :: "upstream list \<Rightarrow> bool" where
  "positive_weights us \<longleftrightarrow> (\<forall>u \<in> set us. 1 \<le> u_Weight u)"

lemma weight_sum_Nil [simp]: "weight_sum ok [] = 0"
  by (simp add: weight_sum_def)

lemma weight_sum_Cons [simp]:
  "weight_sum ok (u # us) = (if ok u then u_Weight u else 0) + weight_sum ok us"
  by (simp add: weight_sum_def)

lemma positive_weights_Cons [simp]:
  "positive_weights (u # us) \<longleftrightarrow> 1 \<le> u_Weight u \<and> positive_weights us"
  by (simp add: positive_weights_def)

lemma weight_sum_nonneg: "positive_weights us \<Longrightarrow> 0 \<le> weight_sum ok us"
  by (induction us) auto

lemma weight_sum_mono:
  "positive_weights us \<Longrightarrow> (\<And>u. u \<in> set us \<Longrightarrow> ok1 u \<Longrightarrow> ok2 u) \<Longrightarrow>
   weight_sum ok1 us \<le> weight_sum ok2 us"
  by (induction us) (auto simp: positive_weights_def)

lemma weight_sum_pos_iff:
  "positive_weights us \<Longrightarrow> 0 < weight_sum ok us \<longleftrightarrow> (\<exists>u \<in> set us. ok u)"
proof (induction us)
  case (Cons u us)
  then show ?case using weight_sum_nonneg [of us ok] by auto
qed simp

lemma total_weight_eq:
  "positive_weights us \<Longrightarrow> 0 \<le> acc \<Longrightarrow> acc + weight_sum ok us < 2 ^ 63 \<Longrightarrow>
   total_weight ok acc us = acc + weight_sum ok us"
proof (induction us arbitrary: acc)
  case (Cons u us)
  have "acc + (if ok u then u_Weight u else 0) < 2 ^ 63"
    using Cons.prems weight_sum_nonneg [of us ok] by auto
  with Cons show ?case by (auto simp: in_int64_nonneg)
qed simp

section \<open>Slots\<close>

lemma pick_slot_Some: "pick_slot ok s us = Some u \<Longrightarrow> u \<in> set us \<and> ok u"
  by (induction ok s us rule: pick_slot.induct) (auto split: if_splits)

lemma pick_slot_shift:
  "positive_weights us \<Longrightarrow> 1 \<le> u_Weight u \<Longrightarrow> ok u \<Longrightarrow> 0 \<le> s \<Longrightarrow> s + u_Weight u < 2 ^ 63 \<Longrightarrow>
   pick_slot ok (s + u_Weight u) (u # us) = pick_slot ok s us"
  by (simp add: in_int64_nonneg)

lemma pick_slot_total:
  "positive_weights us \<Longrightarrow> 0 \<le> s \<Longrightarrow> s < weight_sum ok us \<Longrightarrow> s < 2 ^ 63 \<Longrightarrow>
   \<exists>u. pick_slot ok s us = Some u"
proof (induction us arbitrary: s)
  case (Cons u us)
  show ?case
  proof (cases "ok u \<and> u_Weight u \<le> s")
    case True
    with Cons.prems have "int64 (s - u_Weight u) = s - u_Weight u"
      by (intro int64_id in_int64_nonneg) auto
    with True Cons show ?thesis by auto
  qed (use Cons in auto)
qed simp

lemma pick_slot_Some_less:
  "positive_weights us \<Longrightarrow> 0 \<le> s \<Longrightarrow> s < 2 ^ 63 \<Longrightarrow> pick_slot ok s us = Some u \<Longrightarrow> s < weight_sum ok us"
proof (induction us arbitrary: s)
  case (Cons v us)
  show ?case
  proof (cases "ok v \<and> u_Weight v \<le> s")
    case True
    with Cons.prems have "int64 (s - u_Weight v) = s - u_Weight v"
      by (intro int64_id in_int64_nonneg) auto
    with True Cons.IH [of "s - u_Weight v"] Cons.prems show ?thesis by simp
  next
    case False
    with Cons weight_sum_nonneg [of us ok] show ?thesis by (cases "ok v") auto
  qed
qed simp

text \<open>The slots \<open>0, \<dots>, total - 1\<close> give each eligible upstream as many as its weight.\<close>

lemma map_shift_upt: "map f [k..<k + n] = map (\<lambda>i. f (k + i)) [0..<n]"
  by (induction n) auto

lemma count_list_replicate: "count_list (replicate n x) y = (if x = y then n else 0)"
  by (induction n) auto

lemma count_list_eq_0: "(\<And>x. x \<in> set xs \<Longrightarrow> x \<noteq> y) \<Longrightarrow> count_list xs y = 0"
  by (induction xs) auto

lemma slots_split:
  assumes "positive_weights us" and "1 \<le> u_Weight u" and "ok u"
    and "weight_sum ok (u # us) < 2 ^ 63"
  shows "map (\<lambda>i. pick_slot ok (int i) (u # us)) [0..<nat (weight_sum ok (u # us))] =
         replicate (nat (u_Weight u)) (Some u) @
         map (\<lambda>i. pick_slot ok (int i) us) [0..<nat (weight_sum ok us)]"
proof -
  let ?w = "nat (u_Weight u)" and ?n = "nat (weight_sum ok us)"
  have pos: "0 \<le> weight_sum ok us" using assms(1) by (rule weight_sum_nonneg)
  then have split: "nat (weight_sum ok (u # us)) = ?w + ?n"
    using assms by (simp add: nat_add_distrib)
  have low: "map (\<lambda>i. pick_slot ok (int i) (u # us)) [0..<?w] = replicate ?w (Some u)"
    using assms by (intro nth_equalityI) auto
  have "pick_slot ok (int (?w + i)) (u # us) = pick_slot ok (int i) us" if "i < ?n" for i
    using pick_slot_shift [of us u ok "int i"] assms pos that by (simp add: add.commute)
  then have high: "map (\<lambda>i. pick_slot ok (int i) (u # us)) [?w..<?w + ?n] =
      map (\<lambda>i. pick_slot ok (int i) us) [0..<?n]"
    unfolding map_shift_upt by (intro map_cong) auto
  have "[0..<?w + ?n] = [0..<?w] @ [?w..<?w + ?n]"
    by (rule upt_add_eq_append) simp
  then show ?thesis unfolding split using low high by simp
qed

lemma slots_count:
  "positive_weights us \<Longrightarrow> distinct us \<Longrightarrow> weight_sum ok us < 2 ^ 63 \<Longrightarrow> u \<in> set us \<Longrightarrow> ok u \<Longrightarrow>
   count_list (map (\<lambda>i. pick_slot ok (int i) us) [0..<nat (weight_sum ok us)]) (Some u) =
   nat (u_Weight u)"
proof (induction us)
  case (Cons v us)
  have absent: "count_list (map (\<lambda>i. pick_slot ok (int i) us) is) (Some v) = 0" for "is"
    using Cons.prems(2) by (intro count_list_eq_0) (auto dest: pick_slot_Some)
  show ?case
  proof (cases "ok v")
    case True
    from Cons.prems have bound: "weight_sum ok us < 2 ^ 63" by (auto split: if_splits)
    have "count_list (map (\<lambda>i. pick_slot ok (int i) (v # us)) [0..<nat (weight_sum ok (v # us))]) (Some u)
        = (if u = v then nat (u_Weight v) else 0)
          + count_list (map (\<lambda>i. pick_slot ok (int i) us) [0..<nat (weight_sum ok us)]) (Some u)"
      using Cons.prems True by (subst slots_split) (auto simp: count_list_replicate)
    then show ?thesis using Cons absent bound by (cases "u = v") auto
  next
    case False
    with Cons show ?thesis by auto
  qed
qed simp

section \<open>The cursor\<close>

lemma slot_index:
  assumes "0 < t" and "t < 2 ^ 63"
  shows "sint (c mod (word_of_int t :: 64 word)) = uint c mod t"
proof -
  have t: "uint (word_of_int t :: 64 word) = t"
    using assms by (simp add: uint_word_of_int)
  have "uint c mod t < t" using assms(1) by (rule pos_mod_bound)
  then have "uint c mod t < 2 ^ 63" using assms(2) by (rule order.strict_trans)
  moreover have "0 \<le> uint c mod t" using assms(1) by simp
  ultimately have "signed_take_bit 63 (uint c mod t) = uint c mod t"
    by (intro signed_take_bit_int_eq_self) auto
  then show ?thesis
    by (simp add: sint_uint uint_mod t)
qed

lemma rotated_slots: "0 < n \<Longrightarrow> mset (map (\<lambda>i. (c + i) mod n) [0..<n]) = mset [0..<n]"
proof -
  assume "0 < n"
  then have "map (\<lambda>i. (c + i) mod n) [0..<n] = rotate c [0..<n]"
    by (intro nth_equalityI) (auto simp: nth_rotate)
  then show ?thesis
    by (metis append_take_drop_id mset_append rotate_drop_take union_commute)
qed

text \<open>Successive selections with steady health, threading the listener.\<close>

fun select_run :: "nat \<Rightarrow> health \<Rightarrow> (upstream \<Rightarrow> bool) option \<Rightarrow> listener \<Rightarrow> upstream option list" where
  "select_run 0 h allowed l = []"
| "select_run (Suc n) h allowed l =
     (case SelectUpstreamWhere h h allowed l of (u, l') \<Rightarrow> u # select_run n h allowed l')"

text \<open>A listener whose weights \<open>SelectUpstreamWhere\<close> can add up in 64 bits.\<close>

definition balanced :: "listener \<Rightarrow> bool" where
  "balanced l \<longleftrightarrow> positive_weights (l_Upstreams l)
     \<and> weight_sum (\<lambda>_. True) (l_Upstreams l) < 2 ^ 63"

lemma balanced_bound: "balanced l \<Longrightarrow> weight_sum ok (l_Upstreams l) < 2 ^ 63"
  using weight_sum_mono [of "l_Upstreams l" ok "\<lambda>_. True"] by (auto simp: balanced_def)

lemma balanced_total:
  "balanced l \<Longrightarrow> total_weight ok 0 (l_Upstreams l) = weight_sum ok (l_Upstreams l)"
  using total_weight_eq [of "l_Upstreams l" 0 ok] balanced_bound [of l ok]
  by (simp add: balanced_def)

lemma select_balanced:
  assumes "balanced l" and "0 < weight_sum (eligible h1 allowed) (l_Upstreams l)"
  shows "SelectUpstreamWhere h1 h2 allowed l =
     (pick_slot (eligible h2 allowed)
        (uint (l_cursor l) mod weight_sum (eligible h1 allowed) (l_Upstreams l)) (l_Upstreams l),
      l\<lparr>l_cursor := l_cursor l + 1\<rparr>)"
  using assms slot_index [OF assms(2) balanced_bound [OF assms(1)]]
  by (simp add: SelectUpstreamWhere_def balanced_total Let_def)

lemma select_run_slots:
  assumes "0 < weight_sum (eligible h allowed) us" (is "0 < ?t")
  shows "balanced l \<Longrightarrow> l_Upstreams l = us \<Longrightarrow> unat (l_cursor l) + n \<le> 2 ^ 64 \<Longrightarrow>
    select_run n h allowed l =
      map (\<lambda>i. pick_slot (eligible h allowed) (int ((unat (l_cursor l) + i) mod nat ?t)) us) [0..<n]"
proof (induction n arbitrary: l)
  case (Suc n)
  let ?l = "l\<lparr>l_cursor := l_cursor l + 1\<rparr>"
  have step: "SelectUpstreamWhere h h allowed l =
     (pick_slot (eligible h allowed) (int (unat (l_cursor l) mod nat ?t)) us, ?l)"
    using select_balanced [of l h allowed h] Suc.prems assms
    by (simp add: zmod_int)
  show ?case
  proof (cases n)
    case 0
    with step show ?thesis by simp
  next
    case (Suc m)
    with Suc.prems have "unat (l_cursor l) + 1 < 2 ^ 64" by simp
    then have next_cursor: "unat (l_cursor l + 1) = unat (l_cursor l) + 1"
      by (simp add: unat_word_ariths)
    have "select_run n h allowed ?l =
       map (\<lambda>i. pick_slot (eligible h allowed) (int ((unat (l_cursor l) + 1 + i) mod nat ?t)) us) [0..<n]"
      using Suc.IH [of ?l] Suc.prems next_cursor by (simp add: balanced_def)
    moreover have "[0..<Suc n] = 0 # map Suc [0..<n]"
      by (simp add: upt_conv_Cons map_Suc_upt)
    ultimately show ?thesis using step by (simp del: upt_Suc)
  qed
qed simp

section \<open>Properties\<close>

text \<open>
  Whatever the health flags do between the two passes of
  \<open>SelectUpstreamWhere\<close>, the upstream it returns is one of the listener's, was healthy when
  the second pass read its flag, and is admitted by the filter.
\<close>

lemma select_sound:
  assumes "SelectUpstreamWhere h1 h2 allowed l = (Some u, l')"
  shows "u \<in> set (l_Upstreams l) \<and> Healthy h2 u \<and> admits allowed u"
  using assms
  by (auto simp: SelectUpstreamWhere_def Let_def eligible_def split: if_splits
      dest!: pick_slot_Some)

text \<open>
  Claim C33: \<open>SelectUpstreamWhere\<close> answers nil exactly when no upstream is eligible in its first pass
  or the slot drawn from the weights of the first pass lies beyond the weights of the upstreams that
  are eligible in the second. So an upstream is selected whenever one is eligible and none of the
  eligible ones loses its health in between; when one does, the answer can be nil although others
  are healthy throughout.
\<close>

theorem select_complete:
  assumes "balanced l" and "weight = weight_sum (eligible h1 allowed) (l_Upstreams l)"
  shows "(fst (SelectUpstreamWhere h1 h2 allowed l) = None \<longleftrightarrow>
      (\<forall>u \<in> set (l_Upstreams l). \<not> eligible h1 allowed u)
      \<or> weight_sum (eligible h2 allowed) (l_Upstreams l) \<le> uint (l_cursor l) mod weight)
    \<and> ((\<forall>u \<in> set (l_Upstreams l). eligible h1 allowed u \<longrightarrow> eligible h2 allowed u) \<longrightarrow>
      (fst (SelectUpstreamWhere h1 h2 allowed l) = None \<longleftrightarrow>
        (\<forall>u \<in> set (l_Upstreams l). \<not> eligible h1 allowed u)))"
proof (cases "0 < weight")
  case True
  let ?w2 = "weight_sum (eligible h2 allowed) (l_Upstreams l)"
  let ?s = "uint (l_cursor l) mod weight"
  have pos: "positive_weights (l_Upstreams l)" using assms(1) by (simp add: balanced_def)
  have some: "\<not> (\<forall>u \<in> set (l_Upstreams l). \<not> eligible h1 allowed u)"
    using True weight_sum_pos_iff [OF pos, of "eligible h1 allowed"] assms(2) by auto
  have s: "0 \<le> ?s" "?s < weight" "?s < 2 ^ 63"
    using True balanced_bound [OF assms(1), of "eligible h1 allowed"] assms(2)
    by (auto intro: pos_mod_bound order.strict_trans [OF pos_mod_bound])
  have pick: "fst (SelectUpstreamWhere h1 h2 allowed l) = pick_slot (eligible h2 allowed) ?s (l_Upstreams l)"
    using select_balanced [OF assms(1)] True assms(2) by simp
  then have none: "fst (SelectUpstreamWhere h1 h2 allowed l) = None \<longleftrightarrow> ?w2 \<le> ?s"
    using pick_slot_total [OF pos s(1) _ s(3)] pick_slot_Some_less [OF pos s(1,3)]
    by (metis not_less not_None_eq)
  moreover have "weight \<le> ?w2"
    if "\<forall>u \<in> set (l_Upstreams l). eligible h1 allowed u \<longrightarrow> eligible h2 allowed u"
    unfolding assms(2) using pos that by (intro weight_sum_mono) auto
  ultimately show ?thesis using some s(2) by auto
next
  case False
  moreover have "0 \<le> weight" unfolding assms(2)
    using assms(1) by (intro weight_sum_nonneg) (simp add: balanced_def)
  ultimately have "weight = 0" by simp
  then show ?thesis
    using False weight_sum_pos_iff [of "l_Upstreams l" "eligible h1 allowed"] assms
    by (auto simp: SelectUpstreamWhere_def balanced_total balanced_def)
qed

text \<open>
  Claim C12: over one full period (as many selections as the eligible weights add up to)
  with steady health, each eligible upstream is selected exactly as often as its weight,
  from any cursor that does not wrap around in that period.
\<close>

theorem round_robin_fair:
  assumes "balanced l" and "distinct (l_Upstreams l)"
    and "u \<in> set (l_Upstreams l)" and "eligible h allowed u"
    and "period = nat (weight_sum (eligible h allowed) (l_Upstreams l))"
    and "unat (l_cursor l) + period \<le> 2 ^ 64"
  shows "count_list (select_run period h allowed l) (Some u) = nat (u_Weight u)"
proof -
  let ?ok = "eligible h allowed" and ?us = "l_Upstreams l"
  let ?f = "\<lambda>i. pick_slot ?ok (int i) ?us"
  have pos: "0 < weight_sum ?ok ?us"
    using assms weight_sum_pos_iff [of ?us ?ok] by (auto simp: balanced_def)
  have "mset (select_run period h allowed l) =
      image_mset ?f (mset (map (\<lambda>i. (unat (l_cursor l) + i) mod period) [0..<period]))"
    using select_run_slots [OF pos, of l period] assms(1,5,6)
    by (simp add: image_mset.compositionality comp_def)
  also have "\<dots> = mset (map ?f [0..<period])"
    using pos assms(5) by (subst rotated_slots) auto
  finally have "count_list (select_run period h allowed l) (Some u) =
      count_list (map ?f [0..<period]) (Some u)"
    by (simp flip: count_mset)
  then show ?thesis
    using slots_count [of ?us ?ok u] assms balanced_bound [OF assms(1), of ?ok]
    by (simp add: balanced_def)
qed

section \<open>Witnesses\<close>

definition example_upstream :: "string \<Rightarrow> int \<Rightarrow> nat \<Rightarrow> upstream" where
  "example_upstream i w r = \<lparr>u_ID = i, u_Scheme = ''http'', u_Address = V4 0x0A000001,
     u_Port = 8080, u_Weight = w, u_HealthCheckPath = ''/health'', u_ref = r\<rparr>"

definition example_listener :: "listener" where
  "example_listener = \<lparr>l_ID = ''lis_1'', l_Port = 4100, l_Status = ''active'',
     l_RequiredPermission = ''api:v1:read'', l_AllowedMethods = [''GET''],
     l_AllowedContentTypes = [''application/json''], l_UnprotectedRouteRegex = None,
     l_RequestTimeout = 30000000000, l_MaxRequestBytes = 1024,
     l_Upstreams = [example_upstream ''a'' 2 0, example_upstream ''b'' 1 1],
     l_RateLimitPerSecond = 0, l_RateLimitBurst = 0, l_QuotaRequestsPerMinute = 0,
     l_CircuitFailureThreshold = 5, l_CircuitOpen = 30000000000, l_cursor = 0\<rparr>"

lemmas example_defs = example_listener_def example_upstream_def

lemma example_balanced: "balanced example_listener"
  by (simp add: balanced_def example_defs positive_weights_def)

text \<open>
  With every flag up an upstream is selected. When the second upstream goes down between the passes,
  the last slot is lost although the first upstream is healthy in both.
\<close>

theorem select_complete_witness:
  "fst (SelectUpstreamWhere (\<lambda>_. True) (\<lambda>_. True) None example_listener) \<noteq> None
   \<and> fst (SelectUpstreamWhere (\<lambda>_. True) (\<lambda>n. n = 0) None (example_listener\<lparr>l_cursor := 2\<rparr>)) = None"
proof -
  have "balanced (example_listener\<lparr>l_cursor := 2\<rparr>)" using example_balanced by (simp add: balanced_def)
  from select_complete [of _ _ "\<lambda>_. True" None "\<lambda>n. n = 0", OF this refl]
    select_complete [of _ _ "\<lambda>_. True" None "\<lambda>_. True", OF example_balanced refl]
  show ?thesis by (auto simp: example_defs eligible_def Healthy_def admits_def weight_sum_def)
qed

theorem round_robin_fair_witness:
  "count_list (select_run 3 (\<lambda>_. True) None example_listener)
     (Some (example_upstream ''a'' 2 0)) = 2"
  using round_robin_fair [OF example_balanced, of "example_upstream ''a'' 2 0" "\<lambda>_. True" None 3]
  by (simp add: example_defs eligible_def Healthy_def admits_def weight_sum_def)

end
