(* ===== verification/Snapshot_Build.thy ===== *)
theory Snapshot_Build
  imports Round_Robin
begin

text \<open>
  What \<open>buildSnapshot\<close> guarantees: everything in a snapshot is well formed, the listeners are
  exactly the configured ones that take traffic, an upstream outside the allowlist rejects the
  whole configuration, and listeners share upstream objects only as their versions do.
\<close>

section \<open>Well-formed upstreams and pools\<close>

definition upstream_wf :: "cidr list \<Rightarrow> upstream \<Rightarrow> bool" where
  "upstream_wf allowlist u \<longleftrightarrow>
     (u_Scheme u = ''http'' \<or> u_Scheme u = ''https'') \<and> allowedAddress (u_Address u) allowlist
     \<and> 1 \<le> u_Port u \<and> u_Port u \<le> 65535 \<and> 1 \<le> u_Weight u \<and> has_prefix (u_HealthCheckPath u) ''/''"

lemma load_upstream_wf:
  "load_upstream allowlist versions ref item = Inr (Some u) \<Longrightarrow>
   upstream_wf allowlist u \<and> u_ref u = ref \<and> u_ID u = ru_ID item"
  by (auto simp: load_upstream_def upstream_wf_def Let_def split: if_splits option.splits)

text \<open>
  The invariant of the loop over the raw upstreams: the pools hold well-formed upstreams
  whose identities are below the next one and differ within and across pools.
\<close>

definition pools_inv :: "cidr list \<Rightarrow> nat \<Rightarrow> pools \<Rightarrow> bool" where
  "pools_inv allowlist ref ps \<longleftrightarrow>
     (\<forall>k. \<forall>u \<in> set (ps k). upstream_wf allowlist u \<and> u_ref u < ref)
     \<and> (\<forall>k. distinct (map u_ref (ps k)))
     \<and> (\<forall>k k'. \<forall>u \<in> set (ps k). \<forall>u' \<in> set (ps k'). u_ref u = u_ref u' \<longrightarrow> k = k')"

lemma pools_inv_same_pool:
  "pools_inv allowlist ref ps \<Longrightarrow> u \<in> set (ps k) \<Longrightarrow> u' \<in> set (ps k') \<Longrightarrow>
   u_ref u = u_ref u' \<Longrightarrow> k = k'"
  unfolding pools_inv_def by blast

lemma pools_inv_same_object:
  "pools_inv allowlist ref ps \<Longrightarrow> u \<in> set (ps k) \<Longrightarrow> u' \<in> set (ps k) \<Longrightarrow>
   u_ref u = u_ref u' \<Longrightarrow> u = u'"
  unfolding pools_inv_def by (meson distinct_key_unique)

lemma pools_inv_append:
  assumes "pools_inv allowlist ref ps" and "upstream_wf allowlist u" and "u_ref u = ref"
  shows "pools_inv allowlist (Suc ref) (ps(k := ps k @ [u]))"
  using assms unfolding pools_inv_def
  by (auto simp: less_Suc_eq split: if_splits) fastforce+

lemma load_upstreams_inv:
  "load_upstreams allowlist versions ref items ps = Inr ps' \<Longrightarrow> pools_inv allowlist ref ps \<Longrightarrow>
   \<exists>ref'. pools_inv allowlist ref' ps'"
proof (induction items arbitrary: ref ps)
  case (Cons item items)
  show ?case
  proof (cases "load_upstream allowlist versions ref item")
    case (Inr r)
    show ?thesis
    proof (cases r)
      case (Some u)
      with Inr have "upstream_wf allowlist u" and "u_ref u = ref"
        by (auto dest: load_upstream_wf)
      with Cons.prems(2) have "pools_inv allowlist (Suc ref)
          (ps(ru_ServiceVersionID item := ps (ru_ServiceVersionID item) @ [u]))"
        by (rule pools_inv_append)
      moreover have "load_upstreams allowlist versions (Suc ref) items
          (ps(ru_ServiceVersionID item := ps (ru_ServiceVersionID item) @ [u])) = Inr ps'"
        using Cons.prems(1) Inr Some by simp
      ultimately show ?thesis by (intro Cons.IH)
    qed (use Cons Inr in auto)
  qed (use Cons in auto)
qed auto

text \<open>The pool of a version that is in use holds its usable upstreams, in their order.\<close>

definition usable :: "string \<Rightarrow> raw_upstream \<Rightarrow> bool" where
  "usable vid item \<longleftrightarrow> ru_ServiceVersionID item = vid \<and> ru_Enabled item
     \<and> 1 \<le> ru_Port item \<and> ru_Port item \<le> 65535 \<and> 1 \<le> ru_Weight item"

lemma load_upstream_None:
  "load_upstream allowlist versions ref item = Inr None \<Longrightarrow> versions vid \<noteq> None \<Longrightarrow> \<not> usable vid item"
  by (auto simp: load_upstream_def usable_def Let_def split: if_splits option.splits)

text \<open>
  What an upstream is made of: the address is the one its text parses to, the scheme is \<open>http\<close> and the
  health path that of the version (\<open>/health\<close> when it has none) where the configuration leaves them empty.
\<close>

definition upstream_fields :: "upstream \<Rightarrow> string \<times> string \<times> addr option \<times> int \<times> int \<times> string" where
  "upstream_fields u =
     (u_ID u, u_Scheme u, Some (u_Address u), u_Port u, u_Weight u, u_HealthCheckPath u)"

definition or_default :: "string \<Rightarrow> string \<Rightarrow> string" where
  "or_default x y = (if x = [] then y else x)"

definition raw_fields :: "string \<Rightarrow> raw_upstream \<Rightarrow> string \<times> string \<times> addr option \<times> int \<times> int \<times> string" where
  "raw_fields path item =
     (ru_ID item, or_default (ru_Scheme item) ''http'', parse_addr (ru_Address item), ru_Port item,
      ru_Weight item, or_default (ru_HealthCheckPath item) path)"

lemma load_upstream_Some:
  "load_upstream allowlist versions ref item = Inr (Some u) \<Longrightarrow> versions vid = Some v \<Longrightarrow>
   (usable vid item \<longleftrightarrow> ru_ServiceVersionID item = vid)
   \<and> (ru_ServiceVersionID item = vid \<longrightarrow> upstream_fields u = raw_fields (rv_HealthCheckPath v) item)"
  by (auto simp: load_upstream_def usable_def upstream_fields_def raw_fields_def or_default_def Let_def
      split: if_splits option.splits)

lemma load_upstreams_complete:
  "load_upstreams allowlist versions ref items ps = Inr ps' \<Longrightarrow> versions vid = Some v \<Longrightarrow>
   map upstream_fields (ps' vid)
     = map upstream_fields (ps vid) @ map (raw_fields (rv_HealthCheckPath v)) (filter (usable vid) items)"
proof (induction items arbitrary: ref ps)
  case (Cons item items)
  show ?case
  proof (cases "load_upstream allowlist versions ref item")
    case (Inr r)
    show ?thesis
    proof (cases r)
      case None
      with Inr Cons.prems have "\<not> usable vid item" by (auto dest: load_upstream_None)
      with Cons Inr None show ?thesis by simp
    next
      case (Some u)
      with Inr Cons.prems(1) have "load_upstreams allowlist versions (Suc ref) items
          (ps(ru_ServiceVersionID item := ps (ru_ServiceVersionID item) @ [u])) = Inr ps'" by simp
      from Cons.IH [OF this Cons.prems(2)] Inr Some show ?thesis
        by (auto dest!: load_upstream_Some [where versions = versions and vid = vid and v = v, OF _ Cons.prems(2)])
    qed
  qed (use Cons in auto)
qed simp

lemma pools_inv_empty: "pools_inv allowlist 0 (\<lambda>_. [])"
  by (simp add: pools_inv_def)

section \<open>Key sets\<close>

lemma key_set_fold:
  "distinct acc \<Longrightarrow>
   distinct (foldl (\<lambda>acc x. List.insert (f x) acc) acc xs)
   \<and> set (foldl (\<lambda>acc x. List.insert (f x) acc) acc xs) = set acc \<union> f ` set xs"
  by (induction xs arbitrary: acc) auto

lemma distinct_key_set [simp]: "distinct (key_set f xs)"
  using key_set_fold [of "[]" f xs] by (simp add: key_set_def)

lemma set_key_set [simp]: "set (key_set f xs) = f ` set xs"
  using key_set_fold [of "[]" f xs] by (simp add: key_set_def)

section \<open>Versions and listeners\<close>

definition versions_ok :: "(string \<Rightarrow> bool) \<Rightarrow> (string \<rightharpoonup> raw_service_version) \<Rightarrow> bool" where
  "versions_ok enabled m \<longleftrightarrow>
     (\<forall>k v. m k = Some v \<longrightarrow> rv_ID v = k \<and> rv_Enabled v \<and> enabled (rv_ServiceID v)
        \<and> 0 < rv_RequestTimeoutMS v \<and> 0 < rv_MaxRequestBytes v)"

lemma versions_ok_upd:
  "versions_ok enabled m \<Longrightarrow> rv_Enabled v \<Longrightarrow> enabled (rv_ServiceID v) \<Longrightarrow>
   0 < rv_RequestTimeoutMS v \<Longrightarrow> 0 < rv_MaxRequestBytes v \<Longrightarrow> versions_ok enabled (m(rv_ID v \<mapsto> v))"
  by (auto simp: versions_ok_def)

lemma load_versions_ok:
  "load_versions enabled vs m = Inr m' \<Longrightarrow> versions_ok enabled m \<Longrightarrow> versions_ok enabled m'"
proof (induction vs arbitrary: m)
  case (Cons v0 vs)
  let ?v = "default_health_path v0"
  let ?good = "rv_Enabled ?v \<and> enabled (rv_ServiceID ?v) \<and> 0 < rv_RequestTimeoutMS ?v
    \<and> 0 < rv_MaxRequestBytes ?v"
  show ?case
  proof (cases ?good)
    case True
    with Cons.prems(2) have "versions_ok enabled (m(rv_ID ?v \<mapsto> ?v))"
      by (intro versions_ok_upd) auto
    moreover have "load_versions enabled vs (m(rv_ID ?v \<mapsto> ?v)) = Inr m'"
      using Cons.prems(1) True by (simp add: Let_def split: if_splits)
    ultimately show ?thesis by (intro Cons.IH)
  next
    case False
    with Cons show ?thesis
      by (intro Cons.IH) (auto simp: Let_def split: if_splits)
  qed
qed auto

lemma load_versions_known:
  "load_versions enabled vs m = Inr m' \<Longrightarrow> m' k = Some w \<Longrightarrow>
   m k = Some w \<or> (\<exists>v \<in> set vs. rv_ID v = k \<and> rv_Enabled v \<and> enabled (rv_ServiceID v) \<and> w = default_health_path v)"
proof (induction vs arbitrary: m)
  case (Cons v vs)
  have "rv_ID (default_health_path v) = rv_ID v" "rv_Enabled (default_health_path v) = rv_Enabled v"
    "rv_ServiceID (default_health_path v) = rv_ServiceID v"
    by (simp_all add: default_health_path_def)
  with Cons show ?case by (fastforce simp: Let_def split: if_splits)
qed simp

lemma enabled_fold:
  "foldl (\<lambda>m s. m(rs_ID s := rs_Enabled s)) m ss k \<Longrightarrow> m k \<or> (\<exists>s \<in> set ss. rs_ID s = k \<and> rs_Enabled s)"
proof (induction ss arbitrary: m)
  case (Cons s ss)
  from Cons.IH [of "m(rs_ID s := rs_Enabled s)"] Cons.prems show ?case by (auto split: if_splits)
qed simp

lemma enabled_services_row: "enabled_services ss k \<Longrightarrow> \<exists>s \<in> set ss. rs_ID s = k \<and> rs_Enabled s"
  using enabled_fold [of "\<lambda>_. False" ss k] by (simp add: enabled_services_def)

text \<open>The configured listeners that take traffic, and the listener each one becomes.\<close>

definition serving :: "raw_listener \<Rightarrow> bool" where
  "serving item \<longleftrightarrow> rl_Status item \<noteq> ''disabled'' \<and> rl_Status item \<noteq> ''draining''"

definition becomes ::
  "regex_compiler \<Rightarrow> (string \<rightharpoonup> raw_service_version) \<Rightarrow> pools \<Rightarrow> raw_listener \<Rightarrow> listener \<Rightarrow> bool" where
  "becomes compile versions ps item l \<longleftrightarrow>
     load_listener compile versions ps Map.empty item = Inr (Some l)"

lemma load_listener_None:
  "load_listener compile versions ps ls item = Inr None \<longleftrightarrow> \<not> serving item"
  by (auto simp: load_listener_def serving_def Let_def bind_ok_def split: option.splits if_splits sum.splits)

lemma load_listener_Some:
  "load_listener compile versions ps ls item = Inr (Some l) \<longleftrightarrow>
   becomes compile versions ps item l \<and> ls (rl_ListenPort item) = None"
  by (auto simp: load_listener_def becomes_def Let_def bind_ok_def split: option.splits if_splits sum.splits)

lemma becomes_serving: "becomes compile versions ps item l \<Longrightarrow> serving item"
  by (auto simp: becomes_def load_listener_def serving_def split: if_splits)

lemma becomes_fields:
  assumes "becomes compile versions ps item l"
  shows "l_ID l = rl_ID item" and "l_Port l = rl_ListenPort item"
    and "1 \<le> l_Port l" and "l_Port l \<le> 65535"
    and "l_RequiredPermission l = rl_RequiredPermission item"
    and "l_Upstreams l = sort_key u_ID (ps (rl_ServiceVersionID item))"
    and "ps (rl_ServiceVersionID item) \<noteq> []"
    and "set (l_AllowedMethods l) = to_upper ` set (rl_AllowedMethods item)"
    and "l_AllowedMethods l \<noteq> []" and "distinct (l_AllowedMethods l)"
    and "0 \<le> l_RateLimitPerSecond l" and "0 \<le> l_RateLimitBurst l"
    and "0 \<le> l_QuotaRequestsPerMinute l" and "0 \<le> l_CircuitFailureThreshold l"
    and "\<exists>v. versions (rl_ServiceVersionID item) = Some v
           \<and> l_MaxRequestBytes l = rv_MaxRequestBytes v
           \<and> l_RequestTimeout l = milliseconds (rv_RequestTimeoutMS v)"
    and "l_cursor l = 0"
    and "l_RateLimitPerSecond l = rl_RateLimitPerSecond item" and "l_RateLimitBurst l = rl_RateLimitBurst item"
    and "l_QuotaRequestsPerMinute l = rl_QuotaRequestsPerMinute item"
    and "l_CircuitFailureThreshold l = rl_CircuitFailureThreshold item"
    and "l_Status l = ''active''" and "l_CircuitOpen l = milliseconds (rl_CircuitOpenMS item)"
    and "set (l_AllowedContentTypes l) = to_lower ` set (if rl_AllowedContentTypes item = []
           then default_content_types else rl_AllowedContentTypes item)"
    and "compile_route_regex compile item = Inr (l_UnprotectedRouteRegex l)"
  using assms
  by (auto simp: becomes_def load_listener_def Let_def bind_ok_def split: option.splits if_splits sum.splits)

text \<open>The public routes of a listener are those of the expression it is configured with, if any.\<close>

definition public_routes :: "regex_compiler \<Rightarrow> string \<Rightarrow> matcher option \<Rightarrow> bool" where
  "public_routes compile regex re \<longleftrightarrow> (if regex = [] then re = None else compile regex = re \<and> re \<noteq> None)"

lemma compile_route_regex_Inr:
  "compile_route_regex compile item = Inr re \<Longrightarrow> public_routes compile (rl_UnprotectedRouteRegex item) re"
  by (cases "compile (rl_UnprotectedRouteRegex item)")
    (auto simp: compile_route_regex_def public_routes_def simp del: not_None_eq split: if_splits
      dest: sym [of "Some _"])

lemma load_listeners_spec:
  "load_listeners compile versions ps items ls = Inr ls' \<Longrightarrow>
   (\<forall>p l. ls' p = Some l \<longleftrightarrow> ls p = Some l \<or>
      (\<exists>item \<in> set items. rl_ListenPort item = p \<and> becomes compile versions ps item l))
   \<and> (\<forall>item \<in> set items. serving item \<longrightarrow> (\<exists>l. becomes compile versions ps item l))
   \<and> distinct (map rl_ListenPort (filter serving items))
   \<and> (\<forall>item \<in> set items. serving item \<longrightarrow> ls (rl_ListenPort item) = None)"
proof (induction items arbitrary: ls)
  case (Cons item items)
  show ?case
  proof (cases "load_listener compile versions ps ls item")
    case (Inr r)
    show ?thesis
    proof (cases r)
      case None
      with Inr have skip: "\<not> serving item" by (simp add: load_listener_None)
      moreover from this have "\<not> becomes compile versions ps item l" for l
        by (auto dest: becomes_serving)
      ultimately show ?thesis using Cons.IH [of ls] Cons.prems Inr None by auto
    next
      case (Some l)
      with Inr have l: "becomes compile versions ps item l" "ls (rl_ListenPort item) = None"
        by (simp_all add: load_listener_Some)
      then have uniq: "becomes compile versions ps item l' \<longleftrightarrow> l' = l" for l'
        by (auto simp: becomes_def)
      from Cons.prems Inr Some
      have "load_listeners compile versions ps items (ls(rl_ListenPort item \<mapsto> l)) = Inr ls'"
        by simp
      from Cons.IH [OF this] l becomes_serving [OF l(1)] show ?thesis
        by (auto simp: uniq split: if_splits)
    qed
  qed (use Cons in auto)
qed auto

lemma load_credentials_spec:
  "load_credentials records cs = Inr cs' \<Longrightarrow> cs' k = Some c \<Longrightarrow>
   cs k = Some c \<or> (\<exists>r \<in> set records. cr_Prefix r = k \<and> c_Prefix c = k \<and> c_ID c = cr_ID r
     \<and> c_ConsumerID c = cr_ConsumerID r \<and> c_Verifier c = cr_Verifier r
     \<and> length (c_Verifier c) = 32 \<and> k \<noteq> [] \<and> c_ExpiresAt c = cr_ExpiresAt r
     \<and> set (c_Permissions c) = set (cr_Permissions r))"
proof (induction records arbitrary: cs)
  case (Cons r records)
  then have ok: "length (cr_Verifier r) = 32" "cr_Prefix r \<noteq> []"
    by (auto split: if_splits)
  with Cons.prems(1) have "load_credentials records (cs(cr_Prefix r \<mapsto>
      \<lparr>c_ID = cr_ID r, c_ConsumerID = cr_ConsumerID r, c_Prefix = cr_Prefix r,
       c_Verifier = cr_Verifier r, c_ExpiresAt = cr_ExpiresAt r,
       c_Permissions = key_set id (cr_Permissions r)\<rparr>)) = Inr cs'"
    by simp
  from Cons.IH [OF this Cons.prems(2)] ok show ?case
    by (auto split: if_splits)
qed simp

lemma buildSnapshot_parts:
  assumes "buildSnapshot compile now version expected raw records allowlist = Inr s"
  obtains versions ps where
    "load_versions (enabled_services (r_Services raw)) (r_ServiceVersions raw) Map.empty = Inr versions"
    "load_upstreams allowlist versions 0 (r_Upstreams raw) (\<lambda>_. []) = Inr ps"
    "load_listeners compile versions ps (r_Listeners raw) Map.empty = Inr (sn_Listeners s)"
    "load_credentials records Map.empty = Inr (sn_Credentials s)"
    "r_Environment raw = expected" "sn_Environment s = expected" "sn_Version s = version"
  using assms by (auto simp: buildSnapshot_def bind_ok_eq_Inr split: if_splits)

lemma finite_listeners:
  "load_listeners compile versions ps items ls = Inr ls' \<Longrightarrow> finite (dom ls) \<Longrightarrow> finite (dom ls')"
  by (induction items arbitrary: ls) (auto split: sum.splits option.splits)

lemma built_finite:
  "buildSnapshot compile now version expected raw records allowlist = Inr s \<Longrightarrow> finite (dom (sn_Listeners s))"
  by (elim buildSnapshot_parts) (auto intro: finite_listeners)

section \<open>Properties\<close>

definition listener_wf :: "cidr list \<Rightarrow> int \<Rightarrow> listener \<Rightarrow> bool" where
  "listener_wf allowlist p l \<longleftrightarrow>
     l_Port l = p \<and> 1 \<le> p \<and> p \<le> 65535
     \<and> l_Upstreams l \<noteq> [] \<and> (\<forall>u \<in> set (l_Upstreams l). upstream_wf allowlist u)
     \<and> sorted (map u_ID (l_Upstreams l)) \<and> distinct (map u_ref (l_Upstreams l))
     \<and> l_AllowedMethods l \<noteq> [] \<and> distinct (l_AllowedMethods l)
     \<and> 0 < l_MaxRequestBytes l
     \<and> 0 \<le> l_RateLimitPerSecond l \<and> 0 \<le> l_RateLimitBurst l
     \<and> 0 \<le> l_QuotaRequestsPerMinute l \<and> 0 \<le> l_CircuitFailureThreshold l"

lemma built_listener_wf:
  assumes "buildSnapshot compile now version expected raw records allowlist = Inr s"
    and "sn_Listeners s p = Some l"
  shows "listener_wf allowlist p l"
proof -
  obtain versions ps where
    v: "load_versions (enabled_services (r_Services raw)) (r_ServiceVersions raw) Map.empty = Inr versions"
    and u: "load_upstreams allowlist versions 0 (r_Upstreams raw) (\<lambda>_. []) = Inr ps"
    and ls: "load_listeners compile versions ps (r_Listeners raw) Map.empty = Inr (sn_Listeners s)"
    using assms(1) by (rule buildSnapshot_parts)
  from load_versions_ok [OF v] have vok: "versions_ok (enabled_services (r_Services raw)) versions"
    by (simp add: versions_ok_def)
  from load_upstreams_inv [OF u pools_inv_empty] obtain ref where inv: "pools_inv allowlist ref ps" ..
  from load_listeners_spec [OF ls] assms(2) obtain item where item: "rl_ListenPort item = p"
    and b: "becomes compile versions ps item l" by auto
  note f = becomes_fields [OF b]
  from f(15) vok have "0 < l_MaxRequestBytes l" by (auto simp: versions_ok_def)
  moreover have "distinct (map u_ref (l_Upstreams l))"
    using inv unfolding f(6) pools_inv_def by (simp add: distinct_map)
  ultimately show ?thesis
    using f(1-14) item inv unfolding listener_wf_def pools_inv_def f(6) by auto
qed

text \<open>
  Claim C22: every listener of a snapshot is well formed: it is stored under its own
  port, which is a TCP port; it has at least one upstream, sorted by identifier, each with a
  supported scheme, an address inside the allowlist, a valid port, a positive weight and an
  absolute health path; it allows at least one method; its body limit is positive and its
  policy numbers are not negative.
\<close>

theorem buildSnapshot_wf:
  assumes "buildSnapshot compile now version expected raw records allowlist = Inr s"
    and "sn_Listeners s p = Some l"
  shows "listener_wf allowlist p l"
  using assms by (rule built_listener_wf)

text \<open>
  A snapshot serves exactly the configured listeners that are neither disabled nor draining, each on
  its own port with its identifier, required permission, (upper-cased) methods, (lower-cased) content
  types, public routes and policies, the time and body limits of its version, and for its upstreams
  the usable ones of that version, each once and with everything it is configured with; no two
  listeners share a port.
\<close>

definition content_types_of :: "string list \<Rightarrow> string set" where
  "content_types_of types = to_lower ` set (if types = [] then default_content_types else types)"

definition version_built :: "raw_snapshot \<Rightarrow> raw_listener \<Rightarrow> listener \<Rightarrow> raw_service_version \<Rightarrow> bool" where
  "version_built raw item l v \<longleftrightarrow> rv_ID v = rl_ServiceVersionID item \<and> rv_Enabled v
     \<and> (\<exists>s \<in> set (r_Services raw). rs_ID s = rv_ServiceID v \<and> rs_Enabled s)
     \<and> l_RequestTimeout l = milliseconds (rv_RequestTimeoutMS v) \<and> l_MaxRequestBytes l = rv_MaxRequestBytes v
     \<and> mset (map upstream_fields (l_Upstreams l))
       = mset (map (raw_fields (or_default (rv_HealthCheckPath v) ''/health''))
           (filter (usable (rv_ID v)) (r_Upstreams raw)))"

definition listener_built :: "regex_compiler \<Rightarrow> raw_snapshot \<Rightarrow> raw_listener \<Rightarrow> listener \<Rightarrow> bool" where
  "listener_built compile raw item l \<longleftrightarrow> l_ID l = rl_ID item \<and> l_Status l = ''active''
     \<and> l_RequiredPermission l = rl_RequiredPermission item
     \<and> set (l_AllowedMethods l) = to_upper ` set (rl_AllowedMethods item)
     \<and> set (l_AllowedContentTypes l) = content_types_of (rl_AllowedContentTypes item)
     \<and> public_routes compile (rl_UnprotectedRouteRegex item) (l_UnprotectedRouteRegex l)
     \<and> l_RateLimitPerSecond l = rl_RateLimitPerSecond item \<and> l_RateLimitBurst l = rl_RateLimitBurst item
     \<and> l_QuotaRequestsPerMinute l = rl_QuotaRequestsPerMinute item
     \<and> l_CircuitFailureThreshold l = rl_CircuitFailureThreshold item
     \<and> l_CircuitOpen l = milliseconds (rl_CircuitOpenMS item)
     \<and> (\<exists>v \<in> set (r_ServiceVersions raw). version_built raw item l v)"

lemma version_builtI:
  assumes "load_versions (enabled_services (r_Services raw)) (r_ServiceVersions raw) Map.empty = Inr versions"
    and "load_upstreams allowlist versions 0 (r_Upstreams raw) (\<lambda>_. []) = Inr ps"
    and "becomes compile versions ps item l"
  shows "\<exists>v \<in> set (r_ServiceVersions raw). version_built raw item l v"
proof -
  note fields = becomes_fields [OF assms(3)]
  from fields(15) obtain w where w: "versions (rl_ServiceVersionID item) = Some w"
    "l_MaxRequestBytes l = rv_MaxRequestBytes w" "l_RequestTimeout l = milliseconds (rv_RequestTimeoutMS w)" by blast
  from load_versions_known [OF assms(1) w(1)] obtain v where v: "v \<in> set (r_ServiceVersions raw)"
    "rv_ID v = rl_ServiceVersionID item" "rv_Enabled v" "enabled_services (r_Services raw) (rv_ServiceID v)"
    "w = default_health_path v" by auto
  from load_upstreams_complete [OF assms(2) w(1)]
  have "mset (map upstream_fields (l_Upstreams l)) = mset (map (raw_fields (rv_HealthCheckPath w))
      (filter (usable (rl_ServiceVersionID item)) (r_Upstreams raw)))"
    by (metis append_Nil fields(6) list.simps(8) mset_map mset_sort)
  moreover have "rv_HealthCheckPath w = or_default (rv_HealthCheckPath v) ''/health''"
    "rv_MaxRequestBytes w = rv_MaxRequestBytes v" "rv_RequestTimeoutMS w = rv_RequestTimeoutMS v"
    by (simp_all add: v(5) default_health_path_def or_default_def)
  ultimately show ?thesis
    using v w enabled_services_row [OF v(4)] by (intro bexI [OF _ v(1)]) (simp add: version_built_def)
qed

lemma built_listeners:
  assumes "buildSnapshot compile now version expected raw records allowlist = Inr s"
  shows "dom (sn_Listeners s) = rl_ListenPort ` {item \<in> set (r_Listeners raw). serving item}"
    and "distinct (map rl_ListenPort (filter serving (r_Listeners raw)))"
    and "item \<in> set (r_Listeners raw) \<Longrightarrow> serving item \<Longrightarrow>
      \<exists>l. sn_Listeners s (rl_ListenPort item) = Some l \<and> listener_built compile raw item l"
proof -
  obtain versions ps where
    ls: "load_listeners compile versions ps (r_Listeners raw) Map.empty = Inr (sn_Listeners s)" and
    us: "load_upstreams allowlist versions 0 (r_Upstreams raw) (\<lambda>_. []) = Inr ps" and
    vs: "load_versions (enabled_services (r_Services raw)) (r_ServiceVersions raw) Map.empty = Inr versions"
    using assms by (rule buildSnapshot_parts)
  note spec = load_listeners_spec [OF ls]
  show "dom (sn_Listeners s) = rl_ListenPort ` {item \<in> set (r_Listeners raw). serving item}"
  proof (intro equalityI subsetI)
    fix p assume "p \<in> dom (sn_Listeners s)"
    with spec show "p \<in> rl_ListenPort ` {item \<in> set (r_Listeners raw). serving item}"
      by (auto dest: becomes_serving intro!: imageI)
  next
    fix p assume "p \<in> rl_ListenPort ` {item \<in> set (r_Listeners raw). serving item}"
    with spec show "p \<in> dom (sn_Listeners s)" by (auto simp: dom_def) blast
  qed
  show "distinct (map rl_ListenPort (filter serving (r_Listeners raw)))" using spec by blast
  assume item: "item \<in> set (r_Listeners raw)" "serving item"
  with spec obtain l where l: "becomes compile versions ps item l" by blast
  note fields = becomes_fields [OF l]
  from version_builtI [OF vs us l] have "listener_built compile raw item l"
    unfolding listener_built_def
    using fields compile_route_regex_Inr [OF fields(24)] by (simp add: content_types_of_def)
  with spec item l show "\<exists>l. sn_Listeners s (rl_ListenPort item) = Some l \<and> listener_built compile raw item l"
    by (intro exI [of _ l]) auto
qed

text \<open>
  One enabled upstream whose address does not parse or lies outside the allowlist makes the whole
  configuration unusable, even if no listener uses it.
\<close>

lemma buildSnapshot_rejects_outside_allowlist:
  assumes "item \<in> set (r_Upstreams raw)" and "ru_Enabled item"
    and "1 \<le> ru_Port item" and "ru_Port item \<le> 65535" and "1 \<le> ru_Weight item"
    and "\<forall>a. parse_addr (ru_Address item) = Some a \<longrightarrow> \<not> allowedAddress a allowlist"
  shows "\<not> is_ok (buildSnapshot compile now version expected raw records allowlist)"
proof
  assume "is_ok (buildSnapshot compile now version expected raw records allowlist)"
  then obtain s where "buildSnapshot compile now version expected raw records allowlist = Inr s"
    by (auto simp: is_ok_iff)
  then obtain versions ps where
    "load_upstreams allowlist versions 0 (r_Upstreams raw) (\<lambda>_. []) = Inr ps"
    by (rule buildSnapshot_parts)
  moreover have bad: "\<exists>e. load_upstream allowlist versions ref item = Inl e" for ref
    using assms(2-) by (auto simp: load_upstream_def Let_def split: option.splits)
  have "load_upstreams allowlist versions ref items ps0 \<noteq> Inr ps"
    if "item \<in> set items" for ref items ps0
    using that
  proof (induction items arbitrary: ref ps0)
    case (Cons i items)
    with bad [of ref] show ?case by (auto split: sum.splits option.splits)
  qed simp
  ultimately show False using assms(1) by blast
qed

lemma built_same_object:
  assumes "buildSnapshot compile now version expected raw records allowlist = Inr s"
    and "sn_Listeners s p = Some l" and "sn_Listeners s p' = Some l'"
    and "u \<in> set (l_Upstreams l)" and "u' \<in> set (l_Upstreams l')" and "u_ref u = u_ref u'"
  shows "u = u' \<and> l_Upstreams l = l_Upstreams l'"
proof -
  obtain versions ps where
    up: "load_upstreams allowlist versions 0 (r_Upstreams raw) (\<lambda>_. []) = Inr ps"
    and ls: "load_listeners compile versions ps (r_Listeners raw) Map.empty = Inr (sn_Listeners s)"
    using assms(1) by (rule buildSnapshot_parts)
  from load_upstreams_inv [OF up pools_inv_empty] obtain ref where inv: "pools_inv allowlist ref ps" ..
  from load_listeners_spec [OF ls] assms(2,3) obtain i i' where
    b: "becomes compile versions ps i l" "becomes compile versions ps i' l'" by auto
  note pools = becomes_fields(6) [OF b(1)] becomes_fields(6) [OF b(2)]
  have mem: "u \<in> set (ps (rl_ServiceVersionID i))" "u' \<in> set (ps (rl_ServiceVersionID i'))"
    using assms(4,5) unfolding pools by simp_all
  with inv have "rl_ServiceVersionID i = rl_ServiceVersionID i'"
    using assms(6) by (rule pools_inv_same_pool)
  with mem assms(6) show ?thesis
    using pools_inv_same_object [OF inv] unfolding pools by auto
qed

text \<open>
  Two listeners of a snapshot that hold the same upstream object have the
  same pool, so a change of its health is seen by both and by no other listener.
\<close>

lemma buildSnapshot_sharing:
  assumes "buildSnapshot compile now version expected raw records allowlist = Inr s"
    and "sn_Listeners s p = Some l" and "sn_Listeners s p' = Some l'"
    and "u \<in> set (l_Upstreams l)" and "u' \<in> set (l_Upstreams l')" and "u_ref u = u_ref u'"
  shows "u = u' \<and> l_Upstreams l = l_Upstreams l'"
  using assms by (rule built_same_object)

text \<open>
  Every credential of a snapshot is stored under its own, non-empty key
  prefix with a 32-byte verifier, and is one of the records that were read.
\<close>

lemma buildSnapshot_credentials:
  assumes "buildSnapshot compile now version expected raw records allowlist = Inr s"
    and "sn_Credentials s k = Some c"
  shows "c_Prefix c = k \<and> k \<noteq> [] \<and> length (c_Verifier c) = 32
    \<and> (\<exists>r \<in> set records. cr_Prefix r = k \<and> c_ConsumerID c = cr_ConsumerID r
        \<and> c_Verifier c = cr_Verifier r \<and> c_ExpiresAt c = cr_ExpiresAt r
        \<and> set (c_Permissions c) = set (cr_Permissions r))"
proof -
  have "load_credentials records Map.empty = Inr (sn_Credentials s)"
    using assms(1) by (rule buildSnapshot_parts)
  from load_credentials_spec [OF this assms(2)] show ?thesis by auto
qed

section \<open>Witnesses\<close>

definition example_allowlist :: "cidr list" where
  "example_allowlist = [Cidr (V4 0x0A000000) 8]"

definition example_raw :: raw_snapshot where
  "example_raw = \<lparr>r_Environment = ''development'',
     r_Services = [\<lparr>rs_ID = ''svc_1'', rs_Enabled = True\<rparr>],
     r_ServiceVersions = [\<lparr>rv_ID = ''ver_1'', rv_ServiceID = ''svc_1'', rv_HealthCheckPath = [],
        rv_RequestTimeoutMS = 30000, rv_MaxRequestBytes = 1024, rv_Enabled = True\<rparr>],
     r_Upstreams =
       [\<lparr>ru_ID = ''b'', ru_ServiceVersionID = ''ver_1'', ru_Scheme = [], ru_Address = ''10.0.0.1'',
          ru_Port = 8080, ru_Weight = 1, ru_HealthCheckPath = [], ru_Enabled = True\<rparr>,
        \<lparr>ru_ID = ''a'', ru_ServiceVersionID = ''ver_1'', ru_Scheme = ''https'', ru_Address = ''10.0.0.2'',
          ru_Port = 8443, ru_Weight = 2, ru_HealthCheckPath = ''/up'', ru_Enabled = True\<rparr>],
     r_Listeners =
       [\<lparr>rl_ID = ''lis_1'', rl_ListenPort = 4100, rl_ServiceVersionID = ''ver_1'',
          rl_RequiredPermission = ''api:v1:read'', rl_AllowedMethods = [''get''],
          rl_AllowedContentTypes = [], rl_UnprotectedRouteRegex = [], rl_Status = ''active'',
          rl_RateLimitPerSecond = 5, rl_RateLimitBurst = 2, rl_QuotaRequestsPerMinute = 0,
          rl_CircuitFailureThreshold = 5, rl_CircuitOpenMS = 30000\<rparr>,
        \<lparr>rl_ID = ''lis_2'', rl_ListenPort = 4101, rl_ServiceVersionID = ''ver_1'',
          rl_RequiredPermission = ''api:v1:write'', rl_AllowedMethods = [''POST''],
          rl_AllowedContentTypes = [''Application/JSON''], rl_UnprotectedRouteRegex = [],
          rl_Status = ''reserved'',
          rl_RateLimitPerSecond = 0, rl_RateLimitBurst = 0, rl_QuotaRequestsPerMinute = 0,
          rl_CircuitFailureThreshold = 0, rl_CircuitOpenMS = 30000\<rparr>]\<rparr>"

definition example_record :: credential_record where
  "example_record = \<lparr>cr_ID = ''key_1'', cr_ConsumerID = ''con_1'', cr_Prefix = ''0123456789ab'',
     cr_Verifier = replicate 32 CHR ''v'', cr_ExpiresAt = None, cr_Permissions = [''api:v1:read'']\<rparr>"

definition example_build :: "(snapshot_error, snapshot) result" where
  "example_build = buildSnapshot (\<lambda>_. None) 0 7 ''development'' example_raw [example_record]
     example_allowlist"

definition example_pool :: "upstream list" where
  "example_pool =
     [\<lparr>u_ID = ''a'', u_Scheme = ''https'', u_Address = V4 0x0A000002, u_Port = 8443,
        u_Weight = 2, u_HealthCheckPath = ''/up'', u_ref = 1\<rparr>,
      \<lparr>u_ID = ''b'', u_Scheme = ''http'', u_Address = V4 0x0A000001, u_Port = 8080,
        u_Weight = 1, u_HealthCheckPath = ''/health'', u_ref = 0\<rparr>]"

definition example_lis1 :: listener where
  "example_lis1 = \<lparr>l_ID = ''lis_1'', l_Port = 4100, l_Status = ''active'',
     l_RequiredPermission = ''api:v1:read'', l_AllowedMethods = [''GET''],
     l_AllowedContentTypes = [''application/x-www-form-urlencoded'', ''text/xml'',
        ''application/xml'', ''application/json''],
     l_UnprotectedRouteRegex = None, l_RequestTimeout = 30000000000, l_MaxRequestBytes = 1024,
     l_Upstreams = example_pool, l_RateLimitPerSecond = 5, l_RateLimitBurst = 2,
     l_QuotaRequestsPerMinute = 0, l_CircuitFailureThreshold = 5,
     l_CircuitOpen = 30000000000, l_cursor = 0\<rparr>"

definition example_lis2 :: listener where
  "example_lis2 = example_lis1\<lparr>l_ID := ''lis_2'', l_Port := 4101,
     l_RequiredPermission := ''api:v1:write'', l_AllowedMethods := [''POST''],
     l_AllowedContentTypes := [''application/json''], l_RateLimitPerSecond := 0,
     l_RateLimitBurst := 0, l_CircuitFailureThreshold := 0\<rparr>"

definition example_credential :: credential where
  "example_credential = \<lparr>c_ID = ''key_1'', c_ConsumerID = ''con_1'', c_Prefix = ''0123456789ab'',
     c_Verifier = replicate 32 CHR ''v'', c_ExpiresAt = None, c_Permissions = [''api:v1:read'']\<rparr>"

definition example_snapshot :: snapshot where
  "example_snapshot = \<lparr>sn_Version = 7, sn_Environment = ''development'',
     sn_Listeners = [4100 \<mapsto> example_lis1, 4101 \<mapsto> example_lis2],
     sn_Credentials = [''0123456789ab'' \<mapsto> example_credential], sn_LoadedAt = 0,
     sn_health = (\<lambda>_. True)\<rparr>"

lemmas snapshot_example_defs = example_snapshot_def example_lis1_def example_lis2_def
  example_pool_def example_credential_def

lemmas snapshot_eval = buildSnapshot_def default_health_path_def enabled_services_def
  has_prefix_def load_upstream_def parse_addr_def parse_v4_def v4_word_def byte_eval
  allowedAddress_def Let_def load_listener_def key_set_def compile_route_regex_def
  milliseconds_def in_int64_def default_content_types_def example_raw_def
  example_allowlist_def example_record_def

lemma example_build:
  "buildSnapshot (\<lambda>_. None) 0 7 ''development'' example_raw [example_record] example_allowlist =
   Inr example_snapshot"
  by (simp add: snapshot_eval snapshot_example_defs)

theorem buildSnapshot_wf_witness: "listener_wf example_allowlist 4100 example_lis1"
  by (rule buildSnapshot_wf [OF example_build]) (simp add: example_snapshot_def)

end
