(* ===== verification/Gateway_Access.thy ===== *)
theory Gateway_Access
  imports Gateway Snapshot_Build "HOL-Library.Multiset"
begin

text \<open>
  Who gets through the gateway: the requests that reach an upstream are exactly those that pass
  every guard, what they look like when they are sent, and how the others are answered.
\<close>

section \<open>Sorting the allowed methods\<close>

lemma sift_down_sorted:
  "sorted p \<Longrightarrow> sift_down (length p) (p @ x # rest) = sort (p @ [x]) @ rest"
proof (induction p arbitrary: x rest rule: rev_induct)
  case Nil
  then show ?case by simp
next
  case (snoc y q)
  have idx: "(q @ y # x # rest) ! Suc (length q) = x" "(q @ y # x # rest) ! length q = y"
    by (simp_all add: nth_append)
  show ?case
  proof (cases "x < y")
    case True
    have swap: "(q @ y # x # rest)[Suc (length q) := y, length q := x] = q @ x # y # rest"
      by (simp add: list_update_append)
    have "sort (q @ [y, x]) = sort (q @ [x]) @ [y]"
      using snoc.prems True by (intro properties_for_sort) (auto simp: sorted_append)
    with True snoc show ?thesis by (simp add: idx swap sorted_append)
  next
    case False
    then have "sorted (q @ [y, x])" using snoc.prems by (auto simp: sorted_append)
    with False show ?thesis by (simp add: idx sorted_sort_id)
  qed
qed

lemma slicesSort_sort: "slicesSort items = sort items"
proof -
  have "fold sift_down [1..<n] items = sort (take n items) @ drop n items"
    if "1 \<le> n" "n \<le> length items" for n
    using that
  proof (induction n rule: nat_induct_at_least)
    case base
    then show ?case by (cases items) auto
  next
    case (Suc n)
    let ?p = "sort (take n items)"
    have len: "length ?p = n" and d: "drop n items = items ! n # drop (Suc n) items"
      using Suc by (simp_all add: Cons_nth_drop_Suc)
    have "fold sift_down [1..<Suc n] items = sift_down n (?p @ drop n items)"
      using Suc by simp
    also have "\<dots> = sort (?p @ [items ! n]) @ drop (Suc n) items"
      unfolding d using sift_down_sorted [of ?p "items ! n"] len by simp
    also have "sort (?p @ [items ! n]) = sort (take (Suc n) items)"
      using Suc.prems by (intro properties_for_sort) (simp_all add: take_Suc_conv_app_nth)
    finally show ?case .
  qed
  from this [of "length items"] show ?thesis
    by (cases items) (auto simp: slicesSort_def)
qed

section \<open>The steps of a request\<close>

lemma and_then_Some:
  "and_then m f = ((p, Some out), g') \<longleftrightarrow> (\<exists>x g. m = (Inr x, g) \<and> f x g = ((p, Some out), g'))"
  by (auto simp: and_then_def split: prod.splits sum.splits)

lemma admit_Inr:
  assumes "admit h en w r g = (Inr (port, s, l, cred), g')"
  shows "listenerPort (gh_trusted h) r = Some port" and "g_snapshot g = Some s"
    and "sn_Listeners s port = Some l"
    and "cred = authenticate (e_hmac en) (gh_pepper h) (e_now en) s (header_get (q_Header r) APIKeyHeader)"
    and "allowsPublicRequest l (q_Method r) (q_Path r)
         \<or> (\<exists>c. cred = Some c \<and> l_RequiredPermission l \<in> set (c_Permissions c))"
    and "q_Method r \<in> set (l_AllowedMethods l)" and "contentTypeAllowed (e_parse_media en) l r"
    and "q_ContentLength r \<le> l_MaxRequestBytes l" and "g' = g"
  using assms by (auto simp: admit_def Let_def split: option.splits if_splits)

lemma choose_upstream_Inr:
  assumes "choose_upstream en w r port l blocked g = (Inr u, g')"
  shows "u \<in> set (l_Upstreams l) \<and> Healthy (e_health2 en) u \<and> \<not> is_blocked blocked (u_ID u)"
proof -
  have pick: "pick_slot ok n us = Some u \<Longrightarrow> u \<in> set us \<and> ok u" for ok n us
    by (induction ok n us rule: pick_slot.induct) (auto split: if_splits)
  show ?thesis
    using assms by (auto simp: choose_upstream_def SelectUpstreamWhere_def Let_def eligible_def
        admits_def dest!: pick split: if_splits prod.splits option.splits)
qed

lemma forward_sent:
  assumes "forward_request h en w r s l u g = ((p, Some out), g')"
  shows "out = (let out0 = rewrite_request u (q_CorrelationID r)
            \<lparr>o_Method = q_Method r, o_Path = q_Path r, o_Scheme = [], o_Host = None,
             o_Header = prepare_header (q_Header r),
             o_BodyLimit = (if q_HasBody r \<and> q_ContentLength r \<noteq> 0 then Some (l_MaxRequestBytes l) else None),
             o_Timeout = l_RequestTimeout l\<rparr>
          in out0\<lparr>o_Header := default_user_agent (o_Header out0)\<rparr>)"
  using assms
  by (auto simp: forward_request_def reverse_proxy_def Let_def
      split: prod.splits sum.splits if_splits option.splits)

lemma ServeHTTP_sent:
  assumes "ServeHTTP h en w r g = ((p, Some out), g')"
  obtains port s l cred g1 g2 blocked g3 u g4 where
    "admit h en w r g = (Inr (port, s, l, cred), g1)"
    "apply_policy h w r s l cred g1 = (Inr (), g2)"
    "check_circuits h w r s l g2 = (Inr blocked, g3)"
    "choose_upstream en w r port l blocked g3 = (Inr u, g4)"
    "forward_request h en w r s l u g4 = ((p, Some out), g')"
  using assms by (fastforce simp: ServeHTTP_def and_then_Some)

section \<open>Headers\<close>

lemma header_values_delete_all:
  "header_values (delete_all names h) m =
     (if canonical_key m \<in> canonical_key ` set names then [] else header_values h m)"
  by (induction names arbitrary: h) (auto simp: delete_all_def header_values_del)

lemma stripForwardingHeaders_values:
  "header_values (stripForwardingHeaders h) m =
     (if canonical_key m \<in> canonical_key ` {''Forwarded'', ''X-Forwarded-For'', ''X-Forwarded-Host'',
           ''X-Forwarded-Proto'', ''X-Forwarded-Port'', ''X-Real-IP''}
      then [] else header_values h m)"
  using header_values_delete_all [of "[''Forwarded'', ''X-Forwarded-For'', ''X-Forwarded-Host'',
      ''X-Forwarded-Proto'', ''X-Forwarded-Port'', ''X-Real-IP'']" h m]
  by (simp add: stripForwardingHeaders_def delete_all_def)

lemmas canonical_eval = canonical_key_def is_token_byte_def byte_eval

lemma canonical_names:
  "canonical_key ''Forwarded'' = ''Forwarded''"
  "canonical_key ''X-Forwarded-For'' = ''X-Forwarded-For''"
  "canonical_key ''X-Forwarded-Host'' = ''X-Forwarded-Host''"
  "canonical_key ''X-Forwarded-Proto'' = ''X-Forwarded-Proto''"
  "canonical_key ''X-Forwarded-Port'' = ''X-Forwarded-Port''"
  "canonical_key ''X-Real-IP'' = ''X-Real-Ip''"
  "canonical_key ''Authorization'' = ''Authorization''"
  "canonical_key ''X-Correlation-ID'' = ''X-Correlation-Id''"
  "canonical_key ''User-Agent'' = ''User-Agent''"
  "canonical_key ''Content-Type'' = ''Content-Type''"
  "canonical_key ''X-API-Key'' = ''X-Api-Key''"
  "canonical_key ''X-Gateway-Listener-Port'' = ''X-Gateway-Listener-Port''"
  by (simp_all add: canonical_eval)

lemma canonical_hop_names:
  "canonical_key ''Connection'' = ''Connection''"
  "canonical_key ''Proxy-Connection'' = ''Proxy-Connection''"
  "canonical_key ''Keep-Alive'' = ''Keep-Alive''"
  "canonical_key ''Proxy-Authenticate'' = ''Proxy-Authenticate''"
  "canonical_key ''Proxy-Authorization'' = ''Proxy-Authorization''"
  "canonical_key ''Te'' = ''Te''"
  "canonical_key ''Trailer'' = ''Trailer''"
  "canonical_key ''Transfer-Encoding'' = ''Transfer-Encoding''"
  "canonical_key ''Upgrade'' = ''Upgrade''"
  by (simp_all add: canonical_eval)

lemma header_get_set:
  "header_get (header_set n v h) m = (if canonical_key m = canonical_key n then v else header_get h m)"
  by (simp add: header_get_def header_values_set)

lemma header_values_empty [simp]: "header_values Map.empty m = []"
  by (simp add: header_values_def)

lemma header_get_empty [simp]: "header_get Map.empty m = []"
  by (simp add: header_get_def)

section \<open>Properties\<close>

text \<open>
  The peer of a connection is within a list of prefixes: the host of its remote address is an
  address that one of them contains. A listener port is read for such a peer only, and is a TCP port.
\<close>

definition peer_within :: "cidr list \<Rightarrow> request \<Rightarrow> bool" where
  "peer_within prefixes r \<longleftrightarrow> (\<exists>host port address prefix. split_host_port (q_RemoteAddr r) = Some (host, port)
     \<and> parse_addr host = Some address \<and> prefix \<in> set prefixes \<and> cidr_contains prefix address)"

lemma listenerPort_peer:
  "listenerPort prefixes r = Some port \<Longrightarrow> peer_within prefixes r \<and> 1 \<le> port \<and> port \<le> 65535"
  by (auto simp: listenerPort_def peer_within_def trusted_peer_def list_ex_iff split: option.splits list.splits if_splits)

text \<open>
  Claim C1: a request reaches an upstream only if its peer is a trusted proxy, an address inside one
  of the trusted prefixes, that names a listener of the current snapshot by its port, it is on a public route or carries a valid credential with
  the listener's permission, its method, content type and announced length are allowed, and then
  it goes to an upstream of that listener that is healthy at that moment.
\<close>

theorem sent_only_if_admitted:
  assumes "ServeHTTP h en w r g = ((p, Some out), g')"
  shows "\<exists>port s l u. peer_within (gh_trusted h) r \<and> 1 \<le> port \<and> port \<le> 65535
    \<and> listenerPort (gh_trusted h) r = Some port \<and> g_snapshot g = Some s \<and> sn_Listeners s port = Some l
    \<and> (allowsPublicRequest l (q_Method r) (q_Path r)
       \<or> (\<exists>c. authenticate (e_hmac en) (gh_pepper h) (e_now en) s (header_get (q_Header r) APIKeyHeader)
                 = Some c \<and> l_RequiredPermission l \<in> set (c_Permissions c)))
    \<and> q_Method r \<in> set (l_AllowedMethods l) \<and> contentTypeAllowed (e_parse_media en) l r
    \<and> q_ContentLength r \<le> l_MaxRequestBytes l
    \<and> u \<in> set (l_Upstreams l) \<and> Healthy (e_health2 en) u \<and> o_Host out = Some (Authority u)"
proof -
  from assms obtain port s l cred g1 blocked g3 u g4 where
    a: "admit h en w r g = (Inr (port, s, l, cred), g1)" and
    u: "choose_upstream en w r port l blocked g3 = (Inr u, g4)" and
    f: "forward_request h en w r s l u g4 = ((p, Some out), g')"
    by (rule ServeHTTP_sent)
  have "o_Host out = Some (Authority u)"
    by (simp add: forward_sent [OF f] rewrite_request_def Let_def)
  with admit_Inr [OF a] listenerPort_peer [OF admit_Inr(1) [OF a]] choose_upstream_Inr [OF u] show ?thesis by blast
qed

text \<open>
  Claim C5: an authenticated key has the shape that is required of an issued key, with a prefix of 12
  and a secret of 52 characters that are lower-case hexadecimal digits or dots; its prefix is that of
  a credential in the snapshot, the credential has not expired, and the HMAC of the whole key
  under the pepper is the stored verifier.
\<close>

theorem authenticate_sound:
  assumes "authenticate hmac pepper now s raw = Some c"
  shows "\<exists>prefix secret. raw = ''shn_'' @ prefix @ ''.'' @ secret \<and> length prefix = 12
    \<and> length secret = 52 \<and> (\<forall>x \<in> set (prefix @ secret). is_lower_hex x \<or> x = CHR ''.'')
    \<and> sn_Credentials s prefix = Some c
    \<and> (\<forall>t. c_ExpiresAt c = Some t \<longrightarrow> now < t) \<and> hmac pepper raw = c_Verifier c"
proof -
  from assms obtain prefix where k: "keyPrefix raw = Some prefix" "sn_Credentials s prefix = Some c"
    and rest: "\<forall>t. c_ExpiresAt c = Some t \<longrightarrow> now < t" "hmac pepper raw = c_Verifier c"
    by (auto simp: authenticate_def split: option.splits if_splits)
  from k(1) have hp: "has_prefix raw ''shn_''" and raw: "length raw = 69" "raw ! 16 = CHR ''.''"
    and p: "prefix = take 12 (drop 4 raw)" and chars: "\<forall>x \<in> set (drop 4 raw). is_lower_hex x \<or> x = CHR ''.''"
    by (auto simp: keyPrefix_def list_all_iff split: if_splits)
  have "set (take 12 (drop 4 raw)) \<union> set (drop 17 raw) \<subseteq> set (drop 4 raw)"
    using set_take_subset [of 12 "drop 4 raw"] set_drop_subset [of 13 "drop 4 raw"] by (simp add: add.commute)
  with chars p have "\<forall>x \<in> set (prefix @ drop 17 raw). is_lower_hex x \<or> x = CHR ''.''" by auto
  note chars = this
  from hp have four: "take 4 raw = ''shn_''" by (simp add: has_prefix_def numeral_eq_Suc)
  have "raw = take 4 raw @ take 12 (drop 4 raw) @ drop 16 raw"
    by (metis append_assoc append_take_drop_id take_add add_numeral_left numeral_plus_numeral
        semiring_norm(2,3,4,5,6,7))
  also have "drop 16 raw = CHR ''.'' # drop 17 raw"
    using raw Cons_nth_drop_Suc [of 16 raw] by simp
  finally have "raw = ''shn_'' @ prefix @ ''.'' @ drop 17 raw" unfolding four p by simp
  with raw k rest chars show ?thesis
    by (intro exI [of _ prefix] exI [of _ "drop 17 raw"] conjI) (assumption | simp add: p)+
qed

text \<open>
  A request without a valid key and outside the public routes of its listener is answered 401 with a challenge, nothing is sent and the coordinator is not asked.
\<close>

lemma unauthenticated_is_401:
  assumes "listenerPort (gh_trusted h) r = Some port" and "g_snapshot g = Some s"
    and "sn_Listeners s port = Some l" and "\<not> allowsPublicRequest l (q_Method r) (q_Path r)"
    and "authenticate (e_hmac en) (gh_pepper h) (e_now en) s (header_get (q_Header r) APIKeyHeader) = None"
  shows "\<exists>p. ServeHTTP h en w r g = ((p, None), count_event AuthenticationFailure g) \<and> p_Status p = 401
    \<and> p_Header p ''Www-Authenticate'' = Some [''ApiKey'']
    \<and> p_Body p = ErrorBody ''GATEWAY_UNAUTHORIZED'' (q_CorrelationID r)"
proof -
  have "canonical_key ''WWW-Authenticate'' = ''Www-Authenticate''" by (simp add: canonical_eval)
  with assms show ?thesis
    by (simp add: ServeHTTP_def and_then_def admit_def Let_def writeGatewayError_def header_set_def
        canonical_names)
qed

text \<open>
  A valid key without the listener's permission is answered 403 outside the public
  routes, and nothing is sent.
\<close>

lemma unpermitted_is_403:
  assumes "listenerPort (gh_trusted h) r = Some port" and "g_snapshot g = Some s"
    and "sn_Listeners s port = Some l" and "\<not> allowsPublicRequest l (q_Method r) (q_Path r)"
    and "authenticate (e_hmac en) (gh_pepper h) (e_now en) s (header_get (q_Header r) APIKeyHeader) = Some c"
    and "l_RequiredPermission l \<notin> set (c_Permissions c)"
  shows "\<exists>p. ServeHTTP h en w r g = ((p, None), g) \<and> p_Status p = 403
    \<and> p_Body p = ErrorBody ''GATEWAY_FORBIDDEN'' (q_CorrelationID r)"
  using assms by (simp add: ServeHTTP_def and_then_def admit_def Let_def writeGatewayError_def)

text \<open>
  A public route never matches a path that could leave its prefix: the method is
  GET or HEAD, the path is absolute, and no segment is a dot segment.
\<close>

lemma public_route_no_traversal:
  assumes "allowsPublicRequest l method path"
  shows "(method = ''GET'' \<or> method = ''HEAD'') \<and> (\<exists>rest. path = CHR ''/'' # rest)
    \<and> (\<forall>before segment after. path = before @ ''/'' @ segment @ after
         \<and> CHR ''/'' \<notin> set segment \<and> (after = [] \<or> hd after = CHR ''/'')
         \<longrightarrow> segment \<noteq> ''.'' \<and> segment \<noteq> ''..'')"
proof -
  from assms have m: "method = ''GET'' \<or> method = ''HEAD''" "has_prefix path ''/''"
    and segs: "\<forall>segment \<in> set (split_on CHR ''/'' path). segment \<noteq> ''.'' \<and> segment \<noteq> ''..''"
    by (auto simp: allowsPublicRequest_def list_ex_iff split: if_splits)
  have split: "split_on d (xs @ d # ys) = split_on d xs @ split_on d ys" for d xs ys
  proof (induction xs)
    case (Cons x xs)
    then show ?case by (cases "split_on d xs") auto
  qed simp
  have mem: "segment \<in> set (split_on CHR ''/'' path)"
    if "path = before @ ''/'' @ segment @ after" "CHR ''/'' \<notin> set segment"
      "after = [] \<or> hd after = CHR ''/''" for before segment after
    using that by (cases "after") (auto simp: split split_on_id split_on_append)
  have absolute: "\<exists>rest. path = CHR ''/'' # rest" using m(2) by (auto simp: has_prefix_iff)
  have "segment \<noteq> ''.'' \<and> segment \<noteq> ''..''"
    if "path = before @ ''/'' @ segment @ after \<and> CHR ''/'' \<notin> set segment
      \<and> (after = [] \<or> hd after = CHR ''/'')" for before segment after
    using segs mem [of "before" segment "after"] that by blast
  with m(1) absolute show ?thesis by blast
qed

text \<open>
  Claim C23: the headers of a request that is sent are clean. No credential of the client, no
  forwarding header, no header that its \<open>Connection\<close> header names and none of the hop-by-hop headers
  reaches the upstream, with these exceptions, which the proxy writes itself: \<open>Te: trailers\<close> when the
  client asked for trailers, and \<open>Connection: Upgrade\<close> with the protocol when the client asked for an
  upgrade (and a \<open>User-Agent\<close> without a value when there is none). The one correlation identifier is the
  gateway's.
\<close>

theorem sent_headers_clean:
  assumes "ServeHTTP h en w r g = ((p, Some out), g')"
  shows "(\<forall>name \<in> {''X-API-Key'', ''Authorization'', ''X-Gateway-Listener-Port'', ''Forwarded'',
      ''X-Forwarded-For'', ''X-Forwarded-Host'', ''X-Forwarded-Proto'', ''X-Forwarded-Port'', ''X-Real-IP'',
      ''Proxy-Connection'', ''Keep-Alive'', ''Proxy-Authenticate'', ''Proxy-Authorization'', ''Trailer'',
      ''Transfer-Encoding''}. header_values (o_Header out) name = [])
    \<and> header_values (o_Header out) ''Te'' =
        (if contains_token (header_values (q_Header r) ''Te'') ''trailers'' then [''trailers''] else [])
    \<and> header_values (o_Header out) ''Connection'' = (if upgradeType (q_Header r) = [] then [] else [''Upgrade''])
    \<and> header_values (o_Header out) ''Upgrade'' =
        (if upgradeType (q_Header r) = [] then [] else [upgradeType (q_Header r)])
    \<and> (\<forall>name \<in> set (connection_tokens (q_Header r)). canonical_key name
          \<notin> {''Te'', ''Connection'', ''Upgrade'', ''User-Agent'', ''X-Correlation-Id''} \<longrightarrow>
        header_values (o_Header out) name = [])
    \<and> header_values (o_Header out) ''X-Correlation-ID'' = [q_CorrelationID r]"
proof -
  from assms obtain s l u g4 where f: "forward_request h en w r s l u g4 = ((p, Some out), g')"
    by (rule ServeHTTP_sent)
  have agent: "header_values (default_user_agent h') name = header_values h' name"
    if "canonical_key name \<noteq> ''User-Agent''" for h' name
    using that by (simp add: default_user_agent_def header_values_set canonical_names)
  have removed: "header_values (removeHopByHopHeaders h') name =
      (if canonical_key name \<in> canonical_key ` set (hopHeaders @ connection_tokens h') then []
       else header_values h' name)" for h' name
    by (auto simp: removeHopByHopHeaders_def header_values_delete_all)
  have prepared: "header_values (prepare_header h') name =
      (if canonical_key name \<in> {''Forwarded'', ''X-Forwarded-For'', ''X-Forwarded-Host'', ''X-Forwarded-Proto''} then []
       else if upgradeType h' \<noteq> [] \<and> canonical_key name = ''Upgrade'' then [upgradeType h']
       else if upgradeType h' \<noteq> [] \<and> canonical_key name = ''Connection'' then [''Upgrade'']
       else if contains_token (header_values h' ''Te'') ''trailers'' \<and> canonical_key name = ''Te'' then [''trailers'']
       else header_values (removeHopByHopHeaders h') name)" for h' name
    by (simp add: prepare_header_def Let_def header_values_delete_all header_values_set canonical_names
        canonical_hop_names)
  have sent: "header_values (o_Header out) name =
      (if canonical_key name = ''X-Correlation-Id'' then [q_CorrelationID r]
       else if canonical_key name \<in> {''Authorization'', ''X-Api-Key'', ''X-Gateway-Listener-Port'', ''Forwarded'',
         ''X-Forwarded-For'', ''X-Forwarded-Host'', ''X-Forwarded-Proto'', ''X-Forwarded-Port'', ''X-Real-Ip''} then []
       else header_values (prepare_header (q_Header r)) name)"
    if "canonical_key name \<noteq> ''User-Agent''" for name
    using that by (simp add: forward_sent [OF f] rewrite_request_def Let_def agent canonical_names
        header_values_set header_values_del stripForwardingHeaders_values APIKeyHeader_def ListenerPortHeader_def)
  have named: "header_values (o_Header out) name = []"
    if "name \<in> set (connection_tokens (q_Header r))" "canonical_key name
          \<notin> {''Te'', ''Connection'', ''Upgrade'', ''User-Agent'', ''X-Correlation-Id''}" for name
    using that by (simp add: sent prepared removed)
  show ?thesis
  proof (intro conjI)
    show "\<forall>name \<in> set (connection_tokens (q_Header r)). canonical_key name
          \<notin> {''Te'', ''Connection'', ''Upgrade'', ''User-Agent'', ''X-Correlation-Id''} \<longrightarrow>
        header_values (o_Header out) name = []" using named by blast
  qed (auto simp: sent prepared removed canonical_names canonical_hop_names hopHeaders_def)
qed

text \<open>
  The Allow header of a 405 does not depend on the order in which the map of
  methods is iterated.
\<close>

lemma joinKeys_order_independent:
  assumes "mset xs = mset ys"
  shows "joinKeys xs = joinKeys ys"
proof -
  have "sort xs = sort ys" using assms by (metis properties_for_sort mset_sort sorted_sort)
  then show ?thesis by (simp add: joinKeys_def slicesSort_sort)
qed

section \<open>Witnesses\<close>

definition example_key :: string where
  "example_key = ''shn_0123456789ab.'' @ replicate 52 CHR ''0''"

definition example_handler :: "mem gateway_handler" where
  "example_handler = \<lparr>gh_trusted = [Cidr (V4 0x0A010000) 16], gh_pepper = ''pepper'',
     gh_coordinator = Some (redis_coordinator mem_redis True 0)\<rparr>"

definition example_env :: env where
  "example_env = \<lparr>e_now = 0, e_hmac = (\<lambda>_ _. replicate 32 CHR ''v''), e_parse_media = Some,
     e_health1 = (\<lambda>_. True), e_health2 = (\<lambda>_. True),
     e_roundtrip = (\<lambda>_. Inr \<lparr>ur_StatusCode = 200, ur_Header = Map.empty, ur_Body = ''ok''\<rparr>),
     e_expired = False, e_switch = (\<lambda>_ _. None)\<rparr>"

definition example_request :: "string \<Rightarrow> request" where
  "example_request key = \<lparr>q_Method = ''GET'', q_Path = ''/'', q_RemoteAddr = ''10.1.0.1:5000'',
     q_Header = header_set APIKeyHeader key (header_set ListenerPortHeader ''4100'' Map.empty),
     q_ContentLength = 0, q_HasBody = False, q_CorrelationID = ''c1''\<rparr>"

definition example_gateway :: "mem gateway" where
  "example_gateway = \<lparr>g_coord = Map.empty, g_metrics = None, g_snapshot = Some example_snapshot\<rparr>"

lemma example_port: "listenerPort (gh_trusted example_handler) (example_request key) = Some 4100"
proof -
  have host: "split_host_port ''10.1.0.1:5000'' = Some (''10.1.0.1'', ''5000'')"
    by (simp add: split_host_port_def last_index_def has_prefix_def)
  have peer: "parse_addr ''10.1.0.1'' = Some (V4 0x0A010001)"
    by (simp add: parse_addr_def parse_v4_def v4_word_def byte_eval Let_def)
  have trusted: "trusted_peer [Cidr (V4 0x0A010000) 16] (V4 0x0A010001)"
    by (simp add: trusted_peer_def)
  have "atoi (trim_space ''4100'') = Some 4100"
    by (simp add: trim_space_def trim_left_space.simps trim_right_space.simps strip_space_prefix_def
        strip_space_suffix_def space_encodings_def has_prefix_def atoi_def parse_int_def byte_eval Let_def)
  moreover have "header_values (q_Header (example_request key)) ListenerPortHeader = [''4100'']"
    by (simp add: example_request_def header_values_set canonical_names APIKeyHeader_def
        ListenerPortHeader_def)
  moreover have "q_RemoteAddr (example_request key) = ''10.1.0.1:5000''"
    by (simp add: example_request_def)
  ultimately show ?thesis
    using host peer trusted by (simp add: listenerPort_def example_handler_def)
qed

lemma example_api_key: "header_get (q_Header (example_request key)) APIKeyHeader = key"
  by (simp add: example_request_def header_get_set)

lemma example_key_prefix: "keyPrefix example_key = Some ''0123456789ab''"
  by (simp add: keyPrefix_def example_key_def has_prefix_def byte_eval list_all_iff)

lemma example_authenticate:
  "authenticate (e_hmac example_env) (gh_pepper example_handler) (e_now example_env) example_snapshot
     example_key = Some example_credential"
  by (simp add: authenticate_def example_key_prefix example_env_def example_snapshot_def
      example_credential_def)

lemma example_gateway_snapshot: "g_snapshot example_gateway = Some example_snapshot"
  by (simp add: example_gateway_def)

lemma example_listener: "sn_Listeners example_snapshot 4100 = Some example_lis1"
  by (simp add: example_snapshot_def)

lemma example_not_public: "\<not> allowsPublicRequest example_lis1 method path"
  by (simp add: allowsPublicRequest_def example_lis1_def)

lemma example_admit:
  "admit example_handler example_env w (example_request example_key) example_gateway =
     (Inr (4100, example_snapshot, example_lis1, Some example_credential), example_gateway)"
  by (simp add: admit_def example_port example_api_key example_authenticate example_gateway_snapshot
      example_listener example_not_public Let_def)
    (simp add: example_request_def example_lis1_def example_credential_def contentTypeAllowed_def)

lemma example_policy:
  "apply_policy example_handler w (example_request key) example_snapshot example_lis1
     (Some example_credential) example_gateway =
   (Inr (), example_gateway\<lparr>g_coord := snd (AllowRequest mem_redis True 0 ''development'' ''lis_1'' ''con_1''
      5 2 0 Map.empty)\<rparr>)"
  by (simp add: apply_policy_def example_lis1_def example_handler_def redis_coordinator_def
      example_snapshot_def example_credential_def example_gateway_def AllowRequest_def
      requestPolicyScript_def count_window_def mem_redis_def mem_value_def DecisionRateLimited_def
      DecisionQuotaExceeded_def split_def)

lemma example_circuits:
  assumes "\<And>u. g_coord g (circuitOpenKey ''development'' u) = None"
  shows "check_circuits example_handler w (example_request key) example_snapshot example_lis1 g =
     (Inr [(''a'', False), (''b'', False)], g)"
  by (simp add: check_circuits_def example_lis1_def example_handler_def redis_coordinator_def
      example_snapshot_def example_pool_def CircuitOpen_def mem_redis_def assms)

lemma example_choice:
  "\<exists>g'. choose_upstream example_env w r 4100 example_lis1 [(''a'', False), (''b'', False)] g =
     (Inr (hd example_pool), g')"
  by (simp add: choose_upstream_def SelectUpstreamWhere_def example_lis1_def example_pool_def
      eligible_def admits_def Healthy_def example_env_def is_blocked_def in_int64_def Let_def)

lemma forward_sends:
  assumes "is_print (upgradeType (q_Header r))"
  shows "\<exists>p out g'. forward_request h en w r s l u g = ((p, Some out), g')"
  using assms by (auto simp: forward_request_def reverse_proxy_def Let_def
      split: sum.splits prod.splits option.splits)

lemma example_printable: "is_print (upgradeType (q_Header (example_request key)))"
  by (simp add: upgradeType_def example_request_def header_values_set canonical_names
      canonical_hop_names APIKeyHeader_def ListenerPortHeader_def contains_token_def is_print_def)

lemma example_open_keys:
  "snd (AllowRequest mem_redis True 0 ''development'' ''lis_1'' ''con_1'' 5 2 0 Map.empty)
     (circuitOpenKey ''development'' u) = None"
proof -
  have "rateKey ''development'' ''lis_1'' ''con_1'' 0 \<noteq> circuitOpenKey ''development'' u"
    by (simp add: rateKey_def circuitOpenKey_def policy_base_def)
  then show ?thesis
    by (simp add: AllowRequest_def requestPolicyScript_def count_window_def mem_redis_def
        mem_value_def split_def)
qed

lemma example_sent:
  "\<exists>p out g'. ServeHTTP example_handler example_env w (example_request example_key) example_gateway =
     ((p, Some out), g')"
proof -
  let ?r = "example_request example_key"
  let ?g = "example_gateway\<lparr>g_coord := snd (AllowRequest mem_redis True 0 ''development'' ''lis_1''
      ''con_1'' 5 2 0 Map.empty)\<rparr>"
  have "check_circuits example_handler w ?r example_snapshot example_lis1 ?g =
      (Inr [(''a'', False), (''b'', False)], ?g)"
    by (rule example_circuits) (simp add: example_open_keys)
  moreover obtain g' where "choose_upstream example_env w ?r 4100 example_lis1
      [(''a'', False), (''b'', False)] ?g = (Inr (hd example_pool), g')"
    using example_choice by blast
  ultimately show ?thesis
    using forward_sends [OF example_printable]
    by (simp add: ServeHTTP_def and_then_def example_admit example_policy)
qed

theorem sent_only_if_admitted_witness:
  "\<exists>p (out :: out_request) g' u. ServeHTTP example_handler example_env Map.empty (example_request example_key)
      example_gateway = ((p, Some out), g') \<and> peer_within (gh_trusted example_handler) (example_request example_key)
    \<and> u \<in> set example_pool \<and> Healthy (e_health2 example_env) u \<and> o_Host out = Some (Authority u)"
proof -
  obtain p out g' where sent: "ServeHTTP example_handler example_env Map.empty (example_request example_key)
      example_gateway = ((p, Some out), g')"
    using example_sent by blast
  from sent_only_if_admitted [OF sent] sent show ?thesis
    by (auto simp: example_port example_gateway_snapshot example_listener example_lis1_def)
qed

theorem authenticate_sound_witness:
  "\<exists>prefix secret. example_key = ''shn_'' @ prefix @ ''.'' @ secret
     \<and> sn_Credentials example_snapshot prefix = Some example_credential"
  using authenticate_sound [OF example_authenticate] by blast

theorem sent_headers_clean_witness:
  "\<exists>out :: out_request. header_values (o_Header out) ''X-API-Key'' = [] \<and> header_values (o_Header out) ''Connection'' = []
     \<and> header_values (o_Header out) ''X-Correlation-ID'' = [''c1'']"
proof -
  obtain p out g' where "ServeHTTP example_handler example_env Map.empty (example_request example_key)
      example_gateway = ((p, Some out), g')"
    using example_sent by blast
  from sent_headers_clean [OF this] have "header_values (o_Header out) ''X-API-Key'' = []"
    "header_values (o_Header out) ''Connection'' = (if upgradeType (q_Header (example_request example_key)) = [] then []
      else [''Upgrade''])"
    "header_values (o_Header out) ''X-Correlation-ID'' = [''c1'']"
    by (simp_all add: example_request_def)
  moreover have "upgradeType (q_Header (example_request example_key)) = []"
    by (simp add: upgradeType_def contains_token_def example_request_def header_values_set canonical_names
        canonical_hop_names APIKeyHeader_def ListenerPortHeader_def)
  ultimately show ?thesis by auto
qed

end
