(* ===== verification/Rate_Limit.thy ===== *)
theory Rate_Limit
  imports Coordination
begin

text \<open>
  What the distributed policies promise for every interleaving of requests on every server with
  the laws of Redis, keys expiring as time passes: a bound on the grants of a window, the exact
  decisions when one consumer is alone, and the life of a circuit.
\<close>

section \<open>What a counter can grant\<close>

text \<open>
  A counter that has been started lasts a second, so that a number of requests can start it only so
  often: \<open>restarts d\<close> is how often between now and \<open>d\<close> milliseconds from now.
\<close>

definition restarts :: "int \<Rightarrow> nat" where
  "restarts d = (if d < 0 then 0 else Suc (nat (d div 1000)))"

lemma restarts_mono: "d \<le> d' \<Longrightarrow> restarts d \<le> restarts d'"
  by (auto simp: restarts_def zdiv_mono1 nat_mono)

lemma restarts_next: "0 \<le> d \<Longrightarrow> restarts d = Suc (restarts (d - 1000))"
proof (cases "d < 1000")
  case False
  then have "d div 1000 = 1 + (d - 1000) div 1000" "0 \<le> (d - 1000) div 1000" by simp_all
  then show ?thesis using False by (simp add: restarts_def nat_add_distrib)
qed (simp add: restarts_def)

text \<open>
  What a counter of value \<open>v\<close> and time to live \<open>ttl\<close> at the time \<open>at\<close> can still grant to requests
  that arrive from \<open>start\<close> to \<open>stop\<close>, when a window grants \<open>m\<close>.
\<close>

definition allowance :: "int \<Rightarrow> int \<Rightarrow> int \<Rightarrow> int \<Rightarrow> int \<Rightarrow> int option \<Rightarrow> nat" where
  "allowance m start stop at v ttl =
     (if v = 0 then nat m * restarts (stop - max at start)
      else nat (m - v) + nat m * restarts (stop - (at + (case ttl of None \<Rightarrow> 0 | Some t \<Rightarrow> t))))"

definition counting :: "int \<Rightarrow> int option \<Rightarrow> bool" where
  "counting v ttl \<longleftrightarrow> 0 \<le> v \<and> (v = 0 \<or> ttl \<noteq> None)"

text \<open>A counted request costs one grant, whether it starts the counter or adds to it.\<close>

lemma counted_allowance:
  assumes "counting v ttl" and "start \<le> at" and "at \<le> stop"
  shows "(if v < m then 1 else 0) + allowance m start stop at (v + 1) (if v = 0 then Some 1000 else ttl)
    \<le> allowance m start stop at v ttl"
proof (cases "v = 0")
  case True
  have "restarts (stop - at) = Suc (restarts (stop - (at + 1000)))"
    using assms(3) restarts_next [of "stop - at"] by (simp add: algebra_simps)
  moreover have "(if 0 < m then 1 else 0) + nat (m - 1) \<le> nat m" by auto
  ultimately show ?thesis using True assms(2) by (simp add: allowance_def max_def)
next
  case False
  with assms(1) have "0 < v" by (simp add: counting_def)
  then show ?thesis by (auto simp: allowance_def)
qed

context redis_server
begin

lemma perform_outside:
  assumes "\<not> in_window e l k second c" and "call_ids_ok c" and "list_all colon_free [e, l, k]"
  shows "rd_value R (snd (perform R c s)) (window_key e l k second)
       = rd_value R s (window_key e l k second)"
proof -
  have "window_key e l k second \<noteq> rateKey (pc_environment c) (pc_listener c) (pc_consumer c) (pc_now c)"
    using assms in_window_key by metis
  moreover have "window_key e l k second \<noteq> quotaKey (pc_environment c) (pc_listener c) (pc_consumer c) (pc_now c)"
    unfolding window_key_def using assms by (intro rateKey_quotaKey) (simp add: call_ids_ok_def)
  ultimately show ?thesis
    by (simp add: perform_def AllowRequest_def split_def policy_value_other)
qed

lemma perform_inside_value:
  assumes "in_window e l k second c" and "call_ids_ok c" and "list_all colon_free [e, l, k]"
    and "0 < pc_rate c"
  shows "rd_value R (snd (perform R c s)) (window_key e l k second) =
     rd_value R s (window_key e l k second) + (if pc_online c then 1 else 0)"
proof -
  have "window_key e l k second = rateKey (pc_environment c) (pc_listener c) (pc_consumer c) (pc_now c)"
    using assms in_window_key by metis
  moreover have "rateKey (pc_environment c) (pc_listener c) (pc_consumer c) (pc_now c)
      \<noteq> quotaKey (pc_environment c) (pc_listener c) (pc_consumer c) (pc_now c)"
    using assms by (intro rateKey_quotaKey) (simp add: call_ids_ok_def)
  ultimately show ?thesis
    using assms(4) by (simp add: perform_def AllowRequest_def split_def policy_value_rate)
qed

lemma perform_inside_limited:
  assumes "in_window e l k second c" and "call_ids_ok c" and "list_all colon_free [e, l, k]"
    and "0 < pc_rate c" and "pc_online c"
  shows "fst (perform R c s) = Inr DecisionRateLimited \<longleftrightarrow>
     pc_rate c + pc_burst c \<le> rd_value R s (window_key e l k second)"
proof -
  have "window_key e l k second = rateKey (pc_environment c) (pc_listener c) (pc_consumer c) (pc_now c)"
    using assms in_window_key by metis
  then show ?thesis
    using assms(4,5) by (auto simp: perform_def AllowRequest_def split_def policy_decision_limited)
qed

lemma perform_outside_ttl:
  assumes "\<not> in_window e l k second c" and "call_ids_ok c" and "list_all colon_free [e, l, k]"
  shows "rd_ttl R (snd (perform R c s)) (window_key e l k second) = rd_ttl R s (window_key e l k second)"
proof -
  have "window_key e l k second \<noteq> rateKey (pc_environment c) (pc_listener c) (pc_consumer c) (pc_now c)"
    using assms in_window_key by metis
  moreover have "window_key e l k second \<noteq> quotaKey (pc_environment c) (pc_listener c) (pc_consumer c) (pc_now c)"
    unfolding window_key_def using assms by (intro rateKey_quotaKey) (simp add: call_ids_ok_def)
  ultimately show ?thesis
    by (simp add: perform_def AllowRequest_def split_def policy_ttl_other)
qed

lemma perform_inside_ttl:
  assumes "in_window e l k second c" and "call_ids_ok c" and "list_all colon_free [e, l, k]"
    and "0 < pc_rate c"
  shows "rd_ttl R (snd (perform R c s)) (window_key e l k second) =
     (if pc_online c \<and> rd_value R s (window_key e l k second) = 0 then Some 1000
      else rd_ttl R s (window_key e l k second))"
proof -
  have "window_key e l k second = rateKey (pc_environment c) (pc_listener c) (pc_consumer c) (pc_now c)"
    using assms in_window_key by metis
  moreover have "rateKey (pc_environment c) (pc_listener c) (pc_consumer c) (pc_now c)
      \<noteq> quotaKey (pc_environment c) (pc_listener c) (pc_consumer c) (pc_now c)"
    using assms by (intro rateKey_quotaKey) (simp add: call_ids_ok_def)
  ultimately show ?thesis
    using assms(4) by (simp add: perform_def AllowRequest_def split_def policy_ttl_rate)
qed

lemma granted_Cons:
  "granted e l k second ((c, r) # rs) =
     (if in_window e l k second c \<and> r = Inr DecisionAllow then 1 else 0) + granted e l k second rs"
  by (simp add: granted_def)

text \<open>Time passes: the counter gains nothing that its expiry would not give it.\<close>

lemma pass_allowance:
  assumes "counting (rd_value R s j) (rd_ttl R s j)" and "at \<le> at'"
  shows "counting (rd_value R (rd_pass R (nat (at' - at)) s) j) (rd_ttl R (rd_pass R (nat (at' - at)) s) j)"
    and "allowance m start stop at' (rd_value R (rd_pass R (nat (at' - at)) s) j) (rd_ttl R (rd_pass R (nat (at' - at)) s) j)
      \<le> allowance m start stop at (rd_value R s j) (rd_ttl R s j)"
proof -
  let ?d = "nat (at' - at)" and ?v = "rd_value R s j"
  have "counting (rd_value R (rd_pass R ?d s) j) (rd_ttl R (rd_pass R ?d s) j)
    \<and> allowance m start stop at' (rd_value R (rd_pass R ?d s) j) (rd_ttl R (rd_pass R ?d s) j)
      \<le> allowance m start stop at ?v (rd_ttl R s j)"
  proof (cases rule: pass_cases [of ?d s j])
    case kept
    have "restarts (stop - max at' start) \<le> restarts (stop - max at start)"
      using assms(2) by (intro restarts_mono) auto
    with kept(1,3) assms show ?thesis
      by (cases "rd_ttl R s j") (auto simp: counting_def allowance_def add.commute intro: mult_le_mono2)
  next
    case (gone t)
    have "restarts (stop - max at' start) \<le> restarts (stop - max at start)"
      "restarts (stop - max at' start) \<le> restarts (stop - (at + t))"
      using assms(2) gone(2) by (auto intro!: restarts_mono)
    with gone assms(2) show ?thesis
      by (auto simp: counting_def allowance_def intro!: trans_le_add2 mult_le_mono2)
  qed
  then show "counting (rd_value R (rd_pass R ?d s) j) (rd_ttl R (rd_pass R ?d s) j)"
    and "allowance m start stop at' (rd_value R (rd_pass R ?d s) j) (rd_ttl R (rd_pass R ?d s) j)
      \<le> allowance m start stop at ?v (rd_ttl R s j)" by simp_all
qed

lemma granted_bound:
  assumes "list_all colon_free [e, l, k]" and "0 < rate"
  shows "\<forall>c \<in> set cs. call_ids_ok c \<and> (in_window e l k second c \<longrightarrow> pc_rate c = rate \<and> pc_burst c = burst
       \<and> start \<le> pc_at c \<and> pc_at c \<le> stop) \<Longrightarrow> in_order at cs \<Longrightarrow>
     counting (rd_value R s (window_key e l k second)) (rd_ttl R s (window_key e l k second))
    \<Longrightarrow> granted e l k second (perform_all R cs at s)
          \<le> allowance (rate + burst) start stop at (rd_value R s (window_key e l k second))
              (rd_ttl R s (window_key e l k second))"
proof (induction cs arbitrary: at s)
  case Nil
  then show ?case by (simp add: granted_def)
next
  case (Cons c cs)
  let ?K = "window_key e l k second" and ?at = "pc_at c" and ?m = "rate + burst"
  let ?s = "rd_pass R (nat (pc_at c - at)) s"
  obtain r s' where step: "perform R c ?s = (r, s')" by fastforce
  have ok: "call_ids_ok c" and order: "at \<le> ?at" "in_order ?at cs" using Cons.prems by simp_all
  note aged = pass_allowance [OF Cons.prems(3) order(1)]
  have IH: "counting (rd_value R s' ?K) (rd_ttl R s' ?K) \<Longrightarrow>
      granted e l k second (perform_all R cs ?at s') \<le> allowance ?m start stop ?at (rd_value R s' ?K) (rd_ttl R s' ?K)"
    using Cons.IH [OF _ order(2)] Cons.prems(1) by simp
  have "granted e l k second ((c, r) # perform_all R cs ?at s')
      \<le> allowance ?m start stop ?at (rd_value R ?s ?K) (rd_ttl R ?s ?K)"
  proof (cases "in_window e l k second c \<and> pc_online c")
    case False
    have "rd_value R s' ?K = rd_value R ?s ?K \<and> rd_ttl R s' ?K = rd_ttl R ?s ?K
        \<and> \<not> (in_window e l k second c \<and> r = Inr DecisionAllow)"
    proof (cases "in_window e l k second c")
      case True
      with False step show ?thesis by (auto simp: perform_def AllowRequest_def)
    next
      case out: False
      then show ?thesis
        using perform_outside [OF out ok assms(1), of ?s] perform_outside_ttl [OF out ok assms(1), of ?s] step by simp
    qed
    with IH aged(1) show ?thesis by (auto simp: granted_Cons)
  next
    case True
    then have pol: "pc_rate c = rate" "pc_burst c = burst" "start \<le> ?at" "?at \<le> stop" using Cons.prems(1) by simp_all
    have inside: "in_window e l k second c" "call_ids_ok c" "list_all colon_free [e, l, k]" "0 < pc_rate c"
      using True ok assms pol by simp_all
    have v: "rd_value R s' ?K = rd_value R ?s ?K + 1"
      and t: "rd_ttl R s' ?K = (if rd_value R ?s ?K = 0 then Some 1000 else rd_ttl R ?s ?K)"
      using perform_inside_value [OF inside, of ?s] perform_inside_ttl [OF inside, of ?s] True step by simp_all
    have "r = Inr DecisionAllow \<Longrightarrow> rd_value R ?s ?K < ?m"
      using perform_inside_limited [OF inside, of ?s] True pol step
      by (auto simp: DecisionAllow_def DecisionRateLimited_def)
    moreover have "counting (rd_value R s' ?K) (rd_ttl R s' ?K)" using aged(1) by (auto simp: v t counting_def)
    ultimately show ?thesis
      using IH counted_allowance [OF aged(1) pol(3,4), of ?m] by (auto simp: granted_Cons v t split: if_splits)
  qed
  with aged(2) [of ?m start stop] show ?case by (auto simp: step)
qed

text \<open>The counter lives as long as every request comes within a second of the first.\<close>

lemma decisions_alone:
  assumes "list_all colon_free [e, l, k]" and "0 < rate"
  shows "\<forall>c \<in> set cs. call_ids_ok c \<and> in_window e l k second c \<and> pc_online c \<and> pc_rate c = rate
       \<and> pc_burst c = burst \<and> pc_quota c \<le> 0 \<and> start \<le> pc_at c \<and> pc_at c < start + 1000
    \<Longrightarrow> in_order at cs
    \<Longrightarrow> rd_value R s (window_key e l k second) = 0
        \<or> (\<exists>t. rd_ttl R s (window_key e l k second) = Some t \<and> start + 1000 \<le> at + t)
    \<Longrightarrow> n = nat (rate + burst - rd_value R s (window_key e l k second))
    \<Longrightarrow> map snd (perform_all R cs at s) =
          replicate (min (length cs) n) (Inr DecisionAllow)
          @ replicate (length cs - n) (Inr DecisionRateLimited)"
proof (induction cs arbitrary: at s n)
  case (Cons c cs)
  let ?K = "window_key e l k second" and ?at = "pc_at c"
  let ?s = "rd_pass R (nat (pc_at c - at)) s"
  obtain r s' where step: "perform R c ?s = (r, s')" by fastforce
  have c: "in_window e l k second c" "call_ids_ok c" "pc_online c" "pc_rate c = rate" "pc_burst c = burst"
    "pc_quota c \<le> 0" "start \<le> ?at" "?at < start + 1000" "at \<le> ?at" "in_order ?at cs"
    using Cons.prems(1,2) by simp_all
  have aged: "rd_value R ?s ?K = rd_value R s ?K
    \<and> (rd_value R s ?K = 0 \<or> (\<exists>t. rd_ttl R ?s ?K = Some t \<and> start + 1000 \<le> ?at + t))"
  proof (cases rule: pass_cases [of "nat (?at - at)" s ?K])
    case kept
    with Cons.prems(3) c(9) show ?thesis by auto
  next
    case (gone t)
    with c(8,9) have "\<not> start + 1000 \<le> at + t" by simp
    with gone Cons.prems(3) show ?thesis by simp
  qed
  have inside: "in_window e l k second c" "call_ids_ok c" "list_all colon_free [e, l, k]" "0 < pc_rate c"
    using c assms by simp_all
  have v: "rd_value R s' ?K = rd_value R s ?K + 1"
    using perform_inside_value [OF inside, of ?s] c(3) step aged by simp
  have t: "rd_ttl R s' ?K = (if rd_value R s ?K = 0 then Some 1000 else rd_ttl R ?s ?K)"
    using perform_inside_ttl [OF inside, of ?s] c(3) step aged by simp
  have r: "r = (if rate + burst \<le> rd_value R s ?K then Inr DecisionRateLimited else Inr DecisionAllow)"
    using perform_inside_limited [OF inside, of ?s] c assms(2) step aged
    by (auto simp: perform_def AllowRequest_def split_def policy_no_quota split: if_splits)
  have alive: "rd_value R s' ?K = 0 \<or> (\<exists>t. rd_ttl R s' ?K = Some t \<and> start + 1000 \<le> ?at + t)"
    using aged c(7) t by auto
  have "n - 1 = nat (rate + burst - rd_value R s' ?K)" using Cons.prems(4) v by simp
  from Cons.IH [OF _ c(10) alive this] Cons.prems(1)
  have "map snd (perform_all R cs ?at s') = replicate (min (length cs) (n - 1)) (Inr DecisionAllow)
      @ replicate (length cs - (n - 1)) (Inr DecisionRateLimited)" by simp
  moreover have "r = (if n = 0 then Inr DecisionRateLimited else Inr DecisionAllow)"
    using r Cons.prems(4) by auto
  moreover have "map snd (perform_all R (c # cs) at s) = r # map snd (perform_all R cs ?at s')"
    by (simp add: step)
  ultimately show ?case by (cases n) simp_all
qed simp

end

section \<open>Failures of an upstream\<close>

text \<open>
  Failures of an upstream one after the other; each waits for the given number of milliseconds.
\<close>

fun failures_after :: "'s redis \<Rightarrow> string \<Rightarrow> string \<Rightarrow> int \<Rightarrow> int \<Rightarrow> nat list \<Rightarrow> 's \<Rightarrow> 's" where
  "failures_after R e u threshold openFor [] s = s"
| "failures_after R e u threshold openFor (wait # waits) s =
     failures_after R e u threshold openFor waits
       (snd (RecordUpstream R True e u False threshold openFor (rd_pass R wait s)))"

context redis_server
begin

lemma circuit_pass:
  "rd_exists R k (rd_pass R d s) \<Longrightarrow> rd_exists R k s"
  by (cases rule: pass_cases [of d s k]) auto

text \<open>A failure that is recorded, by the value and the time to live of the counter before it.\<close>

lemma failure_recorded:
  assumes "0 < openFor div 1000000" and "\<not> rd_exists R (circuitOpenKey e u) s"
    and "s' = snd (RecordUpstream R True e u False threshold openFor s)"
    and "v = rd_value R s (circuitFailureKey e u)"
  shows "rd_exists R (circuitOpenKey e u) s' \<longleftrightarrow> threshold \<le> v + 1"
    and "threshold \<le> v + 1 \<Longrightarrow> rd_value R s' (circuitFailureKey e u) = 0
      \<and> rd_ttl R s' (circuitOpenKey e u) = Some (openFor div 1000000)"
    and "v + 1 < threshold \<Longrightarrow> rd_value R s' (circuitFailureKey e u) = v + 1
      \<and> rd_ttl R s' (circuitFailureKey e u) = (if v = 0 then Some (openFor div 1000000)
           else rd_ttl R s (circuitFailureKey e u))"
  using assms failure_script_value [OF assms(1) keys_distinct] failure_script_open [OF assms(1) keys_distinct]
    failure_script_ttl [OF assms(1) keys_distinct] failure_script_count_ttl [OF assms(1) keys_distinct]
  by (simp_all add: RecordUpstream_def)

lemma aged_counter:
  "rd_value R (rd_pass R d s) k = 0 \<or> rd_value R (rd_pass R d s) k = rd_value R s k
     \<and> rd_ttl R (rd_pass R d s) k = map_option (\<lambda>t. t - int d) (rd_ttl R s k)
     \<and> (\<forall>t. rd_ttl R s k = Some t \<longrightarrow> int d \<le> t)"
  by (cases rule: pass_cases [of d s k]) auto

text \<open>Too few failures never open the circuit.\<close>

lemma few_failures:
  assumes "0 < openFor div 1000000"
  shows "0 \<le> rd_value R s (circuitFailureKey e u) \<Longrightarrow>
    rd_value R s (circuitFailureKey e u) + int (length waits) < threshold \<Longrightarrow>
    \<not> rd_exists R (circuitOpenKey e u) s \<Longrightarrow>
    \<not> rd_exists R (circuitOpenKey e u) (failures_after R e u threshold openFor waits s)"
proof (induction waits arbitrary: s)
  case (Cons wait waits)
  let ?F = "circuitFailureKey e u" and ?s = "rd_pass R wait s"
  let ?t = "snd (RecordUpstream R True e u False threshold openFor ?s)"
  have closed: "\<not> rd_exists R (circuitOpenKey e u) ?s" using Cons.prems(3) circuit_pass by blast
  have v: "0 \<le> rd_value R ?s ?F" "rd_value R ?s ?F \<le> rd_value R s ?F"
    using aged_counter [of wait s ?F] Cons.prems(1) by auto
  then have few: "rd_value R ?s ?F + 1 < threshold \<or> threshold \<le> rd_value R ?s ?F + 1 \<and> False"
    using Cons.prems(2) by simp
  note rec = failure_recorded [OF assms closed refl refl, of threshold]
  from few rec have "rd_value R ?t ?F = rd_value R ?s ?F + 1" "\<not> rd_exists R (circuitOpenKey e u) ?t" by auto
  with Cons.IH [of ?t] Cons.prems(2) v show ?case by simp
qed simp

text \<open>Failures within the life of their counter add up.\<close>

lemma failures_add_up:
  assumes "0 < openFor div 1000000"
  shows "rd_value R s (circuitFailureKey e u) = int f \<Longrightarrow> f < threshold \<Longrightarrow>
    \<not> rd_exists R (circuitOpenKey e u) s \<Longrightarrow> length waits \<le> threshold - f \<Longrightarrow>
    (if f = 0 then int (sum_list (tl waits)) < openFor div 1000000
     else \<exists>t. rd_ttl R s (circuitFailureKey e u) = Some t \<and> int (sum_list waits) < t) \<Longrightarrow>
    s' = failures_after R e u (int threshold) openFor waits s \<Longrightarrow>
    (rd_exists R (circuitOpenKey e u) s' \<longleftrightarrow> length waits = threshold - f)
    \<and> (length waits = threshold - f \<longrightarrow> rd_value R s' (circuitFailureKey e u) = 0
        \<and> rd_ttl R s' (circuitOpenKey e u) = Some (openFor div 1000000))"
proof (induction waits arbitrary: s f)
  case (Cons wait waits)
  let ?F = "circuitFailureKey e u" and ?s = "rd_pass R wait s"
  let ?t = "snd (RecordUpstream R True e u False (int threshold) openFor ?s)"
  have closed: "\<not> rd_exists R (circuitOpenKey e u) ?s" using Cons.prems(3) circuit_pass by blast
  note rec = failure_recorded [OF assms closed refl refl, of "int threshold"]
  have v: "rd_value R ?s ?F = int f" and alive: "f \<noteq> 0 \<Longrightarrow>
      \<exists>t. rd_ttl R ?s ?F = Some t \<and> int (sum_list waits) < t"
  proof -
    show "rd_value R ?s ?F = int f"
    proof (cases rule: pass_cases [of wait s ?F])
      case (gone t)
      with Cons.prems(1,5) show ?thesis by (auto split: if_splits)
    qed (use Cons.prems(1) in simp)
    show "\<exists>t. rd_ttl R ?s ?F = Some t \<and> int (sum_list waits) < t" if "f \<noteq> 0"
      using that aged_counter [of wait s ?F] Cons.prems(1,5) \<open>rd_value R ?s ?F = int f\<close> by auto
  qed
  show ?case
  proof (cases "Suc f = threshold")
    case True
    with Cons.prems(4) have "waits = []" by (cases waits) auto
    with True Cons.prems(6) rec(1,2) v show ?thesis by auto
  next
    case False
    with Cons.prems(2) have more: "Suc f < threshold" by simp
    with rec(1,3) v have t: "rd_value R ?t ?F = int (Suc f)" "\<not> rd_exists R (circuitOpenKey e u) ?t"
      "rd_ttl R ?t ?F = (if f = 0 then Some (openFor div 1000000) else rd_ttl R ?s ?F)"
      by auto
    have "\<exists>t. rd_ttl R ?t ?F = Some t \<and> int (sum_list waits) < t"
      using t(3) alive Cons.prems(5) by (cases "f = 0") auto
    with Cons.IH [OF t(1) more t(2)] Cons.prems(4,6) more show ?thesis by auto
  qed
qed simp

text \<open>Failures that come after the end of the first one's counter do not.\<close>

lemma failures_apart:
  assumes "0 < openFor div 1000000" and "1 \<le> threshold"
  shows "rd_value R s (circuitFailureKey e u) = int f \<Longrightarrow> 0 < f \<Longrightarrow>
    \<not> rd_exists R (circuitOpenKey e u) s \<Longrightarrow> f + length waits \<le> threshold \<Longrightarrow>
    rd_ttl R s (circuitFailureKey e u) = Some t \<Longrightarrow> t < int (sum_list waits) \<Longrightarrow>
    \<not> rd_exists R (circuitOpenKey e u) (failures_after R e u (int threshold) openFor waits s)"
proof (induction waits arbitrary: s f t)
  case (Cons wait waits)
  let ?F = "circuitFailureKey e u" and ?s = "rd_pass R wait s"
  let ?t = "snd (RecordUpstream R True e u False (int threshold) openFor ?s)"
  have closed: "\<not> rd_exists R (circuitOpenKey e u) ?s" using Cons.prems(3) circuit_pass by blast
  note rec = failure_recorded [OF assms(1) closed refl refl, of "int threshold"]
  show ?case
  proof (cases "rd_value R ?s ?F = 0")
    case True
    with Cons.prems(2,4) rec have "rd_value R ?t ?F = 1" "\<not> rd_exists R (circuitOpenKey e u) ?t" by auto
    with few_failures [OF assms(1), of ?t e u waits "int threshold"] Cons.prems(2,4) show ?thesis by simp
  next
    case False
    with aged_counter [of wait s ?F] Cons.prems(1,5) have v: "rd_value R ?s ?F = int f"
      "rd_ttl R ?s ?F = Some (t - int wait)" "int wait \<le> t" by auto
    have "waits \<noteq> []" using v(3) Cons.prems(6) by auto
    with Cons.prems(4) have more: "Suc f < threshold" by (cases waits) auto
    with rec v Cons.prems(2) have "rd_value R ?t ?F = int (Suc f)" "\<not> rd_exists R (circuitOpenKey e u) ?t"
      "rd_ttl R ?t ?F = Some (t - int wait)" by auto
    with Cons.IH [of ?t "Suc f" "t - int wait"] Cons.prems(4,6) show ?thesis by simp
  qed
qed simp

lemma spread_failures:
  assumes "0 < openFor div 1000000" and "1 \<le> threshold" and "rd_value R s (circuitFailureKey e u) = 0"
    and "\<not> rd_exists R (circuitOpenKey e u) s" and "length waits \<le> threshold"
    and "openFor div 1000000 < int (sum_list (tl waits))"
  shows "\<not> rd_exists R (circuitOpenKey e u) (failures_after R e u (int threshold) openFor waits s)"
proof (cases waits)
  case (Cons wait rest)
  let ?F = "circuitFailureKey e u" and ?s = "rd_pass R wait s"
  let ?t = "snd (RecordUpstream R True e u False (int threshold) openFor ?s)"
  have closed: "\<not> rd_exists R (circuitOpenKey e u) ?s" using assms(4) circuit_pass by blast
  have "rest \<noteq> []" using assms(1,6) Cons by auto
  with assms(5) Cons have more: "1 < threshold" by (cases rest) auto
  have "rd_value R ?s ?F = 0" using aged_counter [of wait s ?F] assms(3) by auto
  with failure_recorded [OF assms(1) closed refl refl, of "int threshold"] more
  have "rd_value R ?t ?F = int 1" "\<not> rd_exists R (circuitOpenKey e u) ?t"
    "rd_ttl R ?t ?F = Some (openFor div 1000000)" by auto
  from failures_apart [OF assms(1,2) this(1) _ this(2) _ this(3)] assms(5,6) Cons show ?thesis by simp
qed (use assms in simp)

text \<open>An open circuit stays open for its time and is closed again afterwards.\<close>

lemma circuit_life:
  assumes "rd_ttl R s k = Some t"
  shows "int d < t \<Longrightarrow> rd_exists R k (rd_pass R d s)" and "t < int d \<Longrightarrow> \<not> rd_exists R k (rd_pass R d s)"
  using pass_kept [OF assms] pass_gone [OF assms] by auto

end

section \<open>Properties\<close>

text \<open>
  Claim C11: the rate limit holds across replicas: whatever requests of whatever clients interleave,
  a consumer whose requests to a listener within one second of the replicas' clocks arrive at Redis
  within \<open>spread\<close> milliseconds has at most \<open>rate + burst\<close> of them allowed when they arrive within a
  second (\<open>spread < 1000\<close>), and at most as many again for every further second over which clocks
  that disagree or delayed calls spread them, because the counter lives for a second from the first.
\<close>

theorem rate_limit_bound:
  assumes "redis_server R" and "list_all colon_free [e, l, k]" and "0 < rate"
    and "\<forall>c \<in> set calls. call_ids_ok c
           \<and> (in_window e l k second c \<longrightarrow> pc_rate c = rate \<and> pc_burst c = burst
                \<and> start \<le> pc_at c \<and> pc_at c \<le> start + spread)"
    and "in_order at calls" and "rd_value R s (window_key e l k second) = 0"
  shows "granted e l k second (perform_all R calls at s) \<le> Suc (nat (spread div 1000)) * nat (rate + burst)"
proof -
  have "counting (rd_value R s (window_key e l k second)) (rd_ttl R s (window_key e l k second))"
    using assms(6) by (simp add: counting_def)
  from redis_server.granted_bound [OF assms(1-5) this]
  have "granted e l k second (perform_all R calls at s)
      \<le> nat (rate + burst) * restarts (start + spread - max at start)"
    using assms(6) by (simp add: allowance_def)
  also have "\<dots> \<le> nat (rate + burst) * restarts spread"
    by (intro mult_le_mono2 restarts_mono) simp
  also have "\<dots> \<le> nat (rate + burst) * Suc (nat (spread div 1000))"
    by (intro mult_le_mono2) (simp add: restarts_def)
  finally show ?thesis by (simp add: mult.commute)
qed

text \<open>
  Claim C26: a consumer alone in its window and without a quota, whose requests all arrive at Redis
  within less than a second, gets exactly the first \<open>rate + burst\<close> of them allowed and every
  later one rejected as rate limited.
\<close>

theorem rate_limit_exact:
  assumes "redis_server R" and "list_all colon_free [e, l, k]" and "0 < rate"
    and "\<forall>c \<in> set calls. call_ids_ok c \<and> in_window e l k second c \<and> pc_online c
           \<and> pc_rate c = rate \<and> pc_burst c = burst \<and> pc_quota c \<le> 0
           \<and> start \<le> pc_at c \<and> pc_at c < start + 1000"
    and "in_order at calls" and "rd_value R s (window_key e l k second) = 0"
  shows "map snd (perform_all R calls at s) =
     replicate (min (length calls) (nat (rate + burst))) (Inr DecisionAllow)
     @ replicate (length calls - nat (rate + burst)) (Inr DecisionRateLimited)"
  using redis_server.decisions_alone [OF assms(1-5), of s "nat (rate + burst)"] assms(6) by simp

text \<open>
  A request rejected by the rate limit does not use up the consumer's quota.
\<close>

lemma rate_limited_keeps_quota:
  assumes "redis_server R" and "list_all colon_free [e, l, k]"
    and "AllowRequest R online now e l k rate burst quota s = (Inr DecisionRateLimited, s')"
  shows "rd_value R s' (quotaKey e l k now) = rd_value R s (quotaKey e l k now)"
proof -
  have "rateKey e l k now \<noteq> quotaKey e l k now"
    using assms(2) by (intro rateKey_quotaKey) simp
  with assms(3) show ?thesis
    using redis_server.limited_keeps_quota [OF assms(1)]
    by (auto simp: AllowRequest_def split_def split: if_splits)
qed

text \<open>
  Claim C25: from a closed circuit without recorded failures, at most \<open>threshold\<close> failures that follow
  one another after the given waits open the circuit exactly when they are \<open>threshold\<close> many and less
  than \<open>openFor\<close> lies between the first and the last; the failure count then starts anew and the
  circuit stays open for \<open>openFor\<close> and is closed afterwards. Failures that lie further apart than
  \<open>openFor\<close> do not open it, since their count expires.
\<close>

theorem circuit_opens_at_threshold:
  assumes "redis_server R" and "1 \<le> threshold" and "1000000 \<le> openFor" and "length waits \<le> threshold"
    and "rd_value R s (circuitFailureKey e u) = 0" and "CircuitOpen R True e u s = Inr False"
    and "s' = failures_after R e u (int threshold) openFor waits s"
    and "open_ms = openFor div 1000000"
  shows "(int (sum_list (tl waits)) < open_ms \<longrightarrow>
      CircuitOpen R True e u s' = Inr (length waits = threshold)
      \<and> (length waits = threshold \<longrightarrow> rd_value R s' (circuitFailureKey e u) = 0
          \<and> (\<forall>d. int d < open_ms \<longrightarrow> CircuitOpen R True e u (rd_pass R d s') = Inr True)
          \<and> (\<forall>d. open_ms < int d \<longrightarrow> CircuitOpen R True e u (rd_pass R d s') = Inr False)))
    \<and> (open_ms < int (sum_list (tl waits)) \<longrightarrow> CircuitOpen R True e u s' = Inr False)"
proof (intro conjI impI)
  have ms: "0 < openFor div 1000000" using assms(3) by simp
  have start: "\<not> rd_exists R (circuitOpenKey e u) s" using assms(6) by (simp add: CircuitOpen_def)
  note life = redis_server.circuit_life [OF assms(1)]
  show "CircuitOpen R True e u s' = Inr False" if "open_ms < int (sum_list (tl waits))"
    using redis_server.spread_failures [OF assms(1) ms assms(2,5) start assms(4)] that assms(7,8)
    by (simp add: CircuitOpen_def)
  assume within: "int (sum_list (tl waits)) < open_ms"
  with redis_server.failures_add_up [where s = s and f = 0, OF assms(1) ms _ _ start _ _ assms(7)] assms(2,4,5,8)
  have add_up: "rd_exists R (circuitOpenKey e u) s' \<longleftrightarrow> length waits = threshold"
    "length waits = threshold \<longrightarrow> rd_value R s' (circuitFailureKey e u) = 0
      \<and> rd_ttl R s' (circuitOpenKey e u) = Some open_ms" by simp_all
  then show "CircuitOpen R True e u s' = Inr (length waits = threshold)" by (simp add: CircuitOpen_def)
  assume "length waits = threshold"
  with add_up(2) life show "rd_value R s' (circuitFailureKey e u) = 0"
    "\<forall>d. int d < open_ms \<longrightarrow> CircuitOpen R True e u (rd_pass R d s') = Inr True"
    "\<forall>d. open_ms < int d \<longrightarrow> CircuitOpen R True e u (rd_pass R d s') = Inr False"
    by (auto simp: CircuitOpen_def)
qed

text \<open>
  A recorded success forgets the failures counted so far and leaves an open
  circuit open until its key expires.
\<close>

lemma circuit_success_resets:
  assumes "redis_server R"
    and "s' = snd (RecordUpstream R True e u True threshold openFor s)"
  shows "rd_value R s' (circuitFailureKey e u) = 0 \<and> CircuitOpen R True e u s' = CircuitOpen R True e u s"
  using redis_server.del_value [OF assms(1)] redis_server.del_exists [OF assms(1)] assms(2)
    keys_distinct [of e u u]
  by (auto simp: RecordUpstream_def CircuitOpen_def)

section \<open>Witnesses\<close>

text \<open>Requests of one consumer at the given times of the server, all within one second of the gateway's clock.\<close>

definition example_call :: "int \<Rightarrow> policy_call" where
  "example_call at = \<lparr>pc_at = at, pc_online = True, pc_now = 1500000000, pc_environment = ''development'',
     pc_listener = ''lis_1'', pc_consumer = ''con_1'', pc_rate = 1, pc_burst = 1, pc_quota = 0\<rparr>"

lemma example_ids: "list_all colon_free [''development'', ''lis_1'', ''con_1'']"
  by (simp add: colon_free_def)

lemma example_call_ok:
  "call_ids_ok (example_call at) \<and> in_window ''development'' ''lis_1'' ''con_1'' 1 (example_call at)
     \<and> pc_online (example_call at) \<and> pc_rate (example_call at) = 1 \<and> pc_burst (example_call at) = 1
     \<and> pc_quota (example_call at) \<le> 0 \<and> pc_at (example_call at) = at"
  by (simp add: colon_free_def call_ids_ok_def example_call_def in_window_def)

theorem rate_limit_bound_witness:
  "granted ''development'' ''lis_1'' ''con_1'' 1
     (perform_all mem_redis (map example_call [100, 600, 1050]) 0 Map.empty) \<le> 2"
  using rate_limit_bound [OF mem_server.redis_server_axioms example_ids, of 1
      "map example_call [100, 600, 1050]" 1 1 100 950 0 Map.empty]
  by (simp add: example_call_ok mem_redis_def mem_value_def)

theorem rate_limit_exact_witness:
  "map snd (perform_all mem_redis (map example_call [100, 600, 1050]) 0 Map.empty) =
     [Inr DecisionAllow, Inr DecisionAllow, Inr DecisionRateLimited]"
  using rate_limit_exact [OF mem_server.redis_server_axioms example_ids, of 1
      "map example_call [100, 600, 1050]" 1 1 100 0 Map.empty]
  by (simp add: example_call_ok mem_redis_def mem_value_def numeral_eq_Suc)

text \<open>Three failures open a circuit when they come within its thirty seconds, and not otherwise.\<close>

theorem circuit_opens_at_threshold_witness:
  "CircuitOpen mem_redis True ''development'' ''up_1''
     (failures_after mem_redis ''development'' ''up_1'' 3 30000000000 [0, 10000, 10000] Map.empty) = Inr True
   \<and> CircuitOpen mem_redis True ''development'' ''up_1''
     (failures_after mem_redis ''development'' ''up_1'' 3 30000000000 [0, 20000, 20000] Map.empty) = Inr False"
  using circuit_opens_at_threshold [OF mem_server.redis_server_axioms, of 3 30000000000 "[0, 10000, 10000]" Map.empty
      "''development''" "''up_1''"]
    circuit_opens_at_threshold [OF mem_server.redis_server_axioms, of 3 30000000000 "[0, 20000, 20000]" Map.empty
      "''development''" "''up_1''"]
  by (simp add: CircuitOpen_def mem_redis_def mem_value_def)

end
