(* ===== verification/Gateway_Policy.thy ===== *)
theory Gateway_Policy
  imports Gateway_Access Rate_Limit
begin

text \<open>
  The gateway and its coordinator: which calls a request makes and in which order, that nothing
  is sent without the policy's consent, and that an attempt is recorded once, except an answer 101
  whose connection cannot be handed over. The calls are
  observed by \<open>logged\<close>, a coordinator that behaves like the given one and keeps a list of the calls
  with their results.
\<close>

datatype call =
    AllowCall string string string "(unit, int) result"
  | CircuitCall string "(unit, bool) result"
  | RecordCall string bool "(unit, unit) result"

definition logged :: "'c coordinator \<Rightarrow> ('c \<times> call list) coordinator" where
  "logged C =
     \<lparr>co_AllowRequest = (\<lambda>e l k rate burst quota (c, log).
        case co_AllowRequest C e l k rate burst quota c of (r, c') \<Rightarrow> (r, (c', log @ [AllowCall e l k r]))),
      co_CircuitOpen = (\<lambda>e u (c, log).
        case co_CircuitOpen C e u c of (r, c') \<Rightarrow> (r, (c', log @ [CircuitCall u r]))),
      co_RecordUpstream = (\<lambda>e u ok threshold openFor (c, log).
        case co_RecordUpstream C e u ok threshold openFor c of
          (r, c') \<Rightarrow> (r, (c', log @ [RecordCall u ok r])))\<rparr>"

fun is_record :: "call \<Rightarrow> bool" where
  "is_record (RecordCall _ _ _) = True"
| "is_record _ = False"

section \<open>The calls of each step\<close>

lemma admit_keeps_coord: "admit h en w r g = (x, g') \<Longrightarrow> g_coord g' = g_coord g"
  by (auto simp: admit_def Let_def count_event_def split: option.splits if_splits)

lemma apply_policy_snapshot: "apply_policy h w r s l cred g = (x, g') \<Longrightarrow> g_snapshot g' = g_snapshot g"
  by (auto simp: apply_policy_def Let_def count_event_def split: option.splits if_splits prod.splits sum.splits)

lemma check_circuits_snapshot: "check_circuits h w r s l g = (x, g') \<Longrightarrow> g_snapshot g' = g_snapshot g"
  by (auto simp: check_circuits_def Let_def count_event_def split: option.splits if_splits prod.splits sum.splits)

lemma choose_upstream_keeps_coord:
  "choose_upstream en w r port l blocked g = (x, g') \<Longrightarrow> g_coord g' = g_coord g"
  by (auto simp: choose_upstream_def Let_def count_event_def split: option.splits if_splits prod.splits)

definition policy_consent :: "snapshot \<Rightarrow> listener \<Rightarrow> credential option \<Rightarrow> call list \<Rightarrow> bool" where
  "policy_consent s l cred calls \<longleftrightarrow>
     (if 0 < l_RateLimitPerSecond l \<or> 0 < l_QuotaRequestsPerMinute l
      then \<exists>d. calls = [AllowCall (sn_Environment s) (l_ID l)
                  (case cred of None \<Rightarrow> ''public'' | Some c \<Rightarrow> c_ConsumerID c) (Inr d)]
               \<and> d \<noteq> DecisionRateLimited \<and> d \<noteq> DecisionQuotaExceeded
      else calls = [])"

lemma apply_policy_log:
  assumes "apply_policy h w r s l cred g = (x, g')" and "gh_coordinator h = Some (logged C)"
    and "g_coord g = (c, log)"
  shows "\<exists>c' calls. g_coord g' = (c', log @ calls) \<and> filter is_record calls = []
           \<and> (x = Inr () \<longrightarrow> policy_consent s l cred calls)"
  using assms
  by (auto simp: apply_policy_def policy_consent_def logged_def Let_def count_event_def
      split: if_splits prod.splits sum.splits)

lemma is_blocked_update: "is_blocked (AList.update k v bl) j = (if j = k then v else is_blocked bl j)"
  by (simp add: is_blocked_def AList.update_conv)

lemma query_circuits_log:
  "query_circuits (logged C) e us blocked (c, log) = (x, cl) \<Longrightarrow>
   \<exists>c' calls. cl = (c', log @ calls) \<and> filter is_record calls = []
     \<and> (\<forall>bl. x = Inr bl \<longrightarrow>
          (\<exists>opens. calls = map2 (\<lambda>u b. CircuitCall (u_ID u) (Inr b)) us opens \<and> length opens = length us)
        \<and> (\<forall>k. \<not> is_blocked bl k \<longrightarrow> CircuitCall k (Inr False) \<in> set calls
              \<or> k \<notin> u_ID ` set us \<and> \<not> is_blocked blocked k))"
proof (induction us arbitrary: blocked c log)
  case Nil
  then show ?case by auto
next
  case (Cons u us)
  obtain r c1 where call: "co_CircuitOpen C e (u_ID u) c = (r, c1)" by fastforce
  show ?case
  proof (cases r)
    case (Inl a)
    with Cons.prems call show ?thesis by (auto simp: logged_def)
  next
    case (Inr b)
    with Cons.prems call have "query_circuits (logged C) e us (AList.update (u_ID u) b blocked)
        (c1, log @ [CircuitCall (u_ID u) (Inr b)]) = (x, cl)"
      by (simp add: logged_def)
    from Cons.IH [OF this] obtain c' calls where
      cl: "cl = (c', (log @ [CircuitCall (u_ID u) (Inr b)]) @ calls)" and
      rec: "filter is_record calls = []" and
      ok: "\<forall>bl. x = Inr bl \<longrightarrow>
          (\<exists>opens. calls = map2 (\<lambda>u b. CircuitCall (u_ID u) (Inr b)) us opens \<and> length opens = length us)
        \<and> (\<forall>k. \<not> is_blocked bl k \<longrightarrow> CircuitCall k (Inr False) \<in> set calls
              \<or> k \<notin> u_ID ` set us \<and> \<not> is_blocked (AList.update (u_ID u) b blocked) k)"
      by blast
    have "\<exists>opens. CircuitCall (u_ID u) (Inr b) # calls =
        map2 (\<lambda>u b. CircuitCall (u_ID u) (Inr b)) (u # us) opens \<and> length opens = length (u # us)"
      if "x = Inr bl" for bl
    proof -
      from ok that obtain opens where
        "calls = map2 (\<lambda>u b. CircuitCall (u_ID u) (Inr b)) us opens" "length opens = length us" by blast
      then show ?thesis by (intro exI [of _ "b # opens"]) simp
    qed
    moreover have "CircuitCall k (Inr False) \<in> set (CircuitCall (u_ID u) (Inr b) # calls)
        \<or> k \<notin> u_ID ` set (u # us) \<and> \<not> is_blocked blocked k"
      if "x = Inr bl" "\<not> is_blocked bl k" for bl k
    proof -
      from ok that have "CircuitCall k (Inr False) \<in> set calls
          \<or> k \<notin> u_ID ` set us \<and> \<not> (if k = u_ID u then b else is_blocked blocked k)"
        by (simp add: is_blocked_update)
      then show ?thesis by (cases "k = u_ID u") auto
    qed
    moreover have "cl = (c', log @ CircuitCall (u_ID u) (Inr b) # calls)" using cl by simp
    moreover have "filter is_record (CircuitCall (u_ID u) (Inr b) # calls) = []" using rec by simp
    ultimately show ?thesis by blast
  qed
qed

definition circuits_asked :: "listener \<Rightarrow> upstream \<Rightarrow> call list \<Rightarrow> bool" where
  "circuits_asked l u calls \<longleftrightarrow>
     (if 0 < l_CircuitFailureThreshold l
      then (\<exists>opens. length opens = length (l_Upstreams l)
              \<and> calls = map2 (\<lambda>u b. CircuitCall (u_ID u) (Inr b)) (l_Upstreams l) opens)
           \<and> CircuitCall (u_ID u) (Inr False) \<in> set calls
      else calls = [])"

lemma check_circuits_log:
  assumes "check_circuits h w r s l g = (x, g')" and "gh_coordinator h = Some (logged C)"
    and "g_coord g = (c, log)"
  shows "\<exists>c' calls. g_coord g' = (c', log @ calls) \<and> filter is_record calls = []
           \<and> (\<forall>bl u. x = Inr bl \<longrightarrow> u \<in> set (l_Upstreams l) \<longrightarrow> \<not> is_blocked bl (u_ID u) \<longrightarrow>
                circuits_asked l u calls)"
proof (cases "0 < l_CircuitFailureThreshold l")
  case False
  with assms show ?thesis by (auto simp: check_circuits_def circuits_asked_def Let_def)
next
  case True
  obtain y cl where q: "query_circuits (logged C) (sn_Environment s) (l_Upstreams l) [] (c, log) = (y, cl)"
    using prod.exhaust by blast
  from query_circuits_log [OF q] obtain c' calls where
    cl: "cl = (c', log @ calls)" "filter is_record calls = []" and
    ok: "\<forall>bl. y = Inr bl \<longrightarrow>
          (\<exists>opens. calls = map2 (\<lambda>u b. CircuitCall (u_ID u) (Inr b)) (l_Upstreams l) opens
             \<and> length opens = length (l_Upstreams l))
        \<and> (\<forall>k. \<not> is_blocked bl k \<longrightarrow> CircuitCall k (Inr False) \<in> set calls
              \<or> k \<notin> u_ID ` set (l_Upstreams l) \<and> \<not> is_blocked [] k)"
    by blast
  from assms True q cl have g': "g_coord g' = (c', log @ calls)" and x: "\<And>bl. x = Inr bl \<Longrightarrow> y = Inr bl"
    by (auto simp: check_circuits_def count_event_def Let_def split: sum.splits)
  show ?thesis
  proof (intro exI conjI allI impI)
    fix bl u
    assume bl: "x = Inr bl" and u: "u \<in> set (l_Upstreams l)" "\<not> is_blocked bl (u_ID u)"
    from ok x [OF bl] have "\<exists>opens. calls = map2 (\<lambda>u b. CircuitCall (u_ID u) (Inr b)) (l_Upstreams l) opens
             \<and> length opens = length (l_Upstreams l)" by blast
    moreover from ok x [OF bl] u have "CircuitCall (u_ID u) (Inr False) \<in> set calls" by blast
    ultimately show "circuits_asked l u calls" using True by (auto simp: circuits_asked_def)
  qed (rule g', rule cl)
qed

text \<open>
  What an attempt records: nothing when the request body was too large, and otherwise the outcome,
  once. After an answer 101, recorded as a success, the connection is handed over to the client; when
  that fails a failure is recorded as well.
\<close>

definition switch_fails :: "env \<Rightarrow> out_request \<Rightarrow> upstream_response \<Rightarrow> bool" where
  "switch_fails en out a \<longleftrightarrow>
     (case e_switch en out (a\<lparr>ur_Header := header_del ''Server'' (ur_Header a)\<rparr>) of
        None \<Rightarrow> False | Some e \<Rightarrow> \<not> pe_TooLarge e \<and> \<not> pe_Coordination e)"

definition attempt_recorded :: "env \<Rightarrow> listener \<Rightarrow> upstream \<Rightarrow> out_request \<Rightarrow> call list \<Rightarrow> bool" where
  "attempt_recorded en l u out calls \<longleftrightarrow>
     (if 0 < l_CircuitFailureThreshold l then
        (case e_roundtrip en out of
           Inl e \<Rightarrow> if pe_TooLarge e \<or> pe_Coordination e then calls = []
                    else \<exists>res. calls = [RecordCall (u_ID u) False res]
         | Inr a \<Rightarrow> \<exists>res.
             if ur_StatusCode a = 101 \<and> is_ok res \<and> switch_fails en out a
             then \<exists>res'. calls = [RecordCall (u_ID u) True res, RecordCall (u_ID u) False res']
             else calls = [RecordCall (u_ID u) (ur_StatusCode a < 500) res])
      else calls = [])"

lemma recorded_once:
  assumes "e_roundtrip en out = Inr a" and "0 < l_CircuitFailureThreshold l \<Longrightarrow>
    \<not> (ur_StatusCode a = 101 \<and> is_ok res \<and> switch_fails en out a)"
  shows "attempt_recorded en l u out (if 0 < l_CircuitFailureThreshold l
    then [RecordCall (u_ID u) (ur_StatusCode a < 500) res] else [])"
  using assms unfolding attempt_recorded_def by (auto intro!: exI [of _ res])

lemma recorded_twice:
  assumes "e_roundtrip en out = Inr a" and "ur_StatusCode a = 101" and "switch_fails en out a"
    and "0 < l_CircuitFailureThreshold l \<Longrightarrow> is_ok res"
  shows "attempt_recorded en l u out (if 0 < l_CircuitFailureThreshold l
    then [RecordCall (u_ID u) True res, RecordCall (u_ID u) False res'] else [])"
  using assms unfolding attempt_recorded_def by (auto intro!: exI [of _ res])

lemma handle_error_log:
  assumes "handle_error h en w r s l u err g = (p, g')" and "gh_coordinator h = Some (logged C)"
    and "g_coord g = (c, log)"
  shows "\<exists>c' res. g_coord g' = (c', log @ (if \<not> pe_TooLarge err \<and> \<not> pe_Coordination err
            \<and> 0 < l_CircuitFailureThreshold l then [RecordCall (u_ID u) False res] else []))"
  using assms
  by (auto simp: handle_error_def logged_def count_event_def Let_def split: if_splits prod.splits)

lemma modify_response_log:
  assumes "modify_response h s l u a g = (x, g')" and "gh_coordinator h = Some (logged C)"
    and "g_coord g = (c, log)"
  obtains c' res where "g_coord g' = (c', log @ (if 0 < l_CircuitFailureThreshold l
            then [RecordCall (u_ID u) (ur_StatusCode a < 500) res] else []))"
    and "\<And>e. x = Inl e \<Longrightarrow> pe_Coordination e \<and> \<not> is_ok res"
    and "\<And>a'. x = Inr a' \<Longrightarrow> a' = a\<lparr>ur_Header := header_del ''Server'' (ur_Header a)\<rparr>
            \<and> (0 < l_CircuitFailureThreshold l \<longrightarrow> is_ok res)"
proof (cases "0 < l_CircuitFailureThreshold l")
  case True
  obtain res c' where "co_RecordUpstream C (sn_Environment s) (u_ID u) (ur_StatusCode a < 500)
      (l_CircuitFailureThreshold l) (l_CircuitOpen l) c = (res, c')" by fastforce
  with assms True show ?thesis
    by (intro that [of c' res]) (auto simp: modify_response_def logged_def count_event_def Let_def split: sum.splits)
next
  case False
  with assms show ?thesis by (intro that [of c]) (auto simp: modify_response_def Let_def)
qed

text \<open>The outcome of the proxy for a request that was sent, by the answer of the transport.\<close>

definition proxy_out :: "(out_request \<Rightarrow> out_request) \<Rightarrow> out_request \<Rightarrow> out_request" where
  "proxy_out rewrite out0 =
     (let out1 = rewrite (out0\<lparr>o_Header := prepare_header (o_Header out0)\<rparr>)
      in out1\<lparr>o_Header := default_user_agent (o_Header out1)\<rparr>)"

lemma reverse_proxy_sent:
  assumes "reverse_proxy rewrite modify handle_err en w out0 g = ((p, Some out), g')"
  shows "out = proxy_out rewrite out0"
    and "e_roundtrip en out = Inl e \<Longrightarrow> handle_err e g = (p, g')"
    and "e_roundtrip en out = Inr res \<Longrightarrow> modify (if ur_StatusCode res = 101 then res
      else res\<lparr>ur_Header := removeHopByHopHeaders (ur_Header res)\<rparr>) g = (Inl e, g1) \<Longrightarrow> handle_err e g1 = (p, g')"
    and "e_roundtrip en out = Inr res \<Longrightarrow> modify (if ur_StatusCode res = 101 then res
      else res\<lparr>ur_Header := removeHopByHopHeaders (ur_Header res)\<rparr>) g = (Inr res2, g1) \<Longrightarrow>
      (case if ur_StatusCode res = 101 then e_switch en out res2 else None of
         Some e \<Rightarrow> handle_err e g1 = (p, g') | None \<Rightarrow> g' = g1)"
proof -
  let ?o = "proxy_out rewrite out0"
  have unfold: "reverse_proxy rewrite modify handle_err en w out0 g =
     (if \<not> is_print (upgradeType (o_Header out0)) then
        (case handle_err other_error g of (p, g1) \<Rightarrow> ((p, None), g1))
      else case e_roundtrip en ?o of
                Inl e \<Rightarrow> (case handle_err e g of (p, g1) \<Rightarrow> ((p, Some ?o), g1))
              | Inr res \<Rightarrow>
                  let switching = (ur_StatusCode res = 101);
                      res1 = (if switching then res
                              else res\<lparr>ur_Header := removeHopByHopHeaders (ur_Header res)\<rparr>)
                  in case modify res1 g of
                       (Inl e, g1) \<Rightarrow> (case handle_err e g1 of (p, g2) \<Rightarrow> ((p, Some ?o), g2))
                     | (Inr res2, g1) \<Rightarrow>
                         (case (if switching then e_switch en ?o res2 else None) of
                            Some e \<Rightarrow> (case handle_err e g1 of (p, g2) \<Rightarrow> ((p, Some ?o), g2))
                          | None \<Rightarrow> ((\<lparr>p_Status = ur_StatusCode res2,
                                p_Header = copy_header w (ur_Header res2),
                                p_Body = UpstreamBody (ur_Body res2)\<rparr>, Some ?o), g1)))"
    by (simp only: reverse_proxy_def proxy_out_def Let_def)
  note sent = assms [unfolded unfold Let_def]
  from sent show out: "out = ?o"
    by (auto split: if_splits prod.splits sum.splits option.splits)
  from sent show "e_roundtrip en out = Inl e \<Longrightarrow> handle_err e g = (p, g')"
    unfolding out by (auto split: if_splits prod.splits)
  from sent show "e_roundtrip en out = Inr res \<Longrightarrow> modify (if ur_StatusCode res = 101 then res
      else res\<lparr>ur_Header := removeHopByHopHeaders (ur_Header res)\<rparr>) g = (Inl e, g1) \<Longrightarrow> handle_err e g1 = (p, g')"
    unfolding out by (auto split: if_splits prod.splits)
  from sent show "e_roundtrip en out = Inr res \<Longrightarrow> modify (if ur_StatusCode res = 101 then res
      else res\<lparr>ur_Header := removeHopByHopHeaders (ur_Header res)\<rparr>) g = (Inr res2, g1) \<Longrightarrow>
      (case if ur_StatusCode res = 101 then e_switch en out res2 else None of
         Some e \<Rightarrow> handle_err e g1 = (p, g') | None \<Rightarrow> g' = g1)"
    unfolding out by (auto split: if_splits prod.splits option.splits)
qed

lemma forward_log:
  assumes f: "forward_request h en w r s l u g = ((p, Some out), g')"
    and "gh_coordinator h = Some (logged C)" and "g_coord g = (c, log)"
  shows "\<exists>c' calls. g_coord g' = (c', log @ calls) \<and> attempt_recorded en l u out calls"
proof (cases "e_roundtrip en out")
  case (Inl e)
  then have "handle_error h en w r s l u e g = (p, g')"
    by (rule reverse_proxy_sent(2) [OF f [unfolded forward_request_def]])
  from handle_error_log [OF this assms(2,3)] obtain c' res where
    "g_coord g' = (c', log @ (if \<not> pe_TooLarge e \<and> \<not> pe_Coordination e
            \<and> 0 < l_CircuitFailureThreshold l then [RecordCall (u_ID u) False res] else []))" by blast
  then show ?thesis by (intro exI conjI) (auto simp: attempt_recorded_def Inl)
next
  case (Inr a)
  let ?a = "if ur_StatusCode a = 101 then a else a\<lparr>ur_Header := removeHopByHopHeaders (ur_Header a)\<rparr>"
  obtain x g1 where m: "modify_response h s l u ?a g = (x, g1)" by fastforce
  from modify_response_log [OF m assms(2,3)] obtain c1 res where
    c1: "g_coord g1 = (c1, log @ (if 0 < l_CircuitFailureThreshold l
            then [RecordCall (u_ID u) (ur_StatusCode ?a < 500) res] else []))"
    and failed: "\<And>e. x = Inl e \<Longrightarrow> pe_Coordination e \<and> \<not> is_ok res"
    and kept: "\<And>a'. x = Inr a' \<Longrightarrow> a' = ?a\<lparr>ur_Header := header_del ''Server'' (ur_Header ?a)\<rparr>
            \<and> (0 < l_CircuitFailureThreshold l \<longrightarrow> is_ok res)" by blast
  let ?once = "if 0 < l_CircuitFailureThreshold l then [RecordCall (u_ID u) (ur_StatusCode a < 500) res] else []"
  have "ur_StatusCode ?a = ur_StatusCode a" by simp
  with c1 have log1: "g_coord g1 = (c1, log @ ?once)" by simp
  note sent = reverse_proxy_sent [OF f [unfolded forward_request_def]]
  show ?thesis
  proof (cases x)
    case (Inl e)
    from sent(3) [OF Inr m [unfolded Inl]] have "handle_error h en w r s l u e g1 = (p, g')" .
    from handle_error_log [OF this assms(2) log1] failed [OF Inl] obtain c2 where
      "g_coord g' = (c2, log @ ?once)" by auto
    moreover have "attempt_recorded en l u out ?once"
      using failed [OF Inl] by (intro recorded_once [OF Inr]) simp
    ultimately show ?thesis by blast
  next
    case Inr': (Inr a')
    note a' = kept [OF Inr']
    note rest = sent(4) [OF Inr m [unfolded Inr']]
    show ?thesis
    proof (cases "if ur_StatusCode a = 101 then e_switch en out a' else None")
      case None
      with rest log1 have "g_coord g' = (c1, log @ ?once)" by simp
      moreover have "attempt_recorded en l u out ?once"
        using None a' by (intro recorded_once [OF Inr]) (auto simp: switch_fails_def split: if_splits)
      ultimately show ?thesis by blast
    next
      case (Some e)
      then have switched: "ur_StatusCode a = 101" "e_switch en out a' = Some e" by (auto split: if_splits)
      from rest Some have "handle_error h en w r s l u e g1 = (p, g')" by simp
      from handle_error_log [OF this assms(2) log1] obtain c2 res2 where
        log2: "g_coord g' = (c2, (log @ ?once) @ (if \<not> pe_TooLarge e \<and> \<not> pe_Coordination e
          \<and> 0 < l_CircuitFailureThreshold l then [RecordCall (u_ID u) False res2] else []))" by blast
      have fails: "switch_fails en out a \<longleftrightarrow> \<not> pe_TooLarge e \<and> \<not> pe_Coordination e"
        using switched a' by (simp add: switch_fails_def)
      show ?thesis
      proof (cases "switch_fails en out a")
        case True
        from recorded_twice [OF Inr switched(1) True, of l res u res2] a' log2 fails True switched(1) show ?thesis
          by (cases "0 < l_CircuitFailureThreshold l") auto
      next
        case False
        then have "attempt_recorded en l u out ?once" by (intro recorded_once [OF Inr]) simp
        moreover have "g_coord g' = (c2, log @ ?once)" using log2 fails False by auto
        ultimately show ?thesis by blast
      qed
    qed
  qed
qed

lemma forward_invalid_upgrade:
  assumes "\<not> is_print (upgradeType (q_Header r))" and "gh_coordinator h = Some (logged C)"
    and "g_coord g = (c, log)" and "0 < l_CircuitFailureThreshold l"
  shows "\<exists>p g' c' res. forward_request h en w r s l u g = ((p, None), g')
    \<and> g_coord g' = (c', log @ [RecordCall (u_ID u) False res])"
proof -
  obtain p g' where e: "handle_error h en w r s l u other_error g = (p, g')" by fastforce
  from handle_error_log [OF e assms(2,3)] assms(4) obtain c' res where
    "g_coord g' = (c', log @ [RecordCall (u_ID u) False res])"
    by (auto simp: other_error_def)
  moreover have "forward_request h en w r s l u g = ((p, None), g')"
    using assms(1) e by (simp add: forward_request_def reverse_proxy_def)
  ultimately show ?thesis by blast
qed

lemma forward_unsent:
  assumes "forward_request h en w r s l u g = ((p, None), g')"
  shows "\<not> is_print (upgradeType (q_Header r))"
  using assms by (auto simp: forward_request_def reverse_proxy_def Let_def
      split: if_splits prod.splits sum.splits option.splits)

text \<open>The state of the coordinator when the proxy is reached.\<close>

lemma reached_log:
  assumes "admit h en w r g = (Inr (port, s, l, cred), g1)"
    and "apply_policy h w r s l cred g1 = (Inr (), g2)"
    and "check_circuits h w r s l g2 = (Inr blocked, g3)"
    and "choose_upstream en w r port l blocked g3 = (Inr u, g4)"
    and "gh_coordinator h = Some (logged C)" and "g_coord g = (c, log)"
  obtains c' policy circuits where "g_coord g4 = (c', log @ policy @ circuits)"
    and "policy_consent s l cred policy" and "circuits_asked l u circuits"
    and "filter is_record (policy @ circuits) = []"
proof -
  have "g_coord g1 = (c, log)" using admit_keeps_coord [OF assms(1)] assms(6) by simp
  from apply_policy_log [OF assms(2,5) this] obtain c2 policy where
    p: "g_coord g2 = (c2, log @ policy)" "filter is_record policy = []" "policy_consent s l cred policy"
    by auto
  note u = choose_upstream_Inr [OF assms(4)]
  from check_circuits_log [OF assms(3,5) p(1)] u obtain c3 circuits where
    q: "g_coord g3 = (c3, (log @ policy) @ circuits)" "filter is_record circuits = []"
      "circuits_asked l u circuits"
    by blast
  have "g_coord g4 = g_coord g3" by (rule choose_upstream_keeps_coord [OF assms(4)])
  with q have "g_coord g4 = (c3, log @ policy @ circuits)" by simp
  from that [OF this p(3) q(3)] p(2) q(2) show ?thesis by simp
qed

section \<open>Properties\<close>

text \<open>
  Claim C3: before a request is sent, the coordinator has been asked exactly what its listener
  requires, in this order: the rate limit and quota of its consumer, answered neither with a rate
  limit nor with an exceeded quota, and then the circuit of every upstream, where the circuit of the
  chosen upstream was reported closed. After the attempt its outcome is recorded exactly once:
  success when the upstream answered below 500, failure otherwise, and nothing when the request
  body exceeded its limit. The one exception is an answer 101 whose connection cannot be handed
  over: it is recorded as a success and then as a failure. (A listener without a circuit breaker
  neither asks for circuits nor records.)
\<close>

theorem sent_coordination:
  assumes "ServeHTTP h en w r g = ((p, Some out), g')" and "gh_coordinator h = Some (logged C)"
    and "g_coord g = (c, [])"
  shows "\<exists>port s l cred u policy circuits outcome. listenerPort (gh_trusted h) r = Some port
    \<and> g_snapshot g = Some s \<and> sn_Listeners s port = Some l
    \<and> cred = authenticate (e_hmac en) (gh_pepper h) (e_now en) s (header_get (q_Header r) APIKeyHeader)
    \<and> u \<in> set (l_Upstreams l) \<and> o_Host out = Some (Authority u)
    \<and> snd (g_coord g') = policy @ circuits @ outcome
    \<and> policy_consent s l cred policy \<and> circuits_asked l u circuits \<and> attempt_recorded en l u out outcome"
proof -
  from assms(1) obtain port s l cred g1 g2 blocked g3 u g4 where
    steps: "admit h en w r g = (Inr (port, s, l, cred), g1)"
    "apply_policy h w r s l cred g1 = (Inr (), g2)"
    "check_circuits h w r s l g2 = (Inr blocked, g3)"
    "choose_upstream en w r port l blocked g3 = (Inr u, g4)" and
    f: "forward_request h en w r s l u g4 = ((p, Some out), g')"
    by (rule ServeHTTP_sent)
  from steps assms(2,3) obtain c' policy circuits where
    log: "g_coord g4 = (c', [] @ policy @ circuits)" "policy_consent s l cred policy"
      "circuits_asked l u circuits"
    by (rule reached_log)
  from forward_log [OF f assms(2) log(1)] obtain outcome where
    "snd (g_coord g') = policy @ circuits @ outcome" "attempt_recorded en l u out outcome" by auto
  moreover have "o_Host out = Some (Authority u)"
    by (simp add: forward_sent [OF f] rewrite_request_def Let_def)
  ultimately show ?thesis
    using admit_Inr [OF steps(1)] choose_upstream_Inr [OF steps(4)] log(2,3) by blast
qed

text \<open>
  Claim C4: the gateway fails closed: when no call of the coordinator succeeds, or there is
  no coordinator, a request is sent only for a listener without a rate limit, without a quota
  and without a circuit breaker.
\<close>

theorem coordination_fails_closed:
  assumes "ServeHTTP h en w r g = ((p, Some out), g')"
    and "\<forall>C. gh_coordinator h = Some C \<longrightarrow>
      (\<forall>e l k rate burst quota c. \<not> is_ok (fst (co_AllowRequest C e l k rate burst quota c)))
      \<and> (\<forall>e u c. \<not> is_ok (fst (co_CircuitOpen C e u c)))"
  shows "\<exists>port s l. listenerPort (gh_trusted h) r = Some port \<and> g_snapshot g = Some s
    \<and> sn_Listeners s port = Some l \<and> l_RateLimitPerSecond l \<le> 0 \<and> l_QuotaRequestsPerMinute l \<le> 0
    \<and> l_CircuitFailureThreshold l \<le> 0"
proof -
  from assms(1) obtain port s l cred g1 g2 blocked g3 u g4 where
    a: "admit h en w r g = (Inr (port, s, l, cred), g1)" and
    p: "apply_policy h w r s l cred g1 = (Inr (), g2)" and
    q: "check_circuits h w r s l g2 = (Inr blocked, g3)" and
    u: "choose_upstream en w r port l blocked g3 = (Inr u, g4)"
    by (rule ServeHTTP_sent)
  have "l_RateLimitPerSecond l \<le> 0 \<and> l_QuotaRequestsPerMinute l \<le> 0"
  proof (rule ccontr)
    assume "\<not> ?thesis"
    with p obtain C d c1 where "gh_coordinator h = Some C"
      "co_AllowRequest C (sn_Environment s) (l_ID l)
         (case cred of None \<Rightarrow> ''public'' | Some c \<Rightarrow> c_ConsumerID c) (l_RateLimitPerSecond l)
         (l_RateLimitBurst l) (l_QuotaRequestsPerMinute l) (g_coord g1) = (Inr d, c1)"
      by (auto simp: apply_policy_def Let_def split: option.splits prod.splits sum.splits)
    with assms(2) show False by (metis fst_conv is_ok.simps(2))
  qed
  moreover have "l_CircuitFailureThreshold l \<le> 0"
  proof (rule ccontr)
    assume "\<not> ?thesis"
    with q obtain C c2 where C: "gh_coordinator h = Some C" and
      "query_circuits C (sn_Environment s) (l_Upstreams l) [] (g_coord g2) = (Inr blocked, c2)"
      by (auto simp: check_circuits_def Let_def split: option.splits prod.splits sum.splits)
    moreover obtain v vs where "l_Upstreams l = v # vs"
      using choose_upstream_Inr [OF u] by (cases "l_Upstreams l") auto
    ultimately obtain b c3 where "co_CircuitOpen C (sn_Environment s) (u_ID v) (g_coord g2) = (Inr b, c3)"
      by (auto split: prod.splits sum.splits)
    with assms(2) C show False by (metis fst_conv is_ok.simps(2))
  qed
  ultimately show ?thesis using admit_Inr [OF a] by blast
qed

text \<open>
  A request that is not sent records nothing about any upstream, provided its
  upgrade type is printable.
\<close>

lemma unsent_records_nothing:
  assumes "ServeHTTP h en w r g = ((p, None), g')" and "gh_coordinator h = Some (logged C)"
    and "g_coord g = (c, [])" and "is_print (upgradeType (q_Header r))"
  shows "filter is_record (snd (g_coord g')) = []"
proof -
  obtain x g1 where a: "admit h en w r g = (x, g1)" by fastforce
  have c1: "g_coord g1 = (c, [])" using admit_keeps_coord [OF a] assms(3) by simp
  show ?thesis
  proof (cases x)
    case (Inl q)
    with assms(1) a c1 show ?thesis by (simp add: ServeHTTP_def and_then_def)
  next
    case (Inr t)
    obtain port s l cred where t: "t = (port, s, l, cred)" by (cases t) auto
    obtain y g2 where b: "apply_policy h w r s l cred g1 = (y, g2)" by fastforce
    from apply_policy_log [OF b assms(2) c1] obtain c2 calls2 where
      c2: "g_coord g2 = (c2, calls2)" "filter is_record calls2 = []" by auto
    obtain z g3 where d: "check_circuits h w r s l g2 = (z, g3)" by fastforce
    from check_circuits_log [OF d assms(2) c2(1)] obtain c3 calls3 where
      c3: "g_coord g3 = (c3, calls2 @ calls3)" "filter is_record calls3 = []" by auto
    obtain v g4 blocked where e: "choose_upstream en w r port l blocked g3 = (v, g4)"
      and bl: "\<And>b. z = Inr b \<Longrightarrow> b = blocked"
      by (cases z) (metis prod.exhaust Inl_Inr_False, metis prod.exhaust Inr_inject)
    have c4: "g_coord g4 = g_coord g3" by (rule choose_upstream_keeps_coord [OF e])
    show ?thesis
      using assms(1) a Inr t b d e bl c2 c3 c4 forward_unsent [of h en w r s l _ g4 p g'] assms(4)
      by (cases y; cases z; cases v) (auto simp: ServeHTTP_def and_then_def)
  qed
qed

text \<open>
  Claim C39: a client whose request passes every guard can have a failure recorded against
  the chosen upstream without anything being sent to it: an \<open>Upgrade\<close> value with a byte that is not
  printable makes the proxy call the error handler, which counts it as a failure of the upstream.
\<close>

theorem invalid_upgrade_charges_upstream:
  assumes "admit h en w r g = (Inr (port, s, l, cred), g1)"
    and "apply_policy h w r s l cred g1 = (Inr (), g2)"
    and "check_circuits h w r s l g2 = (Inr blocked, g3)"
    and "choose_upstream en w r port l blocked g3 = (Inr u, g4)"
    and "gh_coordinator h = Some (logged C)" and "g_coord g = (c, [])"
    and "\<not> is_print (upgradeType (q_Header r))" and "0 < l_CircuitFailureThreshold l"
  shows "\<exists>p g' res. ServeHTTP h en w r g = ((p, None), g')
    \<and> filter is_record (snd (g_coord g')) = [RecordCall (u_ID u) False res]"
proof -
  from assms(1-6) obtain c' policy circuits where
    log: "g_coord g4 = (c', [] @ policy @ circuits)" "filter is_record (policy @ circuits) = []"
    by (rule reached_log)
  from forward_invalid_upgrade [OF assms(7,5) log(1) assms(8)] obtain p g' c2 res where
    f: "forward_request h en w r s l u g4 = ((p, None), g')"
      "g_coord g' = (c2, ([] @ policy @ circuits) @ [RecordCall (u_ID u) False res])"
    by blast
  have "ServeHTTP h en w r g = ((p, None), g')"
    using assms(1-4) f(1) by (simp add: ServeHTTP_def and_then_def)
  with f(2) log(2) show ?thesis by simp
qed

section \<open>Witnesses\<close>

definition logged_handler :: "(mem \<times> call list) gateway_handler" where
  "logged_handler = \<lparr>gh_trusted = gh_trusted example_handler, gh_pepper = gh_pepper example_handler,
     gh_coordinator = Some (logged (redis_coordinator mem_redis True 0))\<rparr>"

definition logged_gateway :: "(mem \<times> call list) gateway" where
  "logged_gateway = \<lparr>g_coord = (Map.empty, []), g_metrics = None, g_snapshot = Some example_snapshot\<rparr>"

text \<open>Requests with the example's key and any other headers that leave the port and the key alone.\<close>

definition similar :: "request \<Rightarrow> bool" where
  "similar r \<longleftrightarrow> listenerPort (gh_trusted example_handler) r = Some 4100
     \<and> header_get (q_Header r) APIKeyHeader = example_key \<and> q_Method r = ''GET'' \<and> \<not> q_HasBody r
     \<and> q_ContentLength r = 0"

lemma similar_example: "similar (example_request example_key)"
  using example_port [of example_key] example_api_key [of example_key]
  by (simp add: similar_def example_request_def)

lemma logged_admit:
  assumes "similar r"
  shows "admit logged_handler example_env w r logged_gateway =
     (Inr (4100, example_snapshot, example_lis1, Some example_credential), logged_gateway)"
proof -
  have "authenticate (e_hmac example_env) (gh_pepper logged_handler) (e_now example_env) example_snapshot
      example_key = Some example_credential"
    using example_authenticate by (simp add: logged_handler_def)
  moreover have "listenerPort (gh_trusted logged_handler) r = Some 4100"
    using assms by (simp add: similar_def logged_handler_def)
  ultimately show ?thesis
    using assms by (simp add: admit_def similar_def Let_def logged_gateway_def example_listener
        example_not_public) (simp add: example_lis1_def example_credential_def contentTypeAllowed_def)
qed

lemma logged_policy:
  "\<exists>g2. apply_policy logged_handler w r example_snapshot example_lis1 (Some example_credential) logged_gateway
     = (Inr (), g2)
   \<and> fst (g_coord g2) = snd (AllowRequest mem_redis True 0 ''development'' ''lis_1'' ''con_1'' 5 2 0 Map.empty)"
proof -
  have "fst (AllowRequest mem_redis True 0 ''development'' ''lis_1'' ''con_1'' 5 2 0 Map.empty) = Inr 0"
    by (simp add: AllowRequest_def requestPolicyScript_def count_window_def mem_redis_def mem_value_def
        split_def)
  then obtain s' where "AllowRequest mem_redis True 0 ''development'' ''lis_1'' ''con_1'' 5 2 0 Map.empty
      = (Inr 0, s')" by (metis prod.collapse)
  then show ?thesis
    by (simp add: apply_policy_def example_lis1_def logged_handler_def logged_def redis_coordinator_def
        example_snapshot_def example_credential_def logged_gateway_def DecisionRateLimited_def
        DecisionQuotaExceeded_def Let_def)
qed

lemma logged_circuits:
  assumes "\<And>u. fst (g_coord g) (circuitOpenKey ''development'' u) = None"
  shows "\<exists>g3. check_circuits logged_handler w r example_snapshot example_lis1 g =
     (Inr [(''a'', False), (''b'', False)], g3)"
  using assms
  by (simp add: check_circuits_def example_lis1_def logged_handler_def logged_def redis_coordinator_def
      example_snapshot_def example_pool_def CircuitOpen_def mem_redis_def split_def)

lemma logged_steps:
  assumes "similar r"
  obtains g2 g3 g4 where
    "admit logged_handler example_env Map.empty r logged_gateway =
       (Inr (4100, example_snapshot, example_lis1, Some example_credential), logged_gateway)"
    "apply_policy logged_handler Map.empty r example_snapshot example_lis1 (Some example_credential)
       logged_gateway = (Inr (), g2)"
    "check_circuits logged_handler Map.empty r example_snapshot example_lis1 g2 =
       (Inr [(''a'', False), (''b'', False)], g3)"
    "choose_upstream example_env Map.empty r 4100 example_lis1 [(''a'', False), (''b'', False)] g3 =
       (Inr (hd example_pool), g4)"
proof -
  obtain g2 where g2: "apply_policy logged_handler Map.empty r example_snapshot example_lis1
      (Some example_credential) logged_gateway = (Inr (), g2)"
    "fst (g_coord g2) = snd (AllowRequest mem_redis True 0 ''development'' ''lis_1'' ''con_1'' 5 2 0 Map.empty)"
    using logged_policy by blast
  obtain g3 where g3: "check_circuits logged_handler Map.empty r example_snapshot example_lis1 g2 =
      (Inr [(''a'', False), (''b'', False)], g3)"
    using logged_circuits g2(2) example_open_keys by metis
  obtain g4 where "choose_upstream example_env Map.empty r 4100 example_lis1
      [(''a'', False), (''b'', False)] g3 = (Inr (hd example_pool), g4)"
    using example_choice by blast
  from that [OF logged_admit [OF assms] g2(1) g3 this] show ?thesis .
qed

lemma logged_sent:
  "\<exists>p out g'. ServeHTTP logged_handler example_env Map.empty (example_request example_key) logged_gateway =
     ((p, Some out), g')"
proof -
  from similar_example obtain g2 g3 g4 where
    steps: "admit logged_handler example_env Map.empty (example_request example_key) logged_gateway =
       (Inr (4100, example_snapshot, example_lis1, Some example_credential), logged_gateway)"
    "apply_policy logged_handler Map.empty (example_request example_key) example_snapshot example_lis1
       (Some example_credential) logged_gateway = (Inr (), g2)"
    "check_circuits logged_handler Map.empty (example_request example_key) example_snapshot example_lis1 g2 =
       (Inr [(''a'', False), (''b'', False)], g3)"
    "choose_upstream example_env Map.empty (example_request example_key) 4100 example_lis1
       [(''a'', False), (''b'', False)] g3 = (Inr (hd example_pool), g4)"
    by (rule logged_steps)
  with forward_sends [OF example_printable] show ?thesis
    by (simp add: ServeHTTP_def and_then_def)
qed

lemma logged_start: "gh_coordinator logged_handler = Some (logged (redis_coordinator mem_redis True 0))"
  "g_coord logged_gateway = (Map.empty, [])"
  by (simp_all add: logged_handler_def logged_gateway_def)

theorem sent_coordination_witness:
  "\<exists>p out g'. ServeHTTP logged_handler example_env Map.empty (example_request example_key) logged_gateway
      = ((p, Some out), g')
    \<and> (\<exists>u \<in> set example_pool. \<exists>res. RecordCall (u_ID u) True res \<in> set (snd (g_coord g')))"
proof -
  obtain p out g' where sent: "ServeHTTP logged_handler example_env Map.empty
      (example_request example_key) logged_gateway = ((p, Some out), g')"
    using logged_sent by blast
  from sent_coordination [OF sent logged_start] obtain port s l u policy circuits outcome where
    "listenerPort (gh_trusted logged_handler) (example_request example_key) = Some port"
    "g_snapshot logged_gateway = Some s" "sn_Listeners s port = Some l" "u \<in> set (l_Upstreams l)"
    "snd (g_coord g') = policy @ circuits @ outcome" "attempt_recorded example_env l u out outcome"
    by (elim exE conjE) (rule that)
  moreover from this have "l = example_lis1"
    using example_port [of example_key] by (simp add: logged_handler_def logged_gateway_def example_listener)
  ultimately have "u \<in> set example_pool" "\<exists>res. RecordCall (u_ID u) True res \<in> set (snd (g_coord g'))"
    by (auto simp: example_lis1_def attempt_recorded_def example_env_def)
  with sent show ?thesis by blast
qed

definition upgrade_request :: request where
  "upgrade_request = (example_request example_key)\<lparr>q_Header := header_set ''Upgrade'' [CHR 0x80]
     (header_set ''Connection'' ''Upgrade'' (q_Header (example_request example_key)))\<rparr>"

lemma upgrade_similar: "similar upgrade_request"
proof -
  have "listenerPort (gh_trusted example_handler) upgrade_request =
      listenerPort (gh_trusted example_handler) (example_request example_key)"
    by (simp add: listenerPort_def upgrade_request_def header_values_set ListenerPortHeader_def
        canonical_names canonical_hop_names split: option.splits)
  then show ?thesis
    using similar_example by (simp add: similar_def upgrade_request_def header_get_set
        APIKeyHeader_def canonical_names canonical_hop_names)
qed

theorem invalid_upgrade_charges_upstream_witness:
  "\<exists>g' res. filter is_record (snd (g_coord g' :: mem \<times> call list)) = [RecordCall ''a'' False res]
    \<and> snd (ServeHTTP logged_handler example_env Map.empty upgrade_request logged_gateway) = g'"
proof -
  from upgrade_similar obtain g2 g3 g4 where
    steps: "admit logged_handler example_env Map.empty upgrade_request logged_gateway =
       (Inr (4100, example_snapshot, example_lis1, Some example_credential), logged_gateway)"
    "apply_policy logged_handler Map.empty upgrade_request example_snapshot example_lis1
       (Some example_credential) logged_gateway = (Inr (), g2)"
    "check_circuits logged_handler Map.empty upgrade_request example_snapshot example_lis1 g2 =
       (Inr [(''a'', False), (''b'', False)], g3)"
    "choose_upstream example_env Map.empty upgrade_request 4100 example_lis1
       [(''a'', False), (''b'', False)] g3 = (Inr (hd example_pool), g4)"
    by (rule logged_steps)
  have up: "\<not> is_print (upgradeType (q_Header upgrade_request))"
    by (simp add: upgradeType_def upgrade_request_def header_values_set header_get_set
        canonical_hop_names contains_token_def trim_ows_def is_print_def byte_eval Let_def)
  have "0 < l_CircuitFailureThreshold example_lis1" by (simp add: example_lis1_def)
  from invalid_upgrade_charges_upstream [OF steps logged_start up this] show ?thesis
    by (auto simp: example_pool_def)
qed

definition offline_handler :: "mem gateway_handler" where
  "offline_handler = example_handler\<lparr>gh_coordinator := Some (redis_coordinator mem_redis False 0)\<rparr>"

definition plain_gateway :: "mem gateway" where
  "plain_gateway = example_gateway\<lparr>g_snapshot := Some (example_snapshot\<lparr>sn_Listeners :=
     [4100 \<mapsto> example_lis1\<lparr>l_RateLimitPerSecond := 0, l_CircuitFailureThreshold := 0\<rparr>]\<rparr>)\<rparr>"

theorem coordination_fails_closed_witness:
  "\<exists>p out g'. ServeHTTP offline_handler example_env Map.empty (example_request example_key) plain_gateway
     = ((p, Some out), g')
   \<and> (\<exists>s l. g_snapshot plain_gateway = Some s \<and> sn_Listeners s 4100 = Some l
        \<and> l_CircuitFailureThreshold l \<le> 0)"
proof -
  let ?r = "example_request example_key"
  let ?l = "example_lis1\<lparr>l_RateLimitPerSecond := 0, l_CircuitFailureThreshold := 0\<rparr>"
  let ?s = "example_snapshot\<lparr>sn_Listeners := [4100 \<mapsto> ?l]\<rparr>"
  have auth: "authenticate (e_hmac example_env) (gh_pepper offline_handler) (e_now example_env) ?s
      example_key = Some example_credential"
    by (simp add: authenticate_def example_key_prefix example_env_def offline_handler_def
        example_snapshot_def example_credential_def)
  have port: "listenerPort (gh_trusted offline_handler) ?r = Some 4100"
    using example_port by (simp add: offline_handler_def)
  have public: "\<not> allowsPublicRequest ?l m path" for m path
    by (simp add: allowsPublicRequest_def example_lis1_def)
  have admitted: "admit offline_handler example_env Map.empty ?r plain_gateway =
      (Inr (4100, ?s, ?l, Some example_credential), plain_gateway)"
    by (simp add: admit_def port example_api_key auth public Let_def plain_gateway_def)
      (simp add: example_request_def example_lis1_def example_credential_def contentTypeAllowed_def)
  have "apply_policy offline_handler Map.empty ?r ?s ?l (Some example_credential) plain_gateway
      = (Inr (), plain_gateway)"
    by (simp add: apply_policy_def example_lis1_def)
  moreover have "check_circuits offline_handler Map.empty ?r ?s ?l plain_gateway = (Inr [], plain_gateway)"
    by (simp add: check_circuits_def)
  moreover obtain u g4 where "choose_upstream example_env Map.empty ?r 4100 ?l [] plain_gateway = (Inr u, g4)"
    by (simp add: choose_upstream_def SelectUpstreamWhere_def example_lis1_def example_pool_def
        eligible_def admits_def Healthy_def example_env_def is_blocked_def in_int64_def Let_def)
  moreover obtain p out g' where
    "forward_request offline_handler example_env Map.empty ?r ?s ?l u g4 = ((p, Some out), g')"
    using forward_sends [OF example_printable] by blast
  ultimately have sent: "ServeHTTP offline_handler example_env Map.empty ?r plain_gateway
      = ((p, Some out), g')"
    using admitted by (simp add: ServeHTTP_def and_then_def)
  have "\<forall>C. gh_coordinator offline_handler = Some C \<longrightarrow>
      (\<forall>e l k rate burst quota c. \<not> is_ok (fst (co_AllowRequest C e l k rate burst quota c)))
      \<and> (\<forall>e u c. \<not> is_ok (fst (co_CircuitOpen C e u c)))"
    by (simp add: offline_handler_def redis_coordinator_def AllowRequest_def CircuitOpen_def)
  from coordination_fails_closed [OF sent this] sent port show ?thesis by auto
qed

end
