(* ===== verification/Correlation.thy ===== *)
theory Correlation
  imports Go_Strings
begin

text \<open>
  The correlation middleware, \<^verbatim>\<open>internal/correlation/correlation.go\<close>. The sixteen bytes that
  \<open>crypto/rand\<close> returns are an argument.
\<close>

definition correlation_header :: string where
  "correlation_header = ''X-Correlation-ID''"

definition safe_id_byte :: "char \<Rightarrow> bool" where
  "safe_id_byte c \<longleftrightarrow> is_lower c \<or> is_upper c \<or> is_digit c
     \<or> c = CHR ''-'' \<or> c = CHR ''_'' \<or> c = CHR ''.'' \<or> c = CHR '':''"

text \<open>
  The loop of the source runs over runes: a byte outside ASCII belongs to a rune that is
  not accepted, so the check of each byte is the same.
\<close>

definition valid :: "string \<Rightarrow> bool" where
  "valid value \<longleftrightarrow> 1 \<le> length value \<and> length value \<le> 128 \<and> list_all safe_id_byte value"

definition generate :: "string \<Rightarrow> string" where
  "generate random = hex_encode random"

text \<open>
  \<open>Middleware next\<close>: \<open>next\<close> gets the response header with the identifier set and the
  identifier in the request's context.
\<close>

definition Middleware ::
  "string \<Rightarrow> (header \<Rightarrow> string \<Rightarrow> 'r) \<Rightarrow> header \<Rightarrow> header \<Rightarrow> 'r" where
  "Middleware random next w request_header =
     (let id0 = header_get request_header correlation_header;
          id = (if \<not> valid id0 then generate random else id0)
      in next (header_set correlation_header id w) id)"

lemma lower_hex_safe: "is_lower_hex c \<Longrightarrow> safe_id_byte c"
  by (auto simp: safe_id_byte_def is_lower_hex_def is_lower_def)

lemma generate_valid: "length random = 16 \<Longrightarrow> valid (generate random)"
  by (auto simp: valid_def generate_def list_all_iff intro!: lower_hex_safe hex_encode_chars)

text \<open>
  Claim C36: whatever the client sends, the identifier the middleware puts in the
  response and in the context is valid (1 to 128 bytes out of a safe alphabet, so it cannot
  split a header or a log line), both are the same, and a valid one sent by the client is kept.
\<close>

theorem middleware_id_valid:
  assumes "length random = 16"
  shows "\<exists>id. Middleware random (\<lambda>w c. (header_values w correlation_header, c)) w h = ([id], id)
     \<and> valid id \<and> (valid (header_get h correlation_header) \<longrightarrow> id = header_get h correlation_header)"
  using generate_valid [OF assms]
  by (auto simp: Middleware_def Let_def header_values_set)

theorem middleware_id_valid_witness:
  "\<exists>id. Middleware (replicate 16 CHR 0x7F) (\<lambda>w c. (header_values w correlation_header, c))
      Map.empty (header_set correlation_header ''bad id'' Map.empty) = ([id], id) \<and> valid id"
proof -
  have "length (replicate 16 CHR 0x7F) = 16" by simp
  from middleware_id_valid [OF this] show ?thesis by blast
qed

end
