(* ===== verification/Limited_Body.thy ===== *)
theory Limited_Body
  imports Go_Strings
begin

text \<open>
  The size limit on request bodies, \<open>limitedBody.Read\<close> of \<^verbatim>\<open>internal/dataplane/handler.go\<close>.
  The wrapped reader is anything that keeps the contract of \<open>io.Reader\<close>, the locale
  \<open>body_reader\<close>, or one that also makes progress, \<open>steady_reader\<close>; the properties hold for every chunking of the body and every sequence of buffers.
\<close>

datatype read_error = EOF | TooLarge | ReadFailure

text \<open>\<open>Read\<close> with a buffer of the given size: the bytes delivered and the error.\<close>

type_synonym 's reader = "nat \<Rightarrow> 's \<Rightarrow> (string \<times> read_error option) \<times> 's"

record 's limitedBody =
  lb_inner :: 's
  lb_remaining :: int

definition limited_read :: "'s reader \<Rightarrow> nat \<Rightarrow> 's limitedBody \<Rightarrow> (string \<times> read_error option) \<times> 's limitedBody" where
  "limited_read rd n b =
     (if lb_remaining b < 0 then (([], Some TooLarge), b)
      else if lb_remaining b = 0 then
        (case rd 1 (lb_inner b) of ((bytes, err), s') \<Rightarrow>
           if 0 < length bytes then (([], Some TooLarge), b\<lparr>lb_inner := s', lb_remaining := -1\<rparr>)
           else (([], err), b\<lparr>lb_inner := s'\<rparr>))
      else (case rd (if lb_remaining b < int n then nat (lb_remaining b) else n) (lb_inner b) of
              ((bytes, err), s') \<Rightarrow>
                ((bytes, err), b\<lparr>lb_inner := s', lb_remaining := lb_remaining b - int (length bytes)\<rparr>)))"

text \<open>A sequence of reads with the given buffer sizes: the bytes of each and its error.\<close>

fun read_all :: "'s reader \<Rightarrow> nat list \<Rightarrow> 's limitedBody \<Rightarrow> (string \<times> read_error option) list \<times> 's limitedBody" where
  "read_all rd [] b = ([], b)"
| "read_all rd (n # ns) b =
     (case limited_read rd n b of (r, b') \<Rightarrow>
        case read_all rd ns b' of (rs, b'') \<Rightarrow> (r # rs, b''))"

definition delivered :: "(string \<times> read_error option) list \<Rightarrow> string" where
  "delivered rs = concat (map fst rs)"

text \<open>
  The contract of a reader: \<open>rest\<close> observes the bytes that are still to come. A read delivers
  the next bytes, at most as many as the buffer holds; EOF means that no byte is left; the
  sentinel of the limit is not one of its errors.
\<close>

locale body_reader =
  fixes rd :: "'s reader"
    and rest :: "'s \<Rightarrow> string"
  assumes reads: "rd n s = ((bytes, err), s') \<Longrightarrow> rest s = bytes @ rest s' \<and> length bytes \<le> n"
    and eof: "rd n s = ((bytes, Some EOF), s') \<Longrightarrow> rest s' = []"
    and no_sentinel: "rd n s \<noteq> ((bytes, Some TooLarge), s')"
begin

text \<open>
  \<open>tracks whole limit got b\<close>: \<open>got\<close> is what the wrapper has delivered of \<open>whole\<close>. A
  negative counter means that the probe has consumed a byte beyond the limit.
\<close>

definition tracks :: "string \<Rightarrow> nat \<Rightarrow> string \<Rightarrow> 's limitedBody \<Rightarrow> bool" where
  "tracks whole limit got b \<longleftrightarrow>
     (if lb_remaining b < 0 then limit < length whole \<and> length got = limit \<and> take limit whole = got
      else whole = got @ rest (lb_inner b) \<and> int (length got) + lb_remaining b = int limit)"

lemma limited_read_step:
  assumes "tracks whole limit got b" and "limited_read rd n b = ((bytes, err), b')"
  shows "tracks whole limit (got @ bytes) b'"
    and "err = Some TooLarge \<Longrightarrow> limit < length whole"
    and "err = Some EOF \<Longrightarrow> whole = got @ bytes"
proof -
  consider (over) "lb_remaining b < 0" | (zero) "lb_remaining b = 0" | (pos) "0 < lb_remaining b"
    by linarith
  then have "tracks whole limit (got @ bytes) b'
    \<and> (err = Some TooLarge \<longrightarrow> limit < length whole) \<and> (err = Some EOF \<longrightarrow> whole = got @ bytes)"
  proof cases
    case over
    with assms show ?thesis by (auto simp: limited_read_def tracks_def)
  next
    case zero
    obtain probe perr s' where p: "rd 1 (lb_inner b) = ((probe, perr), s')"
      by (metis prod.exhaust)
    note r = reads [OF p]
    from assms(1) zero have t: "whole = got @ rest (lb_inner b)" "length got = limit"
      by (simp_all add: tracks_def)
    show ?thesis
    proof (cases "probe = []")
      case True
      with assms(2) zero p have "bytes = []" "err = perr" "b' = b\<lparr>lb_inner := s'\<rparr>"
        by (simp_all add: limited_read_def)
      moreover from True r have "rest (lb_inner b) = rest s'" by simp
      moreover have "perr \<noteq> Some TooLarge" using no_sentinel p by metis
      moreover have "perr = Some EOF \<Longrightarrow> rest s' = []" using eof p by metis
      ultimately show ?thesis using t zero by (auto simp: tracks_def)
    next
      case False
      with assms(2) zero p have "bytes = []" "err = Some TooLarge"
        "b' = b\<lparr>lb_inner := s', lb_remaining := -1\<rparr>"
        by (simp_all add: limited_read_def)
      moreover have "limit < length whole" using t r False by simp
      ultimately show ?thesis using t by (simp add: tracks_def)
    qed
  next
    case pos
    let ?n = "if lb_remaining b < int n then nat (lb_remaining b) else n"
    obtain s' where p: "rd ?n (lb_inner b) = ((bytes, err), s')"
      and b': "b' = b\<lparr>lb_inner := s', lb_remaining := lb_remaining b - int (length bytes)\<rparr>"
      using assms(2) pos by (auto simp: limited_read_def split: prod.splits)
    note r = reads [OF p]
    have "int (length bytes) \<le> lb_remaining b" using r pos by (auto split: if_splits)
    moreover have "err \<noteq> Some TooLarge" using no_sentinel p by metis
    moreover have "err = Some EOF \<Longrightarrow> rest s' = []" using eof p by metis
    ultimately show ?thesis using assms(1) pos r b' by (auto simp: tracks_def)
  qed
  then show "tracks whole limit (got @ bytes) b'"
    and "err = Some TooLarge \<Longrightarrow> limit < length whole" and "err = Some EOF \<Longrightarrow> whole = got @ bytes"
    by simp_all
qed

lemma read_all_tracks:
  "read_all rd ns b = (rs, b') \<Longrightarrow> tracks whole limit got b \<Longrightarrow>
   tracks whole limit (got @ delivered rs) b'
   \<and> (\<forall>r \<in> set rs. snd r = Some TooLarge \<longrightarrow> limit < length whole)
   \<and> (\<forall>i < length rs. snd (rs ! i) = Some EOF \<longrightarrow> whole = got @ delivered (take (Suc i) rs))"
proof (induction ns arbitrary: b got rs)
  case Nil
  then show ?case by (auto simp: delivered_def)
next
  case (Cons n ns)
  obtain bytes err b1 where s: "limited_read rd n b = ((bytes, err), b1)" by (metis prod.exhaust)
  obtain rs1 where rs1: "read_all rd ns b1 = (rs1, b')" and rs: "rs = (bytes, err) # rs1"
    using Cons.prems(1) s by (auto split: prod.splits)
  note step = limited_read_step [OF Cons.prems(2) s]
  note IH = Cons.IH [OF rs1 step(1)]
  have "whole = got @ delivered (take (Suc i) rs)"
    if "i < length rs" "snd (rs ! i) = Some EOF" for i
    using that IH step(3) by (cases i) (auto simp: rs delivered_def)
  with IH step(2) show ?case by (auto simp: rs delivered_def)
qed

lemma tracks_start: "0 \<le> limit \<Longrightarrow> tracks (rest s) (nat limit) [] \<lparr>lb_inner = s, lb_remaining = limit\<rparr>"
  by (simp add: tracks_def)

lemma tracks_prefix: "tracks whole limit got b \<Longrightarrow> length got \<le> limit \<and> take (length got) whole = got"
  by (auto simp: tracks_def split: if_splits)

end

text \<open>
  A reader that also makes progress: it delivers something whenever bytes are left and the buffer
  is not empty, does not fail, and reports the end once it has been reached.
\<close>

locale steady_reader = body_reader +
  assumes progress: "0 < n \<Longrightarrow> rest s \<noteq> [] \<Longrightarrow> fst (fst (rd n s)) \<noteq> []"
    and ends: "rest s = [] \<Longrightarrow> snd (fst (rd n s)) = Some EOF"
    and steady: "snd (fst (rd n s)) \<noteq> Some ReadFailure"
begin

text \<open>
  How many more reads it takes at most until everything that may be delivered has been and the
  answer is final.
\<close>

definition pending :: "'a limitedBody \<Rightarrow> nat" where
  "pending b = (if lb_remaining b < 0 then 0 else Suc (nat (lb_remaining b)))"

text \<open>The answer when nothing more can be delivered: the limit was exceeded, or the body has ended.\<close>

definition spent :: "'a limitedBody \<Rightarrow> bool" where
  "spent b \<longleftrightarrow> lb_remaining b < 0 \<or> rest (lb_inner b) = []"

lemma spent_read:
  assumes "spent b" and "limited_read rd n b = ((bytes, err), b')"
  shows "bytes = []" and "spent b'" and "err = Some (if lb_remaining b < 0 then TooLarge else EOF)"
    and "lb_remaining b' < 0 \<longleftrightarrow> lb_remaining b < 0"
proof -
  have "bytes = [] \<and> spent b' \<and> err = Some (if lb_remaining b < 0 then TooLarge else EOF)
    \<and> (lb_remaining b' < 0 \<longleftrightarrow> lb_remaining b < 0)"
  proof (cases "lb_remaining b < 0")
    case True
    with assms show ?thesis by (auto simp: limited_read_def)
  next
    case False
    with assms(1) have empty: "rest (lb_inner b) = []" by (simp add: spent_def)
    have rd: "\<exists>s'. rd k (lb_inner b) = (([], Some EOF), s') \<and> rest s' = []" for k
      using ends [OF empty, of k] reads [of k "lb_inner b"] empty
      by (cases "rd k (lb_inner b)") (auto simp: prod_eq_iff)
    define k where "k = (if lb_remaining b = 0 then 1 else if lb_remaining b < int n then nat (lb_remaining b) else n)"
    from rd [of k] obtain s' where "rd k (lb_inner b) = (([], Some EOF), s')" "rest s' = []" by blast
    with assms(2) False show ?thesis by (auto simp: limited_read_def spent_def k_def split: if_splits)
  qed
  then show "bytes = []" and "spent b'" and "err = Some (if lb_remaining b < 0 then TooLarge else EOF)"
    and "lb_remaining b' < 0 \<longleftrightarrow> lb_remaining b < 0" by simp_all
qed

text \<open>Before that every read with room in its buffer delivers bytes or finds the limit exceeded.\<close>

lemma unspent_read:
  assumes "\<not> spent b" and "0 < n" and "limited_read rd n b = ((bytes, err), b')"
  shows "pending b' < pending b" and "0 < lb_remaining b \<or> lb_remaining b' < 0 \<and> err = Some TooLarge"
proof -
  from assms(1) have b: "0 \<le> lb_remaining b" "rest (lb_inner b) \<noteq> []" by (simp_all add: spent_def)
  have "pending b' < pending b \<and> (0 < lb_remaining b \<or> lb_remaining b' < 0 \<and> err = Some TooLarge)"
  proof (cases "lb_remaining b = 0")
    case True
    obtain probe perr s' where p: "rd 1 (lb_inner b) = ((probe, perr), s')" by (metis prod.exhaust)
    with progress [of 1 "lb_inner b"] b(2) have "probe \<noteq> []" by simp
    with assms(3) True p show ?thesis by (auto simp: limited_read_def pending_def)
  next
    case False
    let ?k = "if lb_remaining b < int n then nat (lb_remaining b) else n"
    obtain s' where p: "rd ?k (lb_inner b) = ((bytes, err), s')"
      and b': "b' = b\<lparr>lb_inner := s', lb_remaining := lb_remaining b - int (length bytes)\<rparr>"
      using assms(3) False b(1) by (auto simp: limited_read_def split: prod.splits)
    have "bytes \<noteq> []" using progress [of ?k "lb_inner b"] p b False assms(2) by auto
    moreover have "int (length bytes) \<le> lb_remaining b" using reads [OF p] b(1) by (auto split: if_splits)
    ultimately show ?thesis using b' False b(1) by (auto simp: pending_def)
  qed
  then show "pending b' < pending b" and "0 < lb_remaining b \<or> lb_remaining b' < 0 \<and> err = Some TooLarge"
    by simp_all
qed

lemma read_all_spends:
  "read_all rd ns b = (rs, b') \<Longrightarrow> list_all (\<lambda>n. 0 < n) ns \<Longrightarrow> spent b \<or> pending b \<le> length ns \<Longrightarrow> ns \<noteq> [] \<Longrightarrow>
   spent b' \<and> Some (if lb_remaining b' < 0 then TooLarge else EOF) \<in> snd ` set rs"
proof (induction ns arbitrary: b rs)
  case (Cons n ns)
  obtain bytes err b1 where s: "limited_read rd n b = ((bytes, err), b1)" by (metis prod.exhaust)
  obtain rs1 where rs1: "read_all rd ns b1 = (rs1, b')" and rs: "rs = (bytes, err) # rs1"
    using Cons.prems(1) s by (auto split: prod.splits)
  have next_state: "spent b1 \<or> pending b1 \<le> length ns"
    using spent_read(2) [OF _ s] unspent_read(1) [OF _ _ s] Cons.prems(2,3) by fastforce
  show ?case
  proof (cases "ns = []")
    case True
    with rs1 rs have b': "b' = b1" "rs = [(bytes, err)]" by simp_all
    show ?thesis
    proof (cases "spent b")
      case True
      from spent_read [OF True s] b' show ?thesis by auto
    next
      case False
      with Cons.prems(3) \<open>ns = []\<close> have "\<not> 0 < lb_remaining b" by (auto simp: pending_def split: if_splits)
      with unspent_read(2) [OF False _ s] Cons.prems(2) b' show ?thesis by (auto simp: spent_def)
    qed
  next
    case False
    from Cons.IH [OF rs1 _ next_state False] Cons.prems(2) rs show ?thesis by auto
  qed
qed simp

text \<open>More reads than the limit has bytes deliver all that the limit lets through, and say which it was.\<close>

lemma read_all_exact:
  assumes "0 \<le> limit" and "read_all rd ns \<lparr>lb_inner = s, lb_remaining = limit\<rparr> = (rs, b)"
    and "list_all (\<lambda>n. 0 < n) ns" and "nat limit < length ns"
  shows "delivered rs = take (nat limit) (rest s)
    \<and> (Some TooLarge \<in> snd ` set rs \<longleftrightarrow> nat limit < length (rest s))
    \<and> (Some EOF \<in> snd ` set rs \<longleftrightarrow> length (rest s) \<le> nat limit)"
proof -
  have "pending \<lparr>lb_inner = s, lb_remaining = limit\<rparr> \<le> length ns" "ns \<noteq> []"
    using assms(1,4) by (auto simp: pending_def)
  with read_all_spends [OF assms(2,3)] have
    final: "spent b" "Some (if lb_remaining b < 0 then TooLarge else EOF) \<in> snd ` set rs" by auto
  from read_all_tracks [OF assms(2) tracks_start [OF assms(1)]] have
    t: "tracks (rest s) (nat limit) (delivered rs) b"
    and large: "Some TooLarge \<in> snd ` set rs \<Longrightarrow> nat limit < length (rest s)"
    and eof: "\<forall>i < length rs. snd (rs ! i) = Some EOF \<longrightarrow> rest s = delivered (take (Suc i) rs)" by (auto, force)
  have fits: "length (rest s) \<le> nat limit" if "Some EOF \<in> snd ` set rs"
  proof -
    from that obtain i where "i < length rs" "snd (rs ! i) = Some EOF" by (auto simp: in_set_conv_nth)
    with eof have "rest s = delivered (take (Suc i) rs)" by blast
    moreover have "delivered rs = delivered (take (Suc i) rs) @ delivered (drop (Suc i) rs)"
      by (simp add: delivered_def flip: map_append concat_append)
    ultimately show ?thesis using tracks_prefix [OF t] by simp
  qed
  show ?thesis
  proof (cases "lb_remaining b < 0")
    case True
    with t have "nat limit < length (rest s)" "delivered rs = take (nat limit) (rest s)" by (simp_all add: tracks_def)
    with final(2) True fits show ?thesis by auto
  next
    case False
    with final(1) t have "rest s = delivered rs" by (simp add: spent_def tracks_def)
    moreover have "length (delivered rs) \<le> nat limit" using tracks_prefix [OF t] by simp
    ultimately show ?thesis using final(2) False large by force
  qed
qed

end

section \<open>A reader in memory\<close>

definition string_reader :: "string reader" where
  "string_reader n s = ((take n s, if s = [] then Some EOF else None), drop n s)"

interpretation string_body: steady_reader string_reader id
  by unfold_locales (auto simp: string_reader_def split: if_splits)

section \<open>Properties\<close>

text \<open>
  Claim C34: whatever the body, its chunking and the buffers, the wrapper delivers a prefix of the
  body of at most the limit; it reports that the body is too large only when it is longer than the
  limit, and the end of the body only when all of it has been delivered. From a reader that makes
  progress, more reads than the limit has bytes deliver exactly the first \<open>limit\<close> bytes of the body,
  and the wrapper then refuses the body if it is longer and reports its end if it is not.
\<close>

theorem limited_body_exact:
  assumes "body_reader rd rest" and "0 \<le> limit"
    and "read_all rd ns \<lparr>lb_inner = s, lb_remaining = limit\<rparr> = (rs, b)"
  shows "length (delivered rs) \<le> nat limit \<and> take (length (delivered rs)) (rest s) = delivered rs
    \<and> (\<forall>r \<in> set rs. snd r = Some TooLarge \<longrightarrow> nat limit < length (rest s))
    \<and> (\<forall>i < length rs. snd (rs ! i) = Some EOF \<longrightarrow> rest s = delivered (take (Suc i) rs))
    \<and> (steady_reader rd rest \<and> list_all (\<lambda>n. 0 < n) ns \<and> nat limit < length ns \<longrightarrow>
        delivered rs = take (nat limit) (rest s)
        \<and> (Some TooLarge \<in> snd ` set rs \<longleftrightarrow> nat limit < length (rest s))
        \<and> (Some EOF \<in> snd ` set rs \<longleftrightarrow> length (rest s) \<le> nat limit))"
  using body_reader.read_all_tracks [OF assms(1,3) body_reader.tracks_start [OF assms(1,2)]]
    body_reader.tracks_prefix [OF assms(1)] steady_reader.read_all_exact [OF _ assms(2,3)]
  by auto

text \<open>A body of eight bytes and one of five, both under a limit of five.\<close>

theorem limited_body_exact_witness:
  "\<exists>rs b rs' b'. read_all string_reader (replicate 6 3) \<lparr>lb_inner = ''abcdefgh'', lb_remaining = 5\<rparr> = (rs, b)
     \<and> delivered rs = ''abcde'' \<and> Some TooLarge \<in> snd ` set rs
   \<and> read_all string_reader (replicate 6 3) \<lparr>lb_inner = ''abcde'', lb_remaining = 5\<rparr> = (rs', b')
     \<and> delivered rs' = ''abcde'' \<and> Some EOF \<in> snd ` set rs'"
proof -
  obtain rs b where r: "read_all string_reader (replicate 6 3) \<lparr>lb_inner = ''abcdefgh'', lb_remaining = 5\<rparr> = (rs, b)"
    by fastforce
  obtain rs' b' where r': "read_all string_reader (replicate 6 3) \<lparr>lb_inner = ''abcde'', lb_remaining = 5\<rparr> = (rs', b')"
    by fastforce
  have ns: "list_all (\<lambda>n. 0 < n) (replicate 6 (3::nat))" "nat 5 < length (replicate 6 (3::nat))" by (simp_all add: list_all_iff)
  note exact = limited_body_exact [OF string_body.body_reader_axioms, of 5]
  from exact [OF _ r] exact [OF _ r'] string_body.steady_reader_axioms ns
  have "delivered rs = take 5 ''abcdefgh'' \<and> Some TooLarge \<in> snd ` set rs"
    "delivered rs' = take 5 ''abcde'' \<and> Some EOF \<in> snd ` set rs'"
    by (simp_all only: id_apply, simp_all)
  with r r' show ?thesis by auto
qed

end
