(* ===== verification/Config.thy ===== *)
theory Config
  imports Netip
begin

text \<open>
  The configuration of a process from its environment, \<^verbatim>\<open>internal/config/config.go\<close>: the variables
  with their defaults and every check, in the order of the source, so that the first problem
  decides the error. \<open>time.ParseDuration\<close> (nanoseconds) and \<open>url.Parse\<close> (scheme and host) are
  arguments.
\<close>

section \<open>The configuration\<close>

definition DataPlane :: string where "DataPlane = ''gateway''"

definition Admin :: string where "Admin = ''gateway-admin''"

lemma roles_differ [simp]: "DataPlane \<noteq> Admin" "Admin \<noteq> DataPlane"
  by (simp_all add: DataPlane_def Admin_def)

text \<open>A secret prints as a fixed text; its value is read where it is used.\<close>

datatype secret = Secret (Value: string)

definition newSecret :: "string \<Rightarrow> secret" where
  "newSecret v = Secret v"

definition secret_String :: "secret \<Rightarrow> string" where
  "secret_String s = ''[REDACTED]''"

datatype log_level = LevelDebug | LevelInfo | LevelWarn | LevelError

record config =
  cfg_Role :: string
  cfg_Environment :: string
  cfg_ListenAddr :: string
  cfg_LogLevel :: log_level
  cfg_ShutdownTimeout :: int
  cfg_TrustedProxyCIDRs :: "cidr list"
  cfg_AdminBearerToken :: secret
  cfg_APIKeyPepper :: secret
  cfg_DatabaseURL :: secret
  cfg_DatabaseMinConns :: int
  cfg_DatabaseMaxConns :: int
  cfg_DatabaseTimeout :: int
  cfg_UpstreamCIDRs :: "cidr list"
  cfg_ConfigPollInterval :: int
  cfg_ConfigPollJitter :: int
  cfg_HealthInterval :: int
  cfg_HealthTimeout :: int
  cfg_GatewayInstanceID :: string
  cfg_GatewayAdvertiseAddr :: string
  cfg_MetricsBearerToken :: secret
  cfg_RedisURL :: secret
  cfg_ConfigurationApprovalsRequired :: int
  cfg_TLSCertFile :: string
  cfg_TLSKeyFile :: string
  cfg_UpstreamTLSCAFile :: string

definition zero_config :: config where
  "zero_config = \<lparr>cfg_Role = [], cfg_Environment = [], cfg_ListenAddr = [], cfg_LogLevel = LevelInfo,
     cfg_ShutdownTimeout = 0, cfg_TrustedProxyCIDRs = [], cfg_AdminBearerToken = Secret [],
     cfg_APIKeyPepper = Secret [], cfg_DatabaseURL = Secret [], cfg_DatabaseMinConns = 0,
     cfg_DatabaseMaxConns = 0, cfg_DatabaseTimeout = 0, cfg_UpstreamCIDRs = [], cfg_ConfigPollInterval = 0,
     cfg_ConfigPollJitter = 0, cfg_HealthInterval = 0, cfg_HealthTimeout = 0, cfg_GatewayInstanceID = [],
     cfg_GatewayAdvertiseAddr = [], cfg_MetricsBearerToken = Secret [], cfg_RedisURL = Secret [],
     cfg_ConfigurationApprovalsRequired = 0, cfg_TLSCertFile = [], cfg_TLSKeyFile = [],
     cfg_UpstreamTLSCAFile = []\<rparr>"

section \<open>Values\<close>

type_synonym lookup = "string \<Rightarrow> string option"

definition env_value :: "lookup \<Rightarrow> string \<Rightarrow> string \<Rightarrow> string" where
  "env_value lookup key fallback = (case lookup key of Some configured \<Rightarrow> configured | None \<Rightarrow> fallback)"

definition env_trimmed :: "lookup \<Rightarrow> string \<Rightarrow> string \<Rightarrow> string" where
  "env_trimmed lookup key fallback = trim_space (env_value lookup key fallback)"

text \<open>The libraries: durations in nanoseconds, and the scheme and host of a URL.\<close>

record config_libraries =
  cl_duration :: "string \<Rightarrow> int option"
  cl_url :: "string \<Rightarrow> (string \<times> string) option"

definition positiveDuration :: "config_libraries \<Rightarrow> lookup \<Rightarrow> string \<Rightarrow> string \<Rightarrow> (string, int) result" where
  "positiveDuration L lookup name fallback =
     (case cl_duration L (env_trimmed lookup name fallback) of
        None \<Rightarrow> Inl (name @ '' must be a positive duration'')
      | Some d \<Rightarrow> if d \<le> 0 then Inl (name @ '' must be a positive duration'') else Inr d)"

definition nonNegativeDuration :: "config_libraries \<Rightarrow> lookup \<Rightarrow> string \<Rightarrow> string \<Rightarrow> (string, int) result" where
  "nonNegativeDuration L lookup name fallback =
     (case cl_duration L (env_trimmed lookup name fallback) of
        None \<Rightarrow> Inl (name @ '' must be a non-negative duration'')
      | Some d \<Rightarrow> if d < 0 then Inl (name @ '' must be a non-negative duration'') else Inr d)"

definition parseConnectionCount :: "string \<Rightarrow> string \<Rightarrow> (string, int) result" where
  "parseConnectionCount raw name =
     (case parse_int 32 (trim_space raw) of
        None \<Rightarrow> Inl (name @ '' must be a non-negative integer'')
      | Some n \<Rightarrow>
          if n < 0 then Inl (name @ '' must be a non-negative integer'')
          else if n = 0 \<and> name = ''GATEWAY_DATABASE_MAX_CONNECTIONS''
          then Inl ''GATEWAY_DATABASE_MAX_CONNECTIONS must be positive'' else Inr n)"

definition validateListenAddr :: "string \<Rightarrow> (string, unit) result" where
  "validateListenAddr address =
     (if address = [] then Inl ''value is empty''
      else case split_host_port address of
        None \<Rightarrow> Inl ''expected host:port''
      | Some (host, port) \<Rightarrow>
          (case atoi port of
             None \<Rightarrow> Inl ''port must be between 1 and 65535''
           | Some n \<Rightarrow> if n < 1 \<or> 65535 < n then Inl ''port must be between 1 and 65535'' else Inr ()))"

definition parseLogLevel :: "string \<Rightarrow> (string, log_level) result" where
  "parseLogLevel raw =
     (let level = to_lower (trim_space raw)
      in if level = ''debug'' then Inr LevelDebug
         else if level = ''info'' then Inr LevelInfo
         else if level = ''warn'' \<or> level = ''warning'' then Inr LevelWarn
         else if level = ''error'' then Inr LevelError
         else Inl ''GATEWAY_LOG_LEVEL must be debug, info, warn, or error'')"

text \<open>The loops over comma-separated prefixes: each is trimmed, parsed and masked.\<close>

fun parse_prefixes :: "string \<Rightarrow> string list \<Rightarrow> (string, cidr list) result" where
  "parse_prefixes message [] = Inr []"
| "parse_prefixes message (raw # raws) =
     (case parse_cidr (trim_space raw) of
        None \<Rightarrow> Inl message
      | Some p \<Rightarrow> bind_ok (parse_prefixes message raws) (\<lambda>ps. Inr (cidr_masked p # ps)))"

definition load_prefixes :: "lookup \<Rightarrow> string \<Rightarrow> (string, cidr list) result" where
  "load_prefixes lookup name =
     (let v = env_trimmed lookup name []
      in if v = [] then Inl (name @ '' is required'')
         else parse_prefixes (name @ '' contains an invalid CIDR'') (split_on CHR '','' v))"

definition wrap_error :: "string \<Rightarrow> (string, 'a) result \<Rightarrow> (string, 'a) result" where
  "wrap_error name m = (case m of Inl e \<Rightarrow> Inl (name @ '' is invalid: '' @ e) | Inr x \<Rightarrow> Inr x)"

section \<open>Loading\<close>

text \<open>What both roles share before the branch: role, environment, address, log level
  and TLS files. (The error for an unknown role also quotes it.)\<close>

definition load_common :: "config_libraries \<Rightarrow> string \<Rightarrow> lookup \<Rightarrow> (string, config) result" where
  "load_common L role lookup =
     bind_ok (guard_ok (role = DataPlane \<or> role = Admin) ''unsupported process role'') (\<lambda>_.
     let environment = env_trimmed lookup ''GATEWAY_ENVIRONMENT'' [];
         listenVariable = (if role = Admin then ''GATEWAY_ADMIN_HTTP_ADDR'' else ''GATEWAY_HTTP_ADDR'');
         listenDefault = (if role = Admin then ''127.0.0.1:4041'' else '':4040'');
         listenAddr = env_trimmed lookup listenVariable listenDefault;
         cert = env_trimmed lookup ''GATEWAY_TLS_CERT_FILE'' [];
         key = env_trimmed lookup ''GATEWAY_TLS_KEY_FILE'' []
     in
     bind_ok (guard_ok (environment \<noteq> []) ''GATEWAY_ENVIRONMENT is required'') (\<lambda>_.
     bind_ok (guard_ok (environment \<in> {''development'', ''staging'', ''production''})
       ''GATEWAY_ENVIRONMENT must be development, staging, or production'') (\<lambda>_.
     bind_ok (wrap_error listenVariable (validateListenAddr listenAddr)) (\<lambda>_.
     bind_ok (parseLogLevel (env_value lookup ''GATEWAY_LOG_LEVEL'' ''info'')) (\<lambda>level.
     bind_ok (case cl_duration L (env_trimmed lookup ''GATEWAY_SHUTDOWN_TIMEOUT'' ''10s'') of
         None \<Rightarrow> Inl ''GATEWAY_SHUTDOWN_TIMEOUT must be a valid duration''
       | Some d \<Rightarrow> if d \<le> 0 then Inl ''GATEWAY_SHUTDOWN_TIMEOUT must be positive'' else Inr d) (\<lambda>shutdown.
     bind_ok (guard_ok ((cert = []) = (key = []))
       ''GATEWAY_TLS_CERT_FILE and GATEWAY_TLS_KEY_FILE must be configured together'') (\<lambda>_.
     Inr (zero_config\<lparr>cfg_Role := role, cfg_Environment := environment, cfg_ListenAddr := listenAddr,
       cfg_LogLevel := level, cfg_ShutdownTimeout := shutdown, cfg_TLSCertFile := cert,
       cfg_TLSKeyFile := key\<rparr>))))))))"

text \<open>The variables of the gateway.\<close>

definition load_data_plane :: "config_libraries \<Rightarrow> lookup \<Rightarrow> config \<Rightarrow> (string, config) result" where
  "load_data_plane L lookup config =
     (let instance_id = env_trimmed lookup ''GATEWAY_INSTANCE_ID'' [];
          advertise = env_trimmed lookup ''GATEWAY_ADVERTISE_ADDR'' (cfg_ListenAddr config)
      in
      bind_ok (load_prefixes lookup ''GATEWAY_TRUSTED_PROXY_CIDRS'') (\<lambda>proxies.
      bind_ok (guard_ok (instance_id \<noteq> [] \<and> length instance_id \<le> 128)
        ''GATEWAY_INSTANCE_ID is required and must not exceed 128 characters'') (\<lambda>_.
      bind_ok (wrap_error ''GATEWAY_ADVERTISE_ADDR'' (validateListenAddr advertise)) (\<lambda>_.
      bind_ok (positiveDuration L lookup ''GATEWAY_CONFIG_POLL_INTERVAL'' ''2s'') (\<lambda>poll.
      bind_ok (nonNegativeDuration L lookup ''GATEWAY_CONFIG_POLL_JITTER'' ''500ms'') (\<lambda>jitter.
      bind_ok (guard_ok (jitter < poll)
        ''GATEWAY_CONFIG_POLL_JITTER must be shorter than GATEWAY_CONFIG_POLL_INTERVAL'') (\<lambda>_.
      bind_ok (positiveDuration L lookup ''GATEWAY_UPSTREAM_HEALTH_INTERVAL'' ''10s'') (\<lambda>health.
      bind_ok (positiveDuration L lookup ''GATEWAY_UPSTREAM_HEALTH_TIMEOUT'' ''2s'') (\<lambda>timeout.
      bind_ok (guard_ok (timeout < health)
        ''GATEWAY_UPSTREAM_HEALTH_TIMEOUT must be shorter than GATEWAY_UPSTREAM_HEALTH_INTERVAL'') (\<lambda>_.
      Inr (config\<lparr>cfg_TrustedProxyCIDRs := proxies, cfg_ConfigPollInterval := poll,
        cfg_ConfigPollJitter := jitter, cfg_HealthInterval := health, cfg_HealthTimeout := timeout,
        cfg_GatewayInstanceID := instance_id, cfg_GatewayAdvertiseAddr := advertise,
        cfg_UpstreamTLSCAFile := env_trimmed lookup ''GATEWAY_UPSTREAM_TLS_CA_FILE'' []\<rparr>)))))))))))"

text \<open>The variables of the admin process.\<close>

definition load_admin :: "lookup \<Rightarrow> config \<Rightarrow> (string, config) result" where
  "load_admin lookup config =
     (let token = env_value lookup ''GATEWAY_ADMIN_BEARER_TOKEN'' []
      in
      bind_ok (guard_ok (32 \<le> length token)
        ''GATEWAY_ADMIN_BEARER_TOKEN must contain at least 32 characters'') (\<lambda>_.
      bind_ok (case atoi (env_trimmed lookup ''GATEWAY_CONFIGURATION_APPROVALS_REQUIRED'' ''0'') of
          None \<Rightarrow> Inl ''GATEWAY_CONFIGURATION_APPROVALS_REQUIRED must be an integer from 0 to 5''
        | Some n \<Rightarrow> if n < 0 \<or> 5 < n
            then Inl ''GATEWAY_CONFIGURATION_APPROVALS_REQUIRED must be an integer from 0 to 5'' else Inr n) (\<lambda>n.
      Inr (config\<lparr>cfg_AdminBearerToken := newSecret token, cfg_ConfigurationApprovalsRequired := n\<rparr>))))"

text \<open>The variables both roles share after the branch.\<close>

definition load_shared :: "config_libraries \<Rightarrow> lookup \<Rightarrow> config \<Rightarrow> (string, config) result" where
  "load_shared L lookup config =
     (let redis = env_trimmed lookup ''GATEWAY_REDIS_URL'' ''redis://127.0.0.1:4044/0'';
          pepper = env_value lookup ''GATEWAY_API_KEY_PEPPER'' [];
          database = env_trimmed lookup ''GATEWAY_DATABASE_URL'' [];
          metrics = env_value lookup ''GATEWAY_METRICS_BEARER_TOKEN'' []
      in
      bind_ok (guard_ok (case cl_url L redis of None \<Rightarrow> False
          | Some (scheme, host) \<Rightarrow> (scheme = ''redis'' \<or> scheme = ''rediss'') \<and> host \<noteq> [])
        ''GATEWAY_REDIS_URL must be a valid redis or rediss URL'') (\<lambda>_.
      bind_ok (guard_ok (32 \<le> length pepper)
        ''GATEWAY_API_KEY_PEPPER must contain at least 32 characters'') (\<lambda>_.
      bind_ok (guard_ok (database \<noteq> []) ''GATEWAY_DATABASE_URL is required'') (\<lambda>_.
      bind_ok (parseConnectionCount (env_value lookup ''GATEWAY_DATABASE_MIN_CONNECTIONS'' ''1'')
        ''GATEWAY_DATABASE_MIN_CONNECTIONS'') (\<lambda>minimum.
      bind_ok (parseConnectionCount (env_value lookup ''GATEWAY_DATABASE_MAX_CONNECTIONS'' ''10'')
        ''GATEWAY_DATABASE_MAX_CONNECTIONS'') (\<lambda>maximum.
      bind_ok (guard_ok (minimum \<le> maximum)
        ''GATEWAY_DATABASE_MIN_CONNECTIONS must not exceed GATEWAY_DATABASE_MAX_CONNECTIONS'') (\<lambda>_.
      bind_ok (positiveDuration L lookup ''GATEWAY_DATABASE_CONNECT_TIMEOUT'' ''10s'') (\<lambda>timeout.
      bind_ok (guard_ok (metrics = [] \<or> 32 \<le> length metrics)
        ''GATEWAY_METRICS_BEARER_TOKEN must be empty or contain at least 32 characters'') (\<lambda>_.
      bind_ok (load_prefixes lookup ''GATEWAY_UPSTREAM_ALLOWED_CIDRS'') (\<lambda>upstreams.
      Inr (config\<lparr>cfg_APIKeyPepper := newSecret pepper, cfg_DatabaseURL := newSecret database,
        cfg_DatabaseMinConns := minimum, cfg_DatabaseMaxConns := maximum, cfg_DatabaseTimeout := timeout,
        cfg_UpstreamCIDRs := upstreams, cfg_MetricsBearerToken := newSecret metrics,
        cfg_RedisURL := newSecret redis\<rparr>)))))))))))"

definition load_config :: "config_libraries \<Rightarrow> string \<Rightarrow> lookup \<Rightarrow> (string, config) result" where
  "load_config L role lookup =
     bind_ok (load_common L role lookup) (\<lambda>config.
     bind_ok (if role = DataPlane then load_data_plane L lookup config else load_admin lookup config)
       (load_shared L lookup))"

section \<open>What a loaded configuration guarantees\<close>

definition listen_addr_ok :: "string \<Rightarrow> bool" where
  "listen_addr_ok address \<longleftrightarrow>
     (\<exists>host port n. split_host_port address = Some (host, port) \<and> atoi port = Some n \<and> 1 \<le> n \<and> n \<le> 65535)"

definition prefixes_ok :: "cidr list \<Rightarrow> bool" where
  "prefixes_ok ps \<longleftrightarrow> ps \<noteq> [] \<and> list_all (\<lambda>p. cidr_valid p \<and> cidr_masked p = p) ps"

definition common_ok :: "config \<Rightarrow> bool" where
  "common_ok c \<longleftrightarrow> cfg_Environment c \<in> {''development'', ''staging'', ''production''}
     \<and> listen_addr_ok (cfg_ListenAddr c) \<and> 0 < cfg_ShutdownTimeout c
     \<and> (cfg_TLSCertFile c = []) = (cfg_TLSKeyFile c = [])"

definition data_plane_ok :: "config \<Rightarrow> bool" where
  "data_plane_ok c \<longleftrightarrow> prefixes_ok (cfg_TrustedProxyCIDRs c)
     \<and> 1 \<le> length (cfg_GatewayInstanceID c) \<and> length (cfg_GatewayInstanceID c) \<le> 128
     \<and> listen_addr_ok (cfg_GatewayAdvertiseAddr c)
     \<and> 0 \<le> cfg_ConfigPollJitter c \<and> cfg_ConfigPollJitter c < cfg_ConfigPollInterval c
     \<and> 0 < cfg_HealthTimeout c \<and> cfg_HealthTimeout c < cfg_HealthInterval c"

definition admin_ok :: "config \<Rightarrow> bool" where
  "admin_ok c \<longleftrightarrow> 32 \<le> length (Value (cfg_AdminBearerToken c))
     \<and> 0 \<le> cfg_ConfigurationApprovalsRequired c \<and> cfg_ConfigurationApprovalsRequired c \<le> 5"

definition shared_ok :: "config \<Rightarrow> bool" where
  "shared_ok c \<longleftrightarrow> 32 \<le> length (Value (cfg_APIKeyPepper c)) \<and> Value (cfg_DatabaseURL c) \<noteq> []
     \<and> 0 \<le> cfg_DatabaseMinConns c \<and> cfg_DatabaseMinConns c \<le> cfg_DatabaseMaxConns c
     \<and> 1 \<le> cfg_DatabaseMaxConns c \<and> cfg_DatabaseMaxConns c < 2 ^ 31 \<and> 0 < cfg_DatabaseTimeout c
     \<and> (Value (cfg_MetricsBearerToken c) = [] \<or> 32 \<le> length (Value (cfg_MetricsBearerToken c)))
     \<and> prefixes_ok (cfg_UpstreamCIDRs c)"

lemma wrap_error_Inr [simp]: "wrap_error name m = Inr x \<longleftrightarrow> m = Inr x"
  by (cases m) (auto simp: wrap_error_def)

lemma validateListenAddr_ok: "validateListenAddr a = Inr u \<Longrightarrow> listen_addr_ok a"
  by (auto simp: validateListenAddr_def listen_addr_ok_def split: if_splits option.splits prod.splits)

lemma positiveDuration_ok: "positiveDuration L lookup name fb = Inr d \<Longrightarrow> 0 < d"
  by (auto simp: positiveDuration_def split: option.splits if_splits)

lemma nonNegativeDuration_ok: "nonNegativeDuration L lookup name fb = Inr d \<Longrightarrow> 0 \<le> d"
  by (auto simp: nonNegativeDuration_def split: option.splits if_splits)

lemma parse_int_less: "parse_int b s = Some n \<Longrightarrow> n < 2 ^ (b - 1)"
  by (auto simp: parse_int_def Let_def split: option.splits if_splits)

lemma parseConnectionCount_ok:
  "parseConnectionCount raw name = Inr n \<Longrightarrow> 0 \<le> n \<and> n < 2 ^ 31
     \<and> (name = ''GATEWAY_DATABASE_MAX_CONNECTIONS'' \<longrightarrow> 1 \<le> n)"
  using parse_int_less [of 32 "trim_space raw"]
  by (auto simp: parseConnectionCount_def split: option.splits if_splits)

lemma cidr_masked_idem [simp]: "cidr_masked (cidr_masked p) = cidr_masked p"
  by (cases p rule: cidr_masked.cases) (simp_all add: drop_push_drop)

lemma cidr_masked_valid: "cidr_valid p \<Longrightarrow> cidr_valid (cidr_masked p)"
  by (cases p rule: cidr_masked.cases) (simp_all add: cidr_valid_def)

lemma parse_prefixes_ok:
  "parse_prefixes message raws = Inr ps \<Longrightarrow>
   length ps = length raws \<and> list_all (\<lambda>p. cidr_valid p \<and> cidr_masked p = p) ps"
  by (induction message raws arbitrary: ps rule: parse_prefixes.induct)
    (auto simp: bind_ok_eq_Inr cidr_masked_valid parse_cidr_valid split: option.splits)

lemma load_prefixes_ok: "load_prefixes lookup name = Inr ps \<Longrightarrow> prefixes_ok ps"
  using split_on_nonempty
  by (fastforce simp: load_prefixes_def prefixes_ok_def Let_def dest!: parse_prefixes_ok split: if_splits)

lemma load_common_ok:
  "load_common L role lookup = Inr c \<Longrightarrow> (role = DataPlane \<or> role = Admin) \<and> cfg_Role c = role \<and> common_ok c"
  unfolding load_common_def Let_def common_ok_def
  by (auto simp: bind_ok_eq_Inr dest!: validateListenAddr_ok split: option.splits if_splits)

lemma load_data_plane_ok:
  assumes "load_data_plane L lookup c = Inr c'"
  shows "data_plane_ok c' \<and> (common_ok c \<longrightarrow> common_ok c') \<and> cfg_Role c' = cfg_Role c"
proof -
  let ?id = "env_trimmed lookup ''GATEWAY_INSTANCE_ID'' []"
    and ?addr = "env_trimmed lookup ''GATEWAY_ADVERTISE_ADDR'' (cfg_ListenAddr c)"
  from assms obtain ps poll jitter health tmo u where
    "load_prefixes lookup ''GATEWAY_TRUSTED_PROXY_CIDRS'' = Inr ps" and id: "?id \<noteq> [] \<and> length ?id \<le> 128"
    and "validateListenAddr ?addr = Inr u"
    and "positiveDuration L lookup ''GATEWAY_CONFIG_POLL_INTERVAL'' ''2s'' = Inr poll"
    and "nonNegativeDuration L lookup ''GATEWAY_CONFIG_POLL_JITTER'' ''500ms'' = Inr jitter"
    and lt: "jitter < poll" "tmo < health"
    and "positiveDuration L lookup ''GATEWAY_UPSTREAM_HEALTH_TIMEOUT'' ''2s'' = Inr tmo"
    and c': "c' = c\<lparr>cfg_TrustedProxyCIDRs := ps, cfg_ConfigPollInterval := poll,
        cfg_ConfigPollJitter := jitter, cfg_HealthInterval := health, cfg_HealthTimeout := tmo,
        cfg_GatewayInstanceID := ?id, cfg_GatewayAdvertiseAddr := ?addr,
        cfg_UpstreamTLSCAFile := env_trimmed lookup ''GATEWAY_UPSTREAM_TLS_CA_FILE'' []\<rparr>"
    unfolding load_data_plane_def Let_def by (elim bind_okE) (simp only: guard_ok_eq_Inr wrap_error_Inr sum.inject, fast)
  then have "prefixes_ok ps" "listen_addr_ok ?addr" "0 \<le> jitter" "0 < tmo"
    by (auto dest: load_prefixes_ok validateListenAddr_ok nonNegativeDuration_ok positiveDuration_ok)
  with id lt show ?thesis unfolding c' by (simp add: data_plane_ok_def common_ok_def Suc_le_eq)
qed

lemma load_admin_ok:
  "load_admin lookup c = Inr c' \<Longrightarrow> admin_ok c' \<and> (common_ok c \<longrightarrow> common_ok c') \<and> cfg_Role c' = cfg_Role c"
  unfolding load_admin_def Let_def admin_ok_def common_ok_def
  by (auto simp: bind_ok_eq_Inr newSecret_def split: option.splits if_splits)

lemma load_shared_ok:
  assumes "load_shared L lookup c = Inr c'"
  shows "shared_ok c' \<and> (common_ok c \<longrightarrow> common_ok c')
     \<and> (data_plane_ok c \<longrightarrow> data_plane_ok c') \<and> (admin_ok c \<longrightarrow> admin_ok c') \<and> cfg_Role c' = cfg_Role c"
proof -
  let ?pepper = "env_value lookup ''GATEWAY_API_KEY_PEPPER'' []"
    and ?database = "env_trimmed lookup ''GATEWAY_DATABASE_URL'' []"
    and ?metrics = "env_value lookup ''GATEWAY_METRICS_BEARER_TOKEN'' []"
    and ?redis = "env_trimmed lookup ''GATEWAY_REDIS_URL'' ''redis://127.0.0.1:4044/0''"
  from assms obtain mini maxi tmo ups where
    checks: "32 \<le> length ?pepper" "?database \<noteq> []" "mini \<le> maxi" "?metrics = [] \<or> 32 \<le> length ?metrics"
    and "parseConnectionCount (env_value lookup ''GATEWAY_DATABASE_MIN_CONNECTIONS'' ''1'')
        ''GATEWAY_DATABASE_MIN_CONNECTIONS'' = Inr mini"
    and "parseConnectionCount (env_value lookup ''GATEWAY_DATABASE_MAX_CONNECTIONS'' ''10'')
        ''GATEWAY_DATABASE_MAX_CONNECTIONS'' = Inr maxi"
    and "positiveDuration L lookup ''GATEWAY_DATABASE_CONNECT_TIMEOUT'' ''10s'' = Inr tmo"
    and "load_prefixes lookup ''GATEWAY_UPSTREAM_ALLOWED_CIDRS'' = Inr ups"
    and c': "c' = c\<lparr>cfg_APIKeyPepper := newSecret ?pepper, cfg_DatabaseURL := newSecret ?database,
        cfg_DatabaseMinConns := mini, cfg_DatabaseMaxConns := maxi, cfg_DatabaseTimeout := tmo,
        cfg_UpstreamCIDRs := ups, cfg_MetricsBearerToken := newSecret ?metrics, cfg_RedisURL := newSecret ?redis\<rparr>"
    unfolding load_shared_def Let_def by (elim bind_okE) (simp only: guard_ok_eq_Inr sum.inject, fast)
  then have "0 \<le> mini" "1 \<le> maxi" "maxi < 2 ^ 31" "0 < tmo" "prefixes_ok ups"
    by (auto dest: parseConnectionCount_ok positiveDuration_ok load_prefixes_ok)
  with checks show ?thesis
    unfolding c' by (simp add: shared_ok_def common_ok_def data_plane_ok_def admin_ok_def newSecret_def)
qed

lemma load_config_ok:
  assumes "load_config L role lookup = Inr c"
  shows "cfg_Role c = role \<and> common_ok c \<and> shared_ok c
    \<and> (if role = DataPlane then data_plane_ok c else role = Admin \<and> admin_ok c)"
proof -
  obtain c1 c2 where c1: "load_common L role lookup = Inr c1"
    and c2: "(if role = DataPlane then load_data_plane L lookup c1 else load_admin lookup c1) = Inr c2"
    and c3: "load_shared L lookup c2 = Inr c"
    using assms by (auto simp: load_config_def bind_ok_eq_Inr)
  show ?thesis
    using load_common_ok [OF c1] load_shared_ok [OF c3] c2 load_data_plane_ok [of L lookup c1 c2]
      load_admin_ok [of lookup c1 c2]
    by (auto split: if_splits)
qed

end
