(* ===== verification/Machines.thy ===== *)
theory Machines
  imports Main
begin

text \<open>
  State machines and their simulation, as interfaces: a machine has steps and runs, and a
  simulation maps the runs of one machine to those of another. The store, the lifecycle of
  configurations, the loop of the gateway, the gateway at work and the pool of the load test are
  machines; the lifecycle simulates the store, and the pool terminates.
\<close>

locale machine =
  fixes step :: "'s \<Rightarrow> 's \<Rightarrow> bool" and run :: "'s \<Rightarrow> 's \<Rightarrow> bool"
  assumes run_refl: "run s s"
    and run_step: "run s t \<Longrightarrow> step t u \<Longrightarrow> run s u"
    and run_cases: "run s t \<Longrightarrow> P s \<Longrightarrow> (\<And>t u. P t \<Longrightarrow> step t u \<Longrightarrow> P u) \<Longrightarrow> P t"
begin

lemma run_invariant: "run s t \<Longrightarrow> P s \<Longrightarrow> (\<And>t u. step t u \<Longrightarrow> P t \<Longrightarrow> P u) \<Longrightarrow> P t"
  by (rule run_cases [of s t P])

lemma run_one: "step s t \<Longrightarrow> run s t"
  by (rule run_step [OF run_refl])

lemma run_trans: "run s t \<Longrightarrow> run t u \<Longrightarrow> run s u"
  by (rule run_cases [of t u "run s"]) (auto intro: run_step)

text \<open>What each step preserves and is transitive is preserved by a run.\<close>

lemma run_relation:
  assumes "run s t" and "\<And>s. R s s" and "\<And>s t u. R s t \<Longrightarrow> R t u \<Longrightarrow> R s u" and "\<And>s t. step s t \<Longrightarrow> R s t"
  shows "R s t"
  using assms(1) assms(2) by (rule run_cases [of s t "R s"]) (auto intro: assms(3,4))

end

text \<open>A machine whose steps use up a measure stops, after as many steps as the measure allows.\<close>

locale terminating = machine step run for step run :: "'s \<Rightarrow> 's \<Rightarrow> bool" +
  fixes measure_of :: "'s \<Rightarrow> nat"
  assumes step_less: "step s t \<Longrightarrow> measure_of t < measure_of s"
begin

lemma steps_run: "(step ^^ n) s t \<Longrightarrow> run s t"
  by (induction n arbitrary: t) (auto intro: run_refl run_step)

lemma steps_bounded: "(step ^^ n) s t \<Longrightarrow> n + measure_of t \<le> measure_of s"
  by (induction n arbitrary: t) (auto dest!: step_less, fastforce)

end

text \<open>
  A simulation: under an invariant of the concrete machine, each of its steps is a step of the
  abstract machine or invisible to it.
\<close>

locale simulation = concrete: machine step run + abstract: machine astep arun
  for step run :: "'s \<Rightarrow> 's \<Rightarrow> bool" and astep arun :: "'a \<Rightarrow> 'a \<Rightarrow> bool" +
  fixes abs_of :: "'s \<Rightarrow> 'a" and ok :: "'s \<Rightarrow> bool"
  assumes step_ok: "step s t \<Longrightarrow> ok s \<Longrightarrow> ok t"
    and step_abs: "step s t \<Longrightarrow> ok s \<Longrightarrow> abs_of t = abs_of s \<or> astep (abs_of s) (abs_of t)"
begin

lemma run_ok: "run s t \<Longrightarrow> ok s \<Longrightarrow> ok t"
  by (rule concrete.run_invariant [of s t ok]) (auto intro: step_ok)

lemma run_simulates:
  assumes "run s t" and "ok s"
  shows "arun (abs_of s) (abs_of t)"
proof -
  have "ok t \<and> arun (abs_of s) (abs_of t)"
    using assms(1)
  proof (rule concrete.run_invariant)
    show "ok s \<and> arun (abs_of s) (abs_of s)" using assms(2) abstract.run_refl by simp
    show "ok u \<and> arun (abs_of s) (abs_of u)" if "step t u" and "ok t \<and> arun (abs_of s) (abs_of t)" for t u
      using that step_ok [of t u] step_abs [of t u] by (auto intro: abstract.run_step)
  qed
  then show ?thesis ..
qed

text \<open>An invariant of the abstract machine is one of the concrete machine.\<close>

lemma transfer_invariant:
  assumes "run s t" and "ok s" and "A (abs_of s)" and "\<And>a a'. astep a a' \<Longrightarrow> A a \<Longrightarrow> A a'"
  shows "A (abs_of t)"
  using run_simulates [OF assms(1,2)] assms(3,4) by (rule abstract.run_invariant)

end

end
