(* ===== verification/Migrate.thy ===== *)
theory Migrate
  imports Go_Strings Machines
begin

text \<open>
  The migrations of the admin process, \<^verbatim>\<open>internal/database/database.go\<close>: the embedded files in
  sorted order, the ledger of applied versions, one transaction per file, and the advisory lock
  under which several admin processes take turns. Running SQL is the database's: \<open>me_apply\<close> is the
  effect of a file, \<open>None\<close> when it fails; \<open>me_fails\<close> says which other statements fail, by the error
  they lead to, and \<open>me_committed\<close> whether a COMMIT that reported an error took effect all the same.
  (Listing and reading files that are compiled into the program cannot fail, so that those two
  branches of the source have no counterpart.)
\<close>

datatype migrate_error =
    AcquireConnection
  | LockMigrations
  | CreateLedger
  | InvalidFilename string
  | ReadState int
  | BeginMigration int
  | ApplyMigration int
  | RecordMigration int
  | CommitMigration int

text \<open>The ledger and the schema it describes.\<close>

record 'd migrated =
  mg_ledger :: "int list"
  mg_schema :: 'd

definition trim_suffix :: "string \<Rightarrow> string \<Rightarrow> string" where
  "trim_suffix p s = (if has_prefix (rev s) (rev p) then take (length s - length p) s else s)"

definition migration_version :: "string \<Rightarrow> int option" where
  "migration_version name =
     (let name' = (if has_prefix name ''migrations/'' then drop (length ''migrations/'') name else name);
          base = trim_suffix ''.sql'' name'
      in parse_int 64 (before_byte CHR ''_'' base))"

record 'd migrate_env =
  me_fails :: "migrate_error \<Rightarrow> bool"
  me_committed :: "int \<Rightarrow> bool"
  me_apply :: "string \<Rightarrow> 'd \<Rightarrow> 'd option"

text \<open>
  One pass of the loop over the sorted names. A file that is in the ledger is skipped; the file and
  its entry in the ledger are one transaction.
\<close>

definition migrate_file :: "'d migrate_env \<Rightarrow> string \<Rightarrow> 'd migrated \<Rightarrow> migrate_error option \<times> 'd migrated" where
  "migrate_file E name st =
     (case migration_version name of
        None \<Rightarrow> (Some (InvalidFilename name), st)
      | Some version \<Rightarrow>
          if me_fails E (ReadState version) then (Some (ReadState version), st)
          else if version \<in> set (mg_ledger st) then (None, st)
          else if me_fails E (BeginMigration version) then (Some (BeginMigration version), st)
          else (case me_apply E name (mg_schema st) of
                  None \<Rightarrow> (Some (ApplyMigration version), st)
                | Some schema \<Rightarrow>
                    let st' = st\<lparr>mg_ledger := mg_ledger st @ [version], mg_schema := schema\<rparr>
                    in if me_fails E (RecordMigration version) then (Some (RecordMigration version), st)
                       else if me_fails E (CommitMigration version)
                         then (Some (CommitMigration version), if me_committed E version then st' else st)
                       else (None, st')))"

text \<open>The first failure ends the run, and what earlier files did is kept.\<close>

fun migrate_files ::
  "'d migrate_env \<Rightarrow> string list \<Rightarrow> 'd migrated \<Rightarrow> migrate_error option \<times> 'd migrated" where
  "migrate_files E [] st = (None, st)"
| "migrate_files E (name # names) st =
     (case migrate_file E name st of
        (Some e, st') \<Rightarrow> (Some e, st')
      | (None, st') \<Rightarrow> migrate_files E names st')"

definition Migrate ::
  "'d migrate_env \<Rightarrow> string list \<Rightarrow> 'd migrated \<Rightarrow> migrate_error option \<times> 'd migrated" where
  "Migrate E names st =
     (if me_fails E AcquireConnection then (Some AcquireConnection, st)
      else if me_fails E LockMigrations then (Some LockMigrations, st)
      else if me_fails E CreateLedger then (Some CreateLedger, st)
      else migrate_files E (sort names) st)"

text \<open>The names of the embedded files.\<close>

definition migrationFiles :: "string list" where
  "migrationFiles = map (\<lambda>n. ''migrations/'' @ n @ ''.sql'')
     [''001_control_plane'', ''002_listener_port_reuse'', ''003_listener_content_types'',
      ''004_bootstrap_active_configuration'', ''005_distributed_policies'', ''006_remap_default_ports'',
      ''007_https_transport'', ''008_relax_service_version_names'', ''009_public_documentation_routes'',
      ''010_unprotected_route_regex'']"

lemma migrationFiles_versions: "map migration_version migrationFiles = map (\<lambda>n. Some (int n)) [1..<11]"
  by (simp add: migrationFiles_def migration_version_def trim_suffix_def has_prefix_def before_byte_def
      parse_int_def byte_eval Let_def upt_rec)

section \<open>Runs after failures\<close>

text \<open>A file in the ledger stays there, so that a later run skips it.\<close>

lemma migrate_file_ledger: "set (mg_ledger st) \<subseteq> set (mg_ledger (snd (migrate_file E name st)))"
  by (auto simp: migrate_file_def Let_def split: option.splits)

lemma migrate_files_ledger: "set (mg_ledger st) \<subseteq> set (mg_ledger (snd (migrate_files E names st)))"
proof (induction names arbitrary: st)
  case (Cons name names)
  from migrate_file_ledger [of st E name] Cons [of "snd (migrate_file E name st)"] show ?case
    by (auto split: prod.split option.split)
qed simp

lemma migrate_file_done:
  "migrate_file E name st = (None, st') \<Longrightarrow> \<exists>v. migration_version name = Some v \<and> v \<in> set (mg_ledger st')"
  by (auto simp: migrate_file_def Let_def split: option.splits if_splits)

text \<open>A run that succeeds leaves every file in the ledger.\<close>

lemma migrate_files_done:
  "migrate_files E names st = (None, st') \<Longrightarrow> name \<in> set names \<Longrightarrow>
   \<exists>v. migration_version name = Some v \<and> v \<in> set (mg_ledger st')"
proof (induction names arbitrary: st)
  case (Cons n names)
  from Cons.prems(1) obtain st1 where st1: "migrate_file E n st = (None, st1)" "migrate_files E names st1 = (None, st')"
    by (auto split: prod.splits option.splits)
  from Cons.prems(2) consider "name = n" | "name \<in> set names" by auto
  then show ?case
  proof cases
    case 1
    with migrate_file_done [OF st1(1)] migrate_files_ledger [of st1 E names] st1(2) show ?thesis by auto
  qed (rule Cons.IH [OF st1(2)])
qed simp

lemma Migrate_done:
  assumes "Migrate E names st = (None, st')" and "name \<in> set names"
  shows "\<exists>v. migration_version name = Some v \<and> v \<in> set (mg_ledger st')"
  using assms migrate_files_done [of E "sort names" st st' name] by (auto simp: Migrate_def split: if_splits)

text \<open>Without failures other than those of the files themselves.\<close>

definition reliable :: "'d migrate_env \<Rightarrow> 'd migrate_env" where
  "reliable E = E\<lparr>me_fails := (\<lambda>_. False)\<rparr>"

lemma migrate_file_again:
  "migrate_file (reliable E) name (snd (migrate_file E name st)) = migrate_file (reliable E) name st"
  by (auto simp: migrate_file_def reliable_def Let_def split: option.split)

lemma migrate_file_skip:
  "migration_version name = Some v \<Longrightarrow> v \<in> set (mg_ledger st) \<Longrightarrow> migrate_file (reliable E) name st = (None, st)"
  by (simp add: migrate_file_def reliable_def)

lemma migrate_files_resume:
  "migrate_files (reliable E) names (snd (migrate_files E names st)) = migrate_files (reliable E) names st"
proof (induction names arbitrary: st)
  case (Cons name names)
  obtain r st1 where first: "migrate_file E name st = (r, st1)" by fastforce
  then have again: "migrate_file (reliable E) name st1 = migrate_file (reliable E) name st"
    using migrate_file_again [of E name st] by simp
  show ?case
  proof (cases r)
    case (Some e)
    with first again show ?thesis by simp
  next
    case None
    from migrate_file_done [OF first [unfolded None]] obtain v where
      v: "migration_version name = Some v" "v \<in> set (mg_ledger st1)" by blast
    then have st1: "migrate_file (reliable E) name st = (None, st1)"
      using again migrate_file_skip [OF v] by metis
    have "v \<in> set (mg_ledger (snd (migrate_files E names st1)))"
      using v(2) migrate_files_ledger [of st1 E names] by blast
    with v(1) Cons [of st1] st1 first None show ?thesis by (simp add: migrate_file_skip)
  qed
qed simp

text \<open>
  Claim C31: Migrations resume. Whatever made a run stop (a connection or lock that was not to be
  had, a file that fails, a statement that is lost, a commit that is refused or whose answer does not
  arrive, at any point), a later run without such failures leaves the database and the ledger exactly
  as a single uninterrupted run would have, and reports the same; in particular running the
  migrations again changes nothing.
\<close>

theorem migrate_resumes:
  "Migrate (reliable E) names (snd (Migrate E names st)) = Migrate (reliable E) names st"
  using migrate_files_resume [of E "sort names" st] by (simp add: Migrate_def reliable_def)

end
