(* ===== verification/Store_Base.thy ===== *)
theory Store_Base
  imports Snapshot
begin

text \<open>
  The control plane's store, \<^verbatim>\<open>internal/controlplane/store.go\<close>: the tables of the database
  (\<^verbatim>\<open>internal/database/migrations\<close>), transactions, the audit trail, identifiers and keys, and
  the normalisation of input. A table is a list of rows in insertion order; a query is a
  function of the database and a failing statement returns the error of PostgreSQL.
\<close>

section \<open>Rows\<close>

record environment_row =
  en_id :: int
  en_name :: string

record service_row =
  sv_id :: string
  sv_environment :: int
  sv_name :: string
  sv_display_name :: string
  sv_owner :: string
  sv_enabled :: bool
  sv_row_version :: int
  sv_created_at :: int

record version_row =
  vr_id :: string
  vr_service :: string
  vr_version :: string
  vr_health_check_path :: string
  vr_request_timeout_ms :: int
  vr_max_request_bytes :: int
  vr_enabled :: bool
  vr_row_version :: int
  vr_created_at :: int

record upstream_row =
  up_id :: string
  up_service_version :: string
  up_scheme :: string
  up_address :: addr
  up_port :: int
  up_weight :: int
  up_health_check_path :: string
  up_enabled :: bool
  up_row_version :: int
  up_created_at :: int

record port_row =
  po_environment :: int
  po_listen_port :: int
  po_status :: string
  po_listener :: "string option"
  po_updated_at :: int

record listener_row =
  ls_id :: string
  ls_environment :: int
  ls_service_version :: string
  ls_listen_port :: int
  ls_required_permission :: string
  ls_allowed_methods :: "string list"
  ls_allowed_content_types :: "string list"
  ls_unprotected_route_regex :: string
  ls_status :: string
  ls_configuration_version :: "int option"
  ls_row_version :: int
  ls_rate_limit_per_second :: int
  ls_rate_limit_burst :: int
  ls_quota_requests_per_minute :: int
  ls_circuit_failure_threshold :: int
  ls_circuit_open_ms :: int
  ls_created_at :: int

record consumer_row =
  cn_id :: string
  cn_environment :: int
  cn_name :: string
  cn_display_name :: string
  cn_enabled :: bool
  cn_row_version :: int
  cn_created_at :: int
  cn_updated_at :: int

record permission_row =
  pm_id :: string
  pm_name :: string
  pm_description :: string
  pm_created_at :: int

record grant_row =
  gr_consumer :: string
  gr_permission :: string

record key_row =
  ky_id :: string
  ky_consumer :: string
  ky_name :: string
  ky_prefix :: string
  ky_verifier :: string
  ky_expires_at :: "int option"
  ky_revoked_at :: "int option"
  ky_rotated_from :: "string option"
  ky_created_at :: int

text \<open>
  The \<open>snapshot\<close> column holds the JSON that \<open>CreateConfiguration\<close> builds and the runtime decodes;
  here it is the decoded value.
\<close>

record config_row =
  cf_id :: int
  cf_environment :: int
  cf_status :: string
  cf_snapshot :: raw_snapshot
  cf_source :: "int option"
  cf_created_by :: string
  cf_validated_at :: "int option"
  cf_activated_at :: "int option"
  cf_created_at :: int

record approval_row =
  ap_configuration :: int
  ap_actor :: string
  ap_created_at :: int

datatype detail = DStr string | DInt int | DBool bool | DStrs "string list" | DAddr addr | DNull

record audit_row =
  au_id :: int
  au_environment :: int
  au_actor :: string
  au_action :: string
  au_resource_type :: string
  au_resource_id :: string
  au_details :: "(string \<times> detail) list"
  au_created_at :: int

record instance_row =
  gi_id :: string
  gi_environment :: int
  gi_address :: string
  gi_loaded_version :: "int option"
  gi_ready :: bool
  gi_last_seen_at :: int

record database =
  t_environments :: "environment_row list"
  t_services :: "service_row list"
  t_versions :: "version_row list"
  t_upstreams :: "upstream_row list"
  t_ports :: "port_row list"
  t_listeners :: "listener_row list"
  t_consumers :: "consumer_row list"
  t_permissions :: "permission_row list"
  t_grants :: "grant_row list"
  t_keys :: "key_row list"
  t_configurations :: "config_row list"
  t_approvals :: "approval_row list"
  t_audit :: "audit_row list"
  t_instances :: "instance_row list"
  t_next_configuration :: int
  t_next_audit :: int

section \<open>Errors and transactions\<close>

text \<open>
  The errors of PostgreSQL by the codes \<open>translate\<close> looks at (23505, 23503, 23514), no row for
  \<open>QueryRow\<close>, and any other failure. \<open>ErrOther\<close> is an error passed on untranslated.
\<close>

datatype pg_error = NoRows | UniqueViolation | ForeignKeyViolation | CheckViolation | OtherError

datatype store_error = ErrNotFound | ErrConflict | ErrInvalid | ErrOther pg_error

fun translate :: "pg_error \<Rightarrow> store_error" where
  "translate NoRows = ErrNotFound"
| "translate UniqueViolation = ErrConflict"
| "translate ForeignKeyViolation = ErrInvalid"
| "translate CheckViolation = ErrInvalid"
| "translate OtherError = ErrOther OtherError"

text \<open>
  The store, and what a call gets from outside: the transaction's \<open>NOW()\<close>, the process clock,
  the random bytes of identifiers and keys, whether BEGIN and COMMIT succeed, and whether a COMMIT
  that is answered with an error has taken effect all the same (its answer was lost, or the
  context of the request ended while the server was committing).
\<close>

record store =
  st_pepper :: string
  st_upstreamCIDRs :: "cidr list"
  st_requiredApprovals :: int
  st_publisher :: bool

text \<open>The logger only changes what is logged.\<close>

definition NewStore :: "string \<Rightarrow> cidr list \<Rightarrow> store" where
  "NewStore pepper upstreamCIDRs = \<lparr>st_pepper = pepper, st_upstreamCIDRs = upstreamCIDRs,
     st_requiredApprovals = 0, st_publisher = False\<rparr>"

definition ConfigureDistributed :: "bool \<Rightarrow> int \<Rightarrow> store \<Rightarrow> store" where
  "ConfigureDistributed publisher requiredApprovals s =
     s\<lparr>st_publisher := publisher, st_requiredApprovals := requiredApprovals\<rparr>"

record call_env =
  ce_now :: int
  ce_clock :: int
  ce_id_bytes :: string
  ce_key_bytes :: string
  ce_begin_ok :: bool
  ce_commit_ok :: bool
  ce_commit_kept :: bool

definition commit_lost :: "call_env \<Rightarrow> bool" where
  "commit_lost c \<longleftrightarrow> \<not> ce_commit_ok c \<and> ce_commit_kept c"

text \<open>
  The body of a transaction fails, or returns a value and the changed tables. \<open>withTx\<close> discards
  the changes of a body that fails. After a COMMIT that reports an error the caller cannot know:
  the changes are discarded or, when \<open>ce_commit_kept\<close>, are in the database behind the error.
\<close>

type_synonym 'a tx = "database \<Rightarrow> (store_error, 'a \<times> database) result"

definition withTx :: "call_env \<Rightarrow> 'a tx \<Rightarrow> database \<Rightarrow> (store_error, 'a) result \<times> database" where
  "withTx c body db =
     (if \<not> ce_begin_ok c then (Inl (ErrOther OtherError), db)
      else (case body db of
              Inl e \<Rightarrow> (Inl e, db)
            | Inr (x, db') \<Rightarrow>
                if ce_commit_ok c then (Inr x, db')
                else (Inl (ErrOther OtherError), if ce_commit_kept c then db' else db)))"

definition query_row :: "'a option \<Rightarrow> (store_error, 'a) result" where
  "query_row r = (case r of None \<Rightarrow> Inl (translate NoRows) | Some x \<Rightarrow> Inr x)"

definition environment_id :: "database \<Rightarrow> string \<Rightarrow> int option" where
  "environment_id db environment =
     map_option en_id (find (\<lambda>e. en_name e = environment) (t_environments db))"

definition in_environment :: "database \<Rightarrow> string \<Rightarrow> int \<Rightarrow> bool" where
  "in_environment db environment eid \<longleftrightarrow>
     (\<exists>e \<in> set (t_environments db). en_id e = eid \<and> en_name e = environment)"

text \<open>\<open>notify\<close> publishes an event after a call that succeeded, when there is a publisher.\<close>

definition notify :: "store \<Rightarrow> string \<Rightarrow> string \<Rightarrow> (store_error, 'a) result \<Rightarrow> (string \<times> string) list" where
  "notify s environment event r =
     (if is_ok r \<and> st_publisher s then [(environment, event)] else [])"

definition audit ::
  "call_env \<Rightarrow> string \<Rightarrow> string \<Rightarrow> string \<Rightarrow> string \<Rightarrow> string \<Rightarrow> (string \<times> detail) list \<Rightarrow>
   database \<Rightarrow> (store_error, database) result" where
  "audit c environment actor action resourceType resourceID details db =
     (case environment_id db environment of
        None \<Rightarrow> Inl ErrNotFound
      | Some eid \<Rightarrow>
          Inr (db\<lparr>t_audit := t_audit db @ [\<lparr>au_id = t_next_audit db, au_environment = eid,
                 au_actor = actor, au_action = action, au_resource_type = resourceType,
                 au_resource_id = resourceID, au_details = details, au_created_at = ce_now c\<rparr>],
               t_next_audit := t_next_audit db + 1\<rparr>))"

text \<open>The end of most transactions: the audit event, then the result.\<close>

definition audited ::
  "call_env \<Rightarrow> string \<Rightarrow> string \<Rightarrow> string \<Rightarrow> string \<Rightarrow> string \<Rightarrow> (string \<times> detail) list \<Rightarrow> 'a \<Rightarrow> 'a tx" where
  "audited c environment actor action resourceType resourceID details x db =
     bind_ok (audit c environment actor action resourceType resourceID details db) (\<lambda>db'. Inr (x, db'))"

section \<open>Identifiers and keys\<close>

definition newID :: "string \<Rightarrow> string \<Rightarrow> string" where
  "newID prefix random = prefix @ ''_'' @ hex_encode (take 12 random)"

definition generateKey :: "(string \<Rightarrow> string \<Rightarrow> string) \<Rightarrow> string \<Rightarrow> string \<Rightarrow> string \<times> string \<times> string" where
  "generateKey hmac pepper random =
     (let secret = hex_encode (take 32 random);
          prefix = take 12 secret;
          raw = ''shn_'' @ prefix @ ''.'' @ drop 12 secret
      in (raw, prefix, hmac pepper raw))"

definition maskPrefix :: "string \<Rightarrow> string" where
  "maskPrefix prefix =
     (if length prefix \<le> 4 then prefix @ ''****''
      else take 4 prefix @ replicate (length prefix - 4) CHR ''*'')"

definition addressAllowed :: "store \<Rightarrow> addr \<Rightarrow> bool" where
  "addressAllowed s address = list_ex (\<lambda>p. cidr_contains p address) (st_upstreamCIDRs s)"

section \<open>Input\<close>

text \<open>The two patterns, as the languages they accept.\<close>

definition name_byte :: "char \<Rightarrow> bool" where
  "name_byte c \<longleftrightarrow> is_lower c \<or> is_digit c \<or> c = CHR ''-''"

definition serviceNamePattern :: "string \<Rightarrow> bool" where
  "serviceNamePattern s \<longleftrightarrow>
     2 \<le> length s \<and> length s \<le> 63 \<and> is_lower (hd s) \<and> list_all name_byte (tl s)"

definition permissionPattern :: "string \<Rightarrow> bool" where
  "permissionPattern s =
     (case split_on CHR '':'' s of
        [a, b, d] \<Rightarrow> a \<noteq> [] \<and> is_lower (hd a) \<and> list_all name_byte (tl a)
          \<and> b \<noteq> [] \<and> list_all (\<lambda>c. is_lower c \<or> is_upper c \<or> is_digit c \<or> c = CHR ''.'' \<or> c = CHR ''-'') b
          \<and> d \<noteq> [] \<and> is_lower (hd d) \<and> list_all name_byte (tl d)
      | _ \<Rightarrow> False)"

text \<open>
  UTF-8: the length of the rune that starts a string, \<open>None\<close> when the encoding is not valid
  (overlong forms, surrogates and values above U+10FFFF are not).
\<close>

definition continuation :: "nat \<Rightarrow> nat \<Rightarrow> string \<Rightarrow> nat \<Rightarrow> bool" where
  "continuation lo hi s i \<longleftrightarrow> i < length s \<and> lo \<le> byte_of (s ! i) \<and> byte_of (s ! i) \<le> hi"

definition rune_length :: "string \<Rightarrow> nat option" where
  "rune_length s =
     (let b = byte_of (hd s); cont = continuation 0x80 0xBF s
      in if b < 0x80 then Some 1
         else if 0xC2 \<le> b \<and> b \<le> 0xDF then (if cont 1 then Some 2 else None)
         else if b = 0xE0 then (if continuation 0xA0 0xBF s 1 \<and> cont 2 then Some 3 else None)
         else if b = 0xED then (if continuation 0x80 0x9F s 1 \<and> cont 2 then Some 3 else None)
         else if 0xE1 \<le> b \<and> b \<le> 0xEF then (if cont 1 \<and> cont 2 then Some 3 else None)
         else if b = 0xF0 then (if continuation 0x90 0xBF s 1 \<and> cont 2 \<and> cont 3 then Some 4 else None)
         else if 0xF1 \<le> b \<and> b \<le> 0xF3 then (if cont 1 \<and> cont 2 \<and> cont 3 then Some 4 else None)
         else if b = 0xF4 then (if continuation 0x80 0x8F s 1 \<and> cont 2 \<and> cont 3 then Some 4 else None)
         else None)"

lemma rune_length_pos: "rune_length s = Some n \<Longrightarrow> 0 < n"
  by (auto simp: rune_length_def Let_def split: if_splits)

text \<open>The number of runes, \<open>None\<close> for invalid UTF-8 or a white space rune.\<close>

function plain_runes :: "string \<Rightarrow> nat option" where
  "plain_runes s =
     (if s = [] then Some 0
      else (case rune_length s of
              None \<Rightarrow> None
            | Some n \<Rightarrow>
                if take n s \<in> set space_encodings then None
                else map_option Suc (plain_runes (drop n s))))"
  by pat_completeness auto
termination
  by (relation "measure length") (auto dest: rune_length_pos)

declare plain_runes.simps [simp del]

definition validVersion :: "string \<Rightarrow> bool" where
  "validVersion version =
     (case plain_runes version of None \<Rightarrow> False | Some n \<Rightarrow> 1 \<le> n \<and> n \<le> 128)"

definition validPath :: "string \<Rightarrow> bool" where
  "validPath path \<longleftrightarrow> has_prefix path ''/'' \<and> \<not> contains_any path [CHR 0x0D, CHR 0x0A] \<and> length path \<le> 256"

definition validOptionalPath :: "string \<Rightarrow> bool" where
  "validOptionalPath path \<longleftrightarrow> path = [] \<or> validPath path"

definition known_methods :: "string list" where
  "known_methods = [''GET'', ''POST'', ''PUT'', ''PATCH'', ''DELETE'', ''HEAD'', ''OPTIONS'']"

text \<open>The keys of a Go map that collects strings, sorted.\<close>

definition sorted_set :: "string list \<Rightarrow> string list" where
  "sorted_set xs = sort (remdups xs)"

definition normalizeMethods :: "string list \<Rightarrow> string list option" where
  "normalizeMethods input0 =
     (let input = (if input0 = [] then [''GET''] else input0);
          methods = map (\<lambda>m. to_upper (trim_space m)) input
      in if list_all (\<lambda>m. m \<in> set known_methods) methods then Some (sorted_set methods) else None)"

definition normalizeContentTypes :: "(string \<Rightarrow> string option) \<Rightarrow> string list \<Rightarrow> string list option" where
  "normalizeContentTypes parse_media input0 =
     (let input = (if input0 = [] then default_content_types else input0);
          parsed = map (\<lambda>raw. parse_media (trim_space raw)) input
      in if list_all (\<lambda>p. case p of None \<Rightarrow> False | Some m \<Rightarrow> m \<noteq> [] \<and> CHR ''*'' \<notin> set m) parsed
         then Some (sorted_set (map (\<lambda>p. case p of None \<Rightarrow> [] | Some m \<Rightarrow> to_lower m) parsed)) else None)"

definition normalizeUnprotectedRouteRegex :: "regex_compiler \<Rightarrow> string \<Rightarrow> string option" where
  "normalizeUnprotectedRouteRegex compile input =
     (if input = [] then Some []
      else if 2048 < length input \<or> contains_any input [CHR 0x00, CHR 0x0D, CHR 0x0A] then None
      else if compile input = None then None else Some input)"

text \<open>\<open>netip.Addr.IsUnspecified\<close> and \<open>IsMulticast\<close>, which looks through an IPv4-mapped address.\<close>

fun is_unspecified :: "addr \<Rightarrow> bool" where
  "is_unspecified (V4 a) = (a = 0)"
| "is_unspecified (V6 a z) = (a = 0 \<and> z = [])"

fun is_multicast :: "addr \<Rightarrow> bool" where
  "is_multicast (V4 a) = (drop_bit 28 a = 0xE)"
| "is_multicast (V6 a z) =
     (if drop_bit 32 a = 0xFFFF then drop_bit 28 (take_bit 32 a) = 0xE else drop_bit 120 a = 0xFF)"

end
