(* ===== verification/Store_Catalog.thy ===== *)
theory Store_Catalog
  imports Store_Base
begin

text \<open>
  Services, their versions and upstreams: \<^verbatim>\<open>internal/controlplane/store.go\<close>, lines 58 to 221. An
  update names the row version it expects and increments it.
\<close>

section \<open>What the API returns\<close>

record service =
  S_ID :: string
  S_Environment :: string
  S_Name :: string
  S_DisplayName :: string
  S_Owner :: string
  S_Enabled :: bool
  S_RowVersion :: int
  S_CreatedAt :: int

definition service_of :: "string \<Rightarrow> service_row \<Rightarrow> service" where
  "service_of environment r = \<lparr>S_ID = sv_id r, S_Environment = environment, S_Name = sv_name r,
     S_DisplayName = sv_display_name r, S_Owner = sv_owner r, S_Enabled = sv_enabled r,
     S_RowVersion = sv_row_version r, S_CreatedAt = sv_created_at r\<rparr>"

text \<open>A \<open>ServiceVersion\<close> has the columns of its row; an \<open>Upstream\<close> has its address as text.\<close>

record upstream_view =
  U_row :: upstream_row
  U_Address :: string

section \<open>Statements\<close>

text \<open>
  \<^verbatim>\<open>UPDATE ... WHERE P RETURNING\<close> for a condition that at most one row meets: the row after the
  update and the new table.
\<close>

definition update_returning :: "('r \<Rightarrow> bool) \<Rightarrow> ('r \<Rightarrow> 'r) \<Rightarrow> 'r list \<Rightarrow> ('r \<times> 'r list) option" where
  "update_returning P f rows = map_option (\<lambda>r. (f r, update_where P f rows)) (find P rows)"

definition insert_service :: "service_row \<Rightarrow> database \<Rightarrow> (pg_error, database) result" where
  "insert_service r db =
     (if exists_where (\<lambda>q. sv_id q = sv_id r
            \<or> sv_environment q = sv_environment r \<and> sv_name q = sv_name r) (t_services db)
      then Inl UniqueViolation else Inr (db\<lparr>t_services := t_services db @ [r]\<rparr>))"

definition insert_version :: "version_row \<Rightarrow> database \<Rightarrow> (pg_error, database) result" where
  "insert_version r db =
     (if exists_where (\<lambda>q. vr_id q = vr_id r
            \<or> vr_service q = vr_service r \<and> vr_version q = vr_version r) (t_versions db)
      then Inl UniqueViolation else Inr (db\<lparr>t_versions := t_versions db @ [r]\<rparr>))"

definition same_endpoint :: "upstream_row \<Rightarrow> upstream_row \<Rightarrow> bool" where
  "same_endpoint q r \<longleftrightarrow> up_service_version q = up_service_version r \<and> up_address q = up_address r
     \<and> up_port q = up_port r \<and> up_scheme q = up_scheme r"

definition insert_upstream :: "upstream_row \<Rightarrow> database \<Rightarrow> (pg_error, database) result" where
  "insert_upstream r db =
     (if exists_where (\<lambda>q. up_id q = up_id r \<or> same_endpoint q r) (t_upstreams db)
      then Inl UniqueViolation else Inr (db\<lparr>t_upstreams := t_upstreams db @ [r]\<rparr>))"

definition translated :: "(pg_error, 'a) result \<Rightarrow> (store_error, 'a) result" where
  "translated m = (case m of Inl e \<Rightarrow> Inl (translate e) | Inr x \<Rightarrow> Inr x)"

definition service_in :: "database \<Rightarrow> string \<Rightarrow> string \<Rightarrow> bool" where
  "service_in db environment sid \<longleftrightarrow>
     (\<exists>s \<in> set (t_services db). sv_id s = sid \<and> in_environment db environment (sv_environment s))"

definition version_in :: "database \<Rightarrow> string \<Rightarrow> string \<Rightarrow> bool" where
  "version_in db environment vid \<longleftrightarrow>
     (\<exists>v \<in> set (t_versions db). vr_id v = vid \<and> service_in db environment (vr_service v))"

section \<open>Services\<close>

definition CreateService ::
  "call_env \<Rightarrow> string \<Rightarrow> string \<Rightarrow> string \<Rightarrow> string \<Rightarrow> string \<Rightarrow> database \<Rightarrow>
   (store_error, service) result \<times> database" where
  "CreateService c actor environment name0 displayName0 owner db =
     (let name = trim_space name0; displayName = trim_space displayName0
      in if \<not> serviceNamePattern name \<or> displayName = [] then (Inl ErrInvalid, db)
         else let rid = newID ''svc'' (ce_id_bytes c) in withTx c (\<lambda>db.
           bind_ok (query_row (environment_id db environment)) (\<lambda>eid.
           let r = \<lparr>sv_id = rid, sv_environment = eid, sv_name = name, sv_display_name = displayName,
                    sv_owner = trim_space owner, sv_enabled = True, sv_row_version = 1,
                    sv_created_at = ce_now c\<rparr>
           in bind_ok (translated (insert_service r db)) (\<lambda>db1.
              audited c environment actor ''service.created'' ''service'' rid [(''name'', DStr name)]
                (service_of environment r) db1))) db)"

definition ListServices :: "string \<Rightarrow> database \<Rightarrow> service list" where
  "ListServices environment db =
     map (service_of environment) (sort_key sv_name
       (filter (\<lambda>s. in_environment db environment (sv_environment s)) (t_services db)))"

definition UpdateService ::
  "call_env \<Rightarrow> string \<Rightarrow> string \<Rightarrow> string \<Rightarrow> string \<Rightarrow> string \<Rightarrow> bool \<Rightarrow> int \<Rightarrow> database \<Rightarrow>
   (store_error, service) result \<times> database" where
  "UpdateService c actor environment name displayName owner enabled expectedVersion db =
     (if trim_space displayName = [] \<or> expectedVersion < 1 then (Inl ErrInvalid, db)
      else withTx c (\<lambda>db.
        bind_ok (query_row (update_returning
            (\<lambda>s. in_environment db environment (sv_environment s) \<and> sv_name s = name
                \<and> sv_row_version s = expectedVersion)
            (\<lambda>s. s\<lparr>sv_display_name := trim_space displayName, sv_owner := trim_space owner,
                   sv_enabled := enabled, sv_row_version := sv_row_version s + 1\<rparr>)
            (t_services db))) (\<lambda>(r, rows).
        audited c environment actor ''service.updated'' ''service'' (sv_id r)
          [(''enabled'', DBool enabled), (''expectedVersion'', DInt expectedVersion)]
          (service_of environment r) (db\<lparr>t_services := rows\<rparr>))) db)"

section \<open>Service versions\<close>

definition version_input_ok :: "string \<Rightarrow> string \<Rightarrow> int \<Rightarrow> int \<Rightarrow> bool" where
  "version_input_ok version healthPath timeoutMS maxBytes \<longleftrightarrow>
     \<not> (\<not> validVersion version \<or> \<not> validPath healthPath \<or> timeoutMS < 1 \<or> 300000 < timeoutMS
        \<or> maxBytes < 1 \<or> 2 ^ 30 < maxBytes)"

definition CreateServiceVersion ::
  "call_env \<Rightarrow> string \<Rightarrow> string \<Rightarrow> string \<Rightarrow> string \<Rightarrow> string \<Rightarrow> int \<Rightarrow> int \<Rightarrow> database \<Rightarrow>
   (store_error, version_row) result \<times> database" where
  "CreateServiceVersion c actor environment serviceName version healthPath timeoutMS maxBytes db =
     (if \<not> version_input_ok version healthPath timeoutMS maxBytes then (Inl ErrInvalid, db)
      else let rid = newID ''ver'' (ce_id_bytes c) in withTx c (\<lambda>db.
        bind_ok (query_row (find (\<lambda>s. in_environment db environment (sv_environment s)
            \<and> sv_name s = serviceName) (t_services db))) (\<lambda>s.
        let r = \<lparr>vr_id = rid, vr_service = sv_id s, vr_version = version,
                 vr_health_check_path = healthPath, vr_request_timeout_ms = timeoutMS,
                 vr_max_request_bytes = maxBytes, vr_enabled = True, vr_row_version = 1,
                 vr_created_at = ce_now c\<rparr>
        in bind_ok (translated (insert_version r db)) (\<lambda>db1.
           audited c environment actor ''service-version.created'' ''service-version'' rid
             [(''version'', DStr version)] r db1))) db)"

definition ListServiceVersions :: "string \<Rightarrow> string \<Rightarrow> database \<Rightarrow> version_row list" where
  "ListServiceVersions environment serviceName db =
     sort_key vr_version (filter (\<lambda>v. \<exists>s \<in> set (t_services db). sv_id s = vr_service v
        \<and> sv_name s = serviceName \<and> in_environment db environment (sv_environment s)) (t_versions db))"

definition UpdateServiceVersion ::
  "call_env \<Rightarrow> string \<Rightarrow> string \<Rightarrow> string \<Rightarrow> string \<Rightarrow> string \<Rightarrow> int \<Rightarrow> int \<Rightarrow> bool \<Rightarrow> int \<Rightarrow>
   database \<Rightarrow> (store_error, version_row) result \<times> database" where
  "UpdateServiceVersion c actor environment rid version healthPath timeoutMS maxBytes enabled
     expectedVersion db =
     (if \<not> version_input_ok version healthPath timeoutMS maxBytes \<or> expectedVersion < 1
      then (Inl ErrInvalid, db)
      else withTx c (\<lambda>db.
        bind_ok (query_row (update_returning
            (\<lambda>v. service_in db environment (vr_service v) \<and> vr_id v = rid
                \<and> vr_row_version v = expectedVersion)
            (\<lambda>v. v\<lparr>vr_version := version, vr_health_check_path := healthPath,
                   vr_request_timeout_ms := timeoutMS, vr_max_request_bytes := maxBytes,
                   vr_enabled := enabled, vr_row_version := vr_row_version v + 1\<rparr>)
            (t_versions db))) (\<lambda>(r, rows).
        if exists_where (\<lambda>q. vr_id q \<noteq> rid \<and> vr_service q = vr_service r \<and> vr_version q = version)
             (t_versions db) then Inl (translate UniqueViolation)
        else audited c environment actor ''service-version.updated'' ''service-version'' rid
          [(''enabled'', DBool enabled), (''expectedVersion'', DInt expectedVersion)]
          r (db\<lparr>t_versions := rows\<rparr>))) db)"

section \<open>Upstreams\<close>

text \<open>\<open>host\<close> prints an address, as the database does.\<close>

definition upstream_of :: "(addr \<Rightarrow> string) \<Rightarrow> upstream_row \<Rightarrow> upstream_view" where
  "upstream_of host r = \<lparr>U_row = r, U_Address = host (up_address r)\<rparr>"

definition upstream_numbers_ok :: "int \<Rightarrow> int \<Rightarrow> string \<Rightarrow> bool" where
  "upstream_numbers_ok port weight healthPath \<longleftrightarrow>
     \<not> (port < 1 \<or> 65535 < port \<or> weight < 1 \<or> 10000 < weight \<or> \<not> validOptionalPath healthPath)"

definition CreateUpstreamWithScheme ::
  "store \<Rightarrow> (addr \<Rightarrow> string) \<Rightarrow> call_env \<Rightarrow> string \<Rightarrow> string \<Rightarrow> string \<Rightarrow> string \<Rightarrow> string \<Rightarrow> int \<Rightarrow> int \<Rightarrow>
   string \<Rightarrow> database \<Rightarrow> (store_error, upstream_view) result \<times> database" where
  "CreateUpstreamWithScheme s host c actor environment versionID scheme0 address port weight healthPath db =
     (let scheme = to_lower (trim_space scheme0)
      in case parse_addr (trim_space address) of
        None \<Rightarrow> (Inl ErrInvalid, db)
      | Some parsed \<Rightarrow>
          if is_unspecified parsed \<or> is_multicast parsed \<or> \<not> addressAllowed s parsed
             \<or> scheme \<noteq> ''http'' \<and> scheme \<noteq> ''https'' \<or> \<not> upstream_numbers_ok port weight healthPath
          then (Inl ErrInvalid, db)
          else let rid = newID ''up'' (ce_id_bytes c) in withTx c (\<lambda>db.
            bind_ok (query_row (if version_in db environment versionID then Some () else None)) (\<lambda>_.
            let r = \<lparr>up_id = rid, up_service_version = versionID, up_scheme = scheme,
                     up_address = parsed, up_port = port, up_weight = weight,
                     up_health_check_path = healthPath, up_enabled = True, up_row_version = 1,
                     up_created_at = ce_now c\<rparr>
            in bind_ok (translated (insert_upstream r db)) (\<lambda>db1.
               audited c environment actor ''upstream.created'' ''upstream'' rid
                 [(''scheme'', DStr scheme), (''address'', DAddr parsed), (''port'', DInt port)]
                 (upstream_of host r) db1))) db)"

definition CreateUpstream ::
  "store \<Rightarrow> (addr \<Rightarrow> string) \<Rightarrow> call_env \<Rightarrow> string \<Rightarrow> string \<Rightarrow> string \<Rightarrow> string \<Rightarrow> int \<Rightarrow> int \<Rightarrow>
   string \<Rightarrow> database \<Rightarrow> (store_error, upstream_view) result \<times> database" where
  "CreateUpstream s host c actor environment versionID address port weight healthPath db =
     CreateUpstreamWithScheme s host c actor environment versionID ''http'' address port weight healthPath db"

definition ListUpstreams :: "(addr \<Rightarrow> string) \<Rightarrow> string \<Rightarrow> string \<Rightarrow> database \<Rightarrow> upstream_view list" where
  "ListUpstreams host environment versionID db =
     map (upstream_of host) (sort_key up_id (filter (\<lambda>u. up_service_version u = versionID
       \<and> version_in db environment versionID) (t_upstreams db)))"

definition UpdateUpstream ::
  "store \<Rightarrow> (addr \<Rightarrow> string) \<Rightarrow> call_env \<Rightarrow> string \<Rightarrow> string \<Rightarrow> string \<Rightarrow> string \<Rightarrow> string \<Rightarrow> int \<Rightarrow> int \<Rightarrow>
   string \<Rightarrow> bool \<Rightarrow> int \<Rightarrow> database \<Rightarrow> (store_error, upstream_view) result \<times> database" where
  "UpdateUpstream s host c actor environment rid scheme0 address port weight healthPath enabled
     expectedVersion db =
     (let scheme = to_lower (trim_space scheme0)
      in case parse_addr (trim_space address) of
        None \<Rightarrow> (Inl ErrInvalid, db)
      | Some parsed \<Rightarrow>
          if scheme \<noteq> ''http'' \<and> scheme \<noteq> ''https'' \<or> \<not> upstream_numbers_ok port weight healthPath
             \<or> \<not> addressAllowed s parsed \<or> expectedVersion < 1
          then (Inl ErrInvalid, db)
          else withTx c (\<lambda>db.
            bind_ok (query_row (update_returning
                (\<lambda>u. version_in db environment (up_service_version u) \<and> up_id u = rid
                    \<and> up_row_version u = expectedVersion)
                (\<lambda>u. u\<lparr>up_scheme := scheme, up_address := parsed, up_port := port, up_weight := weight,
                       up_health_check_path := healthPath, up_enabled := enabled,
                       up_row_version := up_row_version u + 1\<rparr>)
                (t_upstreams db))) (\<lambda>(r, rows).
            if exists_where (\<lambda>q. up_id q \<noteq> rid \<and> same_endpoint q r) (t_upstreams db)
            then Inl (translate UniqueViolation)
            else audited c environment actor ''upstream.updated'' ''upstream'' rid
              [(''scheme'', DStr scheme), (''enabled'', DBool enabled),
               (''expectedVersion'', DInt expectedVersion)]
              (upstream_of host r) (db\<lparr>t_upstreams := rows\<rparr>))) db)"

end
