(* ===== verification/Store_Ports.thy ===== *)
theory Store_Ports
  imports Store_Catalog
begin

text \<open>
  The port inventory and the listeners: \<^verbatim>\<open>internal/controlplane/store.go\<close>, lines 223 to 425. A port
  and the listener that occupies it have their own statuses, kept in step by these operations.
\<close>

section \<open>Ports\<close>

record port_view =
  P_Environment :: string
  P_ListenPort :: int
  P_Status :: string
  P_ListenerID :: "string option"
  P_UpdatedAt :: int

definition port_of :: "string \<Rightarrow> port_row \<Rightarrow> port_view" where
  "port_of environment r = \<lparr>P_Environment = environment, P_ListenPort = po_listen_port r,
     P_Status = po_status r, P_ListenerID = po_listener r, P_UpdatedAt = po_updated_at r\<rparr>"

definition ListPorts :: "string \<Rightarrow> string \<Rightarrow> database \<Rightarrow> port_view list" where
  "ListPorts environment status db =
     map (port_of environment) (sort_key po_listen_port (filter (\<lambda>p.
       in_environment db environment (po_environment p) \<and> (status = [] \<or> po_status p = status)) (t_ports db)))"

definition port_at :: "database \<Rightarrow> string \<Rightarrow> int \<Rightarrow> port_row \<Rightarrow> bool" where
  "port_at db environment port p \<longleftrightarrow>
     in_environment db environment (po_environment p) \<and> po_listen_port p = port"

definition find_listener :: "database \<Rightarrow> string \<Rightarrow> listener_row option" where
  "find_listener db rid = find (\<lambda>l. ls_id l = rid) (t_listeners db)"

text \<open>Blocking a port disables the listener on it.\<close>

definition disable_listener :: "call_env \<Rightarrow> string \<Rightarrow> string \<Rightarrow> string \<Rightarrow> database \<Rightarrow> (store_error, database) result" where
  "disable_listener c environment actor rid db =
     (if exists_where (\<lambda>l. ls_id l = rid \<and> ls_status l \<noteq> ''disabled'') (t_listeners db) then
        audit c environment actor ''listener.status-changed'' ''listener'' rid
          [(''status'', DStr ''disabled''), (''reason'', DStr ''port-blocked'')]
          (db\<lparr>t_listeners := update_where (\<lambda>l. ls_id l = rid \<and> ls_status l \<noteq> ''disabled'')
             (\<lambda>l. l\<lparr>ls_status := ''disabled'', ls_row_version := ls_row_version l + 1\<rparr>) (t_listeners db)\<rparr>)
      else Inr db)"

definition set_port_status ::
  "call_env \<Rightarrow> string \<Rightarrow> string \<Rightarrow> int \<Rightarrow> string \<Rightarrow> port_view tx" where
  "set_port_status c actor environment port status db =
     bind_ok (query_row (update_returning
         (\<lambda>p. port_at db environment port p
             \<and> (status = ''blocked'' \<or> po_status p \<notin> {''reserved'', ''active'', ''draining''}))
         (\<lambda>p. p\<lparr>po_status := status,
                po_listener := (if status = ''available'' then None else po_listener p),
                po_updated_at := ce_now c\<rparr>)
         (t_ports db))) (\<lambda>(r, rows).
     audited c environment actor ''port.status-changed'' ''port'' (show_int port)
       [(''status'', DStr status)] (port_of environment r) (db\<lparr>t_ports := rows\<rparr>))"

text \<open>Releasing a port deletes the disabled listener that held it.\<close>

definition release_port ::
  "call_env \<Rightarrow> string \<Rightarrow> string \<Rightarrow> int \<Rightarrow> string \<Rightarrow> port_view tx" where
  "release_port c actor environment port rid db =
     bind_ok (query_row (update_returning (port_at db environment port)
         (\<lambda>p. p\<lparr>po_status := ''available'', po_listener := None, po_updated_at := ce_now c\<rparr>)
         (t_ports db))) (\<lambda>(r, rows).
     bind_ok (if exists_where (\<lambda>p. po_listener p = Some rid) rows
              then Inl (translate ForeignKeyViolation)
              else Inr (db\<lparr>t_ports := rows,
                     t_listeners := delete_where (\<lambda>l. ls_id l = rid) (t_listeners db)\<rparr>)) (\<lambda>db1.
     bind_ok (audit c environment actor ''listener.deleted'' ''listener'' rid
         [(''listenPort'', DInt port), (''reason'', DStr ''port-released'')] db1) (\<lambda>db2.
     audited c environment actor ''port.status-changed'' ''port'' (show_int port)
       [(''status'', DStr ''available'')] (port_of environment r) db2)))"

definition UpdatePortStatus ::
  "call_env \<Rightarrow> string \<Rightarrow> string \<Rightarrow> int \<Rightarrow> string \<Rightarrow> database \<Rightarrow>
   (store_error, port_view) result \<times> database" where
  "UpdatePortStatus c actor environment port status db =
     (if status \<noteq> ''available'' \<and> status \<noteq> ''blocked'' \<and> status \<noteq> ''cooldown'' then (Inl ErrInvalid, db)
      else withTx c (\<lambda>db.
        if status = ''blocked'' then
          bind_ok (query_row (find (port_at db environment port) (t_ports db))) (\<lambda>p.
          bind_ok (case po_listener p of None \<Rightarrow> Inr db
                   | Some rid \<Rightarrow> disable_listener c environment actor rid db) (\<lambda>db1.
          set_port_status c actor environment port status db1))
        else if status = ''available'' then
          bind_ok (query_row (find (port_at db environment port) (t_ports db))) (\<lambda>p.
          case po_listener p of
            None \<Rightarrow> set_port_status c actor environment port status db
          | Some rid \<Rightarrow>
              (if (case find_listener db rid of None \<Rightarrow> False | Some l \<Rightarrow> ls_status l = ''disabled'')
               then release_port c actor environment port rid db else Inl ErrConflict))
        else set_port_status c actor environment port status db) db)"

section \<open>Listeners\<close>

text \<open>
  A listener as the API shows it: the environment's name and the row. The row holds the content
  types, which the API leaves out; the authentication policy is the same for every listener.
\<close>

record listener_view =
  L_Environment :: string
  L_row :: listener_row

definition listener_of :: "string \<Rightarrow> listener_row \<Rightarrow> listener_view" where
  "listener_of environment r = \<lparr>L_Environment = environment, L_row = r\<rparr>"

record allocate_input =
  ai_Service :: string
  ai_ServiceVersion :: string
  ai_PreferredPort :: "int option"
  ai_RequiredPermission :: string
  ai_AllowedMethods :: "string list"
  ai_AllowedContentTypes :: "string list"
  ai_UnprotectedRouteRegex :: string
  ai_RateLimitPerSecond :: int
  ai_RateLimitBurst :: int
  ai_QuotaRequestsPerMinute :: int
  ai_CircuitFailureThreshold :: int
  ai_CircuitOpenMS :: int

definition limits_ok :: "int \<Rightarrow> int \<Rightarrow> int \<Rightarrow> int \<Rightarrow> bool" where
  "limits_ok rate burst quota openMS \<longleftrightarrow>
     \<not> (rate < 0 \<or> 1000000 < rate \<or> burst < 0 \<or> 1000000 < burst \<or> quota < 0 \<or> 100000000 < quota
        \<or> openMS < 1000 \<or> 3600000 < openMS)"

text \<open>
  The port of a new listener: the preferred one if it is available, else the lowest available.
  \<^verbatim>\<open>SKIP LOCKED\<close> leaves out rows that concurrent transactions have locked, the argument \<open>locked\<close>.
\<close>

definition choose_port :: "database \<Rightarrow> int \<Rightarrow> int set \<Rightarrow> int option \<Rightarrow> int option" where
  "choose_port db eid locked preferred =
     (let free = filter (\<lambda>p. po_environment p = eid \<and> po_status p = ''available'') (t_ports db)
      in case preferred of
           Some port \<Rightarrow> map_option po_listen_port (find (\<lambda>p. po_listen_port p = port) free)
         | None \<Rightarrow> (case sort (map po_listen_port (filter (\<lambda>p. po_listen_port p \<notin> locked) free)) of
                      [] \<Rightarrow> None | port # _ \<Rightarrow> Some port))"

text \<open>
  The unique index on listeners covers those that are not disabled, the foreign key of the port
  is that of the row just read.
\<close>

definition insert_listener :: "listener_row \<Rightarrow> database \<Rightarrow> (pg_error, database) result" where
  "insert_listener r db =
     (if exists_where (\<lambda>q. ls_id q = ls_id r
            \<or> ls_environment q = ls_environment r \<and> ls_listen_port q = ls_listen_port r
              \<and> ls_status q \<noteq> ''disabled'') (t_listeners db)
      then Inl UniqueViolation else Inr (db\<lparr>t_listeners := t_listeners db @ [r]\<rparr>))"

definition AllocateListener ::
  "regex_compiler \<Rightarrow> (string \<Rightarrow> string option) \<Rightarrow> int set \<Rightarrow> call_env \<Rightarrow> string \<Rightarrow> string \<Rightarrow>
   allocate_input \<Rightarrow> database \<Rightarrow> (store_error, listener_view) result \<times> database" where
  "AllocateListener compile parse_media locked c actor environment i db =
     (let threshold = (if ai_CircuitFailureThreshold i = 0 then 5 else ai_CircuitFailureThreshold i);
          openMS = (if ai_CircuitOpenMS i = 0 then 30000 else ai_CircuitOpenMS i)
      in case (normalizeMethods (ai_AllowedMethods i),
               normalizeContentTypes parse_media (ai_AllowedContentTypes i),
               normalizeUnprotectedRouteRegex compile (ai_UnprotectedRouteRegex i)) of
        (Some methods, Some contentTypes, Some regex) \<Rightarrow>
          if \<not> permissionPattern (ai_RequiredPermission i)
             \<or> \<not> limits_ok (ai_RateLimitPerSecond i) (ai_RateLimitBurst i) (ai_QuotaRequestsPerMinute i) openMS
             \<or> threshold < 1 \<or> 1000 < threshold
          then (Inl ErrInvalid, db)
          else let rid = newID ''lis'' (ce_id_bytes c) in withTx c (\<lambda>db.
            bind_ok (query_row (environment_id db environment)) (\<lambda>eid.
            bind_ok (query_row (find (\<lambda>v. vr_enabled v \<and> vr_version v = ai_ServiceVersion i
                \<and> (\<exists>s \<in> set (t_services db). sv_id s = vr_service v \<and> sv_environment s = eid
                      \<and> sv_name s = ai_Service i \<and> sv_enabled s)) (t_versions db))) (\<lambda>v.
            if \<not> exists_where (\<lambda>p. pm_name p = ai_RequiredPermission i) (t_permissions db)
            then Inl ErrInvalid
            else bind_ok (query_row (choose_port db eid locked (ai_PreferredPort i))) (\<lambda>port.
            let r = \<lparr>ls_id = rid, ls_environment = eid, ls_service_version = vr_id v,
                     ls_listen_port = port, ls_required_permission = ai_RequiredPermission i,
                     ls_allowed_methods = methods, ls_allowed_content_types = contentTypes,
                     ls_unprotected_route_regex = regex, ls_status = ''reserved'',
                     ls_configuration_version = None, ls_row_version = 1,
                     ls_rate_limit_per_second = ai_RateLimitPerSecond i,
                     ls_rate_limit_burst = ai_RateLimitBurst i,
                     ls_quota_requests_per_minute = ai_QuotaRequestsPerMinute i,
                     ls_circuit_failure_threshold = threshold, ls_circuit_open_ms = openMS,
                     ls_created_at = ce_now c\<rparr>
            in bind_ok (translated (insert_listener r db)) (\<lambda>db1.
               audited c environment actor ''listener.allocated'' ''listener'' rid
                 [(''listenPort'', DInt port)] (listener_of environment r)
                 (db1\<lparr>t_ports := update_where
                    (\<lambda>p. po_environment p = eid \<and> po_listen_port p = port)
                    (\<lambda>p. p\<lparr>po_status := ''reserved'', po_listener := Some rid, po_updated_at := ce_now c\<rparr>)
                    (t_ports db1)\<rparr>)))))) db
      | _ \<Rightarrow> (Inl ErrInvalid, db))"

definition port_status_for :: "string \<Rightarrow> string option" where
  "port_status_for status =
     (if status = ''reserved'' \<or> status = ''active'' \<or> status = ''draining'' then Some status
      else if status = ''disabled'' then Some ''cooldown'' else None)"

text \<open>The unique index when a listener leaves the disabled status.\<close>

definition listener_clash :: "listener_row \<Rightarrow> database \<Rightarrow> bool" where
  "listener_clash r db \<longleftrightarrow> ls_status r \<noteq> ''disabled''
     \<and> exists_where (\<lambda>q. ls_id q \<noteq> ls_id r \<and> ls_environment q = ls_environment r
          \<and> ls_listen_port q = ls_listen_port r \<and> ls_status q \<noteq> ''disabled'') (t_listeners db)"

definition UpdateListener ::
  "call_env \<Rightarrow> string \<Rightarrow> string \<Rightarrow> string \<Rightarrow> string \<Rightarrow> int \<Rightarrow> database \<Rightarrow>
   (store_error, listener_view) result \<times> database" where
  "UpdateListener c actor environment rid status expectedVersion db =
     (case port_status_for status of
        None \<Rightarrow> (Inl ErrInvalid, db)
      | Some portStatus \<Rightarrow>
          if expectedVersion < 1 then (Inl ErrInvalid, db)
          else withTx c (\<lambda>db.
            bind_ok (query_row (update_returning
                (\<lambda>l. in_environment db environment (ls_environment l) \<and> ls_id l = rid
                    \<and> ls_row_version l = expectedVersion)
                (\<lambda>l. l\<lparr>ls_status := status, ls_row_version := ls_row_version l + 1\<rparr>)
                (t_listeners db))) (\<lambda>(r, rows).
            if listener_clash r db then Inl (translate UniqueViolation)
            else audited c environment actor ''listener.status-changed'' ''listener'' rid
              [(''status'', DStr status), (''expectedVersion'', DInt expectedVersion)]
              (listener_of environment r)
              (db\<lparr>t_listeners := rows,
                 t_ports := update_where (\<lambda>p. po_listener p = Some rid)
                   (\<lambda>p. p\<lparr>po_status := portStatus, po_updated_at := ce_now c\<rparr>) (t_ports db)\<rparr>))) db)"

record policy_input =
  pi_RateLimitPerSecond :: int
  pi_RateLimitBurst :: int
  pi_QuotaRequestsPerMinute :: int
  pi_CircuitFailureThreshold :: int
  pi_CircuitOpenMS :: int
  pi_UnprotectedRouteRegex :: string
  pi_ExpectedVersion :: int

definition UpdateListenerPolicies ::
  "regex_compiler \<Rightarrow> call_env \<Rightarrow> string \<Rightarrow> string \<Rightarrow> string \<Rightarrow> policy_input \<Rightarrow> database \<Rightarrow>
   (store_error, listener_view) result \<times> database" where
  "UpdateListenerPolicies compile c actor environment rid i db =
     (case normalizeUnprotectedRouteRegex compile (pi_UnprotectedRouteRegex i) of
        None \<Rightarrow> (Inl ErrInvalid, db)
      | Some regex \<Rightarrow>
          if pi_ExpectedVersion i < 1
             \<or> \<not> limits_ok (pi_RateLimitPerSecond i) (pi_RateLimitBurst i) (pi_QuotaRequestsPerMinute i)
                  (pi_CircuitOpenMS i)
             \<or> pi_CircuitFailureThreshold i < 0 \<or> 1000 < pi_CircuitFailureThreshold i
          then (Inl ErrInvalid, db)
          else withTx c (\<lambda>db.
            bind_ok (query_row (update_returning
                (\<lambda>l. in_environment db environment (ls_environment l) \<and> ls_id l = rid
                    \<and> ls_row_version l = pi_ExpectedVersion i)
                (\<lambda>l. l\<lparr>ls_rate_limit_per_second := pi_RateLimitPerSecond i,
                       ls_rate_limit_burst := pi_RateLimitBurst i,
                       ls_quota_requests_per_minute := pi_QuotaRequestsPerMinute i,
                       ls_circuit_failure_threshold := pi_CircuitFailureThreshold i,
                       ls_circuit_open_ms := pi_CircuitOpenMS i,
                       ls_unprotected_route_regex := regex,
                       ls_row_version := ls_row_version l + 1\<rparr>)
                (t_listeners db))) (\<lambda>(r, rows).
            audited c environment actor ''listener.policies-updated'' ''listener'' rid
              [(''rateLimitPerSecond'', DInt (pi_RateLimitPerSecond i)),
               (''rateLimitBurst'', DInt (pi_RateLimitBurst i)),
               (''quotaRequestsPerMinute'', DInt (pi_QuotaRequestsPerMinute i)),
               (''circuitFailureThreshold'', DInt (pi_CircuitFailureThreshold i)),
               (''circuitOpenMs'', DInt (pi_CircuitOpenMS i)),
               (''hasUnprotectedRouteRegex'', DBool (regex \<noteq> [])),
               (''expectedVersion'', DInt (pi_ExpectedVersion i))]
              (listener_of environment r) (db\<lparr>t_listeners := rows\<rparr>))) db)"

definition ListListeners :: "string \<Rightarrow> database \<Rightarrow> listener_view list" where
  "ListListeners environment db =
     map (listener_of environment) (sort_key ls_listen_port (sort_key (\<lambda>l. - ls_created_at l)
       (filter (\<lambda>l. in_environment db environment (ls_environment l)) (t_listeners db))))"

end
