(* ===== verification/Store_Access.thy ===== *)
theory Store_Access
  imports Store_Ports
begin

text \<open>
  Permissions, consumers and API keys: \<^verbatim>\<open>internal/controlplane/store.go\<close>, lines 427 to 671. The
  secret of a key is returned once; the table keeps its prefix and its HMAC.
\<close>

section \<open>Permissions\<close>

definition CreatePermission ::
  "call_env \<Rightarrow> string \<Rightarrow> string \<Rightarrow> string \<Rightarrow> string \<Rightarrow> database \<Rightarrow>
   (store_error, permission_row) result \<times> database" where
  "CreatePermission c actor environment name description db =
     (if \<not> permissionPattern name then (Inl ErrInvalid, db)
      else let rid = newID ''per'' (ce_id_bytes c);
               r = \<lparr>pm_id = rid, pm_name = name, pm_description = trim_space description,
                    pm_created_at = ce_now c\<rparr>
           in withTx c (\<lambda>db.
             if exists_where (\<lambda>p. pm_id p = rid \<or> pm_name p = name) (t_permissions db)
             then Inl (translate UniqueViolation)
             else audited c environment actor ''permission.created'' ''permission'' rid
               [(''name'', DStr name)] r (db\<lparr>t_permissions := t_permissions db @ [r]\<rparr>)) db)"

definition ListPermissions :: "database \<Rightarrow> permission_row list" where
  "ListPermissions db = sort_key pm_name (t_permissions db)"

definition UpdatePermission ::
  "call_env \<Rightarrow> string \<Rightarrow> string \<Rightarrow> string \<Rightarrow> string \<Rightarrow> database \<Rightarrow>
   (store_error, permission_row) result \<times> database" where
  "UpdatePermission c actor environment rid description db =
     withTx c (\<lambda>db.
       bind_ok (query_row (update_returning (\<lambda>p. pm_id p = rid)
           (\<lambda>p. p\<lparr>pm_description := trim_space description\<rparr>) (t_permissions db))) (\<lambda>(r, rows).
       audited c environment actor ''permission.updated'' ''permission'' rid
         [(''name'', DStr (pm_name r))] r (db\<lparr>t_permissions := rows\<rparr>))) db"

definition DeletePermission ::
  "call_env \<Rightarrow> string \<Rightarrow> string \<Rightarrow> string \<Rightarrow> database \<Rightarrow> (store_error, unit) result \<times> database" where
  "DeletePermission c actor environment rid db =
     withTx c (\<lambda>db.
       bind_ok (query_row (find (\<lambda>p. pm_id p = rid) (t_permissions db))) (\<lambda>p.
       if exists_where (\<lambda>g. gr_permission g = rid) (t_grants db)
          \<or> exists_where (\<lambda>l. ls_required_permission l = pm_name p) (t_listeners db)
       then Inl ErrConflict
       else audited c environment actor ''permission.deleted'' ''permission'' rid
         [(''name'', DStr (pm_name p))] ()
         (db\<lparr>t_permissions := delete_where (\<lambda>p. pm_id p = rid) (t_permissions db)\<rparr>))) db"

section \<open>Consumers\<close>

text \<open>
  \<open>assignPermissions\<close>: an insert that adds no row is an error unless the consumer has the
  permission already. Inserting for a consumer that does not exist violates the foreign key.
\<close>

fun assignPermissions :: "string \<Rightarrow> string list \<Rightarrow> database \<Rightarrow> (store_error, database) result" where
  "assignPermissions consumer [] db = Inr db"
| "assignPermissions consumer (name # names) db =
     (if \<not> permissionPattern name then Inl ErrInvalid
      else (case find (\<lambda>p. pm_name p = name) (t_permissions db) of
              None \<Rightarrow> Inl ErrInvalid
            | Some p \<Rightarrow>
                if exists_where (\<lambda>g. gr_consumer g = consumer \<and> gr_permission g = pm_id p) (t_grants db)
                then assignPermissions consumer names db
                else if \<not> exists_where (\<lambda>k. cn_id k = consumer) (t_consumers db)
                then Inl (translate ForeignKeyViolation)
                else assignPermissions consumer names
                  (db\<lparr>t_grants := t_grants db @ [\<lparr>gr_consumer = consumer, gr_permission = pm_id p\<rparr>]\<rparr>)))"

record consumer_view =
  C_Environment :: string
  C_row :: consumer_row
  C_Permissions :: "string list"

definition consumer_of :: "string \<Rightarrow> string list \<Rightarrow> consumer_row \<Rightarrow> consumer_view" where
  "consumer_of environment permissions r =
     \<lparr>C_Environment = environment, C_row = r, C_Permissions = permissions\<rparr>"

definition CreateConsumer ::
  "call_env \<Rightarrow> string \<Rightarrow> string \<Rightarrow> string \<Rightarrow> string \<Rightarrow> string list \<Rightarrow> database \<Rightarrow>
   (store_error, consumer_view) result \<times> database" where
  "CreateConsumer c actor environment name displayName permissions db =
     (if \<not> serviceNamePattern name \<or> trim_space displayName = [] then (Inl ErrInvalid, db)
      else let rid = newID ''con'' (ce_id_bytes c) in withTx c (\<lambda>db.
        bind_ok (query_row (environment_id db environment)) (\<lambda>eid.
        let r = \<lparr>cn_id = rid, cn_environment = eid, cn_name = name,
                 cn_display_name = trim_space displayName, cn_enabled = True, cn_row_version = 1,
                 cn_created_at = ce_now c, cn_updated_at = ce_now c\<rparr>
        in if exists_where (\<lambda>q. cn_id q = rid \<or> cn_environment q = eid \<and> cn_name q = name) (t_consumers db)
           then Inl (translate UniqueViolation)
           else bind_ok (assignPermissions rid permissions (db\<lparr>t_consumers := t_consumers db @ [r]\<rparr>)) (\<lambda>db1.
             audited c environment actor ''consumer.created'' ''consumer'' rid
               [(''name'', DStr name), (''permissions'', DStrs permissions)]
               (consumer_of environment permissions r) db1))) db)"

text \<open>The names of a consumer's permissions.\<close>

definition permissions_of :: "database \<Rightarrow> string \<Rightarrow> string list" where
  "permissions_of db consumer =
     concat (map (\<lambda>g. map pm_name (filter (\<lambda>p. pm_id p = gr_permission g) (t_permissions db)))
       (filter (\<lambda>g. gr_consumer g = consumer) (t_grants db)))"

definition ListConsumers :: "string \<Rightarrow> database \<Rightarrow> consumer_view list" where
  "ListConsumers environment db =
     map (\<lambda>r. consumer_of environment (sort (permissions_of db (cn_id r))) r) (sort_key cn_name
       (filter (\<lambda>r. in_environment db environment (cn_environment r)) (t_consumers db)))"

definition UpdateConsumer ::
  "store \<Rightarrow> call_env \<Rightarrow> string \<Rightarrow> string \<Rightarrow> string \<Rightarrow> string \<Rightarrow> bool \<Rightarrow> string list \<Rightarrow> int \<Rightarrow> database \<Rightarrow>
   ((store_error, consumer_view) result \<times> database) \<times> (string \<times> string) list" where
  "UpdateConsumer s c actor environment rid displayName enabled permissions expectedVersion db =
     (if trim_space displayName = [] \<or> expectedVersion < 1 then ((Inl ErrInvalid, db), [])
      else let out = withTx c (\<lambda>db.
        bind_ok (query_row (update_returning
            (\<lambda>k. in_environment db environment (cn_environment k) \<and> cn_id k = rid
                \<and> cn_row_version k = expectedVersion)
            (\<lambda>k. k\<lparr>cn_display_name := trim_space displayName, cn_enabled := enabled,
                   cn_row_version := cn_row_version k + 1, cn_updated_at := ce_now c\<rparr>)
            (t_consumers db))) (\<lambda>(r, rows).
        bind_ok (assignPermissions rid permissions
            (db\<lparr>t_consumers := rows, t_grants := delete_where (\<lambda>g. gr_consumer g = rid) (t_grants db)\<rparr>)) (\<lambda>db1.
        audited c environment actor ''consumer.updated'' ''consumer'' rid
          [(''enabled'', DBool enabled), (''permissions'', DStrs permissions),
           (''expectedVersion'', DInt expectedVersion)]
          (consumer_of environment permissions r) db1))) db
      in (out, notify s environment ''credentials'' (fst out)))"

text \<open>Deleting a consumer cascades to its permissions.\<close>

definition DeleteConsumer ::
  "store \<Rightarrow> call_env \<Rightarrow> string \<Rightarrow> string \<Rightarrow> string \<Rightarrow> database \<Rightarrow>
   ((store_error, unit) result \<times> database) \<times> (string \<times> string) list" where
  "DeleteConsumer s c actor environment rid db =
     (let out = withTx c (\<lambda>db.
        bind_ok (query_row (find (\<lambda>k. cn_id k = rid \<and> in_environment db environment (cn_environment k))
            (t_consumers db))) (\<lambda>r.
        if exists_where (\<lambda>k. ky_consumer k = rid) (t_keys db) then Inl ErrConflict
        else audited c environment actor ''consumer.deleted'' ''consumer'' rid
          [(''name'', DStr (cn_name r))] ()
          (db\<lparr>t_consumers := delete_where (\<lambda>k. cn_id k = rid) (t_consumers db),
              t_grants := delete_where (\<lambda>g. gr_consumer g = rid) (t_grants db)\<rparr>))) db
      in (out, notify s environment ''credentials'' (fst out)))"

section \<open>Keys\<close>

text \<open>An API key as it is shown: its row without the verifier and with the prefix masked.\<close>

record api_key =
  K_ID :: string
  K_ConsumerID :: string
  K_Name :: string
  K_MaskedPrefix :: string
  K_ExpiresAt :: "int option"
  K_RevokedAt :: "int option"
  K_RotatedFromID :: "string option"
  K_CreatedAt :: int

definition api_key_of :: "key_row \<Rightarrow> api_key" where
  "api_key_of k = \<lparr>K_ID = ky_id k, K_ConsumerID = ky_consumer k, K_Name = ky_name k,
     K_MaskedPrefix = maskPrefix (ky_prefix k), K_ExpiresAt = ky_expires_at k,
     K_RevokedAt = ky_revoked_at k, K_RotatedFromID = ky_rotated_from k, K_CreatedAt = ky_created_at k\<rparr>"

definition insert_key :: "key_row \<Rightarrow> database \<Rightarrow> (pg_error, database) result" where
  "insert_key r db =
     (if exists_where (\<lambda>q. ky_id q = ky_id r \<or> ky_prefix q = ky_prefix r) (t_keys db)
      then Inl UniqueViolation
      else if (case ky_rotated_from r of None \<Rightarrow> False
               | Some k \<Rightarrow> \<not> exists_where (\<lambda>q. ky_id q = k) (t_keys db)) then Inl ForeignKeyViolation
      else Inr (db\<lparr>t_keys := t_keys db @ [r]\<rparr>))"

definition consumer_in :: "database \<Rightarrow> string \<Rightarrow> string \<Rightarrow> bool" where
  "consumer_in db environment consumer \<longleftrightarrow>
     (\<exists>k \<in> set (t_consumers db). cn_id k = consumer \<and> in_environment db environment (cn_environment k))"

text \<open>The result is the key's metadata with the secret.\<close>

definition IssueKey ::
  "(string \<Rightarrow> string \<Rightarrow> string) \<Rightarrow> store \<Rightarrow> call_env \<Rightarrow> string \<Rightarrow> string \<Rightarrow> string \<Rightarrow> string \<Rightarrow> string list \<Rightarrow>
   int option \<Rightarrow> string option \<Rightarrow> database \<Rightarrow> (store_error, api_key \<times> string) result \<times> database" where
  "IssueKey hmac s c actor environment consumerID name permissions expiresAt rotatedFrom db =
     (if trim_space name = [] \<or> (case expiresAt of None \<Rightarrow> False | Some t \<Rightarrow> \<not> ce_clock c < t)
      then (Inl ErrInvalid, db)
      else case generateKey hmac (st_pepper s) (ce_key_bytes c) of (raw, prefix, verifier) \<Rightarrow>
        let rid = newID ''key'' (ce_id_bytes c);
            r = \<lparr>ky_id = rid, ky_consumer = consumerID, ky_name = trim_space name, ky_prefix = prefix,
                 ky_verifier = verifier, ky_expires_at = expiresAt, ky_revoked_at = None,
                 ky_rotated_from = rotatedFrom, ky_created_at = ce_now c\<rparr>
        in withTx c (\<lambda>db.
          bind_ok (assignPermissions consumerID permissions db) (\<lambda>db1.
          bind_ok (query_row (find (\<lambda>k. cn_id k = consumerID \<and> cn_enabled k
              \<and> in_environment db1 environment (cn_environment k)) (t_consumers db1))) (\<lambda>_.
          bind_ok (translated (insert_key r db1)) (\<lambda>db2.
          audited c environment actor ''api-key.issued'' ''api-key'' rid
            [(''consumerId'', DStr consumerID), (''keyPrefix'', DStr (maskPrefix prefix))]
            (api_key_of r, raw) db2)))) db)"

definition ListKeys :: "string \<Rightarrow> string \<Rightarrow> database \<Rightarrow> api_key list" where
  "ListKeys environment consumerID db =
     map api_key_of (sort_key (\<lambda>k. - ky_created_at k)
       (filter (\<lambda>k. ky_consumer k = consumerID \<and> consumer_in db environment consumerID) (t_keys db)))"

definition RotateKey ::
  "(string \<Rightarrow> string \<Rightarrow> string) \<Rightarrow> store \<Rightarrow> call_env \<Rightarrow> string \<Rightarrow> string \<Rightarrow> string \<Rightarrow> database \<Rightarrow>
   ((store_error, api_key \<times> string) result \<times> database) \<times> (string \<times> string) list" where
  "RotateKey hmac s c actor environment keyID db =
     (case generateKey hmac (st_pepper s) (ce_key_bytes c) of (raw, prefix, verifier) \<Rightarrow>
        let newKeyID = newID ''key'' (ce_id_bytes c);
            out = withTx c (\<lambda>db.
              bind_ok (query_row (find (\<lambda>k. ky_id k = keyID \<and> consumer_in db environment (ky_consumer k))
                  (t_keys db))) (\<lambda>k.
              if ky_revoked_at k \<noteq> None then Inl ErrConflict
              else let r = \<lparr>ky_id = newKeyID, ky_consumer = ky_consumer k,
                       ky_name = ky_name k @ '' rotation'', ky_prefix = prefix, ky_verifier = verifier,
                       ky_expires_at = ky_expires_at k, ky_revoked_at = None,
                       ky_rotated_from = Some keyID, ky_created_at = ce_now c\<rparr>
                   in bind_ok (translated (insert_key r db)) (\<lambda>db1.
                      audited c environment actor ''api-key.rotated'' ''api-key'' newKeyID
                        [(''rotatedFrom'', DStr keyID), (''keyPrefix'', DStr (maskPrefix prefix))]
                        (api_key_of r, raw)
                        (db1\<lparr>t_keys := update_where (\<lambda>q. ky_id q = keyID \<and> ky_revoked_at q = None)
                           (\<lambda>q. q\<lparr>ky_revoked_at := Some (ce_now c)\<rparr>) (t_keys db1)\<rparr>)))) db
        in (out, notify s environment ''credentials'' (fst out)))"

definition RevokeKey ::
  "store \<Rightarrow> call_env \<Rightarrow> string \<Rightarrow> string \<Rightarrow> string \<Rightarrow> database \<Rightarrow>
   ((store_error, unit) result \<times> database) \<times> (string \<times> string) list" where
  "RevokeKey s c actor environment keyID db =
     (let out = withTx c (\<lambda>db.
        let live = (\<lambda>k. ky_id k = keyID \<and> consumer_in db environment (ky_consumer k) \<and> ky_revoked_at k = None)
        in if \<not> exists_where live (t_keys db) then Inl ErrNotFound
           else audited c environment actor ''api-key.revoked'' ''api-key'' keyID [] ()
             (db\<lparr>t_keys := update_where live (\<lambda>k. k\<lparr>ky_revoked_at := Some (ce_now c)\<rparr>) (t_keys db)\<rparr>)) db
      in (out, notify s environment ''credentials'' (fst out)))"

end
