(* ===== verification/Store_Config.thy ===== *)
theory Store_Config
  imports Store_Access
begin

text \<open>
  Configurations: \<^verbatim>\<open>internal/controlplane/store.go\<close>, lines 673 to 852. A draft is a snapshot of the
  tables; it is validated, possibly approved, and activated, which supersedes the active one. A
  rollback activates a copy of an earlier configuration.
\<close>

section \<open>The snapshot of an environment\<close>

text \<open>The JSON the query builds, decoded; \<open>host\<close> prints an address as the database does.\<close>

definition raw_listener_of :: "listener_row \<Rightarrow> raw_listener" where
  "raw_listener_of l = \<lparr>rl_ID = ls_id l, rl_ListenPort = ls_listen_port l,
     rl_ServiceVersionID = ls_service_version l, rl_RequiredPermission = ls_required_permission l,
     rl_AllowedMethods = ls_allowed_methods l, rl_AllowedContentTypes = ls_allowed_content_types l,
     rl_UnprotectedRouteRegex = ls_unprotected_route_regex l, rl_Status = ls_status l,
     rl_RateLimitPerSecond = ls_rate_limit_per_second l, rl_RateLimitBurst = ls_rate_limit_burst l,
     rl_QuotaRequestsPerMinute = ls_quota_requests_per_minute l,
     rl_CircuitFailureThreshold = ls_circuit_failure_threshold l,
     rl_CircuitOpenMS = ls_circuit_open_ms l\<rparr>"

definition raw_upstream_of :: "(addr \<Rightarrow> string) \<Rightarrow> upstream_row \<Rightarrow> raw_upstream" where
  "raw_upstream_of host u = \<lparr>ru_ID = up_id u, ru_ServiceVersionID = up_service_version u,
     ru_Scheme = up_scheme u, ru_Address = host (up_address u), ru_Port = up_port u,
     ru_Weight = up_weight u, ru_HealthCheckPath = up_health_check_path u, ru_Enabled = up_enabled u\<rparr>"

definition raw_version_of :: "version_row \<Rightarrow> raw_service_version" where
  "raw_version_of v = \<lparr>rv_ID = vr_id v, rv_ServiceID = vr_service v,
     rv_HealthCheckPath = vr_health_check_path v, rv_RequestTimeoutMS = vr_request_timeout_ms v,
     rv_MaxRequestBytes = vr_max_request_bytes v, rv_Enabled = vr_enabled v\<rparr>"

definition env_services :: "database \<Rightarrow> int \<Rightarrow> service_row list" where
  "env_services db eid = filter (\<lambda>s. sv_environment s = eid) (t_services db)"

definition env_versions :: "database \<Rightarrow> int \<Rightarrow> version_row list" where
  "env_versions db eid = filter (\<lambda>v. vr_service v \<in> sv_id ` set (env_services db eid)) (t_versions db)"

definition env_upstreams :: "database \<Rightarrow> int \<Rightarrow> upstream_row list" where
  "env_upstreams db eid = filter (\<lambda>u. up_service_version u \<in> vr_id ` set (env_versions db eid)) (t_upstreams db)"

definition env_listeners :: "database \<Rightarrow> int \<Rightarrow> listener_row list" where
  "env_listeners db eid =
     filter (\<lambda>l. ls_environment l = eid \<and> ls_status l \<noteq> ''disabled'') (t_listeners db)"

definition snapshot_of :: "(addr \<Rightarrow> string) \<Rightarrow> database \<Rightarrow> string \<Rightarrow> int \<Rightarrow> raw_snapshot" where
  "snapshot_of host db environment eid = \<lparr>r_Environment = environment,
     r_Services = map (\<lambda>s. \<lparr>rs_ID = sv_id s, rs_Enabled = sv_enabled s\<rparr>) (sort_key sv_name (env_services db eid)),
     r_ServiceVersions = map raw_version_of (sort_key vr_id (env_versions db eid)),
     r_Upstreams = map (raw_upstream_of host) (sort_key up_id (env_upstreams db eid)),
     r_Listeners = map raw_listener_of (sort_key ls_listen_port (env_listeners db eid))\<rparr>"

section \<open>Operations\<close>

record configuration =
  CF_Environment :: string
  CF_row :: config_row

definition configuration_of :: "string \<Rightarrow> config_row \<Rightarrow> configuration" where
  "configuration_of environment r = \<lparr>CF_Environment = environment, CF_row = r\<rparr>"

definition CreateConfiguration ::
  "(addr \<Rightarrow> string) \<Rightarrow> call_env \<Rightarrow> string \<Rightarrow> string \<Rightarrow> database \<Rightarrow>
   (store_error, configuration) result \<times> database" where
  "CreateConfiguration host c actor environment db =
     withTx c (\<lambda>db.
       bind_ok (query_row (environment_id db environment)) (\<lambda>eid.
       let r = \<lparr>cf_id = t_next_configuration db, cf_environment = eid, cf_status = ''draft'',
                cf_snapshot = snapshot_of host db environment eid, cf_source = None,
                cf_created_by = actor, cf_validated_at = None, cf_activated_at = None,
                cf_created_at = ce_now c\<rparr>
       in audited c environment actor ''configuration.created'' ''configuration'' (show_int (cf_id r)) []
            (configuration_of environment r)
            (db\<lparr>t_configurations := t_configurations db @ [r],
                t_next_configuration := t_next_configuration db + 1\<rparr>))) db"

text \<open>A listener the validation counts as invalid: no such permission, or no enabled upstream.\<close>

definition invalid_listener :: "database \<Rightarrow> listener_row \<Rightarrow> bool" where
  "invalid_listener db l \<longleftrightarrow>
     \<not> exists_where (\<lambda>p. pm_name p = ls_required_permission l) (t_permissions db)
     \<or> \<not> exists_where (\<lambda>u. up_service_version u = ls_service_version l \<and> up_enabled u) (t_upstreams db)"

definition ValidateConfiguration ::
  "call_env \<Rightarrow> string \<Rightarrow> string \<Rightarrow> int \<Rightarrow> database \<Rightarrow> (store_error, configuration) result \<times> database" where
  "ValidateConfiguration c actor environment rid db =
     withTx c (\<lambda>db.
       if exists_where (\<lambda>l. Some (ls_environment l) = environment_id db environment
            \<and> invalid_listener db l) (t_listeners db) then Inl ErrInvalid
       else bind_ok (query_row (update_returning
           (\<lambda>r. cf_id r = rid \<and> in_environment db environment (cf_environment r) \<and> cf_status r = ''draft'')
           (\<lambda>r. r\<lparr>cf_status := ''validated'', cf_validated_at := Some (ce_now c)\<rparr>)
           (t_configurations db))) (\<lambda>(r, rows).
         audited c environment actor ''configuration.validated'' ''configuration'' (show_int rid) []
           (configuration_of environment r) (db\<lparr>t_configurations := rows\<rparr>))) db"

definition active_configuration :: "database \<Rightarrow> int \<Rightarrow> int option" where
  "active_configuration db eid =
     (let ids = map cf_id (filter (\<lambda>r. cf_environment r = eid \<and> cf_status r = ''active'') (t_configurations db))
      in if ids = [] then None else Some (Max (set ids)))"

definition approvals_of :: "database \<Rightarrow> int \<Rightarrow> int \<Rightarrow> int" where
  "approvals_of db eid rid =
     (if exists_where (\<lambda>r. cf_id r = rid \<and> cf_environment r = eid \<and> cf_status r = ''validated'') (t_configurations db)
      then int (length (filter (\<lambda>a. ap_configuration a = rid) (t_approvals db))) else 0)"

definition supersede :: "int \<Rightarrow> config_row list \<Rightarrow> config_row list" where
  "supersede eid = update_where (\<lambda>r. cf_environment r = eid \<and> cf_status r = ''active'')
     (\<lambda>r. r\<lparr>cf_status := ''superseded''\<rparr>)"

definition detail_of_active :: "int option \<Rightarrow> detail" where
  "detail_of_active a = (case a of None \<Rightarrow> DNull | Some v \<Rightarrow> DInt v)"

definition ActivateConfiguration ::
  "store \<Rightarrow> call_env \<Rightarrow> string \<Rightarrow> string \<Rightarrow> int \<Rightarrow> int option \<Rightarrow> database \<Rightarrow>
   ((store_error, configuration) result \<times> database) \<times> (string \<times> string) list" where
  "ActivateConfiguration s c actor environment rid expectedActive db =
     (let out = withTx c (\<lambda>db.
        bind_ok (query_row (environment_id db environment)) (\<lambda>eid.
        let activeID = active_configuration db eid
        in if expectedActive \<noteq> None \<and> activeID \<noteq> expectedActive then Inl ErrConflict
           else if 0 < st_requiredApprovals s \<and> approvals_of db eid rid < st_requiredApprovals s
           then Inl ErrConflict
           else bind_ok (query_row (update_returning
               (\<lambda>r. cf_id r = rid \<and> cf_environment r = eid \<and> cf_status r = ''validated'')
               (\<lambda>r. r\<lparr>cf_status := ''active'', cf_activated_at := Some (ce_now c)\<rparr>)
               (supersede eid (t_configurations db)))) (\<lambda>(r, rows).
             audited c environment actor ''configuration.activated'' ''configuration'' (show_int rid)
               [(''previousVersion'', detail_of_active activeID)] (configuration_of environment r)
               (db\<lparr>t_configurations := rows,
                  t_listeners := update_where (\<lambda>l. ls_environment l = eid)
                    (\<lambda>l. l\<lparr>ls_configuration_version := Some rid,
                           ls_status := (if ls_status l = ''reserved'' then ''active'' else ls_status l)\<rparr>)
                    (t_listeners db),
                  t_ports := update_where (\<lambda>p. po_environment p = eid \<and> po_status p = ''reserved'')
                    (\<lambda>p. p\<lparr>po_status := ''active'', po_updated_at := ce_now c\<rparr>) (t_ports db)\<rparr>)))) db
      in (out, notify s environment ''configuration'' (fst out)))"

definition ApproveConfiguration ::
  "call_env \<Rightarrow> string \<Rightarrow> string \<Rightarrow> int \<Rightarrow> database \<Rightarrow> (store_error, approval_row) result \<times> database" where
  "ApproveConfiguration c actor0 environment rid db =
     (let actor = trim_space actor0
      in if actor = [] \<or> 128 < length actor then (Inl ErrInvalid, db)
         else withTx c (\<lambda>db.
           bind_ok (query_row (find (\<lambda>r. cf_id r = rid \<and> in_environment db environment (cf_environment r)
               \<and> cf_status r = ''validated'' \<and> cf_created_by r \<noteq> actor) (t_configurations db))) (\<lambda>r.
           let a = \<lparr>ap_configuration = rid, ap_actor = actor, ap_created_at = ce_now c\<rparr>
           in if exists_where (\<lambda>q. ap_configuration q = rid \<and> ap_actor q = actor) (t_approvals db)
              then Inl (translate UniqueViolation)
              else audited c environment actor ''configuration.approved'' ''configuration'' (show_int rid) []
                a (db\<lparr>t_approvals := t_approvals db @ [a]\<rparr>))) db)"

definition RollbackConfiguration ::
  "store \<Rightarrow> call_env \<Rightarrow> string \<Rightarrow> string \<Rightarrow> int \<Rightarrow> database \<Rightarrow>
   ((store_error, configuration) result \<times> database) \<times> (string \<times> string) list" where
  "RollbackConfiguration s c actor environment sourceID db =
     (let out = withTx c (\<lambda>db.
        bind_ok (query_row (environment_id db environment)) (\<lambda>eid.
        let rows = supersede eid (t_configurations db)
        in bind_ok (query_row (find (\<lambda>r. cf_id r = sourceID \<and> cf_environment r = eid
               \<and> (cf_status r = ''active'' \<or> cf_status r = ''superseded'')) rows)) (\<lambda>src.
           let r = \<lparr>cf_id = t_next_configuration db, cf_environment = eid, cf_status = ''active'',
                    cf_snapshot = cf_snapshot src, cf_source = Some sourceID, cf_created_by = actor,
                    cf_validated_at = Some (ce_now c), cf_activated_at = Some (ce_now c),
                    cf_created_at = ce_now c\<rparr>
           in audited c environment actor ''configuration.rolled-back'' ''configuration'' (show_int (cf_id r))
                [(''sourceVersion'', DInt sourceID)] (configuration_of environment r)
                (db\<lparr>t_configurations := rows @ [r],
                    t_next_configuration := t_next_configuration db + 1\<rparr>)))) db
      in (out, notify s environment ''configuration'' (fst out)))"

text \<open>The list shows each configuration with its approvals and the sizes of its snapshot.\<close>

record configuration_item =
  CI_configuration :: configuration
  CI_ApprovalCount :: nat
  CI_RequiredApprovals :: int
  CI_ServiceCount :: nat
  CI_VersionCount :: nat
  CI_UpstreamCount :: nat
  CI_ListenerCount :: nat

definition ListConfigurations :: "store \<Rightarrow> string \<Rightarrow> database \<Rightarrow> configuration_item list" where
  "ListConfigurations s environment db =
     map (\<lambda>r. \<lparr>CI_configuration = configuration_of environment r,
               CI_ApprovalCount = length (filter (\<lambda>a. ap_configuration a = cf_id r) (t_approvals db)),
               CI_RequiredApprovals = st_requiredApprovals s,
               CI_ServiceCount = length (r_Services (cf_snapshot r)),
               CI_VersionCount = length (r_ServiceVersions (cf_snapshot r)),
               CI_UpstreamCount = length (r_Upstreams (cf_snapshot r)),
               CI_ListenerCount = length (r_Listeners (cf_snapshot r))\<rparr>)
       (rev (sort_key cf_id (filter (\<lambda>r. in_environment db environment (cf_environment r)) (t_configurations db))))"

definition ListAudit :: "string \<Rightarrow> int \<Rightarrow> database \<Rightarrow> audit_row list" where
  "ListAudit environment limit0 db =
     (let limit = (if limit0 < 1 \<or> 500 < limit0 then 100 else limit0)
      in take (nat limit) (rev (sort_key au_id
           (filter (\<lambda>a. in_environment db environment (au_environment a)) (t_audit db)))))"

definition ListGatewayInstances :: "string \<Rightarrow> database \<Rightarrow> instance_row list" where
  "ListGatewayInstances environment db =
     sort_key gi_id (filter (\<lambda>g. in_environment db environment (gi_environment g)) (t_instances db))"

end
