(* ===== verification/Store_Steps.thy ===== *)
theory Store_Steps
  imports Store_Config Machines
begin

text \<open>
  The store as a state machine: one step is one call of a mutating operation with any arguments,
  by any actor, whether it succeeds or not. The lemmas say which tables each operation touches,
  so that an invariant is proved only for the operations that matter to it.
\<close>

section \<open>Transactions\<close>

lemma withTx_invariant:
  assumes "P db" and "\<And>x db'. body db = Inr (x, db') \<Longrightarrow> P db'"
  shows "P (snd (withTx c body db))"
  using assms by (auto simp: withTx_def split: sum.splits)

lemma withTx_Inr:
  "withTx c body db = (Inr x, db') \<longleftrightarrow> ce_begin_ok c \<and> ce_commit_ok c \<and> body db = Inr (x, db')"
  by (auto simp: withTx_def split: sum.splits if_splits)

lemma withTx_Inl:
  "withTx c body db = (Inl e, db') \<Longrightarrow> db' = db \<or> commit_lost c \<and> e = ErrOther OtherError"
  by (auto simp: withTx_def commit_lost_def split: sum.splits if_splits)

lemma query_row_Inr [result_simps]: "query_row r = Inr x \<longleftrightarrow> r = Some x"
  by (auto simp: query_row_def split: option.splits)

lemma query_row_Inl [result_simps]: "query_row r = Inl e \<longleftrightarrow> r = None \<and> e = ErrNotFound"
  by (auto simp: query_row_def split: option.splits)

lemma translated_Inr [result_simps]: "translated m = Inr x \<longleftrightarrow> m = Inr x"
  by (auto simp: translated_def split: sum.splits)

lemma update_returning_Some [table_simps]:
  "update_returning P f rows = Some (r, rows') \<longleftrightarrow>
     (\<exists>r0. find P rows = Some r0 \<and> r = f r0 \<and> rows' = update_where P f rows)"
  by (auto simp: update_returning_def)

text \<open>An audit event changes nothing but the audit trail.\<close>

definition with_audit :: "audit_row list \<Rightarrow> int \<Rightarrow> database \<Rightarrow> database" where
  "with_audit rows n db = db\<lparr>t_audit := rows, t_next_audit := n\<rparr>"

lemma with_audit_tables [simp]:
  "t_environments (with_audit a n db) = t_environments db" "t_services (with_audit a n db) = t_services db"
  "t_versions (with_audit a n db) = t_versions db" "t_upstreams (with_audit a n db) = t_upstreams db"
  "t_ports (with_audit a n db) = t_ports db" "t_listeners (with_audit a n db) = t_listeners db"
  "t_consumers (with_audit a n db) = t_consumers db" "t_permissions (with_audit a n db) = t_permissions db"
  "t_grants (with_audit a n db) = t_grants db" "t_keys (with_audit a n db) = t_keys db"
  "t_configurations (with_audit a n db) = t_configurations db" "t_approvals (with_audit a n db) = t_approvals db"
  "t_instances (with_audit a n db) = t_instances db"
  "t_next_configuration (with_audit a n db) = t_next_configuration db"
  by (simp_all add: with_audit_def)

lemma audit_Inr:
  assumes "audit c environment actor action rt rid details db = Inr db'"
  obtains a n where "db' = with_audit a n db"
  using assms by (auto simp: audit_def with_audit_def split: option.splits)

lemma audited_Inr:
  assumes "audited c environment actor action rt rid details x db = Inr (y, db')"
  obtains a n where "db' = with_audit a n db" and "y = x"
  using assms by (auto simp: audited_def result_simps elim!: audit_Inr)

lemma audited_succeeds:
  "environment_id db environment = Some eid \<Longrightarrow>
   \<exists>a n. audited c environment actor action rt rid details x db = Inr (x, with_audit a n db)"
  by (auto simp: audited_def audit_def with_audit_def)

lemma with_audit_updates [simp]:
  "with_audit a n db\<lparr>t_configurations := x1\<rparr> = with_audit a n (db\<lparr>t_configurations := x1\<rparr>)"
  "with_audit a n db\<lparr>t_approvals := x2\<rparr> = with_audit a n (db\<lparr>t_approvals := x2\<rparr>)"
  "with_audit a n db\<lparr>t_listeners := x3\<rparr> = with_audit a n (db\<lparr>t_listeners := x3\<rparr>)"
  "with_audit a n db\<lparr>t_ports := x4\<rparr> = with_audit a n (db\<lparr>t_ports := x4\<rparr>)"
  "with_audit a n db\<lparr>t_keys := x5\<rparr> = with_audit a n (db\<lparr>t_keys := x5\<rparr>)"
  "with_audit a n db\<lparr>t_grants := x6\<rparr> = with_audit a n (db\<lparr>t_grants := x6\<rparr>)"
  "with_audit a n (with_audit a' n' db) = with_audit a n db"
  by (simp_all add: with_audit_def)

lemma audit_appends:
  "audit c environment actor action rt rid details db = Inr db' \<Longrightarrow>
   \<exists>e. t_audit db' = t_audit db @ [e] \<and> au_actor e = actor \<and> au_action e = action
     \<and> au_resource_type e = rt \<and> au_resource_id e = rid \<and> au_details e = details"
  by (auto simp: audit_def split: option.splits)

section \<open>Environments\<close>

definition environments_ok :: "database \<Rightarrow> bool" where
  "environments_ok db \<longleftrightarrow> distinct (map en_id (t_environments db)) \<and> distinct (map en_name (t_environments db))"

lemma environment_id_iff:
  "environments_ok db \<Longrightarrow> environment_id db environment = Some eid \<longleftrightarrow> in_environment db environment eid"
proof
  assume "environment_id db environment = Some eid"
  then show "in_environment db environment eid"
    by (auto simp: environment_id_def in_environment_def dest: find_Some_iff_mem)
next
  assume ok: "environments_ok db" and "in_environment db environment eid"
  then obtain e where e: "e \<in> set (t_environments db)" "en_id e = eid" "en_name e = environment"
    by (auto simp: in_environment_def)
  then obtain e' where e': "find (\<lambda>e. en_name e = environment) (t_environments db) = Some e'"
    by (cases "find (\<lambda>e. en_name e = environment) (t_environments db)") (auto simp: find_None_iff_mem)
  from find_Some_iff_mem [OF e'] e ok have "e' = e"
    by (auto simp: environments_ok_def intro: distinct_key_unique [where k = en_name])
  with e' e show "environment_id db environment = Some eid" by (simp add: environment_id_def)
qed

lemma in_environment_unique:
  "environments_ok db \<Longrightarrow> in_environment db environment x \<Longrightarrow> in_environment db environment y \<Longrightarrow> x = y"
  by (metis environment_id_iff option.inject)

lemma environment_id_updates [simp]:
  "environment_id (t_services_update f db) = environment_id db" "environment_id (t_versions_update f2 db) = environment_id db"
  "environment_id (t_upstreams_update f3 db) = environment_id db" "environment_id (t_ports_update f4 db) = environment_id db"
  "environment_id (t_listeners_update f5 db) = environment_id db" "environment_id (t_consumers_update f6 db) = environment_id db"
  "environment_id (t_permissions_update f7 db) = environment_id db" "environment_id (t_grants_update f8 db) = environment_id db"
  "environment_id (t_keys_update f9 db) = environment_id db" "environment_id (t_configurations_update f10 db) = environment_id db"
  "environment_id (t_approvals_update f11 db) = environment_id db" "environment_id (with_audit a n db) = environment_id db"
  by (auto simp: environment_id_def with_audit_def intro!: ext)

lemma in_environment_tables: "t_environments db' = t_environments db \<Longrightarrow> in_environment db' = in_environment db"
  by (intro ext) (simp add: in_environment_def)

section \<open>Steps\<close>

text \<open>
  \<open>host\<close>, \<open>hmac\<close>, \<open>compile\<close> and \<open>parse_media\<close> are the functions of the libraries the store calls.
  Every call names the environment it is for, the last argument of \<open>store_call\<close> before the databases.
\<close>

record libraries =
  lib_host :: "addr \<Rightarrow> string"
  lib_hmac :: "string \<Rightarrow> string \<Rightarrow> string"
  lib_compile :: regex_compiler
  lib_parse_media :: "string \<Rightarrow> string option"

inductive store_call :: "store \<Rightarrow> libraries \<Rightarrow> string \<Rightarrow> database \<Rightarrow> database \<Rightarrow> bool" for s lib e where
  create_service: "store_call s lib e db (snd (CreateService c actor e name display owner db))"
| update_service: "store_call s lib e db (snd (UpdateService c actor e name display owner enabled v db))"
| create_version: "store_call s lib e db (snd (CreateServiceVersion c actor e name version path ms bytes db))"
| update_version: "store_call s lib e db (snd (UpdateServiceVersion c actor e rid version path ms bytes enabled v db))"
| create_upstream: "store_call s lib e db (snd (CreateUpstreamWithScheme s (lib_host lib) c actor e vid scheme address port weight path db))"
| update_upstream: "store_call s lib e db (snd (UpdateUpstream s (lib_host lib) c actor e rid scheme address port weight path enabled v db))"
| update_port: "store_call s lib e db (snd (UpdatePortStatus c actor e port status db))"
| allocate_listener: "store_call s lib e db (snd (AllocateListener (lib_compile lib) (lib_parse_media lib) locked c actor e i db))"
| update_listener: "store_call s lib e db (snd (UpdateListener c actor e rid status v db))"
| update_policies: "store_call s lib e db (snd (UpdateListenerPolicies (lib_compile lib) c actor e rid p db))"
| create_permission: "store_call s lib e db (snd (CreatePermission c actor e name description db))"
| update_permission: "store_call s lib e db (snd (UpdatePermission c actor e rid description db))"
| delete_permission: "store_call s lib e db (snd (DeletePermission c actor e rid db))"
| create_consumer: "store_call s lib e db (snd (CreateConsumer c actor e name display permissions db))"
| update_consumer: "store_call s lib e db (snd (fst (UpdateConsumer s c actor e rid display enabled permissions v db)))"
| delete_consumer: "store_call s lib e db (snd (fst (DeleteConsumer s c actor e rid db)))"
| issue_key: "store_call s lib e db (snd (IssueKey (lib_hmac lib) s c actor e consumer name permissions expires rotated db))"
| rotate_key: "store_call s lib e db (snd (fst (RotateKey (lib_hmac lib) s c actor e key db)))"
| revoke_key: "store_call s lib e db (snd (fst (RevokeKey s c actor e key db)))"
| create_configuration: "store_call s lib e db (snd (CreateConfiguration (lib_host lib) c actor e db))"
| validate_configuration: "store_call s lib e db (snd (ValidateConfiguration c actor e id' db))"
| activate_configuration: "store_call s lib e db (snd (fst (ActivateConfiguration s c actor e id' expected db)))"
| approve_configuration: "store_call s lib e db (snd (ApproveConfiguration c actor e id' db))"
| rollback_configuration: "store_call s lib e db (snd (fst (RollbackConfiguration s c actor e id' db)))"

text \<open>A step is a call to any environment.\<close>

inductive store_step :: "store \<Rightarrow> libraries \<Rightarrow> database \<Rightarrow> database \<Rightarrow> bool" for s lib where
  call: "store_call s lib e db db' \<Longrightarrow> store_step s lib db db'"

inductive store_run :: "store \<Rightarrow> libraries \<Rightarrow> database \<Rightarrow> database \<Rightarrow> bool" for s lib where
  start: "store_run s lib db db"
| step: "store_run s lib db db1 \<Longrightarrow> store_step s lib db1 db2 \<Longrightarrow> store_run s lib db db2"

text \<open>The store as a machine.\<close>

interpretation store_machine: machine "store_step s lib" "store_run s lib" for s :: store and lib :: libraries
proof unfold_locales
  fix db db' :: database and P
  assume "store_run s lib db db'" and "P db" and "\<And>t u. P t \<Longrightarrow> store_step s lib t u \<Longrightarrow> P u"
  then show "P db'" by (induction rule: store_run.induct) auto
qed (auto intro: store_run.intros)

section \<open>What each operation touches\<close>

lemma assignPermissions_tables:
  "assignPermissions consumer names db = Inr db' \<Longrightarrow> \<exists>g. db' = db\<lparr>t_grants := g\<rparr>"
proof (induction consumer names db rule: assignPermissions.induct)
  case (1 consumer db)
  then show ?case by (intro exI [of _ "t_grants db"]) simp
next
  case (2 consumer name names db)
  then show ?case by (auto split: if_splits option.splits)
qed

text \<open>
  Everything an operation of the catalogue, of the access rules or of the configurations may
  change, given as the tables that it leaves alone.
\<close>

definition same_ports :: "database \<Rightarrow> database \<Rightarrow> bool" where
  "same_ports db db' \<longleftrightarrow> t_environments db' = t_environments db \<and> t_ports db' = t_ports db
     \<and> t_listeners db' = t_listeners db"

definition same_configurations :: "database \<Rightarrow> database \<Rightarrow> bool" where
  "same_configurations db db' \<longleftrightarrow> t_environments db' = t_environments db
     \<and> t_configurations db' = t_configurations db \<and> t_approvals db' = t_approvals db
     \<and> t_next_configuration db' = t_next_configuration db"

definition same_keys :: "database \<Rightarrow> database \<Rightarrow> bool" where
  "same_keys db db' \<longleftrightarrow> t_keys db' = t_keys db"

definition same_catalog :: "database \<Rightarrow> database \<Rightarrow> bool" where
  "same_catalog db db' \<longleftrightarrow> t_environments db' = t_environments db \<and> t_services db' = t_services db
     \<and> t_versions db' = t_versions db \<and> t_upstreams db' = t_upstreams db"

definition touches :: "bool \<Rightarrow> bool \<Rightarrow> bool \<Rightarrow> bool \<Rightarrow> database \<Rightarrow> database \<Rightarrow> bool" where
  "touches catalog ports configurations keys db db' \<longleftrightarrow> t_environments db' = t_environments db
     \<and> (catalog \<or> same_catalog db db') \<and> (ports \<or> same_ports db db')
     \<and> (configurations \<or> same_configurations db db') \<and> (keys \<or> same_keys db db')"

lemmas same_defs = same_ports_def same_configurations_def same_keys_def same_catalog_def

lemma touches_refl [simp]: "touches a b c d db db"
  by (simp add: touches_def same_defs)

lemma touches_audit [simp]:
  "touches catalog ports configurations keys db (with_audit rows n db')
     = touches catalog ports configurations keys db db'"
  by (simp add: touches_def same_defs)

lemma touches_update [simp]:
  "touches True p g k db (db\<lparr>t_services := x1\<rparr>)" "touches True p g k db (db\<lparr>t_versions := x2\<rparr>)"
  "touches True p g k db (db\<lparr>t_upstreams := x3\<rparr>)" "touches a True g k db (db\<lparr>t_listeners := x4\<rparr>)"
  "touches a True g k db (db\<lparr>t_ports := x5\<rparr>)" "touches a True g k db (db\<lparr>t_ports := x5, t_listeners := x4\<rparr>)"
  "touches a p g k db (db\<lparr>t_permissions := x6\<rparr>)" "touches a p g k db (db\<lparr>t_grants := x7\<rparr>)"
  "touches a p g k db (db\<lparr>t_consumers := x8\<rparr>)" "touches a p g k db (db\<lparr>t_consumers := x8, t_grants := x7\<rparr>)"
  "touches a p g True db (db\<lparr>t_keys := x9\<rparr>)" "touches a p g True db (db\<lparr>t_grants := x7, t_keys := x9\<rparr>)"
  "touches a p True k db (db\<lparr>t_configurations := x10\<rparr>)" "touches a p True k db (db\<lparr>t_approvals := x11\<rparr>)"
  "touches a p True k db (db\<lparr>t_configurations := x10, t_next_configuration := x12\<rparr>)"
  "touches a True True k db (db\<lparr>t_ports := x5, t_listeners := x4, t_configurations := x10\<rparr>)"
  by (simp_all add: touches_def same_defs)

text \<open>Taking a transaction apart: \<open>tx\<close> names the elimination rules.\<close>

lemmas tx_elims = bind_okE if_InlE audited_Inr audit_Inr

text \<open>Taking a successful call apart, from its guards to its transaction.\<close>

lemma option_pairE:
  assumes "(case m of None \<Rightarrow> (Inl e, db) | Some v \<Rightarrow> y v) = (Inr x, db')"
  obtains v where "m = Some v" and "y v = (Inr x, db')"
  using assms by (auto split: option.splits)

lemma if_pairE:
  assumes "(if b then (Inl e, db) else y) = (Inr x, db')"
  obtains "\<not> b" and "y = (Inr x, db')"
  using assms by (auto split: if_splits)

lemma withTxE:
  assumes "withTx c body db = (Inr x, db')"
  obtains "ce_begin_ok c" and "ce_commit_ok c" and "body db = Inr (x, db')"
  using assms by (simp add: withTx_Inr)

lemmas call_elims = option_pairE if_pairE withTxE bind_okE if_InlE

lemma insert_service_Inr: "insert_service r db = Inr db' \<Longrightarrow> db' = db\<lparr>t_services := t_services db @ [r]\<rparr>"
  by (simp add: insert_service_def split: if_splits)

lemma insert_version_Inr: "insert_version r db = Inr db' \<Longrightarrow> db' = db\<lparr>t_versions := t_versions db @ [r]\<rparr>"
  by (simp add: insert_version_def split: if_splits)

lemma insert_upstream_Inr: "insert_upstream r db = Inr db' \<Longrightarrow> db' = db\<lparr>t_upstreams := t_upstreams db @ [r]\<rparr>"
  by (simp add: insert_upstream_def split: if_splits)

lemma insert_listener_Inr: "insert_listener r db = Inr db' \<Longrightarrow> db' = db\<lparr>t_listeners := t_listeners db @ [r]\<rparr>"
  by (simp add: insert_listener_def split: if_splits)

lemma insert_key_Inr: "insert_key r db = Inr db' \<Longrightarrow> db' = db\<lparr>t_keys := t_keys db @ [r]\<rparr>"
  by (simp add: insert_key_def split: if_splits)

lemmas inserts = insert_service_Inr insert_version_Inr insert_upstream_Inr insert_listener_Inr insert_key_Inr

lemma touches_withTx:
  "(\<And>x db'. body db = Inr (x, db') \<Longrightarrow> touches a p g k db db') \<Longrightarrow> touches a p g k db (snd (withTx c body db))"
  by (rule withTx_invariant) simp_all

lemma touches_if:
  "touches a p g k db (snd x) \<Longrightarrow> touches a p g k db (snd y) \<Longrightarrow> touches a p g k db (snd (if b then x else y))"
  by simp

lemma touches_option:
  "touches a p g k db (snd x) \<Longrightarrow> (\<And>v. touches a p g k db (snd (y v))) \<Longrightarrow>
   touches a p g k db (snd (case m of None \<Rightarrow> x | Some v \<Rightarrow> y v))"
  by (simp split: option.split)

lemma touches_if_fst:
  "touches a p g k db (snd (fst x)) \<Longrightarrow> touches a p g k db (snd (fst y)) \<Longrightarrow>
   touches a p g k db (snd (fst (if b then x else y)))"
  by simp

lemma touches_pair: "touches a p g k db (snd x) \<Longrightarrow> touches a p g k db (snd (fst (x, y)))"
  by simp

lemmas touches_intros = touches_if touches_if_fst touches_pair touches_option touches_withTx

lemmas tx_dests = inserts assignPermissions_tables translated_Inr [THEN iffD1]

lemma catalog_ops:
  "touches True False False False db (snd (CreateService c actor e name display owner db))"
  "touches True False False False db (snd (UpdateService c actor e name display owner enabled v db))"
  "touches True False False False db (snd (CreateServiceVersion c actor e name version path ms bytes db))"
  "touches True False False False db (snd (UpdateServiceVersion c actor e rid version path ms bytes enabled v db))"
  unfolding CreateService_def UpdateService_def CreateServiceVersion_def UpdateServiceVersion_def Let_def
  by (intro touches_intros; auto elim!: tx_elims dest!: tx_dests split: prod.splits)+

lemma upstream_ops:
  "touches True False False False db (snd (CreateUpstreamWithScheme s host c actor e vid scheme address port weight path db))"
  "touches True False False False db (snd (UpdateUpstream s host c actor e rid scheme address port weight path enabled v db))"
  unfolding CreateUpstreamWithScheme_def UpdateUpstream_def Let_def
  by (intro touches_intros; auto elim!: tx_elims dest!: tx_dests split: prod.splits)+

lemma access_ops:
  "touches False False False False db (snd (CreatePermission c actor e name description db))"
  "touches False False False False db (snd (UpdatePermission c actor e rid description db))"
  "touches False False False False db (snd (DeletePermission c actor e rid db))"
  "touches False False False False db (snd (CreateConsumer c actor e name display permissions db))"
  unfolding CreatePermission_def UpdatePermission_def DeletePermission_def CreateConsumer_def Let_def
  by (intro touches_intros; auto elim!: tx_elims dest!: tx_dests simp: touches_def same_defs split: prod.splits if_splits)+

lemma consumer_ops:
  "touches False False False False db (snd (fst (UpdateConsumer s c actor e rid display enabled permissions v db)))"
  "touches False False False False db (snd (fst (DeleteConsumer s c actor e rid db)))"
  unfolding UpdateConsumer_def DeleteConsumer_def Let_def
  by (intro touches_intros;
      auto elim!: tx_elims dest!: tx_dests simp: touches_def same_defs split: prod.splits if_splits)+

lemma key_ops:
  "touches False False False True db (snd (IssueKey hmac s c actor e consumer name permissions expires rotated db))"
  "touches False False False True db (snd (fst (RotateKey hmac s c actor e key db)))"
  "touches False False False True db (snd (fst (RevokeKey s c actor e key db)))"
  unfolding IssueKey_def RotateKey_def RevokeKey_def Let_def split_def fst_conv
  by (intro touches_intros; auto elim!: tx_elims dest!: tx_dests simp: touches_def same_defs split: prod.splits if_splits)+

lemma configuration_ops:
  "touches False False True False db (snd (CreateConfiguration host c actor e db))"
  "touches False False True False db (snd (ValidateConfiguration c actor e rid db))"
  "touches False False True False db (snd (ApproveConfiguration c actor e rid db))"
  "touches False False True False db (snd (fst (RollbackConfiguration s c actor e rid db)))"
  "touches False True True False db (snd (fst (ActivateConfiguration s c actor e rid expected db)))"
  unfolding CreateConfiguration_def ValidateConfiguration_def ActivateConfiguration_def
      ApproveConfiguration_def RollbackConfiguration_def Let_def fst_conv
  by (intro touches_intros; auto elim!: tx_elims simp: touches_def same_defs split: prod.splits if_splits)+

lemma port_ops:
  "touches False True False False db (snd (UpdateListener c actor e rid status v db))"
  "touches False True False False db (snd (UpdateListenerPolicies compile c actor e rid p db))"
  unfolding UpdateListener_def UpdateListenerPolicies_def Let_def
  by (intro touches_intros; auto elim!: tx_elims simp: touches_def same_defs split: prod.splits if_splits)+

lemma allocate_touches:
  "touches False True False False db (snd (AllocateListener compile parse_media locked c actor e i db))"
  unfolding AllocateListener_def Let_def prod.case
  by (intro touches_intros; auto elim!: tx_elims dest!: tx_dests simp: touches_def same_defs split: prod.splits if_splits)

lemma set_port_status_touches:
  "set_port_status c actor e port status db = Inr (x, db') \<Longrightarrow> touches False True False False db db'"
  unfolding set_port_status_def
  by (auto elim!: tx_elims simp: touches_def same_defs)

lemma same_trans:
  "same_ports db1 db2 \<Longrightarrow> same_ports db2 db3 \<Longrightarrow> same_ports db1 db3"
  "same_configurations db1 db2 \<Longrightarrow> same_configurations db2 db3 \<Longrightarrow> same_configurations db1 db3"
  "same_keys db1 db2 \<Longrightarrow> same_keys db2 db3 \<Longrightarrow> same_keys db1 db3"
  "same_catalog db1 db2 \<Longrightarrow> same_catalog db2 db3 \<Longrightarrow> same_catalog db1 db3"
  by (simp_all add: same_defs)

lemma touches_trans: "touches a p g k db db1 \<Longrightarrow> touches a p g k db1 db2 \<Longrightarrow> touches a p g k db db2"
  unfolding touches_def by (auto intro: same_trans)

lemma disable_listener_touches:
  "disable_listener c e actor rid db = Inr db' \<Longrightarrow> touches False True False False db db'"
  unfolding disable_listener_def
  by (auto elim!: tx_elims simp: touches_def same_defs split: if_splits)

lemma release_port_touches:
  "release_port c actor e port rid db = Inr (x, db') \<Longrightarrow> touches False True False False db db'"
  unfolding release_port_def
  by (auto elim!: tx_elims simp: touches_def same_defs)

lemma update_port_touches:
  "touches False True False False db (snd (UpdatePortStatus c actor e port status db))"
  unfolding UpdatePortStatus_def
  by (intro touches_intros)
    (auto elim!: tx_elims dest!: set_port_status_touches disable_listener_touches release_port_touches
      intro: touches_trans split: if_splits option.splits)

lemmas store_touches = catalog_ops upstream_ops access_ops consumer_ops key_ops configuration_ops
  port_ops allocate_touches update_port_touches

end
