(* ===== verification/Admin_Input.thy ===== *)
theory Admin_Input
  imports Store_Steps
begin

text \<open>
  What a request to the admin API carries, \<^verbatim>\<open>internal/controlplane/handler.go\<close>: the path's
  segments, the actor, and the JSON bodies with their decoding into the structs of the handlers.
  \<^verbatim>\<open>encoding/json\<close> turns the bytes into a JSON value (an argument of the model); how a value fills
  the fields of a struct is written out here, since the handlers' defaults rest on it.
\<close>

section \<open>Requests\<close>

record admin_request =
  aq_method :: string
  aq_path :: string
  aq_query :: "string \<Rightarrow> string"
  aq_header :: header
  aq_body :: string
  aq_content_length :: int

definition trim_byte :: "char \<Rightarrow> string \<Rightarrow> string" where
  "trim_byte d s = rev (dropWhile (\<lambda>c. c = d) (rev (dropWhile (\<lambda>c. c = d) s)))"

definition splitPath :: "string \<Rightarrow> string list" where
  "splitPath path =
     (let trimmed = trim_byte CHR ''/'' path in if trimmed = [] then [] else split_on CHR ''/'' trimmed)"

text \<open>The actor of the audit trail; a header that is missing or unusable gives the bootstrap administrator.\<close>

definition actor :: "admin_request \<Rightarrow> string" where
  "actor r =
     (let name = trim_space (header_get (aq_header r) ''X-Admin-Actor'')
      in if name = [] \<or> 128 < length name \<or> contains_any name [CHR 0x0D, CHR 0x0A]
         then ''bootstrap-admin'' else name)"

section \<open>JSON\<close>

text \<open>A JSON value. A number is its literal, an object its members in the order of the text.\<close>

datatype json = JNull | JBool bool | JNum string | JStr string | JList "json list" | JObj "(string \<times> json) list"

text \<open>
  A field of a struct: its name and how a JSON value sets it (\<open>None\<close> is a value of the wrong type).
  \<open>null\<close> leaves a field as it is and clears a pointer.
\<close>

type_synonym 'i field = "string \<times> (json \<Rightarrow> 'i \<Rightarrow> 'i option)"

definition string_field :: "((string \<Rightarrow> string) \<Rightarrow> 'i \<Rightarrow> 'i) \<Rightarrow> json \<Rightarrow> 'i \<Rightarrow> 'i option" where
  "string_field upd v i = (case v of JNull \<Rightarrow> Some i | JStr s \<Rightarrow> Some (upd (\<lambda>_. s) i) | _ \<Rightarrow> None)"

definition bool_field :: "((bool \<Rightarrow> bool) \<Rightarrow> 'i \<Rightarrow> 'i) \<Rightarrow> json \<Rightarrow> 'i \<Rightarrow> 'i option" where
  "bool_field upd v i = (case v of JNull \<Rightarrow> Some i | JBool p \<Rightarrow> Some (upd (\<lambda>_. p) i) | _ \<Rightarrow> None)"

text \<open>An integer is read from the literal, so that fractions, exponents and overflow are errors.\<close>

definition json_int :: "json \<Rightarrow> int option" where
  "json_int v = (case v of JNum literal \<Rightarrow> parse_int 64 literal | _ \<Rightarrow> None)"

definition int_field :: "((int \<Rightarrow> int) \<Rightarrow> 'i \<Rightarrow> 'i) \<Rightarrow> json \<Rightarrow> 'i \<Rightarrow> 'i option" where
  "int_field upd v i = (if v = JNull then Some i else map_option (\<lambda>n. upd (\<lambda>_. n) i) (json_int v))"

definition pointer_field ::
  "(json \<Rightarrow> 'a option) \<Rightarrow> (('a option \<Rightarrow> 'a option) \<Rightarrow> 'i \<Rightarrow> 'i) \<Rightarrow> json \<Rightarrow> 'i \<Rightarrow> 'i option" where
  "pointer_field read upd v i =
     (if v = JNull then Some (upd (\<lambda>_. None) i) else map_option (\<lambda>x. upd (\<lambda>_. Some x) i) (read v))"

text \<open>
  A list of strings replaces the field; a \<open>null\<close> element is the empty string. (When a body
  repeats such a member, the decoder reuses the earlier list and a \<open>null\<close> element of the later one
  would keep what was there: bodies that do both are outside the model.)
\<close>

fun json_strings :: "json list \<Rightarrow> string list option" where
  "json_strings [] = Some []"
| "json_strings (v # vs) =
     (case v of
        JStr s \<Rightarrow> map_option (\<lambda>ss. s # ss) (json_strings vs)
      | JNull \<Rightarrow> map_option (\<lambda>ss. [] # ss) (json_strings vs)
      | _ \<Rightarrow> None)"

definition strings_field :: "((string list \<Rightarrow> string list) \<Rightarrow> 'i \<Rightarrow> 'i) \<Rightarrow> json \<Rightarrow> 'i \<Rightarrow> 'i option" where
  "strings_field upd v i =
     (case v of
        JNull \<Rightarrow> Some (upd (\<lambda>_. []) i)
      | JList vs \<Rightarrow> map_option (\<lambda>ss. upd (\<lambda>_. ss) i) (json_strings vs)
      | _ \<Rightarrow> None)"

text \<open>
  Member names match field names up to case: ASCII letters, and the two letters outside ASCII
  that fold to ASCII ones (U+017F and U+212A).
\<close>

fun fold_name :: "string \<Rightarrow> string" where
  "fold_name [] = []"
| "fold_name (c # cs) =
     (if c = CHR 0xC5 \<and> has_prefix cs [CHR 0xBF] then CHR ''S'' # fold_name (drop 1 cs)
      else if c = CHR 0xE2 \<and> has_prefix cs [CHR 0x84, CHR 0xAA] then CHR ''K'' # fold_name (drop 2 cs)
      else upper_byte c # fold_name cs)"

definition find_field :: "'i field list \<Rightarrow> string \<Rightarrow> (json \<Rightarrow> 'i \<Rightarrow> 'i option) option" where
  "find_field flds name =
     map_option snd (find (\<lambda>f. fold_name (fst f) = fold_name name) flds)"

fun decode_members :: "'i field list \<Rightarrow> (string \<times> json) list \<Rightarrow> 'i \<Rightarrow> 'i option" where
  "decode_members flds [] i = Some i"
| "decode_members flds ((name, v) # members) i =
     (case find_field flds name of
        None \<Rightarrow> None
      | Some set_field \<Rightarrow>
          (case set_field v i of None \<Rightarrow> None | Some i' \<Rightarrow> decode_members flds members i'))"

text \<open>Unknown members are errors (\<^verbatim>\<open>DisallowUnknownFields\<close>); a top-level \<open>null\<close> sets nothing.\<close>

definition decode_json :: "'i field list \<Rightarrow> json \<Rightarrow> 'i \<Rightarrow> 'i option" where
  "decode_json flds v i =
     (case v of JNull \<Rightarrow> Some i | JObj members \<Rightarrow> decode_members flds members i | _ \<Rightarrow> None)"

text \<open>
  \<open>parse\<close> is the JSON value the bytes hold, \<open>None\<close> unless they hold exactly one. The reader stops
  one byte after the limit, so that what follows is neither read nor refused.
\<close>

definition body_limit :: nat where
  "body_limit = 1048577"

definition decode :: "(string \<Rightarrow> json option) \<Rightarrow> 'i field list \<Rightarrow> admin_request \<Rightarrow> 'i \<Rightarrow> 'i option" where
  "decode parse flds r i =
     (case parse (take body_limit (aq_body r)) of None \<Rightarrow> None | Some v \<Rightarrow> decode_json flds v i)"

definition decodeOptional :: "(string \<Rightarrow> json option) \<Rightarrow> 'i field list \<Rightarrow> admin_request \<Rightarrow> 'i \<Rightarrow> 'i option" where
  "decodeOptional parse flds r i =
     (if aq_content_length r = 0 then Some i else decode parse flds r i)"

section \<open>Inputs\<close>

text \<open>The structs of the handlers, with their zero values and fields.\<close>

record port_patch = pp_Status :: string

definition zero_port_patch :: port_patch where "zero_port_patch = \<lparr>pp_Status = []\<rparr>"

definition port_patch_fields :: "port_patch field list" where
  "port_patch_fields = [(''status'', string_field pp_Status_update)]"

record service_input =
  si_Environment :: string
  si_Name :: string
  si_DisplayName :: string
  si_Owner :: string

definition zero_service_input :: service_input where
  "zero_service_input = \<lparr>si_Environment = [], si_Name = [], si_DisplayName = [], si_Owner = []\<rparr>"

definition service_input_fields :: "service_input field list" where
  "service_input_fields =
     [(''environment'', string_field si_Environment_update), (''name'', string_field si_Name_update),
      (''displayName'', string_field si_DisplayName_update), (''owner'', string_field si_Owner_update)]"

record service_patch =
  sp_DisplayName :: string
  sp_Owner :: string
  sp_Enabled :: bool
  sp_ExpectedVersion :: int

definition zero_service_patch :: service_patch where
  "zero_service_patch = \<lparr>sp_DisplayName = [], sp_Owner = [], sp_Enabled = False, sp_ExpectedVersion = 0\<rparr>"

definition service_patch_fields :: "service_patch field list" where
  "service_patch_fields =
     [(''displayName'', string_field sp_DisplayName_update), (''owner'', string_field sp_Owner_update),
      (''enabled'', bool_field sp_Enabled_update), (''expectedVersion'', int_field sp_ExpectedVersion_update)]"

record version_input =
  vi_Environment :: string
  vi_Version :: string
  vi_HealthCheckPath :: string
  vi_RequestTimeoutMS :: int
  vi_MaxRequestBytes :: int

definition zero_version_input :: version_input where
  "zero_version_input = \<lparr>vi_Environment = [], vi_Version = [], vi_HealthCheckPath = [],
     vi_RequestTimeoutMS = 0, vi_MaxRequestBytes = 0\<rparr>"

definition version_input_fields :: "version_input field list" where
  "version_input_fields =
     [(''environment'', string_field vi_Environment_update), (''version'', string_field vi_Version_update),
      (''healthCheckPath'', string_field vi_HealthCheckPath_update),
      (''requestTimeoutMs'', int_field vi_RequestTimeoutMS_update),
      (''maxRequestBytes'', int_field vi_MaxRequestBytes_update)]"

record version_patch =
  vp_Version :: string
  vp_HealthCheckPath :: string
  vp_RequestTimeoutMS :: int
  vp_MaxRequestBytes :: int
  vp_Enabled :: bool
  vp_ExpectedVersion :: int

definition zero_version_patch :: version_patch where
  "zero_version_patch = \<lparr>vp_Version = [], vp_HealthCheckPath = [], vp_RequestTimeoutMS = 0,
     vp_MaxRequestBytes = 0, vp_Enabled = False, vp_ExpectedVersion = 0\<rparr>"

definition version_patch_fields :: "version_patch field list" where
  "version_patch_fields =
     [(''version'', string_field vp_Version_update), (''healthCheckPath'', string_field vp_HealthCheckPath_update),
      (''requestTimeoutMs'', int_field vp_RequestTimeoutMS_update),
      (''maxRequestBytes'', int_field vp_MaxRequestBytes_update), (''enabled'', bool_field vp_Enabled_update),
      (''expectedVersion'', int_field vp_ExpectedVersion_update)]"

record upstream_input =
  ui_Scheme :: string
  ui_Address :: string
  ui_Port :: int
  ui_Weight :: int
  ui_HealthCheckPath :: string

definition zero_upstream_input :: upstream_input where
  "zero_upstream_input = \<lparr>ui_Scheme = [], ui_Address = [], ui_Port = 0, ui_Weight = 0, ui_HealthCheckPath = []\<rparr>"

definition upstream_input_fields :: "upstream_input field list" where
  "upstream_input_fields =
     [(''scheme'', string_field ui_Scheme_update), (''address'', string_field ui_Address_update),
      (''port'', int_field ui_Port_update), (''weight'', int_field ui_Weight_update),
      (''healthCheckPath'', string_field ui_HealthCheckPath_update)]"

record upstream_patch =
  uq_Scheme :: string
  uq_Address :: string
  uq_Port :: int
  uq_Weight :: int
  uq_HealthCheckPath :: string
  uq_Enabled :: bool
  uq_ExpectedVersion :: int

definition zero_upstream_patch :: upstream_patch where
  "zero_upstream_patch = \<lparr>uq_Scheme = [], uq_Address = [], uq_Port = 0, uq_Weight = 0,
     uq_HealthCheckPath = [], uq_Enabled = False, uq_ExpectedVersion = 0\<rparr>"

definition upstream_patch_fields :: "upstream_patch field list" where
  "upstream_patch_fields =
     [(''scheme'', string_field uq_Scheme_update), (''address'', string_field uq_Address_update),
      (''port'', int_field uq_Port_update), (''weight'', int_field uq_Weight_update),
      (''healthCheckPath'', string_field uq_HealthCheckPath_update), (''enabled'', bool_field uq_Enabled_update),
      (''expectedVersion'', int_field uq_ExpectedVersion_update)]"

text \<open>The body of an allocation: the environment, the authentication policy and the store's input.\<close>

record listener_input =
  li_Environment :: string
  li_AuthenticationPolicy :: string
  li_input :: allocate_input

definition zero_listener_input :: listener_input where
  "zero_listener_input = \<lparr>li_Environment = [], li_AuthenticationPolicy = [], li_input =
     \<lparr>ai_Service = [], ai_ServiceVersion = [], ai_PreferredPort = None, ai_RequiredPermission = [],
      ai_AllowedMethods = [], ai_AllowedContentTypes = [], ai_UnprotectedRouteRegex = [],
      ai_RateLimitPerSecond = 0, ai_RateLimitBurst = 0, ai_QuotaRequestsPerMinute = 0,
      ai_CircuitFailureThreshold = 0, ai_CircuitOpenMS = 0\<rparr>\<rparr>"

definition listener_input_fields :: "listener_input field list" where
  "listener_input_fields =
     [(''environment'', string_field li_Environment_update),
      (''service'', string_field (li_input_update \<circ> ai_Service_update)),
      (''serviceVersion'', string_field (li_input_update \<circ> ai_ServiceVersion_update)),
      (''preferredPort'', pointer_field json_int (li_input_update \<circ> ai_PreferredPort_update)),
      (''requiredPermission'', string_field (li_input_update \<circ> ai_RequiredPermission_update)),
      (''allowedMethods'', strings_field (li_input_update \<circ> ai_AllowedMethods_update)),
      (''allowedContentTypes'', strings_field (li_input_update \<circ> ai_AllowedContentTypes_update)),
      (''unprotectedRouteRegex'', string_field (li_input_update \<circ> ai_UnprotectedRouteRegex_update)),
      (''authenticationPolicy'', string_field li_AuthenticationPolicy_update),
      (''rateLimitPerSecond'', int_field (li_input_update \<circ> ai_RateLimitPerSecond_update)),
      (''rateLimitBurst'', int_field (li_input_update \<circ> ai_RateLimitBurst_update)),
      (''quotaRequestsPerMinute'', int_field (li_input_update \<circ> ai_QuotaRequestsPerMinute_update)),
      (''circuitFailureThreshold'', int_field (li_input_update \<circ> ai_CircuitFailureThreshold_update)),
      (''circuitOpenMs'', int_field (li_input_update \<circ> ai_CircuitOpenMS_update))]"

record listener_patch =
  lp_Status :: string
  lp_ExpectedVersion :: int

definition zero_listener_patch :: listener_patch where
  "zero_listener_patch = \<lparr>lp_Status = [], lp_ExpectedVersion = 0\<rparr>"

definition listener_patch_fields :: "listener_patch field list" where
  "listener_patch_fields =
     [(''status'', string_field lp_Status_update), (''expectedVersion'', int_field lp_ExpectedVersion_update)]"

definition zero_policy_input :: policy_input where
  "zero_policy_input = \<lparr>pi_RateLimitPerSecond = 0, pi_RateLimitBurst = 0, pi_QuotaRequestsPerMinute = 0,
     pi_CircuitFailureThreshold = 0, pi_CircuitOpenMS = 0, pi_UnprotectedRouteRegex = [], pi_ExpectedVersion = 0\<rparr>"

definition policy_input_fields :: "policy_input field list" where
  "policy_input_fields =
     [(''rateLimitPerSecond'', int_field pi_RateLimitPerSecond_update),
      (''rateLimitBurst'', int_field pi_RateLimitBurst_update),
      (''quotaRequestsPerMinute'', int_field pi_QuotaRequestsPerMinute_update),
      (''circuitFailureThreshold'', int_field pi_CircuitFailureThreshold_update),
      (''circuitOpenMs'', int_field pi_CircuitOpenMS_update),
      (''unprotectedRouteRegex'', string_field pi_UnprotectedRouteRegex_update),
      (''expectedVersion'', int_field pi_ExpectedVersion_update)]"

record permission_input =
  pe_Name :: string
  pe_Description :: string

definition zero_permission_input :: permission_input where
  "zero_permission_input = \<lparr>pe_Name = [], pe_Description = []\<rparr>"

definition permission_input_fields :: "permission_input field list" where
  "permission_input_fields =
     [(''name'', string_field pe_Name_update), (''description'', string_field pe_Description_update)]"

text \<open>A patch of a permission decodes the description alone.\<close>

definition permission_patch_fields :: "permission_input field list" where
  "permission_patch_fields = [(''description'', string_field pe_Description_update)]"

record consumer_input =
  ci_Environment :: string
  ci_Name :: string
  ci_DisplayName :: string
  ci_Permissions :: "string list"

definition zero_consumer_input :: consumer_input where
  "zero_consumer_input = \<lparr>ci_Environment = [], ci_Name = [], ci_DisplayName = [], ci_Permissions = []\<rparr>"

definition consumer_input_fields :: "consumer_input field list" where
  "consumer_input_fields =
     [(''environment'', string_field ci_Environment_update), (''name'', string_field ci_Name_update),
      (''displayName'', string_field ci_DisplayName_update), (''permissions'', strings_field ci_Permissions_update)]"

record consumer_patch =
  cp_DisplayName :: string
  cp_Enabled :: bool
  cp_Permissions :: "string list"
  cp_ExpectedVersion :: int

definition zero_consumer_patch :: consumer_patch where
  "zero_consumer_patch = \<lparr>cp_DisplayName = [], cp_Enabled = False, cp_Permissions = [], cp_ExpectedVersion = 0\<rparr>"

definition consumer_patch_fields :: "consumer_patch field list" where
  "consumer_patch_fields =
     [(''displayName'', string_field cp_DisplayName_update), (''enabled'', bool_field cp_Enabled_update),
      (''permissions'', strings_field cp_Permissions_update), (''expectedVersion'', int_field cp_ExpectedVersion_update)]"

record key_input =
  ki_Name :: string
  ki_Permissions :: "string list"
  ki_ExpiresAt :: "int option"

definition zero_key_input :: key_input where
  "zero_key_input = \<lparr>ki_Name = [], ki_Permissions = [], ki_ExpiresAt = None\<rparr>"

text \<open>\<open>read_time\<close> is \<^verbatim>\<open>time.Time\<close>'s own decoding of a JSON value.\<close>

definition key_input_fields :: "(json \<Rightarrow> int option) \<Rightarrow> key_input field list" where
  "key_input_fields read_time =
     [(''name'', string_field ki_Name_update), (''permissions'', strings_field ki_Permissions_update),
      (''expiresAt'', pointer_field read_time ki_ExpiresAt_update)]"

record activate_input = av_ExpectedActiveVersion :: "int option"

definition zero_activate_input :: activate_input where
  "zero_activate_input = \<lparr>av_ExpectedActiveVersion = None\<rparr>"

definition activate_input_fields :: "activate_input field list" where
  "activate_input_fields = [(''expectedActiveVersion'', pointer_field json_int av_ExpectedActiveVersion_update)]"

section \<open>What decoding gives\<close>

text \<open>The actor is never blank, so that every audit event and every approval names someone.\<close>

lemma actor_ok:
  "actor r \<noteq> []" "length (actor r) \<le> 128" "\<not> contains_any (actor r) [CHR 0x0D, CHR 0x0A]"
  by (simp_all add: actor_def Let_def contains_any_def)

lemma decode_members_append:
  "decode_members flds (xs @ ys) i = Option.bind (decode_members flds xs i) (decode_members flds ys)"
  by (induction flds xs i rule: decode_members.induct) (auto split: option.splits)

text \<open>A member without a field of that name makes the whole body invalid.\<close>

lemma decode_members_unknown:
  "find_field flds name = None \<Longrightarrow> (name, v) \<in> set members \<Longrightarrow> decode_members flds members i = None"
  by (induction flds members i rule: decode_members.induct) (auto split: option.splits)

lemma json_int_in_int64: "json_int v = Some n \<Longrightarrow> in_int64 n"
  using atoi_in_int64 by (auto simp: json_int_def atoi_def split: json.splits)

end
