(* ===== verification/Admin_Handler.thy ===== *)
theory Admin_Handler
  imports Admin_Input
begin

text \<open>
  The admin API, \<^verbatim>\<open>internal/controlplane/handler.go\<close>: routing by resource, method and number of
  path segments, the defaults of omitted values, the call of the store and the response.
\<close>

section \<open>Results\<close>

text \<open>
  What the handlers answer with, before it is printed as JSON: the values of the store, or the
  fixed status of a deletion or revocation.
\<close>

datatype admin_value =
    V_services "service list" | V_service service
  | V_versions "version_row list" | V_version version_row
  | V_upstreams "upstream_view list" | V_upstream upstream_view
  | V_ports "port_view list" | V_port port_view
  | V_listeners "listener_view list" | V_listener listener_view
  | V_permissions "permission_row list" | V_permission permission_row
  | V_consumers "consumer_view list" | V_consumer consumer_view
  | V_keys "api_key list" | V_issued "api_key \<times> string"
  | V_configurations "configuration_item list" | V_configuration configuration | V_approval approval_row
  | V_audit "audit_row list" | V_instances "instance_row list"
  | V_status string

text \<open>
  The outcome of a handler: the error, or the status and the value; the database; and the events
  published.
\<close>

type_synonym outcome = "((store_error, nat \<times> admin_value) result \<times> database) \<times> (string \<times> string) list"

definition refuse :: "store_error \<Rightarrow> database \<Rightarrow> outcome" where
  "refuse e db = ((Inl e, db), [])"

definition reply_notified ::
  "nat \<Rightarrow> ('a \<Rightarrow> admin_value) \<Rightarrow> ((store_error, 'a) result \<times> database) \<times> (string \<times> string) list \<Rightarrow> outcome" where
  "reply_notified status wrap out =
     ((map_sum (\<lambda>e. e) (\<lambda>x. (status, wrap x)) (fst (fst out)), snd (fst out)), snd out)"

definition reply :: "nat \<Rightarrow> ('a \<Rightarrow> admin_value) \<Rightarrow> (store_error, 'a) result \<times> database \<Rightarrow> outcome" where
  "reply status wrap out = reply_notified status wrap (out, [])"

text \<open>A list is read without a transaction, and fails when the database cannot be reached.\<close>

definition listed :: "call_env \<Rightarrow> admin_value \<Rightarrow> database \<Rightarrow> outcome" where
  "listed c v db = ((if ce_begin_ok c then Inr (200, v) else Inl (ErrOther OtherError), db), [])"

section \<open>The handler\<close>

record admin_handler =
  ah_store :: store
  ah_environment :: string

definition NewHandler :: "store \<Rightarrow> string \<Rightarrow> admin_handler" where
  "NewHandler s environment = \<lparr>ah_store = s, ah_environment = environment\<rparr>"

text \<open>The libraries below the handler: those of the store, and the decoding of JSON text and times.\<close>

record admin_libraries =
  al_store :: libraries
  al_json :: "string \<Rightarrow> json option"
  al_time :: "json \<Rightarrow> int option"

text \<open>What a call gets from outside: the store's context and the rows locked by others.\<close>

record admin_context =
  ac_call :: call_env
  ac_locked :: "int set"

definition validEnvironment :: "admin_handler \<Rightarrow> string \<Rightarrow> bool" where
  "validEnvironment h input \<longleftrightarrow> input = [] \<or> input = ah_environment h"

text \<open>A handler's step on a decoded body; a body that does not decode is refused.\<close>

definition with_body ::
  "admin_libraries \<Rightarrow> 'i field list \<Rightarrow> admin_request \<Rightarrow> 'i \<Rightarrow> ('i \<Rightarrow> outcome) \<Rightarrow> database \<Rightarrow> outcome" where
  "with_body lib flds r zero f db =
     (case decode (al_json lib) flds r zero of None \<Rightarrow> refuse ErrInvalid db | Some i \<Rightarrow> f i)"

definition default_string :: "string \<Rightarrow> string \<Rightarrow> string" where
  "default_string v d = (if v = [] then d else v)"

definition default_int :: "int \<Rightarrow> int \<Rightarrow> int" where
  "default_int v d = (if v = 0 then d else v)"

definition admin_services ::
  "admin_handler \<Rightarrow> admin_libraries \<Rightarrow> admin_context \<Rightarrow> admin_request \<Rightarrow> string list \<Rightarrow> database \<Rightarrow> outcome" where
  "admin_services h lib x r segments db =
     (let c = ac_call x; n = length segments; m = aq_method r; e = ah_environment h in
      if n = 3 \<and> m = ''GET'' then listed c (V_services (ListServices e db)) db
      else if n = 3 \<and> m = ''POST'' then
        with_body lib service_input_fields r zero_service_input (\<lambda>i.
          if \<not> validEnvironment h (si_Environment i) then refuse ErrInvalid db
          else reply 201 V_service
            (CreateService c (actor r) e (si_Name i) (si_DisplayName i) (si_Owner i) db)) db
      else if n = 5 \<and> segments ! 4 = ''versions'' \<and> m = ''GET'' then
        listed c (V_versions (ListServiceVersions e (segments ! 3) db)) db
      else if n = 4 \<and> m = ''PATCH'' then
        with_body lib service_patch_fields r zero_service_patch (\<lambda>i.
          reply 200 V_service (UpdateService c (actor r) e (segments ! 3) (sp_DisplayName i) (sp_Owner i)
            (sp_Enabled i) (sp_ExpectedVersion i) db)) db
      else if n = 5 \<and> segments ! 4 = ''versions'' \<and> m = ''POST'' then
        with_body lib version_input_fields r zero_version_input (\<lambda>i.
          if \<not> validEnvironment h (vi_Environment i) then refuse ErrInvalid db
          else reply 201 V_version (CreateServiceVersion c (actor r) e (segments ! 3) (vi_Version i)
            (default_string (vi_HealthCheckPath i) ''/health'') (default_int (vi_RequestTimeoutMS i) 30000)
            (default_int (vi_MaxRequestBytes i) 2097152) db)) db
      else refuse ErrNotFound db)"

definition admin_service_versions ::
  "admin_handler \<Rightarrow> admin_libraries \<Rightarrow> admin_context \<Rightarrow> admin_request \<Rightarrow> string list \<Rightarrow> database \<Rightarrow> outcome" where
  "admin_service_versions h lib x r segments db =
     (let c = ac_call x; n = length segments; m = aq_method r; e = ah_environment h; s = ah_store h;
          host = lib_host (al_store lib) in
      if n = 4 \<and> m = ''PATCH'' then
        with_body lib version_patch_fields r zero_version_patch (\<lambda>i.
          reply 200 V_version (UpdateServiceVersion c (actor r) e (segments ! 3) (vp_Version i)
            (vp_HealthCheckPath i) (vp_RequestTimeoutMS i) (vp_MaxRequestBytes i) (vp_Enabled i)
            (vp_ExpectedVersion i) db)) db
      else if n = 6 \<and> segments ! 4 = ''upstreams'' \<and> m = ''PATCH'' then
        with_body lib upstream_patch_fields r zero_upstream_patch (\<lambda>i.
          reply 200 V_upstream (UpdateUpstream s host c (actor r) e (segments ! 5) (uq_Scheme i)
            (uq_Address i) (uq_Port i) (uq_Weight i) (uq_HealthCheckPath i) (uq_Enabled i)
            (uq_ExpectedVersion i) db)) db
      else if n \<noteq> 5 \<or> segments ! 4 \<noteq> ''upstreams'' then refuse ErrNotFound db
      else if m = ''GET'' then listed c (V_upstreams (ListUpstreams host e (segments ! 3) db)) db
      else if m \<noteq> ''POST'' then refuse ErrNotFound db
      else with_body lib upstream_input_fields r zero_upstream_input (\<lambda>i.
          reply 201 V_upstream (CreateUpstreamWithScheme s host c (actor r) e (segments ! 3)
            (default_string (ui_Scheme i) ''http'') (ui_Address i) (ui_Port i) (default_int (ui_Weight i) 100)
            (ui_HealthCheckPath i) db)) db)"

definition admin_ports ::
  "admin_handler \<Rightarrow> admin_libraries \<Rightarrow> admin_context \<Rightarrow> admin_request \<Rightarrow> string list \<Rightarrow> database \<Rightarrow> outcome" where
  "admin_ports h lib x r segments db =
     (let c = ac_call x; n = length segments; m = aq_method r; e = ah_environment h in
      if m = ''GET'' \<and> n = 3 then listed c (V_ports (ListPorts e (aq_query r ''status'') db)) db
      else if m = ''PATCH'' \<and> n = 4 then
        (case atoi (segments ! 3) of
           None \<Rightarrow> refuse ErrInvalid db
         | Some port \<Rightarrow>
             with_body lib port_patch_fields r zero_port_patch (\<lambda>i.
               reply 200 V_port (UpdatePortStatus c (actor r) e port (pp_Status i) db)) db)
      else refuse ErrNotFound db)"

definition admin_listeners ::
  "admin_handler \<Rightarrow> admin_libraries \<Rightarrow> admin_context \<Rightarrow> admin_request \<Rightarrow> string list \<Rightarrow> database \<Rightarrow> outcome" where
  "admin_listeners h lib x r segments db =
     (let c = ac_call x; n = length segments; m = aq_method r; e = ah_environment h; l = al_store lib in
      if n = 3 \<and> m = ''GET'' then listed c (V_listeners (ListListeners e db)) db
      else if n = 3 \<and> m = ''POST'' \<or> n = 4 \<and> segments ! 3 = ''allocate-port'' \<and> m = ''POST'' then
        with_body lib listener_input_fields r zero_listener_input (\<lambda>i.
          if \<not> validEnvironment h (li_Environment i)
             \<or> li_AuthenticationPolicy i \<noteq> [] \<and> li_AuthenticationPolicy i \<noteq> ''api-key-required''
          then refuse ErrInvalid db
          else reply 201 V_listener (AllocateListener (lib_compile l) (lib_parse_media l) (ac_locked x) c
            (actor r) e (li_input i) db)) db
      else if n = 4 \<and> m = ''PATCH'' then
        with_body lib listener_patch_fields r zero_listener_patch (\<lambda>i.
          reply 200 V_listener (UpdateListener c (actor r) e (segments ! 3) (lp_Status i)
            (lp_ExpectedVersion i) db)) db
      else if n = 5 \<and> segments ! 4 = ''policies'' \<and> m = ''PATCH'' then
        with_body lib policy_input_fields r zero_policy_input (\<lambda>i.
          reply 200 V_listener (UpdateListenerPolicies (lib_compile l) c (actor r) e (segments ! 3) i db)) db
      else refuse ErrNotFound db)"

definition admin_permissions ::
  "admin_handler \<Rightarrow> admin_libraries \<Rightarrow> admin_context \<Rightarrow> admin_request \<Rightarrow> string list \<Rightarrow> database \<Rightarrow> outcome" where
  "admin_permissions h lib x r segments db =
     (let c = ac_call x; n = length segments; m = aq_method r; e = ah_environment h in
      if n = 3 \<and> m = ''GET'' then listed c (V_permissions (ListPermissions db)) db
      else if n = 3 \<and> m = ''POST'' then
        with_body lib permission_input_fields r zero_permission_input (\<lambda>i.
          reply 201 V_permission (CreatePermission c (actor r) e (pe_Name i) (pe_Description i) db)) db
      else if n = 4 \<and> m = ''PATCH'' then
        with_body lib permission_patch_fields r zero_permission_input (\<lambda>i.
          reply 200 V_permission (UpdatePermission c (actor r) e (segments ! 3) (pe_Description i) db)) db
      else if n = 4 \<and> m = ''DELETE'' then
        reply 200 (\<lambda>_. V_status ''deleted'') (DeletePermission c (actor r) e (segments ! 3) db)
      else refuse ErrNotFound db)"

definition admin_consumers ::
  "admin_handler \<Rightarrow> admin_libraries \<Rightarrow> admin_context \<Rightarrow> admin_request \<Rightarrow> string list \<Rightarrow> database \<Rightarrow> outcome" where
  "admin_consumers h lib x r segments db =
     (let c = ac_call x; n = length segments; m = aq_method r; e = ah_environment h; s = ah_store h in
      if n = 3 \<and> m = ''GET'' then listed c (V_consumers (ListConsumers e db)) db
      else if n = 3 \<and> m = ''POST'' then
        with_body lib consumer_input_fields r zero_consumer_input (\<lambda>i.
          if \<not> validEnvironment h (ci_Environment i) then refuse ErrInvalid db
          else reply 201 V_consumer
            (CreateConsumer c (actor r) e (ci_Name i) (ci_DisplayName i) (ci_Permissions i) db)) db
      else if n = 4 \<and> m = ''PATCH'' then
        with_body lib consumer_patch_fields r zero_consumer_patch (\<lambda>i.
          reply_notified 200 V_consumer (UpdateConsumer s c (actor r) e (segments ! 3) (cp_DisplayName i)
            (cp_Enabled i) (cp_Permissions i) (cp_ExpectedVersion i) db)) db
      else if n = 4 \<and> m = ''DELETE'' then
        reply_notified 200 (\<lambda>_. V_status ''deleted'') (DeleteConsumer s c (actor r) e (segments ! 3) db)
      else if n = 5 \<and> segments ! 4 = ''keys'' \<and> m = ''GET'' then
        listed c (V_keys (ListKeys e (segments ! 3) db)) db
      else if n = 5 \<and> segments ! 4 = ''keys'' \<and> m = ''POST'' then
        with_body lib (key_input_fields (al_time lib)) r zero_key_input (\<lambda>i.
          reply 201 V_issued (IssueKey (lib_hmac (al_store lib)) s c (actor r) e (segments ! 3) (ki_Name i)
            (ki_Permissions i) (ki_ExpiresAt i) None db)) db
      else refuse ErrNotFound db)"

definition admin_keys ::
  "admin_handler \<Rightarrow> admin_libraries \<Rightarrow> admin_context \<Rightarrow> admin_request \<Rightarrow> string list \<Rightarrow> database \<Rightarrow> outcome" where
  "admin_keys h lib x r segments db =
     (let c = ac_call x; e = ah_environment h; s = ah_store h in
      if length segments \<noteq> 5 \<or> aq_method r \<noteq> ''POST'' then refuse ErrNotFound db
      else if segments ! 4 = ''rotate'' then
        reply_notified 201 V_issued (RotateKey (lib_hmac (al_store lib)) s c (actor r) e (segments ! 3) db)
      else if segments ! 4 = ''revoke'' then
        reply_notified 200 (\<lambda>_. V_status ''revoked'') (RevokeKey s c (actor r) e (segments ! 3) db)
      else refuse ErrNotFound db)"

definition admin_configurations ::
  "admin_handler \<Rightarrow> admin_libraries \<Rightarrow> admin_context \<Rightarrow> admin_request \<Rightarrow> string list \<Rightarrow> database \<Rightarrow> outcome" where
  "admin_configurations h lib x r segments db =
     (let c = ac_call x; n = length segments; m = aq_method r; e = ah_environment h; s = ah_store h in
      if n = 3 \<and> m = ''GET'' then listed c (V_configurations (ListConfigurations s e db)) db
      else if n = 3 \<and> m = ''POST'' then
        reply 201 V_configuration (CreateConfiguration (lib_host (al_store lib)) c (actor r) e db)
      else if n \<noteq> 5 \<or> m \<noteq> ''POST'' then refuse ErrNotFound db
      else (case parse_int 64 (segments ! 3) of
          None \<Rightarrow> refuse ErrInvalid db
        | Some rid \<Rightarrow>
            if segments ! 4 = ''validate'' then
              reply 200 V_configuration (ValidateConfiguration c (actor r) e rid db)
            else if segments ! 4 = ''activate'' then
              (case decodeOptional (al_json lib) activate_input_fields r zero_activate_input of
                 None \<Rightarrow> refuse ErrInvalid db
               | Some i \<Rightarrow> reply_notified 200 V_configuration
                   (ActivateConfiguration s c (actor r) e rid (av_ExpectedActiveVersion i) db))
            else if segments ! 4 = ''approve'' then
              reply 201 V_approval (ApproveConfiguration c (actor r) e rid db)
            else if segments ! 4 = ''rollback'' then
              reply_notified 201 V_configuration (RollbackConfiguration s c (actor r) e rid db)
            else refuse ErrNotFound db))"

text \<open>
  The limit of the audit list. A limit that is not a number counts as 0. One beyond 64 bits counts
  as 0 here and as the nearest 64-bit number in Go, and \<open>ListAudit\<close> replaces both by its default.
\<close>

definition audit_limit :: "string \<Rightarrow> int" where
  "audit_limit s = (case atoi s of Some n \<Rightarrow> n | None \<Rightarrow> 0)"

definition admin_route ::
  "admin_handler \<Rightarrow> admin_libraries \<Rightarrow> admin_context \<Rightarrow> admin_request \<Rightarrow> database \<Rightarrow> outcome" where
  "admin_route h lib x r db =
     (let segments = splitPath (aq_path r); c = ac_call x; e = ah_environment h in
      if length segments < 3 \<or> segments ! 0 \<noteq> ''admin'' \<or> segments ! 1 \<noteq> ''v1'' then refuse ErrNotFound db
      else let resource = segments ! 2 in
        if resource = ''services'' then admin_services h lib x r segments db
        else if resource = ''service-versions'' then admin_service_versions h lib x r segments db
        else if resource = ''ports'' then admin_ports h lib x r segments db
        else if resource = ''listeners'' then admin_listeners h lib x r segments db
        else if resource = ''permissions'' then admin_permissions h lib x r segments db
        else if resource = ''consumers'' then admin_consumers h lib x r segments db
        else if resource = ''keys'' then admin_keys h lib x r segments db
        else if resource = ''configurations'' then admin_configurations h lib x r segments db
        else if resource = ''audit-events'' \<or> resource = ''audit-logs'' then
          (if aq_method r \<noteq> ''GET'' \<or> length segments \<noteq> 3 then refuse ErrNotFound db
           else listed c (V_audit (ListAudit e (audit_limit (aq_query r ''limit'')) db)) db)
        else if resource = ''gateway-instances'' then
          (if aq_method r \<noteq> ''GET'' \<or> length segments \<noteq> 3 then refuse ErrNotFound db
           else listed c (V_instances (ListGatewayInstances e db)) db)
        else refuse ErrNotFound db)"

section \<open>Responses\<close>

datatype admin_body = B_value admin_value | B_error string

fun admin_writeError :: "store_error \<Rightarrow> nat \<times> admin_body" where
  "admin_writeError ErrInvalid = (400, B_error ''invalid request'')"
| "admin_writeError ErrNotFound = (404, B_error ''not found'')"
| "admin_writeError ErrConflict = (409, B_error ''resource is in use or has changed'')"
| "admin_writeError (ErrOther e) = (500, B_error ''internal server error'')"

text \<open>A request to the admin API: the response, the database afterwards and the events published.\<close>

definition admin_ServeHTTP ::
  "admin_handler \<Rightarrow> admin_libraries \<Rightarrow> admin_context \<Rightarrow> admin_request \<Rightarrow> database \<Rightarrow>
   (nat \<times> admin_body) \<times> database \<times> (string \<times> string) list" where
  "admin_ServeHTTP h lib x r db =
     (let out = admin_route h lib x r db
      in (case fst (fst out) of Inl e \<Rightarrow> admin_writeError e | Inr (status, v) \<Rightarrow> (status, B_value v),
          snd (fst out), snd out))"

text \<open>A sequence of requests, each with its own context.\<close>

fun admin_serve ::
  "admin_handler \<Rightarrow> admin_libraries \<Rightarrow> (admin_context \<times> admin_request) list \<Rightarrow> database \<Rightarrow> database" where
  "admin_serve h lib [] db = db"
| "admin_serve h lib ((x, r) # reqs) db = admin_serve h lib reqs (fst (snd (admin_ServeHTTP h lib x r db)))"

section \<open>Shape of the outcomes\<close>

named_theorems outcome_simps \<open>the parts of an outcome\<close>

lemma outcome_parts [outcome_simps]:
  "fst (fst (refuse e db)) = Inl e" "snd (fst (refuse e db)) = db" "snd (refuse e db) = []"
  "fst (fst (reply_notified n w out)) = map_sum (\<lambda>e. e) (\<lambda>y. (n, w y)) (fst (fst out))"
  "snd (fst (reply_notified n w out)) = snd (fst out)" "snd (reply_notified n w out) = snd out"
  "fst (fst (reply n w o1)) = map_sum (\<lambda>e. e) (\<lambda>y. (n, w y)) (fst o1)"
  "snd (fst (reply n w o1)) = snd o1" "snd (reply n w o1) = []"
  "snd (fst (listed c v db)) = db" "snd (listed c v db) = []"
  by (simp_all add: refuse_def reply_notified_def reply_def listed_def)

end
