(* ===== verification/Store_Initial.thy ===== *)
theory Store_Initial
  imports Store_Steps
begin

text \<open>
  Databases the witnesses run on: the one the migrations leave behind
  (\<^verbatim>\<open>internal/database/migrations\<close>), and a small one with a registered service, an allocated
  listener and a consumer.
\<close>

section \<open>After the migrations\<close>

definition empty_snapshot :: "string \<Rightarrow> raw_snapshot" where
  "empty_snapshot environment = \<lparr>r_Environment = environment, r_Services = [], r_ServiceVersions = [],
     r_Upstreams = [], r_Listeners = []\<rparr>"

definition bootstrap_configuration :: "int \<Rightarrow> int \<Rightarrow> string \<Rightarrow> config_row" where
  "bootstrap_configuration now rid environment = \<lparr>cf_id = rid, cf_environment = rid,
     cf_status = ''active'', cf_snapshot = empty_snapshot environment, cf_source = None,
     cf_created_by = ''system-bootstrap'', cf_validated_at = Some now, cf_activated_at = Some now,
     cf_created_at = now\<rparr>"

definition free_port :: "int \<Rightarrow> int \<Rightarrow> int \<Rightarrow> port_row" where
  "free_port now eid port = \<lparr>po_environment = eid, po_listen_port = port, po_status = ''available'',
     po_listener = None, po_updated_at = now\<rparr>"

definition initial_database :: "int \<Rightarrow> database" where
  "initial_database now = \<lparr>
     t_environments = [\<lparr>en_id = 1, en_name = ''development''\<rparr>, \<lparr>en_id = 2, en_name = ''staging''\<rparr>,
       \<lparr>en_id = 3, en_name = ''production''\<rparr>],
     t_services = [], t_versions = [], t_upstreams = [],
     t_ports = map (free_port now 1) [4100..4199] @ map (free_port now 2) [4200..4299]
       @ map (free_port now 3) [4300..4399],
     t_listeners = [], t_consumers = [], t_permissions = [], t_grants = [], t_keys = [],
     t_configurations = [bootstrap_configuration now 1 ''development'',
       bootstrap_configuration now 2 ''staging'', bootstrap_configuration now 3 ''production''],
     t_approvals = [], t_audit = [], t_instances = [], t_next_configuration = 4, t_next_audit = 1\<rparr>"

section \<open>A small database\<close>

definition example_store :: store where
  "example_store = \<lparr>st_pepper = ''pepper'', st_upstreamCIDRs = [Cidr (V4 0x0A000000) 8],
     st_requiredApprovals = 1, st_publisher = True\<rparr>"

definition example_context :: call_env where
  "example_context = \<lparr>ce_now = 100, ce_clock = 100, ce_id_bytes = replicate 12 CHR 0x01,
     ce_key_bytes = replicate 32 CHR 0xAB, ce_begin_ok = True, ce_commit_ok = True, ce_commit_kept = False\<rparr>"

definition example_database :: database where
  "example_database = \<lparr>
     t_environments = [\<lparr>en_id = 1, en_name = ''development''\<rparr>],
     t_services = [\<lparr>sv_id = ''svc_1'', sv_environment = 1, sv_name = ''billing'',
        sv_display_name = ''Billing'', sv_owner = ''finance'', sv_enabled = True, sv_row_version = 1,
        sv_created_at = 10\<rparr>],
     t_versions = [\<lparr>vr_id = ''ver_1'', vr_service = ''svc_1'', vr_version = ''1.0.0'',
        vr_health_check_path = ''/health'', vr_request_timeout_ms = 30000, vr_max_request_bytes = 1024,
        vr_enabled = True, vr_row_version = 1, vr_created_at = 10\<rparr>],
     t_upstreams = [\<lparr>up_id = ''ups_1'', up_service_version = ''ver_1'', up_scheme = ''http'',
        up_address = V4 0x0A000001, up_port = 8080, up_weight = 100, up_health_check_path = [],
        up_enabled = True, up_row_version = 1, up_created_at = 10\<rparr>],
     t_ports = [free_port 0 1 4101, free_port 0 1 4100],
     t_listeners = [],
     t_consumers = [\<lparr>cn_id = ''con_1'', cn_environment = 1, cn_name = ''portal'',
        cn_display_name = ''Portal'', cn_enabled = True, cn_row_version = 1, cn_created_at = 10,
        cn_updated_at = 10\<rparr>],
     t_permissions = [\<lparr>pm_id = ''per_1'', pm_name = ''billing:v1:read'', pm_description = [],
        pm_created_at = 10\<rparr>],
     t_grants = [\<lparr>gr_consumer = ''con_1'', gr_permission = ''per_1''\<rparr>],
     t_keys = [],
     t_configurations = [bootstrap_configuration 0 1 ''development''],
     t_approvals = [], t_audit = [], t_instances = [], t_next_configuration = 2, t_next_audit = 1\<rparr>"

definition example_allocation :: allocate_input where
  "example_allocation = \<lparr>ai_Service = ''billing'', ai_ServiceVersion = ''1.0.0'', ai_PreferredPort = None,
     ai_RequiredPermission = ''billing:v1:read'', ai_AllowedMethods = [],
     ai_AllowedContentTypes = [''application/json''], ai_UnprotectedRouteRegex = [],
     ai_RateLimitPerSecond = 0, ai_RateLimitBurst = 0, ai_QuotaRequestsPerMinute = 0,
     ai_CircuitFailureThreshold = 0, ai_CircuitOpenMS = 0\<rparr>"

definition example_listener_row :: listener_row where
  "example_listener_row = \<lparr>ls_id = newID ''lis'' (ce_id_bytes example_context), ls_environment = 1,
     ls_service_version = ''ver_1'', ls_listen_port = 4100, ls_required_permission = ''billing:v1:read'',
     ls_allowed_methods = [''GET''], ls_allowed_content_types = [''application/json''],
     ls_unprotected_route_regex = [], ls_status = ''reserved'', ls_configuration_version = None,
     ls_row_version = 1, ls_rate_limit_per_second = 0, ls_rate_limit_burst = 0,
     ls_quota_requests_per_minute = 0, ls_circuit_failure_threshold = 5, ls_circuit_open_ms = 30000,
     ls_created_at = 100\<rparr>"

definition example_allocated :: database where
  "example_allocated = example_database\<lparr>
     t_ports := [free_port 0 1 4101, \<lparr>po_environment = 1, po_listen_port = 4100, po_status = ''reserved'',
        po_listener = Some (ls_id example_listener_row), po_updated_at = 100\<rparr>],
     t_listeners := [example_listener_row],
     t_audit := [\<lparr>au_id = 1, au_environment = 1, au_actor = ''alice'', au_action = ''listener.allocated'',
        au_resource_type = ''listener'', au_resource_id = ls_id example_listener_row,
        au_details = [(''listenPort'', DInt 4100)], au_created_at = 100\<rparr>],
     t_next_audit := 2\<rparr>"

lemma example_normalized:
  "normalizeMethods [] = Some [''GET'']"
  "normalizeContentTypes Some [''application/json''] = Some [''application/json'']"
  "permissionPattern ''billing:v1:read''"
  by (simp_all add: normalizeMethods_def normalizeContentTypes_def permissionPattern_def known_methods_def
      sorted_set_def Let_def byte_eval trim_space_plain lower_byte_def name_byte_def has_prefix_def)

lemma example_allocate:
  "AllocateListener (\<lambda>_. None) Some {} example_context ''alice'' ''development'' example_allocation
     example_database = (Inr (listener_of ''development'' example_listener_row), example_allocated)"
  by (simp add: AllocateListener_def example_allocation_def example_normalized
      normalizeUnprotectedRouteRegex_def limits_ok_def withTx_def example_context_def query_row_def
      environment_id_def example_database_def exists_where_def choose_port_def free_port_def
      insert_listener_def translated_def audited_def audit_def example_listener_row_def
      example_allocated_def Let_def)

text \<open>A configuration with the listener that has been validated, then approved and activated.\<close>

definition example_libraries :: libraries where
  "example_libraries = \<lparr>lib_host = (\<lambda>_. ''10.0.0.1''), lib_hmac = (\<lambda>pepper raw. take 32 (pepper @ raw)),
     lib_compile = (\<lambda>_. None), lib_parse_media = Some\<rparr>"

definition example_contents :: raw_snapshot where
  "example_contents = \<lparr>r_Environment = ''development'',
     r_Services = [\<lparr>rs_ID = ''svc_1'', rs_Enabled = True\<rparr>],
     r_ServiceVersions = [\<lparr>rv_ID = ''ver_1'', rv_ServiceID = ''svc_1'', rv_HealthCheckPath = ''/health'',
        rv_RequestTimeoutMS = 30000, rv_MaxRequestBytes = 1024, rv_Enabled = True\<rparr>],
     r_Upstreams = [\<lparr>ru_ID = ''ups_1'', ru_ServiceVersionID = ''ver_1'', ru_Scheme = ''http'',
        ru_Address = ''10.0.0.1'', ru_Port = 8080, ru_Weight = 100, ru_HealthCheckPath = [], ru_Enabled = True\<rparr>],
     r_Listeners = [raw_listener_of example_listener_row]\<rparr>"

definition example_configuration :: "string \<Rightarrow> config_row" where
  "example_configuration status = \<lparr>cf_id = 2, cf_environment = 1, cf_status = status,
     cf_snapshot = example_contents, cf_source = None, cf_created_by = ''alice'',
     cf_validated_at = (if status = ''draft'' then None else Some 100),
     cf_activated_at = (if status = ''active'' then Some 100 else None), cf_created_at = 100\<rparr>"

lemma example_snapshot_of:
  "snapshot_of (lib_host example_libraries) example_allocated ''development'' 1 = example_contents"
  by (simp add: snapshot_of_def example_contents_def example_libraries_def example_allocated_def
      example_database_def env_services_def env_versions_def env_upstreams_def env_listeners_def
      raw_version_of_def raw_upstream_of_def raw_listener_of_def example_listener_row_def)

text \<open>The audited end of a call on the example, whatever it records.\<close>

lemma example_audited:
  assumes "t_environments db = t_environments example_database"
  shows "\<exists>a n. audited c ''development'' actor action rt rid d x db = Inr (x, with_audit a n db)"
  by (rule audited_succeeds [of _ _ 1]) (simp add: environment_id_def assms example_database_def)

definition with_configurations :: "config_row list \<Rightarrow> approval_row list \<Rightarrow> database" where
  "with_configurations rows approvals = example_allocated\<lparr>t_configurations := rows,
     t_next_configuration := 3, t_approvals := approvals\<rparr>"

lemma with_configurations_tables [simp]:
  "t_configurations (with_configurations rows approvals) = rows"
  "t_approvals (with_configurations rows approvals) = approvals"
  "t_environments (with_configurations rows approvals) = t_environments example_database"
  "environment_id (with_configurations rows approvals) ''development'' = Some 1"
  "in_environment (with_configurations rows approvals) ''development'' eid \<longleftrightarrow> eid = 1"
  "t_listeners (with_configurations rows approvals) = [example_listener_row]"
  "t_permissions (with_configurations rows approvals) = t_permissions example_database"
  "t_upstreams (with_configurations rows approvals) = t_upstreams example_database"
  "with_configurations rows approvals\<lparr>t_configurations := rows'\<rparr> = with_configurations rows' approvals"
  "with_configurations rows approvals\<lparr>t_approvals := approvals'\<rparr> = with_configurations rows approvals'"
  by (auto simp: with_configurations_def example_allocated_def environment_id_def example_database_def
      in_environment_def)

definition example_proposed :: database where
  "example_proposed = with_configurations
     [bootstrap_configuration 0 1 ''development'', example_configuration ''validated''] []"

definition example_approved :: database where
  "example_approved = snd (ApproveConfiguration example_context ''bob'' ''development'' 2 example_proposed)"

definition example_active :: database where
  "example_active = snd (fst (ActivateConfiguration example_store example_context ''alice'' ''development'' 2
     (Some 1) example_approved))"

definition example_approval :: approval_row where
  "example_approval = \<lparr>ap_configuration = 2, ap_actor = ''bob'', ap_created_at = 100\<rparr>"

lemma example_approved_is: "\<exists>a n. example_approved = with_audit a n (with_configurations
   [bootstrap_configuration 0 1 ''development'', example_configuration ''validated''] [example_approval])"
proof -
  let ?db = "with_configurations [bootstrap_configuration 0 1 ''development'', example_configuration ''validated'']
    [example_approval]"
  obtain a n where "audited example_context ''development'' ''bob'' ''configuration.approved'' ''configuration''
      (show_int 2) [] example_approval ?db = Inr (example_approval, with_audit a n ?db)"
    using example_audited [of ?db] by fastforce
  moreover have "trim_space ''bob'' = ''bob''" by (rule trim_space_plain) simp_all
  moreover have "\<lparr>ap_configuration = 2, ap_actor = ''bob'', ap_created_at = ce_now example_context\<rparr> = example_approval"
    by (simp add: example_approval_def example_context_def)
  moreover have "find (\<lambda>r. cf_id r = 2 \<and> cf_environment r = 1 \<and> cf_status r = ''validated'' \<and> cf_created_by r \<noteq> ''bob'')
      [bootstrap_configuration 0 1 ''development'', example_configuration ''validated'']
      = Some (example_configuration ''validated'')"
    by (simp add: bootstrap_configuration_def example_configuration_def)
  ultimately have "example_approved = with_audit a n ?db"
    by (simp add: example_approved_def example_proposed_def ApproveConfiguration_def withTx_def query_row_def
        exists_where_def Let_def) (simp add: example_context_def)
  then show ?thesis by blast
qed

lemma example_active_is: "\<exists>a n. example_active = with_audit a n (with_configurations
     [bootstrap_configuration 0 1 ''development''\<lparr>cf_status := ''superseded''\<rparr>, example_configuration ''active'']
     [example_approval]
   \<lparr>t_listeners := [example_listener_row\<lparr>ls_configuration_version := Some 2, ls_status := ''active''\<rparr>],
    t_ports := [free_port 0 1 4101, \<lparr>po_environment = 1, po_listen_port = 4100, po_status = ''active'',
        po_listener = Some (ls_id example_listener_row), po_updated_at = 100\<rparr>]\<rparr>)"
proof -
  let ?rows = "[bootstrap_configuration 0 1 ''development''\<lparr>cf_status := ''superseded''\<rparr>, example_configuration ''active'']"
  let ?db = "with_configurations ?rows [example_approval]
   \<lparr>t_listeners := [example_listener_row\<lparr>ls_configuration_version := Some 2, ls_status := ''active''\<rparr>],
    t_ports := [free_port 0 1 4101, \<lparr>po_environment = 1, po_listen_port = 4100, po_status = ''active'',
        po_listener = Some (ls_id example_listener_row), po_updated_at = 100\<rparr>]\<rparr>"
  obtain a0 n0 where d: "example_approved = with_audit a0 n0 (with_configurations
      [bootstrap_configuration 0 1 ''development'', example_configuration ''validated''] [example_approval])"
    using example_approved_is by blast
  obtain a n where "audited example_context ''development'' ''alice'' ''configuration.activated'' ''configuration''
      (show_int 2) [(''previousVersion'', DInt 1)] (configuration_of ''development'' (example_configuration ''active''))
      (with_audit a0 n0 ?db) = Inr (configuration_of ''development'' (example_configuration ''active''),
        with_audit a n (with_audit a0 n0 ?db))"
    using example_audited [of "with_audit a0 n0 ?db"] by fastforce
  moreover have "supersede 1 [bootstrap_configuration 0 1 ''development'', example_configuration ''validated'']
      = [bootstrap_configuration 0 1 ''development''\<lparr>cf_status := ''superseded''\<rparr>, example_configuration ''validated'']"
    by (simp add: supersede_def bootstrap_configuration_def example_configuration_def)
  moreover have "update_returning (\<lambda>r. cf_id r = 2 \<and> cf_environment r = 1 \<and> cf_status r = ''validated'')
      (\<lambda>r. r\<lparr>cf_status := ''active'', cf_activated_at := Some (ce_now example_context)\<rparr>)
      [bootstrap_configuration 0 1 ''development''\<lparr>cf_status := ''superseded''\<rparr>, example_configuration ''validated'']
      = Some (example_configuration ''active'', ?rows)"
    by (simp add: update_returning_def bootstrap_configuration_def example_configuration_def example_context_def)
  moreover have "active_configuration example_approved 1 = Some 1" "approvals_of example_approved 1 2 = 1"
    by (simp_all add: d active_configuration_def approvals_of_def exists_where_def bootstrap_configuration_def
        example_configuration_def example_approval_def)
  moreover have "t_ports example_approved = [free_port 0 1 4101, \<lparr>po_environment = 1, po_listen_port = 4100,
      po_status = ''reserved'', po_listener = Some (ls_id example_listener_row), po_updated_at = 100\<rparr>]"
    by (simp add: d with_configurations_def example_allocated_def)
  ultimately have "example_active = with_audit a n ?db"
    by (simp add: example_active_def ActivateConfiguration_def withTx_def query_row_def d
        detail_of_active_def example_store_def Let_def)
      (simp add: example_context_def example_listener_row_def free_port_def)
  then show ?thesis by blast
qed

end
