(* ===== verification/Port_Inventory.thy ===== *)
theory Port_Inventory
  imports Store_Initial
begin

text \<open>
  The port inventory and the listeners stay in step: every listener holds exactly its own port,
  a port's status is the one that belongs to its listener's, and no two listeners share a port.
  Every operation of the store keeps this.
\<close>

definition free_status :: "string \<Rightarrow> bool" where
  "free_status st \<longleftrightarrow> st \<in> {''available'', ''blocked'', ''cooldown''}"

text \<open>The statuses a listener and its port can have at the same time.\<close>

definition statuses_agree :: "string \<Rightarrow> string \<Rightarrow> bool" where
  "statuses_agree ls ps \<longleftrightarrow> (ls, ps) \<in> {(''reserved'', ''reserved''), (''active'', ''active''),
     (''draining'', ''draining''), (''disabled'', ''cooldown''), (''disabled'', ''blocked'')}"

definition on_port :: "port_row \<Rightarrow> listener_row \<Rightarrow> bool" where
  "on_port p l \<longleftrightarrow> po_environment p = ls_environment l \<and> po_listen_port p = ls_listen_port l
     \<and> po_listener p = Some (ls_id l)"

definition port_ok :: "listener_row list \<Rightarrow> port_row \<Rightarrow> bool" where
  "port_ok ls p \<longleftrightarrow> (case po_listener p of
       None \<Rightarrow> free_status (po_status p)
     | Some rid \<Rightarrow> \<exists>l \<in> set ls. on_port p l \<and> statuses_agree (ls_status l) (po_status p))"

definition port_key :: "port_row \<Rightarrow> int \<times> int" where
  "port_key p = (po_environment p, po_listen_port p)"

definition ports_ok :: "port_row list \<Rightarrow> listener_row list \<Rightarrow> bool" where
  "ports_ok ps ls \<longleftrightarrow> distinct (map port_key ps) \<and> distinct (map ls_id ls)
     \<and> (\<forall>p \<in> set ps. port_ok ls p) \<and> (\<forall>l \<in> set ls. \<exists>p \<in> set ps. on_port p l)"

lemma ports_okD:
  assumes "ports_ok ps ls"
  shows "p \<in> set ps \<Longrightarrow> q \<in> set ps \<Longrightarrow> port_key p = port_key q \<Longrightarrow> p = q"
    and "l \<in> set ls \<Longrightarrow> l' \<in> set ls \<Longrightarrow> ls_id l = ls_id l' \<Longrightarrow> l = l'"
    and "p \<in> set ps \<Longrightarrow> port_ok ls p" and "l \<in> set ls \<Longrightarrow> \<exists>p \<in> set ps. on_port p l"
  using assms by (auto simp: ports_ok_def intro: distinct_key_unique)

lemma on_port_key: "on_port p l \<Longrightarrow> port_key p = (ls_environment l, ls_listen_port l)"
  by (simp add: on_port_def port_key_def)

text \<open>A port is held by the listener it names, whatever listener with that identifier is looked at.\<close>

lemma holder:
  assumes "ports_ok ps ls" and "p \<in> set ps" and "l \<in> set ls" and "po_listener p = Some (ls_id l)"
  shows "on_port p l \<and> statuses_agree (ls_status l) (po_status p)"
proof -
  from ports_okD(3) [OF assms(1,2)] assms(4) obtain l' where
    "l' \<in> set ls" "on_port p l'" "statuses_agree (ls_status l') (po_status p)"
    by (auto simp: port_ok_def)
  moreover from this assms(4) have "ls_id l' = ls_id l" by (simp add: on_port_def)
  ultimately show ?thesis using ports_okD(2) [OF assms(1) assms(3)] by metis
qed

lemma port_of_listener_unique:
  assumes "ports_ok ps ls" and "p \<in> set ps" and "q \<in> set ps"
    and "po_listener p = Some rid" and "po_listener q = Some rid"
  shows "p = q"
proof -
  from ports_okD(3) [OF assms(1,2)] assms(4) obtain l where l: "l \<in> set ls" "on_port p l"
    by (auto simp: port_ok_def)
  with assms(4,5) have "po_listener q = Some (ls_id l)" by (simp add: on_port_def)
  with holder [OF assms(1,3) l(1)] have "on_port q l" by blast
  with l(2) show ?thesis using ports_okD(1) [OF assms(1-3)] by (metis on_port_key)
qed

lemma listeners_on_port:
  assumes "ports_ok ps ls" and "l \<in> set ls" and "l' \<in> set ls"
    and "ls_environment l = ls_environment l'" and "ls_listen_port l = ls_listen_port l'"
  shows "l = l'"
proof -
  from ports_okD(4) [OF assms(1,2)] obtain p where p: "p \<in> set ps" "on_port p l" by blast
  from ports_okD(4) [OF assms(1,3)] obtain p' where p': "p' \<in> set ps" "on_port p' l'" by blast
  have "p = p'" using ports_okD(1) [OF assms(1) p(1) p'(1)] p(2) p'(2) assms(4,5) by (simp add: on_port_key)
  with p p' have "ls_id l = ls_id l'" by (simp add: on_port_def)
  then show ?thesis using ports_okD(2) [OF assms(1-3)] by blast
qed

text \<open>An update that leaves identities alone and keeps the statuses in step.\<close>

lemma ports_ok_map:
  assumes ok: "ports_ok ps ls"
    and f: "\<And>l. ls_id (f l) = ls_id l \<and> ls_environment (f l) = ls_environment l
              \<and> ls_listen_port (f l) = ls_listen_port l"
    and g: "\<And>p. p \<in> set ps \<Longrightarrow> po_environment (g p) = po_environment p
              \<and> po_listen_port (g p) = po_listen_port p \<and> po_listener (g p) = po_listener p"
    and agree: "\<And>p l. p \<in> set ps \<Longrightarrow> l \<in> set ls \<Longrightarrow> on_port p l \<Longrightarrow>
              statuses_agree (ls_status l) (po_status p) \<Longrightarrow> statuses_agree (ls_status (f l)) (po_status (g p))"
    and free: "\<And>p. p \<in> set ps \<Longrightarrow> po_listener p = None \<Longrightarrow> free_status (po_status p) \<Longrightarrow>
              free_status (po_status (g p))"
  shows "ports_ok (map g ps) (map f ls)"
proof -
  have on: "on_port (g p) (f l) = on_port p l" if "p \<in> set ps" for p l
    using f g [OF that] by (simp add: on_port_def)
  have keys: "map port_key (map g ps) = map port_key ps" using g by (simp add: port_key_def)
  have ids: "map ls_id (map f ls) = map ls_id ls" using f by simp
  have "port_ok (map f ls) (g p)" if p: "p \<in> set ps" for p
  proof (cases "po_listener p")
    case None
    with ports_okD(3) [OF ok p] free [OF p] g [OF p] show ?thesis by (simp add: port_ok_def)
  next
    case (Some rid)
    with ports_okD(3) [OF ok p] obtain l where l: "l \<in> set ls" "on_port p l"
      "statuses_agree (ls_status l) (po_status p)"
      by (auto simp: port_ok_def)
    from agree [OF p l] on [OF p] l Some g [OF p] show ?thesis by (auto simp: port_ok_def)
  qed
  moreover have "\<exists>q \<in> set (map g ps). on_port q (f l)" if "l \<in> set ls" for l
    using ports_okD(4) [OF ok that] on by auto
  moreover have "distinct (map port_key (map g ps)) \<and> distinct (map ls_id (map f ls))"
    unfolding keys ids using ok by (simp add: ports_ok_def)
  ultimately show ?thesis unfolding ports_ok_def by auto
qed

lemma statuses_agree_simps [simp]:
  "statuses_agree ''disabled'' ''blocked''" "statuses_agree ''disabled'' ''cooldown''"
  "statuses_agree ''reserved'' ''reserved''" "\<not> statuses_agree st ''available''"
  "port_status_for st = Some ps \<Longrightarrow> statuses_agree st ps"
  by (auto simp: statuses_agree_def port_status_for_def split: if_splits)

lemma statuses_agree_activate:
  "statuses_agree st ps \<Longrightarrow> statuses_agree (if st = ''reserved'' then ''active'' else st)
     (if ps = ''reserved'' then ''active'' else ps)"
  by (auto simp: statuses_agree_def)

lemma statuses_agree_idle:
  "statuses_agree st ps \<Longrightarrow> ps \<notin> {''reserved'', ''active'', ''draining''} \<Longrightarrow> st = ''disabled''"
  by (auto simp: statuses_agree_def)

section \<open>The operations\<close>

definition inventory_ok :: "database \<Rightarrow> bool" where
  "inventory_ok db \<longleftrightarrow> environments_ok db \<and> ports_ok (t_ports db) (t_listeners db)"

lemma port_at_unique:
  assumes "inventory_ok db" and "p \<in> set (t_ports db)" and "q \<in> set (t_ports db)"
    and "port_at db environment port p" and "port_at db environment port q"
  shows "p = q"
proof -
  have "po_environment p = po_environment q"
    using assms by (auto simp: port_at_def inventory_ok_def intro: in_environment_unique)
  with assms show ?thesis
    by (auto simp: port_at_def port_key_def inventory_ok_def intro: ports_okD(1))
qed

lemma inventory_withTx:
  "inventory_ok db \<Longrightarrow> (\<And>x db'. body db = Inr (x, db') \<Longrightarrow> inventory_ok db') \<Longrightarrow>
   inventory_ok (snd (withTx c body db))"
  by (rule withTx_invariant)

lemma inventory_if:
  "(b \<Longrightarrow> inventory_ok (snd x)) \<Longrightarrow> (\<not> b \<Longrightarrow> inventory_ok (snd y)) \<Longrightarrow>
   inventory_ok (snd (if b then x else y))"
  by simp

lemma inventory_option:
  "inventory_ok (snd x) \<Longrightarrow> (\<And>v. inventory_ok (snd (y v))) \<Longrightarrow>
   inventory_ok (snd (case m of None \<Rightarrow> x | Some v \<Rightarrow> y v))"
  by (simp split: option.split)

lemma inventory_audit [simp]: "inventory_ok (with_audit a n db) = inventory_ok db"
  by (simp add: inventory_ok_def environments_ok_def)

lemma update_listener_ports:
  assumes "inventory_ok db"
  shows "inventory_ok (snd (UpdateListener c actor e rid status v db))"
proof -
  have step: "inventory_ok (db\<lparr>t_listeners := update_where
          (\<lambda>l. in_environment db e (ls_environment l) \<and> ls_id l = rid \<and> ls_row_version l = v)
          (\<lambda>l. l\<lparr>ls_status := status, ls_row_version := ls_row_version l + 1\<rparr>) (t_listeners db),
        t_ports := update_where (\<lambda>p. po_listener p = Some rid)
          (\<lambda>p. p\<lparr>po_status := portStatus, po_updated_at := ce_now c\<rparr>) (t_ports db)\<rparr>)"
    if find: "find (\<lambda>l. in_environment db e (ls_environment l) \<and> ls_id l = rid \<and> ls_row_version l = v)
        (t_listeners db) = Some r0"
      and ps: "port_status_for status = Some portStatus" for r0 portStatus
  proof -
    from find_Some_iff_mem [OF find] have r0: "r0 \<in> set (t_listeners db)"
      "in_environment db e (ls_environment r0)" "ls_id r0 = rid" "ls_row_version r0 = v" by auto
    have ok: "ports_ok (t_ports db) (t_listeners db)" using assms by (simp add: inventory_ok_def)
    have only: "l = r0" if "l \<in> set (t_listeners db)" "ls_id l = rid" for l
      using ports_okD(2) [OF ok that(1) r0(1)] that r0 by simp
    have "ports_ok (map (\<lambda>p. if po_listener p = Some rid
           then p\<lparr>po_status := portStatus, po_updated_at := ce_now c\<rparr> else p) (t_ports db))
        (map (\<lambda>l. if in_environment db e (ls_environment l) \<and> ls_id l = rid \<and> ls_row_version l = v
           then l\<lparr>ls_status := status, ls_row_version := ls_row_version l + 1\<rparr> else l) (t_listeners db))"
    proof (rule ports_ok_map [OF ok])
      fix p l
      assume "l \<in> set (t_listeners db)" and on: "on_port p l"
        and agree: "statuses_agree (ls_status l) (po_status p)"
      with only [of l] r0 ps show "statuses_agree
          (ls_status (if in_environment db e (ls_environment l) \<and> ls_id l = rid \<and> ls_row_version l = v
             then l\<lparr>ls_status := status, ls_row_version := ls_row_version l + 1\<rparr> else l))
          (po_status (if po_listener p = Some rid
             then p\<lparr>po_status := portStatus, po_updated_at := ce_now c\<rparr> else p))"
        by (cases "ls_id l = rid") (auto simp: on_port_def)
    qed auto
    with assms show ?thesis by (simp add: inventory_ok_def environments_ok_def update_where_def)
  qed
  show ?thesis
  proof (cases "port_status_for status")
    case None
    with assms show ?thesis by (simp add: UpdateListener_def)
  next
    case (Some portStatus)
    show ?thesis
      unfolding UpdateListener_def Some option.case
      using assms by (intro inventory_if inventory_withTx)
        (auto elim!: tx_elims intro!: step [OF _ Some] simp: query_row_Inr update_returning_Some)
  qed
qed

lemma update_policies_ports:
  assumes "inventory_ok db"
  shows "inventory_ok (snd (UpdateListenerPolicies compile c actor e rid i db))"
proof -
  have step: "inventory_ok (db\<lparr>t_listeners := update_where P f (t_listeners db)\<rparr>)"
    if "\<And>l. ls_id (f l) = ls_id l \<and> ls_environment (f l) = ls_environment l
          \<and> ls_listen_port (f l) = ls_listen_port l \<and> ls_status (f l) = ls_status l" for P f
  proof -
    have "ports_ok (map id (t_ports db)) (map (\<lambda>l. if P l then f l else l) (t_listeners db))"
      using assms that by (intro ports_ok_map) (auto simp: inventory_ok_def)
    with assms show ?thesis by (simp add: inventory_ok_def environments_ok_def update_where_def)
  qed
  show ?thesis
    unfolding UpdateListenerPolicies_def
    using assms by (auto split: option.split intro!: inventory_withTx step elim!: tx_elims
        simp: query_row_Inr update_returning_Some)
qed

lemma activate_ports:
  assumes "inventory_ok db"
  shows "inventory_ok (snd (fst (ActivateConfiguration s c actor e rid expected db)))"
proof -
  have step: "inventory_ok (db\<lparr>t_configurations := rows,
        t_listeners := update_where (\<lambda>l. ls_environment l = eid)
          (\<lambda>l. l\<lparr>ls_configuration_version := Some rid,
                 ls_status := (if ls_status l = ''reserved'' then ''active'' else ls_status l)\<rparr>) (t_listeners db),
        t_ports := update_where (\<lambda>p. po_environment p = eid \<and> po_status p = ''reserved'')
          (\<lambda>p. p\<lparr>po_status := ''active'', po_updated_at := ce_now c\<rparr>) (t_ports db)\<rparr>)" for eid rows
  proof -
    have "ports_ok (map (\<lambda>p. if po_environment p = eid \<and> po_status p = ''reserved''
           then p\<lparr>po_status := ''active'', po_updated_at := ce_now c\<rparr> else p) (t_ports db))
        (map (\<lambda>l. if ls_environment l = eid then l\<lparr>ls_configuration_version := Some rid,
           ls_status := (if ls_status l = ''reserved'' then ''active'' else ls_status l)\<rparr> else l) (t_listeners db))"
      using assms by (intro ports_ok_map)
        (auto simp: inventory_ok_def on_port_def free_status_def dest: statuses_agree_activate)
    with assms show ?thesis by (simp add: inventory_ok_def environments_ok_def update_where_def)
  qed
  show ?thesis
    unfolding ActivateConfiguration_def Let_def fst_conv
    using assms by (auto intro!: inventory_withTx step elim!: tx_elims
        simp: query_row_Inr update_returning_Some)
qed

lemma ports_okI_map:
  "distinct (map port_key (map g ps)) \<Longrightarrow> distinct (map ls_id ls) \<Longrightarrow>
   (\<And>p. p \<in> set ps \<Longrightarrow> port_ok ls (g p)) \<Longrightarrow> (\<And>l. l \<in> set ls \<Longrightarrow> \<exists>p \<in> set ps. on_port (g p) l) \<Longrightarrow>
   ports_ok (map g ps) ls"
  by (auto simp: ports_ok_def)

lemma insert_listener_ports:
  assumes "inventory_ok db" and "insert_listener r db = Inr db1"
    and p0: "p0 \<in> set (t_ports db)" "po_environment p0 = ls_environment r"
      "po_listen_port p0 = ls_listen_port r" "po_status p0 = ''available''"
    and "ls_status r = ''reserved''"
  shows "inventory_ok (db1\<lparr>t_ports := update_where
     (\<lambda>p. po_environment p = ls_environment r \<and> po_listen_port p = ls_listen_port r)
     (\<lambda>p. p\<lparr>po_status := ''reserved'', po_listener := Some (ls_id r), po_updated_at := t\<rparr>) (t_ports db1)\<rparr>)"
proof -
  let ?ps = "t_ports db" and ?ls = "t_listeners db"
  let ?at = "\<lambda>p. po_environment p = ls_environment r \<and> po_listen_port p = ls_listen_port r"
  let ?g = "\<lambda>p. if ?at p then p\<lparr>po_status := ''reserved'', po_listener := Some (ls_id r), po_updated_at := t\<rparr> else p"
  have ok: "ports_ok ?ps ?ls" and env: "environments_ok db" using assms(1) by (simp_all add: inventory_ok_def)
  have db1: "db1 = db\<lparr>t_listeners := ?ls @ [r]\<rparr>" and fresh: "\<forall>q \<in> set ?ls. ls_id q \<noteq> ls_id r"
    using assms(2) by (auto simp: insert_listener_def exists_where_iff split: if_splits)
  have only: "p = p0" if "p \<in> set ?ps" "?at p" for p
    using ports_okD(1) [OF ok that(1) p0(1)] that p0 by (simp add: port_key_def)
  have empty: "po_listener p0 = None"
    using ports_okD(3) [OF ok p0(1)] p0(4) by (auto simp: port_ok_def split: option.splits)
  have keys: "map port_key (map ?g ?ps) = map port_key ?ps" by (simp add: port_key_def)
  have "port_ok (?ls @ [r]) (?g p)" if p: "p \<in> set ?ps" for p
  proof (cases "?at p")
    case True
    then show ?thesis using assms(7) by (auto simp: port_ok_def on_port_def)
  next
    case False
    then show ?thesis using ports_okD(3) [OF ok p] by (auto simp: port_ok_def split: option.splits)
  qed
  moreover have "\<exists>p \<in> set ?ps. on_port (?g p) l" if l: "l \<in> set (?ls @ [r])" for l
  proof (cases "l = r")
    case True
    then show ?thesis using p0 by (intro bexI [of _ p0]) (auto simp: on_port_def)
  next
    case False
    with l ports_okD(4) [OF ok] obtain p where p: "p \<in> set ?ps" "on_port p l" by auto
    then have "\<not> ?at p" using only empty by (auto simp: on_port_def)
    with p show ?thesis by (intro bexI [of _ p]) auto
  qed
  moreover have "distinct (map port_key (map ?g ?ps))"
    unfolding keys using ok by (simp add: ports_ok_def)
  moreover have "distinct (map ls_id (?ls @ [r]))" using ok fresh by (auto simp: ports_ok_def)
  ultimately have "ports_ok (map ?g ?ps) (?ls @ [r])" by (intro ports_okI_map)
  with env show ?thesis by (simp add: inventory_ok_def environments_ok_def update_where_def db1)
qed

lemma choose_port_free:
  assumes "choose_port db eid locked preferred = Some port"
  shows "\<exists>p \<in> set (t_ports db). po_environment p = eid \<and> po_listen_port p = port \<and> po_status p = ''available''"
proof (cases preferred)
  case None
  let ?free = "filter (\<lambda>p. po_listen_port p \<notin> locked)
      (filter (\<lambda>p. po_environment p = eid \<and> po_status p = ''available'') (t_ports db))"
  from None assms obtain others where "sort (map po_listen_port ?free) = port # others"
    by (auto simp: choose_port_def Let_def split: list.splits)
  then have "port \<in> set (sort (map po_listen_port ?free))" by (metis list.set_intros(1))
  then show ?thesis by auto
next
  case (Some q)
  with assms show ?thesis by (auto simp: choose_port_def Let_def dest!: find_Some_iff_mem)
qed

lemma allocate_ports:
  assumes "inventory_ok db"
  shows "inventory_ok (snd (AllocateListener compile parse_media locked c actor e i db))"
proof -
  have step: "inventory_ok (db1\<lparr>t_ports := update_where
      (\<lambda>p. po_environment p = eid \<and> po_listen_port p = port)
      (\<lambda>p. p\<lparr>po_status := ''reserved'', po_listener := Some rid, po_updated_at := ce_now c\<rparr>) (t_ports db1)\<rparr>)"
    if "choose_port db eid locked preferred = Some port" "insert_listener r db = Inr db1"
      "ls_environment r = eid" "ls_listen_port r = port" "ls_id r = rid" "ls_status r = ''reserved''"
    for eid preferred port r db1 rid
    using choose_port_free [OF that(1)] insert_listener_ports [OF assms that(2), of _ "ce_now c"] that(3-)
    by auto
  show ?thesis
    unfolding AllocateListener_def Let_def prod.case
    apply (intro inventory_option inventory_if inventory_withTx)
    apply (simp_all only: snd_conv assms)
    apply (clarify elim!: tx_elims)
    apply (simp only: query_row_Inr translated_Inr inventory_audit)
    apply (erule notE, rule step, assumption, assumption)
    apply simp_all
    done
qed

text \<open>Setting the status of one port.\<close>

lemma set_port_status_result:
  assumes "set_port_status c actor environment port status db = Inr (x, db')"
  shows "\<exists>p0 a n. p0 \<in> set (t_ports db) \<and> port_at db environment port p0
    \<and> (status = ''blocked'' \<or> po_status p0 \<notin> {''reserved'', ''active'', ''draining''})
    \<and> db' = with_audit a n (db\<lparr>t_ports := update_where (\<lambda>p. port_at db environment port p
          \<and> (status = ''blocked'' \<or> po_status p \<notin> {''reserved'', ''active'', ''draining''}))
        (\<lambda>p. p\<lparr>po_status := status, po_listener := (if status = ''available'' then None else po_listener p),
               po_updated_at := ce_now c\<rparr>) (t_ports db)\<rparr>)"
proof -
  from assms obtain p0 a n where p0: "find (\<lambda>p. port_at db environment port p
      \<and> (status = ''blocked'' \<or> po_status p \<notin> {''reserved'', ''active'', ''draining''})) (t_ports db) = Some p0"
    and db': "db' = with_audit a n (db\<lparr>t_ports := update_where (\<lambda>p. port_at db environment port p
          \<and> (status = ''blocked'' \<or> po_status p \<notin> {''reserved'', ''active'', ''draining''}))
        (\<lambda>p. p\<lparr>po_status := status, po_listener := (if status = ''available'' then None else po_listener p),
               po_updated_at := ce_now c\<rparr>) (t_ports db)\<rparr>)"
    unfolding set_port_status_def
    by (auto elim!: tx_elims simp: query_row_Inr update_returning_Some)
  from find_Some_iff_mem [OF p0] db' show ?thesis by blast
qed

text \<open>To \<open>cooldown\<close>, or to \<open>available\<close> for a port without a listener.\<close>

lemma set_idle_status_ports:
  assumes "inventory_ok db" and "set_port_status c actor environment port status db = Inr (x, db')"
    and "status = ''cooldown'' \<or> status = ''available''
      \<and> (\<forall>p \<in> set (t_ports db). port_at db environment port p \<longrightarrow> po_listener p = None)"
  shows "inventory_ok db'"
proof -
  let ?P = "\<lambda>p. port_at db environment port p \<and> (status = ''blocked'' \<or> po_status p \<notin> {''reserved'', ''active'', ''draining''})"
  let ?g = "\<lambda>p. if ?P p then p\<lparr>po_status := status,
      po_listener := (if status = ''available'' then None else po_listener p), po_updated_at := ce_now c\<rparr> else p"
  from set_port_status_result [OF assms(2)] obtain a n where
    db': "db' = with_audit a n (db\<lparr>t_ports := map ?g (t_ports db)\<rparr>)"
    unfolding update_where_def by blast
  have "ports_ok (map ?g (t_ports db)) (map id (t_listeners db))"
    using assms(1,3) by (intro ports_ok_map)
      (auto simp: inventory_ok_def free_status_def on_port_def dest: statuses_agree_idle)
  with assms(1) show ?thesis by (simp add: db' inventory_ok_def environments_ok_def)
qed

text \<open>To \<open>blocked\<close>, after the listener on the port has been disabled.\<close>

lemma disable_listener_result:
  assumes "disable_listener c environment actor rid db = Inr db1"
  shows "\<exists>a n. db1 = with_audit a n (db\<lparr>t_listeners := update_where
      (\<lambda>l. ls_id l = rid \<and> ls_status l \<noteq> ''disabled'')
      (\<lambda>l. l\<lparr>ls_status := ''disabled'', ls_row_version := ls_row_version l + 1\<rparr>) (t_listeners db)\<rparr>)"
proof (cases "exists_where (\<lambda>l. ls_id l = rid \<and> ls_status l \<noteq> ''disabled'') (t_listeners db)")
  case True
  with assms show ?thesis unfolding disable_listener_def by (auto elim!: audit_Inr)
next
  case False
  then have "update_where (\<lambda>l. ls_id l = rid \<and> ls_status l \<noteq> ''disabled'')
      (\<lambda>l. l\<lparr>ls_status := ''disabled'', ls_row_version := ls_row_version l + 1\<rparr>) (t_listeners db) = t_listeners db"
    by (intro update_where_none) (auto simp: exists_where_iff)
  moreover have "db1 = with_audit (t_audit db) (t_next_audit db) db"
    using False assms by (simp add: disable_listener_def with_audit_def)
  ultimately show ?thesis by (metis (no_types, lifting) database.surjective database.update_convs(6))
qed

lemma block_ports:
  assumes inv: "inventory_ok db" and p0: "p0 \<in> set (t_ports db)" "port_at db environment port p0"
    and ls: "t_listeners db1 = map f (t_listeners db)" and same: "t_ports db1 = t_ports db"
      "t_environments db1 = t_environments db"
    and f: "\<And>l. ls_id (f l) = ls_id l \<and> ls_environment (f l) = ls_environment l \<and> ls_listen_port (f l) = ls_listen_port l"
    and off: "\<And>l. po_listener p0 = Some (ls_id l) \<Longrightarrow> ls_status (f l) = ''disabled''"
    and on: "\<And>l. po_listener p0 \<noteq> Some (ls_id l) \<Longrightarrow> f l = l"
    and set: "set_port_status c actor environment port ''blocked'' db1 = Inr (x, db')"
  shows "inventory_ok db'"
proof -
  have at: "port_at db1 environment port = port_at db environment port"
    using same by (intro ext) (simp add: port_at_def in_environment_def)
  let ?g = "\<lambda>p. if port_at db environment port p
      then p\<lparr>po_status := ''blocked'', po_updated_at := ce_now c\<rparr> else p"
  from set_port_status_result [OF set] obtain a n where
    db': "db' = with_audit a n (db1\<lparr>t_ports := map ?g (t_ports db)\<rparr>)"
    unfolding update_where_def by (auto simp: at same cong: if_cong)
  have ok: "ports_ok (t_ports db) (t_listeners db)" using inv by (simp add: inventory_ok_def)
  have "ports_ok (map ?g (t_ports db)) (map f (t_listeners db))"
  proof (rule ports_ok_map [OF ok f])
    fix p l
    assume p: "p \<in> set (t_ports db)" and l: "l \<in> set (t_listeners db)" "on_port p l"
      and agree: "statuses_agree (ls_status l) (po_status p)"
    show "statuses_agree (ls_status (f l)) (po_status (?g p))"
    proof (cases "port_at db environment port p")
      case True
      then have "p = p0" using port_at_unique [OF inv p p0(1)] p0(2) by simp
      with True l off [of l] show ?thesis by (simp add: on_port_def)
    next
      case False
      then have "po_listener p0 \<noteq> Some (ls_id l)"
        using port_of_listener_unique [OF ok p p0(1), of "ls_id l"] l p0(2) by (auto simp: on_port_def)
      with False on agree show ?thesis by simp
    qed
  qed (auto simp: free_status_def)
  with inv ls show ?thesis by (simp add: db' inventory_ok_def environments_ok_def same)
qed

lemma release_ports:
  assumes inv: "inventory_ok db" and p0: "p0 \<in> set (t_ports db)" "port_at db environment port p0"
    "po_listener p0 = Some rid" and rel: "release_port c actor environment port rid db = Inr (x, db')"
  shows "inventory_ok db'"
proof -
  let ?ps = "t_ports db" and ?ls = "t_listeners db"
  let ?g = "\<lambda>p. if port_at db environment port p
      then p\<lparr>po_status := ''available'', po_listener := None, po_updated_at := ce_now c\<rparr> else p"
  let ?ls' = "delete_where (\<lambda>l. ls_id l = rid) ?ls"
  have ok: "ports_ok ?ps ?ls" using inv by (simp add: inventory_ok_def)
  from rel obtain a n where db': "db' = with_audit a n (db\<lparr>t_ports := map ?g ?ps, t_listeners := ?ls'\<rparr>)"
    unfolding release_port_def
    by (clarsimp elim!: tx_elims simp: query_row_Inr update_returning_Some update_where_def
        split: if_splits)
  have at: "port_at db environment port p \<longleftrightarrow> p = p0" if "p \<in> set ?ps" for p
    using port_at_unique [OF inv that p0(1)] p0(2) by auto
  have other: "po_listener p \<noteq> Some rid" if "p \<in> set ?ps" "p \<noteq> p0" for p
    using port_of_listener_unique [OF ok that(1) p0(1)] p0(3) that(2) by blast
  have keys: "map port_key (map ?g ?ps) = map port_key ?ps" by (simp add: port_key_def)
  have "ports_ok (map ?g ?ps) ?ls'"
  proof (rule ports_okI_map)
    show "distinct (map port_key (map ?g ?ps))" unfolding keys using ok by (simp add: ports_ok_def)
    show "distinct (map ls_id ?ls')"
      using ok by (auto simp: ports_ok_def delete_where_def intro: distinct_map_filter_keys)
  next
    fix p assume p: "p \<in> set ?ps"
    show "port_ok ?ls' (?g p)"
      using at [OF p] other [OF p] ports_okD(3) [OF ok p]
      by (auto simp: port_ok_def free_status_def set_delete_where on_port_def split: option.splits)
  next
    fix l assume "l \<in> set ?ls'"
    then have l: "l \<in> set ?ls" "ls_id l \<noteq> rid" by (auto simp: set_delete_where)
    from ports_okD(4) [OF ok l(1)] obtain p where p: "p \<in> set ?ps" "on_port p l" by blast
    with l(2) p0(3) at [OF p(1)] have "?g p = p" by (auto simp: on_port_def)
    with p have "on_port (?g p) l" by simp
    with p(1) show "\<exists>p \<in> set ?ps. on_port (?g p) l" by blast
  qed
  with inv show ?thesis by (simp add: db' inventory_ok_def environments_ok_def)
qed

lemma update_port_ports:
  assumes inv: "inventory_ok db"
  shows "inventory_ok (snd (UpdatePortStatus c actor e port status db))"
proof -
  have block: "inventory_ok db'"
    if find: "find (port_at db e port) (t_ports db) = Some p0"
      and dis: "(case po_listener p0 of None \<Rightarrow> Inr db | Some rid \<Rightarrow> disable_listener c e actor rid db) = Inr db1"
      and set: "set_port_status c actor e port ''blocked'' db1 = Inr (x, db')" for p0 db1 x db'
  proof (cases "po_listener p0")
    case None
    with dis have "db1 = db" by simp
    with None show ?thesis
      using block_ports [OF inv _ _ _ _ _ _ _ _ set, of p0 id] find_Some_iff_mem [OF find] by simp
  next
    case (Some rid)
    with dis have "disable_listener c e actor rid db = Inr db1" by simp
    from disable_listener_result [OF this] obtain a n where db1: "db1 = with_audit a n
        (db\<lparr>t_listeners := update_where (\<lambda>l. ls_id l = rid \<and> ls_status l \<noteq> ''disabled'')
          (\<lambda>l. l\<lparr>ls_status := ''disabled'', ls_row_version := ls_row_version l + 1\<rparr>) (t_listeners db)\<rparr>)"
      by blast
    show ?thesis
      by (rule block_ports [OF inv _ _ _ _ _ _ _ _ set, of p0 "\<lambda>l. if ls_id l = rid \<and> ls_status l \<noteq> ''disabled''
            then l\<lparr>ls_status := ''disabled'', ls_row_version := ls_row_version l + 1\<rparr> else l"])
        (use find_Some_iff_mem [OF find] Some in \<open>auto simp: db1 update_where_def\<close>)
  qed
  have idle: "inventory_ok db'" if "find (port_at db e port) (t_ports db) = Some p0" "po_listener p0 = None"
      "set_port_status c actor e port ''available'' db = Inr (x, db')" for p0 x db'
    using set_idle_status_ports [OF inv that(3)] find_Some_iff_mem [OF that(1)] port_at_unique [OF inv] that(2)
    by metis
  have release: "inventory_ok db'" if "find (port_at db e port) (t_ports db) = Some p0"
      "po_listener p0 = Some rid" "release_port c actor e port rid db = Inr (x, db')" for p0 rid x db'
    using release_ports [OF inv _ _ that(2,3)] find_Some_iff_mem [OF that(1)] by blast
  have cool: "inventory_ok db'" if "set_port_status c actor e port ''cooldown'' db = Inr (x, db')" for x db'
    using set_idle_status_ports [OF inv that] by simp
  show ?thesis
    unfolding UpdatePortStatus_def
    by (intro inventory_if inventory_withTx)
      (auto simp: inv query_row_Inr elim!: bind_okE split: if_splits option.splits
        intro: block idle release cool)
qed

lemma same_ports_inventory: "touches a False g k db db' \<Longrightarrow> inventory_ok db \<Longrightarrow> inventory_ok db'"
  by (simp add: touches_def same_ports_def inventory_ok_def environments_ok_def)

lemma step_inventory: "store_step s lib db db' \<Longrightarrow> inventory_ok db \<Longrightarrow> inventory_ok db'"
  by (elim store_step.cases store_call.cases)
    (auto intro: update_port_ports allocate_ports update_listener_ports update_policies_ports
      activate_ports same_ports_inventory [OF catalog_ops(1)] same_ports_inventory [OF catalog_ops(2)]
      same_ports_inventory [OF catalog_ops(3)] same_ports_inventory [OF catalog_ops(4)]
      same_ports_inventory [OF upstream_ops(1)] same_ports_inventory [OF upstream_ops(2)]
      same_ports_inventory [OF access_ops(1)] same_ports_inventory [OF access_ops(2)]
      same_ports_inventory [OF access_ops(3)] same_ports_inventory [OF access_ops(4)]
      same_ports_inventory [OF consumer_ops(1)] same_ports_inventory [OF consumer_ops(2)]
      same_ports_inventory [OF key_ops(1)] same_ports_inventory [OF key_ops(2)]
      same_ports_inventory [OF key_ops(3)] same_ports_inventory [OF configuration_ops(1)]
      same_ports_inventory [OF configuration_ops(2)] same_ports_inventory [OF configuration_ops(3)]
      same_ports_inventory [OF configuration_ops(4)])

section \<open>Properties\<close>

text \<open>
  Claim C21: after any operations on the store, no two listeners hold the same port, and each
  listener holds the inventory row of its port with the status that belongs to its own.
\<close>

theorem listeners_exclusive:
  assumes "store_run s lib db db'" and "inventory_ok db"
    and "l \<in> set (t_listeners db')" and "l' \<in> set (t_listeners db')"
    and "ls_environment l = ls_environment l'" and "ls_listen_port l = ls_listen_port l'"
  shows "l = l' \<and> (\<exists>p \<in> set (t_ports db'). po_environment p = ls_environment l
    \<and> po_listen_port p = ls_listen_port l \<and> po_listener p = Some (ls_id l)
    \<and> statuses_agree (ls_status l) (po_status p))"
proof -
  have "inventory_ok db'" using assms(1,2) step_inventory by (rule store_machine.run_invariant)
  then have ok: "ports_ok (t_ports db') (t_listeners db')" by (simp add: inventory_ok_def)
  from ports_okD(4) [OF ok assms(3)] obtain p where p: "p \<in> set (t_ports db')" "on_port p l" by blast
  have "l = l'" by (rule listeners_on_port [OF ok assms(3-6)])
  with p holder [OF ok p(1) assms(3)] show ?thesis by (auto simp: on_port_def)
qed

lemma allocate_Inr:
  assumes "AllocateListener compile parse_media locked c actor e i db = (Inr v, db')"
  obtains eid port db1 r a n where "environment_id db e = Some eid"
    and "choose_port db eid locked (ai_PreferredPort i) = Some port"
    and "insert_listener r db = Inr db1" and "ls_environment r = eid" and "ls_listen_port r = port"
    and "ls_status r = ''reserved''" and "L_row v = r" and "ls_id r = newID ''lis'' (ce_id_bytes c)"
    and "1 \<le> ls_circuit_failure_threshold r" and "1000 \<le> ls_circuit_open_ms r"
    and "db' = with_audit a n (db1\<lparr>t_ports := update_where
      (\<lambda>p. po_environment p = eid \<and> po_listen_port p = port)
      (\<lambda>p. p\<lparr>po_status := ''reserved'', po_listener := Some (ls_id r), po_updated_at := ce_now c\<rparr>) (t_ports db1)\<rparr>)"
proof -
  from assms show thesis
    unfolding AllocateListener_def Let_def prod.case
    apply (elim call_elims)
    apply (erule audited_Inr)
    apply (simp only: query_row_Inr translated_Inr)
    apply (rule that, assumption, assumption, assumption)
    apply (simp_all add: listener_of_def limits_ok_def split: if_splits)
    done
qed

text \<open>
  Claim C35: an allocated listener gets a port that was available, the preferred one if it was
  named and otherwise the lowest that no concurrent transaction has locked; the port is then
  reserved for it.
\<close>

theorem allocate_listener_port:
  assumes "AllocateListener compile parse_media locked c actor e i db = (Inr v, db')"
    and "inventory_ok db"
  shows "\<exists>p \<in> set (t_ports db). in_environment db e (po_environment p) \<and> po_status p = ''available''
    \<and> po_listener p = None \<and> po_listen_port p = ls_listen_port (L_row v)
    \<and> (\<forall>port. ai_PreferredPort i = Some port \<longrightarrow> ls_listen_port (L_row v) = port)
    \<and> (ai_PreferredPort i = None \<longrightarrow> (\<forall>q \<in> set (t_ports db). po_environment q = po_environment p
         \<and> po_status q = ''available'' \<and> po_listen_port q \<notin> locked \<longrightarrow> po_listen_port p \<le> po_listen_port q))
    \<and> p\<lparr>po_status := ''reserved'', po_listener := Some (ls_id (L_row v)), po_updated_at := ce_now c\<rparr>
        \<in> set (t_ports db')"
proof -
  from assms(1) obtain eid port db1 r a n where
    env: "environment_id db e = Some eid" and
    ch: "choose_port db eid locked (ai_PreferredPort i) = Some port" and
    ins: "insert_listener r db = Inr db1" and r: "ls_listen_port r = port" "L_row v = r" and
    db': "db' = with_audit a n (db1\<lparr>t_ports := update_where
      (\<lambda>p. po_environment p = eid \<and> po_listen_port p = port)
      (\<lambda>p. p\<lparr>po_status := ''reserved'', po_listener := Some (ls_id r), po_updated_at := ce_now c\<rparr>) (t_ports db1)\<rparr>)"
    by (rule allocate_Inr)
  from choose_port_free [OF ch] obtain p where p: "p \<in> set (t_ports db)" "po_environment p = eid"
    "po_listen_port p = port" "po_status p = ''available''" by blast
  have "po_listener p = None"
    using assms(2) ports_okD(3) [of "t_ports db" "t_listeners db" p] p
    by (auto simp: inventory_ok_def port_ok_def split: option.splits)
  moreover have "in_environment db e eid"
    using env assms(2) environment_id_iff by (auto simp: inventory_ok_def)
  moreover have "port = q" if "ai_PreferredPort i = Some q" for q
    using ch that by (auto simp: choose_port_def Let_def dest!: find_Some_iff_mem)
  moreover have "port \<le> po_listen_port q" if "ai_PreferredPort i = None" "q \<in> set (t_ports db)"
    "po_environment q = eid" "po_status q = ''available''" "po_listen_port q \<notin> locked" for q
  proof -
    let ?free = "map po_listen_port (filter (\<lambda>p. po_listen_port p \<notin> locked)
      (filter (\<lambda>p. po_environment p = eid \<and> po_status p = ''available'') (t_ports db)))"
    note none = that(1)
    obtain others where o: "sort ?free = port # others"
      using ch by (auto simp: choose_port_def Let_def none split: list.splits)
    have "po_listen_port q \<in> set (sort ?free)" using that by auto
    with o sorted_sort [of ?free] show ?thesis by auto
  qed
  moreover have "p\<lparr>po_status := ''reserved'', po_listener := Some (ls_id r), po_updated_at := ce_now c\<rparr>
      \<in> set (t_ports db')"
    using p insert_listener_Inr [OF ins] by (auto simp: db' set_update_where)
  ultimately show ?thesis using p r by (intro bexI [of _ p]) auto
qed

text \<open>
  Claim C40: blocking a port does not last: a later update of the disabled listener that still
  holds the port takes the port out of the blocked status, without the port being released first.
\<close>

theorem blocked_port_reopened:
  assumes "inventory_ok db" and "p \<in> set (t_ports db)" and "po_status p = ''blocked''"
    and "po_listener p = Some rid" and "l \<in> set (t_listeners db)" and "ls_id l = rid"
    and "in_environment db e (ls_environment l)" and "1 \<le> ls_row_version l"
    and "ce_begin_ok c" and "ce_commit_ok c"
  shows "\<exists>v db'. UpdateListener c actor e rid ''active'' (ls_row_version l) db = (Inr v, db')
    \<and> (\<exists>q \<in> set (t_ports db'). port_key q = port_key p \<and> po_status q = ''active'')"
proof -
  have ok: "ports_ok (t_ports db) (t_listeners db)" and env: "environments_ok db"
    using assms(1) by (simp_all add: inventory_ok_def)
  have only: "k = l" if "k \<in> set (t_listeners db)" "ls_id k = rid" for k
    using ports_okD(2) [OF ok that(1) assms(5)] that assms(6) by simp
  let ?P = "\<lambda>k. in_environment db e (ls_environment k) \<and> ls_id k = rid \<and> ls_row_version k = ls_row_version l"
  obtain k where find: "find ?P (t_listeners db) = Some k"
    using assms(5-7) by (cases "find ?P (t_listeners db)") (auto simp: find_None_iff_mem)
  then have "k = l" using only find_Some_iff_mem [OF find] by blast
  have "\<not> listener_clash (l\<lparr>ls_status := ''active'', ls_row_version := ls_row_version l + 1\<rparr>) db"
  proof
    assume "listener_clash (l\<lparr>ls_status := ''active'', ls_row_version := ls_row_version l + 1\<rparr>) db"
    then obtain q where q: "q \<in> set (t_listeners db)" "ls_id q \<noteq> ls_id l"
      "ls_environment q = ls_environment l" "ls_listen_port q = ls_listen_port l"
      by (auto simp: listener_clash_def exists_where_iff)
    from listeners_on_port [OF ok q(1) assms(5)] q show False by simp
  qed
  moreover obtain eid where "environment_id db e = Some eid"
    using assms(7) env environment_id_iff by blast
  ultimately obtain v db' where out: "UpdateListener c actor e rid ''active'' (ls_row_version l) db = (Inr v, db')"
    "t_ports db' = update_where (\<lambda>q. po_listener q = Some rid)
       (\<lambda>q. q\<lparr>po_status := ''active'', po_updated_at := ce_now c\<rparr>) (t_ports db)"
    using assms(6-) find \<open>k = l\<close>
    by (auto simp: UpdateListener_def port_status_for_def withTx_def query_row_def update_returning_def
        audited_def audit_def)
  have "p\<lparr>po_status := ''active'', po_updated_at := ce_now c\<rparr> \<in> set (t_ports db')"
    using assms(2,4) by (auto simp: out(2) set_update_where)
  then have "\<exists>q \<in> set (t_ports db'). port_key q = port_key p \<and> po_status q = ''active''"
    by (rule bexI [rotated]) (simp add: port_key_def)
  with out(1) show ?thesis by blast
qed

section \<open>Witnesses\<close>

lemmas port_defs = inventory_ok_def environments_ok_def ports_ok_def port_ok_def port_key_def on_port_def
  free_status_def free_port_def

lemma free_ports:
  assumes "distinct a" and "distinct b" and "distinct d"
  shows "ports_ok (map (free_port now 1) a @ map (free_port now 2) b @ map (free_port now 3) d) []"
proof -
  have "inj_on (\<lambda>port. (eid, port)) A" for eid :: int and A :: "int set" by (simp add: inj_on_def)
  with assms show ?thesis
    by (auto simp: ports_ok_def port_ok_def port_key_def free_port_def free_status_def distinct_map comp_def)
qed

lemma initial_inventory: "inventory_ok (initial_database now)"
  unfolding inventory_ok_def initial_database_def database.simps
  by (intro conjI free_ports distinct_upto) (simp add: environments_ok_def)

lemma example_inventory: "inventory_ok example_database" "inventory_ok example_allocated"
  by (simp_all add: port_defs example_database_def example_allocated_def example_listener_row_def)

theorem listeners_exclusive_witness:
  "\<exists>p \<in> set (t_ports example_allocated). po_environment p = 1 \<and> po_listen_port p = 4100
     \<and> po_listener p = Some (ls_id example_listener_row) \<and> statuses_agree ''reserved'' (po_status p)"
proof -
  let ?lib = "\<lparr>lib_host = \<lambda>_. [], lib_hmac = \<lambda>_ _. [], lib_compile = \<lambda>_. None, lib_parse_media = Some\<rparr>"
  have "store_step example_store ?lib example_database example_allocated"
    using store_call.allocate_listener [of example_store ?lib "''development''" example_database "{}"
        example_context "''alice''" example_allocation, THEN store_step.call]
    by (simp add: example_allocate)
  with store_run.start have run: "store_run example_store ?lib example_database example_allocated"
    by (rule store_run.step)
  have "example_listener_row \<in> set (t_listeners example_allocated)" by (simp add: example_allocated_def)
  from listeners_exclusive [OF run example_inventory(1) this this] show ?thesis
    by (simp add: example_listener_row_def)
qed

theorem allocate_listener_port_witness:
  "(\<exists>p \<in> set (t_ports example_database). po_listen_port p = 4100 \<and> po_status p = ''available'')
     \<and> (\<exists>q \<in> set (t_ports example_allocated). po_listen_port q = 4100 \<and> po_status q = ''reserved''
           \<and> po_listener q = Some (ls_id example_listener_row))"
proof -
  from allocate_listener_port [OF example_allocate example_inventory(1)] obtain p where
    p: "p \<in> set (t_ports example_database)" "po_status p = ''available''"
      "po_listen_port p = ls_listen_port (L_row (listener_of ''development'' example_listener_row))"
    and q: "p\<lparr>po_status := ''reserved'', po_listener := Some (ls_id (L_row (listener_of ''development'' example_listener_row))),
      po_updated_at := ce_now example_context\<rparr> \<in> set (t_ports example_allocated)" by blast
  have port: "po_listen_port p = 4100" using p(3) by (simp add: listener_of_def example_listener_row_def)
  show ?thesis
    by (intro conjI bexI [OF _ p(1)] bexI [OF _ q]) (simp_all add: port p(2) listener_of_def)
qed

text \<open>The allocated port after it has been blocked, which disables its listener.\<close>

definition example_blocked :: database where
  "example_blocked = snd (UpdatePortStatus example_context ''bob'' ''development'' 4100 ''blocked'' example_allocated)"

lemma example_blocked_tables:
  "t_environments example_blocked = [\<lparr>en_id = 1, en_name = ''development''\<rparr>]"
  "t_ports example_blocked = [free_port 0 1 4101, \<lparr>po_environment = 1, po_listen_port = 4100,
     po_status = ''blocked'', po_listener = Some (ls_id example_listener_row), po_updated_at = 100\<rparr>]"
  "t_listeners example_blocked = [example_listener_row\<lparr>ls_status := ''disabled'', ls_row_version := 2\<rparr>]"
  by (simp_all add: example_blocked_def UpdatePortStatus_def withTx_def example_context_def query_row_def
      example_allocated_def example_database_def free_port_def port_at_def in_environment_def
      disable_listener_def exists_where_def example_listener_row_def audit_def environment_id_def
      set_port_status_def update_returning_def audited_def)

theorem blocked_port_reopened_witness:
  "\<exists>v db'. UpdateListener example_context ''carol'' ''development'' (ls_id example_listener_row) ''active'' 2
       example_blocked = (Inr v, db')
     \<and> (\<exists>q \<in> set (t_ports db'). port_key q = (1, 4100) \<and> po_status q = ''active'')"
proof -
  have "inventory_ok example_blocked"
    using update_port_ports [OF example_inventory(2)] by (simp add: example_blocked_def)
  from blocked_port_reopened [OF this, of "t_ports example_blocked ! 1" "ls_id example_listener_row"
      "t_listeners example_blocked ! 0" "''development''" example_context "''carol''"]
  show ?thesis
    by (simp add: example_blocked_tables example_context_def example_listener_row_def in_environment_def
        port_key_def)
qed

end
