(* ===== verification/Config_Lifecycle.thy ===== *)
theory Config_Lifecycle
  imports Store_Initial
begin

text \<open>
  What the store promises of configurations, as an abstract machine: a configuration is drafted,
  validated, approved by others than its author, and activated; activation and rollback supersede
  the active configuration of the environment. The store refines this machine, and the properties
  of configurations are proved on it.
\<close>

section \<open>The abstract machine\<close>

record life =
  lf_environment :: int
  lf_status :: string
  lf_author :: string
  lf_approvers :: "string set"
  lf_content :: raw_snapshot

type_synonym lifecycle = "int \<Rightarrow> life option"

definition superseding :: "int \<Rightarrow> life \<Rightarrow> life" where
  "superseding eid l = (if lf_environment l = eid \<and> lf_status l = ''active''
     then l\<lparr>lf_status := ''superseded''\<rparr> else l)"

text \<open>The parameter is the number of approvals an activation needs.\<close>

inductive life_step :: "int \<Rightarrow> lifecycle \<Rightarrow> lifecycle \<Rightarrow> bool" for n where
  draft: "m i = None \<Longrightarrow>
     life_step n m (m(i \<mapsto> \<lparr>lf_environment = eid, lf_status = ''draft'', lf_author = author,
       lf_approvers = {}, lf_content = content\<rparr>))"
| validate: "m i = Some l \<Longrightarrow> lf_status l = ''draft'' \<Longrightarrow>
     life_step n m (m(i \<mapsto> l\<lparr>lf_status := ''validated''\<rparr>))"
| approve: "m i = Some l \<Longrightarrow> lf_status l = ''validated'' \<Longrightarrow> a \<noteq> lf_author l \<Longrightarrow> a \<noteq> [] \<Longrightarrow>
     life_step n m (m(i \<mapsto> l\<lparr>lf_approvers := insert a (lf_approvers l)\<rparr>))"
| activate: "m i = Some l \<Longrightarrow> lf_status l = ''validated'' \<Longrightarrow> n \<le> int (card (lf_approvers l)) \<Longrightarrow>
     life_step n m ((\<lambda>j. map_option (superseding (lf_environment l)) (m j))(i \<mapsto> l\<lparr>lf_status := ''active''\<rparr>))"
| rollback: "m i = Some l \<Longrightarrow> lf_status l \<in> {''active'', ''superseded''} \<Longrightarrow> m j = None \<Longrightarrow>
     life_step n m ((\<lambda>j. map_option (superseding (lf_environment l)) (m j))
       (j \<mapsto> \<lparr>lf_environment = lf_environment l, lf_status = ''active'', lf_author = author,
              lf_approvers = {}, lf_content = lf_content l\<rparr>))"

inductive life_run :: "int \<Rightarrow> lifecycle \<Rightarrow> lifecycle \<Rightarrow> bool" for n where
  life_start: "life_run n m m"
| life_next: "life_run n m m1 \<Longrightarrow> life_step n m1 m2 \<Longrightarrow> life_run n m m2"

interpretation life_machine: machine "life_step n" "life_run n" for n :: int
proof unfold_locales
  fix m m' :: lifecycle and P
  assume "life_run n m m'" and "P m" and "\<And>t u. P t \<Longrightarrow> life_step n t u \<Longrightarrow> P u"
  then show "P m'" by (induction rule: life_run.induct) auto
qed (auto intro: life_run.intros)

lemma superseding_simps [simp]:
  "lf_environment (superseding eid l) = lf_environment l" "lf_author (superseding eid l) = lf_author l"
  "lf_approvers (superseding eid l) = lf_approvers l" "lf_content (superseding eid l) = lf_content l"
  "lf_status (superseding eid l) = (if lf_environment l = eid \<and> lf_status l = ''active''
     then ''superseded'' else lf_status l)"
  by (auto simp: superseding_def)

text \<open>Exactly one active configuration in each environment of \<open>E\<close>.\<close>

definition live :: "lifecycle \<Rightarrow> int \<Rightarrow> int \<Rightarrow> bool" where
  "live m eid i \<longleftrightarrow> (\<exists>l. m i = Some l \<and> lf_environment l = eid \<and> lf_status l = ''active'')"

lemma replaced_unique:
  "(\<And>eid j. Q eid j \<longleftrightarrow> (if eid = e0 then j = i else P eid j)) \<Longrightarrow> \<forall>eid \<in> E. \<exists>!j. P eid j \<Longrightarrow>
   \<forall>eid \<in> E. \<exists>!j. Q eid j"
  by (metis (no_types))

lemma live_step:
  assumes "life_step n m m'" and "\<forall>eid \<in> E. \<exists>!i. live m eid i"
  shows "\<forall>eid \<in> E. \<exists>!i. live m' eid i"
  using assms
proof (induction rule: life_step.induct)
  case (draft m i eid author content)
  then have "live (m(i \<mapsto> \<lparr>lf_environment = eid, lf_status = ''draft'', lf_author = author,
       lf_approvers = {}, lf_content = content\<rparr>)) = live m"
    by (intro ext) (auto simp: live_def)
  with draft show ?case by (simp only: simp_thms)
next
  case (validate m i l)
  then have "live (m(i \<mapsto> l\<lparr>lf_status := ''validated''\<rparr>)) = live m"
    by (intro ext) (auto simp: live_def)
  with validate show ?case by (simp only: simp_thms)
next
  case (approve m i l a)
  then have "live (m(i \<mapsto> l\<lparr>lf_approvers := insert a (lf_approvers l)\<rparr>)) = live m"
    by (intro ext) (auto simp: live_def)
  with approve show ?case by (simp only: simp_thms)
next
  case (activate m i l)
  have "live ((\<lambda>j. map_option (superseding (lf_environment l)) (m j))(i \<mapsto> l\<lparr>lf_status := ''active''\<rparr>)) eid j
      \<longleftrightarrow> (if eid = lf_environment l then j = i else live m eid j)" for eid j
    using activate.hyps by (auto simp: live_def split: if_splits)
  then show ?case using activate.prems by (rule replaced_unique)
next
  case (rollback m i l j author)
  have "live ((\<lambda>j. map_option (superseding (lf_environment l)) (m j))
       (j \<mapsto> \<lparr>lf_environment = lf_environment l, lf_status = ''active'', lf_author = author,
              lf_approvers = {}, lf_content = lf_content l\<rparr>)) eid k
      \<longleftrightarrow> (if eid = lf_environment l then k = j else live m eid k)" for eid k
    using rollback.hyps by (auto simp: live_def split: if_splits)
  then show ?case using rollback.prems by (rule replaced_unique)
qed

text \<open>
  Content that went live was approved by \<open>n\<close> others than its author, unless it is one of the
  contents in \<open>T\<close> that were live from the start.
\<close>

definition vetted :: "int \<Rightarrow> lifecycle \<Rightarrow> raw_snapshot \<Rightarrow> bool" where
  "vetted n m content \<longleftrightarrow> (\<exists>i l. m i = Some l \<and> lf_content l = content
     \<and> n \<le> int (card (lf_approvers l)) \<and> lf_author l \<notin> lf_approvers l)"

definition all_vetted :: "int \<Rightarrow> raw_snapshot set \<Rightarrow> lifecycle \<Rightarrow> bool" where
  "all_vetted n T m \<longleftrightarrow> (\<forall>i l. m i = Some l \<longrightarrow> finite (lf_approvers l) \<and> lf_author l \<notin> lf_approvers l
     \<and> (lf_status l \<in> {''active'', ''superseded''} \<longrightarrow> lf_content l \<in> T \<or> vetted n m (lf_content l)))"

lemma vetted_mono:
  assumes "vetted n m content"
    and "\<And>i l. m i = Some l \<Longrightarrow> \<exists>l'. m' i = Some l' \<and> lf_content l' = lf_content l \<and> lf_author l' = lf_author l
      \<and> finite (lf_approvers l') \<and> lf_approvers l \<subseteq> lf_approvers l' \<and> lf_author l' \<notin> lf_approvers l'"
  shows "vetted n m' content"
proof -
  from assms(1) obtain i l where l: "m i = Some l" "lf_content l = content"
    "n \<le> int (card (lf_approvers l))" by (auto simp: vetted_def)
  from assms(2) [OF l(1)] obtain l' where l': "m' i = Some l'" "lf_content l' = lf_content l"
    "finite (lf_approvers l')" "lf_approvers l \<subseteq> lf_approvers l'" "lf_author l' \<notin> lf_approvers l'" by blast
  then have "card (lf_approvers l) \<le> card (lf_approvers l')" by (intro card_mono)
  with l l' show ?thesis unfolding vetted_def by (intro exI [of _ i] exI [of _ l']) simp
qed

lemma vetted_step:
  assumes "life_step n m m'" and "all_vetted n T m"
  shows "all_vetted n T m'"
  using assms
proof (induction rule: life_step.induct)
  case (draft m i eid author content)
  let ?m' = "m(i \<mapsto> \<lparr>lf_environment = eid, lf_status = ''draft'', lf_author = author,
       lf_approvers = {}, lf_content = content\<rparr>)"
  have "vetted n ?m' x" if "vetted n m x" for x
    using that draft by (elim vetted_mono) (auto simp: all_vetted_def)
  with draft show ?case unfolding all_vetted_def by (auto split: if_splits)
next
  case (validate m i l)
  have "vetted n (m(i \<mapsto> l\<lparr>lf_status := ''validated''\<rparr>)) x" if "vetted n m x" for x
    using that validate by (elim vetted_mono) (auto simp: all_vetted_def)
  with validate show ?case unfolding all_vetted_def by (auto split: if_splits)
next
  case (approve m i l a)
  have "vetted n (m(i \<mapsto> l\<lparr>lf_approvers := insert a (lf_approvers l)\<rparr>)) x" if "vetted n m x" for x
    using that approve by (elim vetted_mono) (auto simp: all_vetted_def)
  with approve show ?case unfolding all_vetted_def by (auto split: if_splits)
next
  case (activate m i l)
  let ?m' = "(\<lambda>j. map_option (superseding (lf_environment l)) (m j))(i \<mapsto> l\<lparr>lf_status := ''active''\<rparr>)"
  have "vetted n ?m' x" if "vetted n m x" for x
    using that activate by (elim vetted_mono) (auto simp: all_vetted_def)
  moreover have "vetted n ?m' (lf_content l)"
    using activate unfolding vetted_def all_vetted_def by (intro exI [of _ i]) auto
  ultimately show ?case using activate unfolding all_vetted_def by (auto split: if_splits; blast)
next
  case (rollback m i l j author)
  let ?m' = "(\<lambda>j. map_option (superseding (lf_environment l)) (m j))
       (j \<mapsto> \<lparr>lf_environment = lf_environment l, lf_status = ''active'', lf_author = author,
              lf_approvers = {}, lf_content = lf_content l\<rparr>)"
  have "vetted n ?m' x" if "vetted n m x" for x
    using that rollback by (elim vetted_mono) (auto simp: all_vetted_def)
  with rollback show ?case unfolding all_vetted_def by (auto split: if_splits; blast)
qed

text \<open>What is written stays: a configuration only moves forward.\<close>

definition status_rank :: "string \<Rightarrow> nat" where
  "status_rank st = (if st = ''draft'' then 0 else if st = ''validated'' then 1
     else if st = ''active'' then 2 else 3)"

definition carries :: "lifecycle \<Rightarrow> lifecycle \<Rightarrow> bool" where
  "carries m m' \<longleftrightarrow> (\<forall>i l. m i = Some l \<longrightarrow> (\<exists>l'. m' i = Some l' \<and> lf_content l' = lf_content l
     \<and> lf_author l' = lf_author l \<and> lf_environment l' = lf_environment l
     \<and> lf_approvers l \<subseteq> lf_approvers l' \<and> status_rank (lf_status l) \<le> status_rank (lf_status l')
     \<and> (status_rank (lf_status l) > 1 \<longrightarrow> lf_approvers l' = lf_approvers l)))"

lemma carries_refl: "carries m m"
  by (auto simp: carries_def)

lemma carries_trans:
  assumes "carries m1 m2" and "carries m2 m3"
  shows "carries m1 m3"
  unfolding carries_def
proof (intro allI impI)
  fix i l1 assume "m1 i = Some l1"
  from assms(1) [unfolded carries_def, rule_format, OF this] obtain l2 where m2: "m2 i = Some l2" and
    l2: "lf_content l2 = lf_content l1" "lf_author l2 = lf_author l1" "lf_environment l2 = lf_environment l1"
      "lf_approvers l1 \<subseteq> lf_approvers l2" "status_rank (lf_status l1) \<le> status_rank (lf_status l2)"
      "status_rank (lf_status l1) > 1 \<longrightarrow> lf_approvers l2 = lf_approvers l1" by blast
  from assms(2) [unfolded carries_def, rule_format, OF m2] obtain l3 where "m3 i = Some l3" and
    "lf_content l3 = lf_content l2" "lf_author l3 = lf_author l2" "lf_environment l3 = lf_environment l2"
      "lf_approvers l2 \<subseteq> lf_approvers l3" "status_rank (lf_status l2) \<le> status_rank (lf_status l3)"
      "status_rank (lf_status l2) > 1 \<longrightarrow> lf_approvers l3 = lf_approvers l2" by blast
  with l2 show "\<exists>l'. m3 i = Some l' \<and> lf_content l' = lf_content l1
     \<and> lf_author l' = lf_author l1 \<and> lf_environment l' = lf_environment l1
     \<and> lf_approvers l1 \<subseteq> lf_approvers l' \<and> status_rank (lf_status l1) \<le> status_rank (lf_status l')
     \<and> (status_rank (lf_status l1) > 1 \<longrightarrow> lf_approvers l' = lf_approvers l1)"
    by (intro exI [of _ l3]) auto
qed

lemma carries_step: "life_step n m m' \<Longrightarrow> carries m m'"
  by (induction rule: life_step.induct) (auto simp: carries_def status_rank_def)

end
