(* ===== verification/Store_Lifecycle.thy ===== *)
theory Store_Lifecycle
  imports Config_Lifecycle
begin

text \<open>
  The store refines the lifecycle machine: the abstraction of a database maps each configuration's
  identifier to its status, author, approvers and content, and every call of the store is a step
  of the machine or changes nothing that the machine sees.
\<close>

section \<open>Abstraction\<close>

definition config_at :: "config_row list \<Rightarrow> int \<Rightarrow> config_row option" where
  "config_at rows rid = map_of (map (\<lambda>r. (cf_id r, r)) rows) rid"

definition approvers :: "approval_row list \<Rightarrow> int \<Rightarrow> string set" where
  "approvers rows rid = ap_actor ` set (filter (\<lambda>a. ap_configuration a = rid) rows)"

definition life_of :: "database \<Rightarrow> lifecycle" where
  "life_of db rid = map_option (\<lambda>r. \<lparr>lf_environment = cf_environment r, lf_status = cf_status r,
     lf_author = cf_created_by r, lf_approvers = approvers (t_approvals db) rid,
     lf_content = cf_snapshot r\<rparr>) (config_at (t_configurations db) rid)"

definition configurations_ok :: "database \<Rightarrow> bool" where
  "configurations_ok db \<longleftrightarrow> environments_ok db \<and> distinct (map cf_id (t_configurations db))
     \<and> (\<forall>r \<in> set (t_configurations db). cf_id r < t_next_configuration db)
     \<and> distinct (map (\<lambda>a. (ap_configuration a, ap_actor a)) (t_approvals db))
     \<and> (\<forall>a \<in> set (t_approvals db). ap_configuration a < t_next_configuration db)"

lemma config_at_Some: "config_at rows rid = Some r \<Longrightarrow> r \<in> set rows \<and> cf_id r = rid"
  by (induction rows) (auto simp: config_at_def split: if_splits)

lemma config_at_in: "distinct (map cf_id rows) \<Longrightarrow> r \<in> set rows \<Longrightarrow> config_at rows (cf_id r) = Some r"
  unfolding config_at_def by (rule map_of_is_SomeI) (auto simp: comp_def)

lemma config_at_update:
  "(\<And>r. cf_id (f r) = cf_id r) \<Longrightarrow>
   config_at (update_where P f rows) rid = map_option (\<lambda>r. if P r then f r else r) (config_at rows rid)"
  by (induction rows) (auto simp: config_at_def)

lemma config_at_append:
  "(\<And>q. q \<in> set rows \<Longrightarrow> cf_id q < cf_id r) \<Longrightarrow> config_at (rows @ [r]) = (config_at rows)(cf_id r \<mapsto> r)"
proof -
  assume "\<And>q. q \<in> set rows \<Longrightarrow> cf_id q < cf_id r"
  then have "map_of (map (\<lambda>r. (cf_id r, r)) rows) (cf_id r) = None"
    by (force simp: map_of_eq_None_iff)
  then show ?thesis by (intro ext) (simp add: config_at_def map_add_def split: option.split)
qed

lemma config_at_fresh: "(\<And>q. q \<in> set rows \<Longrightarrow> cf_id q < rid) \<Longrightarrow> config_at rows rid = None"
  by (induction rows) (auto simp: config_at_def)

lemma approvers_append:
  "approvers (rows @ [a]) rid = (if ap_configuration a = rid then insert (ap_actor a) (approvers rows rid)
     else approvers rows rid)"
  by (auto simp: approvers_def)

lemma finite_approvers [simp]: "finite (approvers rows rid)"
  by (simp add: approvers_def)

lemma card_approvers:
  "distinct (map (\<lambda>a. (ap_configuration a, ap_actor a)) rows) \<Longrightarrow>
   card (approvers rows rid) = length (filter (\<lambda>a. ap_configuration a = rid) rows)"
proof -
  assume d: "distinct (map (\<lambda>a. (ap_configuration a, ap_actor a)) rows)"
  have "distinct (map ap_actor (filter (\<lambda>a. ap_configuration a = rid) rows))"
    using d by (auto simp: distinct_map inj_on_def)
  from distinct_card [OF this] show ?thesis by (simp add: approvers_def)
qed

lemma config_at_supersede:
  "config_at (supersede eid rows) j = map_option (\<lambda>r. if cf_environment r = eid \<and> cf_status r = ''active''
     then r\<lparr>cf_status := ''superseded''\<rparr> else r) (config_at rows j)"
  unfolding supersede_def by (rule config_at_update) simp

lemma supersede_ids: "map cf_id (supersede eid rows) = map cf_id rows"
  by (simp add: supersede_def map_update_where_same)

lemma in_supersede:
  assumes "r \<in> set (supersede eid rows)"
  obtains r1 where "r1 \<in> set rows" and "cf_id r1 = cf_id r" and "cf_environment r1 = cf_environment r"
    and "cf_snapshot r1 = cf_snapshot r"
    and "r1 = r \<or> cf_status r1 = ''active'' \<and> cf_status r = ''superseded''"
proof -
  from assms obtain r1 where r1: "r1 \<in> set rows" and r: "r = (if cf_environment r1 = eid \<and> cf_status r1 = ''active''
      then r1\<lparr>cf_status := ''superseded''\<rparr> else r1)"
    by (auto simp: supersede_def set_update_where)
  show thesis
    by (rule that [OF r1]) (simp_all add: r)
qed

text \<open>One row of the abstraction, and superseding on both sides.\<close>

definition life_row :: "string set \<Rightarrow> config_row \<Rightarrow> life" where
  "life_row names r = \<lparr>lf_environment = cf_environment r, lf_status = cf_status r,
     lf_author = cf_created_by r, lf_approvers = names, lf_content = cf_snapshot r\<rparr>"

lemma life_of_row: "life_of db j = map_option (life_row (approvers (t_approvals db) j)) (config_at (t_configurations db) j)"
  by (simp add: life_of_def life_row_def [abs_def])

lemma life_row_superseded:
  "life_row names (if cf_environment r = eid \<and> cf_status r = ''active''
     then r\<lparr>cf_status := ''superseded''\<rparr> else r) = superseding eid (life_row names r)"
  by (simp add: life_row_def superseding_def)

lemma life_superseded:
  "map_option (life_row names) (config_at (supersede eid rows) j) =
   map_option (superseding eid) (map_option (life_row names) (config_at rows j))"
  unfolding config_at_supersede option.map_comp comp_def life_row_superseded ..

section \<open>Refinement\<close>

definition refines :: "int \<Rightarrow> database \<Rightarrow> database \<Rightarrow> bool" where
  "refines n db db' \<longleftrightarrow> t_environments db' = t_environments db \<and> (configurations_ok db \<longrightarrow>
     configurations_ok db' \<and> (life_of db' = life_of db \<or> life_step n (life_of db) (life_of db')))"

lemma life_of_tables:
  "t_configurations db' = t_configurations db \<Longrightarrow> t_approvals db' = t_approvals db \<Longrightarrow> life_of db' = life_of db"
  by (intro ext) (simp add: life_of_def)

lemma refines_touches: "touches a p False k db db' \<Longrightarrow> refines n db db'"
  by (auto simp: touches_def same_configurations_def refines_def configurations_ok_def environments_ok_def
      intro: life_of_tables)

lemma refines_audit [simp]: "refines n db (with_audit a m db') = refines n db db'"
proof -
  have "life_of (with_audit a m db') = life_of db'" by (rule life_of_tables) simp_all
  then show ?thesis by (simp add: refines_def configurations_ok_def environments_ok_def)
qed

lemma refines_withTx:
  "(\<And>x db'. body db = Inr (x, db') \<Longrightarrow> refines n db db') \<Longrightarrow> refines n db (snd (withTx c body db))"
  by (rule withTx_invariant) (simp_all add: refines_def)

lemma touches_if_refines:
  "refines n db (snd x) \<Longrightarrow> (\<not> b \<Longrightarrow> refines n db (snd y)) \<Longrightarrow> refines n db (snd (if b then x else y))"
  by simp

lemma refines_refl [simp]: "refines n db db"
  by (simp add: refines_def)

lemma refines_create: "refines n db (snd (CreateConfiguration host c actor e db))"
  unfolding CreateConfiguration_def Let_def
proof (rule refines_withTx, elim bind_okE audited_Inr, simp only: refines_audit query_row_Inr)
  fix eid
  let ?r = "\<lparr>cf_id = t_next_configuration db, cf_environment = eid, cf_status = ''draft'',
    cf_snapshot = snapshot_of host db e eid, cf_source = None, cf_created_by = actor,
    cf_validated_at = None, cf_activated_at = None, cf_created_at = ce_now c\<rparr>"
  let ?db = "db\<lparr>t_configurations := t_configurations db @ [?r],
    t_next_configuration := t_next_configuration db + 1\<rparr>"
  show "refines n db ?db"
    unfolding refines_def
  proof (intro conjI impI disjI2)
    assume ok: "configurations_ok db"
    then show "configurations_ok ?db" by (fastforce simp: configurations_ok_def environments_ok_def)
    have fresh: "life_of db (t_next_configuration db) = None"
      using ok by (simp add: life_of_def configurations_ok_def config_at_fresh)
    have "approvers (t_approvals db) (t_next_configuration db) = {}"
      using ok by (fastforce simp: approvers_def configurations_ok_def filter_empty_conv)
    then have "life_of ?db = (life_of db)(t_next_configuration db \<mapsto> \<lparr>lf_environment = eid,
        lf_status = ''draft'', lf_author = actor, lf_approvers = {}, lf_content = snapshot_of host db e eid\<rparr>)"
      using ok by (intro ext) (simp add: life_of_def config_at_append configurations_ok_def)
    with life_step.draft [of "life_of db", OF fresh] show "life_step n (life_of db) (life_of ?db)" by simp
  qed simp
qed

lemma refines_validate: "refines n db (snd (ValidateConfiguration c actor e rid db))"
  unfolding ValidateConfiguration_def Let_def
proof (rule refines_withTx, elim if_InlE bind_okE, clarify, elim audited_Inr,
    simp only: refines_audit query_row_Inr update_returning_Some, elim exE conjE, simp only:)
  fix r0
  let ?P = "\<lambda>r. cf_id r = rid \<and> in_environment db e (cf_environment r) \<and> cf_status r = ''draft''"
  let ?f = "\<lambda>r. r\<lparr>cf_status := ''validated'', cf_validated_at := Some (ce_now c)\<rparr>"
  let ?db = "db\<lparr>t_configurations := update_where ?P ?f (t_configurations db)\<rparr>"
  assume "find ?P (t_configurations db) = Some r0"
  from find_Some_iff_mem [OF this] have r0: "r0 \<in> set (t_configurations db)" "?P r0" by simp_all
  show "refines n db ?db"
    unfolding refines_def
  proof (intro conjI impI disjI2)
    assume ok: "configurations_ok db"
    have ids: "map cf_id (update_where ?P ?f (t_configurations db)) = map cf_id (t_configurations db)"
      by (simp add: map_update_where_same)
    show "configurations_ok ?db"
      using ok by (auto simp: configurations_ok_def environments_ok_def ids set_update_where)
    have at: "config_at (t_configurations db) rid = Some r0"
      using config_at_in [OF _ r0(1)] ok r0(2) by (simp add: configurations_ok_def)
    let ?l = "\<lparr>lf_environment = cf_environment r0, lf_status = cf_status r0, lf_author = cf_created_by r0,
      lf_approvers = approvers (t_approvals db) rid, lf_content = cf_snapshot r0\<rparr>"
    have l: "life_of db rid = Some ?l" by (simp add: life_of_def at)
    have "life_of ?db = (life_of db)(rid \<mapsto> ?l\<lparr>lf_status := ''validated''\<rparr>)"
      using at r0(2) by (intro ext)
        (auto simp: life_of_def config_at_update option.map_comp comp_def dest!: config_at_Some
          intro!: map_option_cong)
    with life_step.validate [of "life_of db", OF l] r0(2) show "life_step n (life_of db) (life_of ?db)" by simp
  qed simp
qed

lemma refines_approve: "refines n db (snd (ApproveConfiguration c actor0 e rid db))"
  unfolding ApproveConfiguration_def Let_def
proof (rule touches_if_refines, simp, rule refines_withTx, elim bind_okE if_InlE audited_Inr,
    simp only: refines_audit query_row_Inr exists_where_iff)
  fix r0
  let ?actor = "trim_space actor0"
  let ?a = "\<lparr>ap_configuration = rid, ap_actor = ?actor, ap_created_at = ce_now c\<rparr>"
  let ?P = "\<lambda>r. cf_id r = rid \<and> in_environment db e (cf_environment r) \<and> cf_status r = ''validated''
    \<and> cf_created_by r \<noteq> ?actor"
  let ?db = "db\<lparr>t_approvals := t_approvals db @ [?a]\<rparr>"
  assume named: "\<not> (?actor = [] \<or> 128 < length ?actor)"
    and new: "\<not> (\<exists>q \<in> set (t_approvals db). ap_configuration q = rid \<and> ap_actor q = ?actor)"
  assume "find ?P (t_configurations db) = Some r0"
  from find_Some_iff_mem [OF this] have r0: "r0 \<in> set (t_configurations db)" "?P r0" by simp_all
  show "refines n db ?db"
    unfolding refines_def
  proof (intro conjI impI disjI2)
    assume ok: "configurations_ok db"
    then show "configurations_ok ?db" using new r0
      by (auto simp: configurations_ok_def environments_ok_def)
    have at: "config_at (t_configurations db) rid = Some r0"
      using config_at_in [OF _ r0(1)] ok r0(2) by (simp add: configurations_ok_def)
    let ?l = "\<lparr>lf_environment = cf_environment r0, lf_status = cf_status r0, lf_author = cf_created_by r0,
      lf_approvers = approvers (t_approvals db) rid, lf_content = cf_snapshot r0\<rparr>"
    have l: "life_of db rid = Some ?l" by (simp add: life_of_def at)
    have "life_of ?db = (life_of db)(rid \<mapsto> ?l\<lparr>lf_approvers := insert ?actor (lf_approvers ?l)\<rparr>)"
      using at by (intro ext) (auto simp: life_of_def approvers_append)
    with life_step.approve [of "life_of db", OF l, of ?actor] r0(2) named
    show "life_step n (life_of db) (life_of ?db)" by auto
  qed simp
qed

lemma refines_activate: "refines (st_requiredApprovals s) db (snd (fst (ActivateConfiguration s c actor e rid expected db)))"
  unfolding ActivateConfiguration_def Let_def fst_conv
proof (rule refines_withTx, elim bind_okE if_InlE, clarify, elim audited_Inr,
    simp only: refines_audit query_row_Inr update_returning_Some, elim exE conjE, simp only:)
  fix eid and r0 :: config_row
  let ?rows = "supersede eid (t_configurations db)"
  let ?P = "\<lambda>r. cf_id r = rid \<and> cf_environment r = eid \<and> cf_status r = ''validated''"
  let ?f = "\<lambda>r. r\<lparr>cf_status := ''active'', cf_activated_at := Some (ce_now c)\<rparr>"
  let ?new = "update_where ?P ?f ?rows"
  let ?db = "\<lambda>ps ls. db\<lparr>t_configurations := ?new, t_listeners := ls, t_ports := ps\<rparr>"
  assume enough: "\<not> (0 < st_requiredApprovals s \<and> approvals_of db eid rid < st_requiredApprovals s)"
  assume "find ?P ?rows = Some r0"
  from find_Some_iff_mem [OF this] have r0: "r0 \<in> set (t_configurations db)" "?P r0"
    by (auto elim!: in_supersede)
  show "refines (st_requiredApprovals s) db (db\<lparr>t_configurations := ?new, t_listeners := ls, t_ports := ps\<rparr>)" for ps ls
    unfolding refines_def
  proof (intro conjI impI disjI2)
    assume ok: "configurations_ok db"
    have ids: "map cf_id ?new = map cf_id (t_configurations db)"
      by (simp add: map_update_where_same supersede_ids)
    show "configurations_ok (?db ps ls)"
      using ok by (auto simp: configurations_ok_def environments_ok_def ids set_update_where elim!: in_supersede)
    have at: "config_at (t_configurations db) rid = Some r0"
      using config_at_in [OF _ r0(1)] ok r0(2) by (simp add: configurations_ok_def)
    let ?l = "\<lparr>lf_environment = cf_environment r0, lf_status = cf_status r0, lf_author = cf_created_by r0,
      lf_approvers = approvers (t_approvals db) rid, lf_content = cf_snapshot r0\<rparr>"
    have l: "life_of db rid = Some ?l" by (simp add: life_of_def at)
    have "life_of (?db ps ls) j =
        ((\<lambda>j. map_option (superseding eid) (life_of db j))(rid \<mapsto> ?l\<lparr>lf_status := ''active''\<rparr>)) j" for j
    proof (cases "j = rid")
      case True
      with at r0(2) show ?thesis by (simp add: life_of_def config_at_update config_at_supersede)
    next
      case False
      have "config_at ?new j = config_at ?rows j"
        using False by (cases "config_at ?rows j") (auto simp: config_at_update dest!: config_at_Some)
      with False show ?thesis by (simp add: life_of_row life_superseded)
    qed
    then have "life_of (?db ps ls) =
        (\<lambda>j. map_option (superseding eid) (life_of db j))(rid \<mapsto> ?l\<lparr>lf_status := ''active''\<rparr>)"
      by (rule ext)
    moreover have "st_requiredApprovals s \<le> int (card (lf_approvers ?l))"
      using enough r0 ok card_approvers [of "t_approvals db" rid]
      by (auto simp: approvals_of_def configurations_ok_def exists_where_iff split: if_splits)
    ultimately show "life_step (st_requiredApprovals s) (life_of db) (life_of (?db ps ls))"
      using life_step.activate [of "life_of db", OF l] r0(2) by simp
  qed simp
qed

lemma refines_rollback: "refines n db (snd (fst (RollbackConfiguration s c actor e rid db)))"
  unfolding RollbackConfiguration_def Let_def fst_conv
proof (rule refines_withTx, elim bind_okE audited_Inr, simp only: refines_audit query_row_Inr)
  fix eid and r0 :: config_row
  let ?rows = "supersede eid (t_configurations db)" and ?i = "t_next_configuration db"
  let ?P = "\<lambda>r. cf_id r = rid \<and> cf_environment r = eid \<and> (cf_status r = ''active'' \<or> cf_status r = ''superseded'')"
  let ?r = "\<lparr>cf_id = ?i, cf_environment = eid, cf_status = ''active'', cf_snapshot = cf_snapshot r0,
    cf_source = Some rid, cf_created_by = actor, cf_validated_at = Some (ce_now c),
    cf_activated_at = Some (ce_now c), cf_created_at = ce_now c\<rparr>"
  let ?db = "db\<lparr>t_configurations := ?rows @ [?r], t_next_configuration := ?i + 1\<rparr>"
  assume "find ?P ?rows = Some r0"
  from find_Some_iff_mem [OF this] obtain r1 where r1: "r1 \<in> set (t_configurations db)" "?P r1"
    "cf_snapshot r0 = cf_snapshot r1"
    by (auto elim!: in_supersede)
  show "refines n db ?db"
    unfolding refines_def
  proof (intro conjI impI disjI2)
    assume ok: "configurations_ok db"
    then have below: "cf_id q < ?i" if "q \<in> set ?rows" for q
      using that by (auto simp: configurations_ok_def elim!: in_supersede)
    have "distinct (map cf_id (?rows @ [?r]))"
      using ok below by (auto simp: supersede_ids configurations_ok_def)
    with ok below show "configurations_ok ?db"
      by (fastforce simp: configurations_ok_def environments_ok_def)
    have at: "config_at (t_configurations db) rid = Some r1"
      using config_at_in [OF _ r1(1)] ok r1(2) by (simp add: configurations_ok_def)
    let ?l = "\<lparr>lf_environment = cf_environment r1, lf_status = cf_status r1, lf_author = cf_created_by r1,
      lf_approvers = approvers (t_approvals db) rid, lf_content = cf_snapshot r1\<rparr>"
    have l: "life_of db rid = Some ?l" by (simp add: life_of_def at)
    have fresh: "life_of db ?i = None"
      using ok by (simp add: life_of_def configurations_ok_def config_at_fresh)
    have none: "approvers (t_approvals db) ?i = {}"
      using ok by (fastforce simp: approvers_def configurations_ok_def filter_empty_conv)
    have "life_of ?db = (\<lambda>j. map_option (superseding eid) (life_of db j))(?i \<mapsto>
        \<lparr>lf_environment = eid, lf_status = ''active'', lf_author = actor, lf_approvers = {},
         lf_content = cf_snapshot r1\<rparr>)"
      using below r1(3) none
      by (intro ext) (simp add: life_of_row config_at_append life_superseded life_row_def)
    with life_step.rollback [of "life_of db", OF l _ fresh, of n actor] r1(2)
    show "life_step n (life_of db) (life_of ?db)" by auto
  qed simp
qed

end
