(* ===== verification/Config_Properties.thy ===== *)
theory Config_Properties
  imports Store_Lifecycle
begin

text \<open>
  Properties of configurations: every run of the store is a run of the lifecycle machine, so
  each environment has exactly one active configuration, what goes live has been approved, and
  nothing that was written is changed.
\<close>

section \<open>Runs\<close>

lemma step_refines: "store_step s lib db db' \<Longrightarrow> refines (st_requiredApprovals s) db db'"
  by (elim store_step.cases store_call.cases)
    (auto intro: refines_create refines_validate refines_approve refines_activate refines_rollback
      refines_touches [OF catalog_ops(1)] refines_touches [OF catalog_ops(2)] refines_touches [OF catalog_ops(3)]
      refines_touches [OF catalog_ops(4)] refines_touches [OF upstream_ops(1)] refines_touches [OF upstream_ops(2)]
      refines_touches [OF access_ops(1)] refines_touches [OF access_ops(2)] refines_touches [OF access_ops(3)]
      refines_touches [OF access_ops(4)] refines_touches [OF consumer_ops(1)] refines_touches [OF consumer_ops(2)]
      refines_touches [OF key_ops(1)] refines_touches [OF key_ops(2)] refines_touches [OF key_ops(3)]
      refines_touches [OF port_ops(1)] refines_touches [OF port_ops(2)] refines_touches [OF allocate_touches]
      refines_touches [OF update_port_touches])

text \<open>The lifecycle machine simulates the store.\<close>

interpretation lifecycle: simulation "store_step s lib" "store_run s lib"
  "life_step (st_requiredApprovals s)" "life_run (st_requiredApprovals s)" life_of configurations_ok
  for s :: store and lib :: libraries
  by unfold_locales (auto dest!: step_refines simp: refines_def)

lemma run_environments: "store_run s lib db db' \<Longrightarrow> t_environments db' = t_environments db"
  by (rule store_machine.run_relation [where R = "\<lambda>db db'. t_environments db' = t_environments db"])
    (auto dest: step_refines simp: refines_def)

lemma carries_run: "life_run n m m' \<Longrightarrow> carries m m'"
  by (rule life_machine.run_relation [where R = carries]) (auto intro: carries_refl carries_trans carries_step)

lemma life_of_Some:
  "life_of db i = Some l \<longleftrightarrow> (\<exists>r. config_at (t_configurations db) i = Some r
     \<and> l = life_row (approvers (t_approvals db) i) r)"
  by (auto simp: life_of_row)

lemma life_of_in:
  "configurations_ok db \<Longrightarrow> r \<in> set (t_configurations db) \<Longrightarrow>
   life_of db (cf_id r) = Some (life_row (approvers (t_approvals db) (cf_id r)) r)"
  by (simp add: life_of_row config_at_in configurations_ok_def)

lemma life_row_simps [simp]:
  "lf_environment (life_row names r) = cf_environment r" "lf_status (life_row names r) = cf_status r"
  "lf_author (life_row names r) = cf_created_by r" "lf_approvers (life_row names r) = names"
  "lf_content (life_row names r) = cf_snapshot r"
  by (simp_all add: life_row_def)

section \<open>The initial database\<close>

lemma initial_ok: "configurations_ok (initial_database now)"
  by (simp add: configurations_ok_def environments_ok_def initial_database_def bootstrap_configuration_def)

lemma initial_life:
  "life_of (initial_database now) = [1 \<mapsto> life_row {} (bootstrap_configuration now 1 ''development''),
     2 \<mapsto> life_row {} (bootstrap_configuration now 2 ''staging''),
     3 \<mapsto> life_row {} (bootstrap_configuration now 3 ''production'')]"
  by (intro ext) (simp add: life_of_row config_at_def initial_database_def bootstrap_configuration_def
      approvers_def)

lemma bootstrap_row:
  "cf_environment (bootstrap_configuration now i e) = i" "cf_status (bootstrap_configuration now i e) = ''active''"
  "cf_snapshot (bootstrap_configuration now i e) = empty_snapshot e"
  by (simp_all add: bootstrap_configuration_def)

lemma initial_live: "\<forall>eid \<in> {1, 2, 3}. \<exists>!i. live (life_of (initial_database now)) eid i"
proof -
  have "live (life_of (initial_database now)) eid i \<longleftrightarrow> eid = i \<and> i \<in> {1, 2, 3}" for eid i
    by (auto simp: live_def initial_life bootstrap_row)
  then show ?thesis by auto
qed

text \<open>The contents that serve nothing: the migrations activate such a configuration.\<close>

definition idle_contents :: "raw_snapshot set" where
  "idle_contents = {content. r_Listeners content = []}"

definition fresh_store :: "database \<Rightarrow> bool" where
  "fresh_store db \<longleftrightarrow> configurations_ok db \<and> t_approvals db = []
     \<and> list_all (\<lambda>r. cf_status r \<in> {''active'', ''superseded''} \<longrightarrow> r_Listeners (cf_snapshot r) = [])
         (t_configurations db)"

lemma initial_fresh: "fresh_store (initial_database now)"
  by (simp add: fresh_store_def initial_ok)
    (simp add: initial_database_def bootstrap_configuration_def empty_snapshot_def)

lemma fresh_vetted: "fresh_store db \<Longrightarrow> all_vetted n idle_contents (life_of db)"
  unfolding fresh_store_def all_vetted_def list_all_iff idle_contents_def
  by (auto simp: life_of_Some approvers_def dest: config_at_Some)

lemma all_vettedD:
  "all_vetted n T m \<Longrightarrow> m i = Some l \<Longrightarrow> lf_status l \<in> {''active'', ''superseded''} \<Longrightarrow> lf_content l \<notin> T \<Longrightarrow>
   vetted n m (lf_content l)"
  unfolding all_vetted_def by blast

text \<open>The machine carries every configuration forward.\<close>

lemma history_kept:
  assumes "store_run s lib db db'" and "configurations_ok db" and "r \<in> set (t_configurations db)"
  shows "\<exists>r' \<in> set (t_configurations db'). cf_id r' = cf_id r \<and> cf_snapshot r' = cf_snapshot r
    \<and> cf_created_by r' = cf_created_by r \<and> cf_environment r' = cf_environment r
    \<and> status_rank (cf_status r) \<le> status_rank (cf_status r')
    \<and> approvers (t_approvals db) (cf_id r) \<subseteq> approvers (t_approvals db') (cf_id r)
    \<and> (status_rank (cf_status r) > 1 \<longrightarrow>
        approvers (t_approvals db') (cf_id r) = approvers (t_approvals db) (cf_id r))"
proof -
  have "carries (life_of db) (life_of db')"
    by (rule carries_run [OF lifecycle.run_simulates [OF assms(1,2)]])
  from this [unfolded carries_def, rule_format, OF life_of_in [OF assms(2,3)]] show ?thesis
    by (auto simp: life_of_Some dest!: config_at_Some)
qed

section \<open>Properties\<close>

text \<open>
  Claim C9: every call of the store is one step of the lifecycle machine or leaves all that the
  machine sees as it was: a configuration is activated only with the required number of approvals,
  and an approval comes from someone other than the author.
\<close>

theorem store_refines_lifecycle:
  assumes "store_step s lib db db'" and "configurations_ok db"
  shows "configurations_ok db' \<and> (life_of db' = life_of db
    \<or> life_step (st_requiredApprovals s) (life_of db) (life_of db'))"
  using step_refines [OF assms(1)] assms(2) by (simp add: refines_def)

text \<open>
  Claim C10: after any operations on a migrated database, every environment has exactly one active
  configuration.
\<close>

theorem one_active_configuration:
  assumes "store_run s lib (initial_database now) db" and "e \<in> set (t_environments db)"
  shows "\<exists>!r. r \<in> set (t_configurations db) \<and> cf_environment r = en_id e \<and> cf_status r = ''active''"
proof -
  note env = run_environments [OF assms(1)] and ok = lifecycle.run_ok [OF assms(1) initial_ok]
  from assms(1) initial_ok initial_live live_step have "\<forall>eid \<in> {1, 2, 3}. \<exists>!i. live (life_of db) eid i"
    by (rule lifecycle.transfer_invariant)
  moreover have "en_id e \<in> {1, 2, 3}" using assms(2) by (auto simp: env initial_database_def)
  ultimately have one: "\<exists>!i. live (life_of db) (en_id e) i" by blast
  have live_iff: "live (life_of db) (en_id e) i \<longleftrightarrow> (\<exists>r \<in> set (t_configurations db).
      cf_id r = i \<and> cf_environment r = en_id e \<and> cf_status r = ''active'')" for i
    using life_of_in [OF ok] by (fastforce simp: live_def life_of_Some dest: config_at_Some)
  from one obtain i where i: "live (life_of db) (en_id e) i" and
    only: "\<And>j. live (life_of db) (en_id e) j \<Longrightarrow> j = i" by blast
  from i live_iff obtain r where r: "r \<in> set (t_configurations db)" "cf_id r = i"
    "cf_environment r = en_id e" "cf_status r = ''active''" by blast
  moreover have "q = r" if "q \<in> set (t_configurations db)" "cf_environment q = en_id e"
    "cf_status q = ''active''" for q
    using only [of "cf_id q"] live_iff that r ok
    by (auto simp: configurations_ok_def intro: distinct_key_unique [of cf_id])
  ultimately show ?thesis by blast
qed

text \<open>
  Claim C8: what is or was live has been approved. After any operations on a fresh database, such as
  the migrations leave, a
  configuration that was activated and serves a listener has the contents of one that the required
  number of distinct actors, none of them its author, approved.
\<close>

theorem live_contents_approved:
  assumes "store_run s lib db0 db" and "fresh_store db0" and "r \<in> set (t_configurations db)"
    and "cf_status r \<in> {''active'', ''superseded''}" and "r_Listeners (cf_snapshot r) \<noteq> []"
  shows "\<exists>q \<in> set (t_configurations db). cf_snapshot q = cf_snapshot r
    \<and> st_requiredApprovals s \<le> int (card (approvers (t_approvals db) (cf_id q)))
    \<and> cf_created_by q \<notin> approvers (t_approvals db) (cf_id q)"
proof -
  from assms(2) have fresh: "configurations_ok db0" by (simp add: fresh_store_def)
  note ok = lifecycle.run_ok [OF assms(1) fresh]
  from assms(1) fresh fresh_vetted [OF assms(2)] vetted_step
  have "all_vetted (st_requiredApprovals s) idle_contents (life_of db)" by (rule lifecycle.transfer_invariant)
  moreover have "cf_snapshot r \<notin> idle_contents" using assms(5) by (simp add: idle_contents_def)
  ultimately have "vetted (st_requiredApprovals s) (life_of db) (cf_snapshot r)"
    using all_vettedD [of _ _ "life_of db", OF _ life_of_in [OF ok assms(3)]] assms(4) by simp
  then show ?thesis
    by (fastforce simp: vetted_def life_of_Some dest: config_at_Some)
qed

text \<open>
  Claim C27: history is kept. Whatever is done to the store, a configuration keeps its contents,
  author and environment, its approvals are never withdrawn, it moves only forward from draft to
  validated to active to superseded, and no approval is added once it is active.
\<close>

theorem configuration_history:
  assumes "store_run s lib db db'" and "configurations_ok db" and "r \<in> set (t_configurations db)"
  shows "\<exists>r' \<in> set (t_configurations db'). cf_id r' = cf_id r \<and> cf_snapshot r' = cf_snapshot r
    \<and> cf_created_by r' = cf_created_by r \<and> cf_environment r' = cf_environment r
    \<and> status_rank (cf_status r) \<le> status_rank (cf_status r')
    \<and> approvers (t_approvals db) (cf_id r) \<subseteq> approvers (t_approvals db') (cf_id r)
    \<and> (status_rank (cf_status r) > 1 \<longrightarrow>
        approvers (t_approvals db') (cf_id r) = approvers (t_approvals db) (cf_id r))"
  using assms by (rule history_kept)

section \<open>Witnesses\<close>

lemma example_rows [simp]:
  "cf_id (example_configuration st) = 2" "cf_environment (example_configuration st) = 1"
  "cf_status (example_configuration st) = st" "cf_created_by (example_configuration st) = ''alice''"
  "cf_snapshot (example_configuration st) = example_contents" "cf_id (bootstrap_configuration now i e) = i"
  by (simp_all add: example_configuration_def bootstrap_configuration_def)

lemma example_proposed_fresh: "fresh_store example_proposed"
  by (simp add: fresh_store_def configurations_ok_def environments_ok_def example_proposed_def
      bootstrap_row empty_snapshot_def)
    (simp add: example_database_def with_configurations_def)

lemma example_steps:
  "store_step example_store example_libraries example_proposed example_approved"
  "store_run example_store example_libraries example_proposed example_active"
proof -
  show approve: "store_step example_store example_libraries example_proposed example_approved"
    unfolding example_approved_def by (rule store_step.call, rule store_call.approve_configuration)
  show "store_run example_store example_libraries example_proposed example_active"
    by (rule store_run.step [OF store_run.step [OF store_run.start approve]])
      (unfold example_active_def, rule store_step.call, rule store_call.activate_configuration)
qed

lemma example_active_tables:
  "t_configurations example_active =
     [bootstrap_configuration 0 1 ''development''\<lparr>cf_status := ''superseded''\<rparr>, example_configuration ''active'']"
  "t_approvals example_active = [example_approval]"
proof -
  from example_active_is obtain a n where active: "example_active = with_audit a n (with_configurations
      [bootstrap_configuration 0 1 ''development''\<lparr>cf_status := ''superseded''\<rparr>, example_configuration ''active'']
      [example_approval]
    \<lparr>t_listeners := [example_listener_row\<lparr>ls_configuration_version := Some 2, ls_status := ''active''\<rparr>],
     t_ports := [free_port 0 1 4101, \<lparr>po_environment = 1, po_listen_port = 4100, po_status = ''active'',
        po_listener = Some (ls_id example_listener_row), po_updated_at = 100\<rparr>]\<rparr>)" by blast
  show "t_configurations example_active =
     [bootstrap_configuration 0 1 ''development''\<lparr>cf_status := ''superseded''\<rparr>, example_configuration ''active'']"
    and "t_approvals example_active = [example_approval]"
    by (simp_all add: active)
qed

text \<open>A migrated database on which a configuration of \<open>staging\<close> is created, validated and activated.\<close>

definition example_quick_store :: store where
  "example_quick_store = example_store\<lparr>st_requiredApprovals := 0\<rparr>"

definition staged :: database where
  "staged = snd (CreateConfiguration (lib_host example_libraries) example_context ''alice'' ''staging'' (initial_database 0))"

definition staged_validated :: database where
  "staged_validated = snd (ValidateConfiguration example_context ''alice'' ''staging'' 4 staged)"

definition staged_active :: database where
  "staged_active = snd (fst (ActivateConfiguration example_quick_store example_context ''alice'' ''staging'' 4 None staged_validated))"

lemmas staged_evals = withTx_def audited_def audit_def query_row_def environment_id_def example_context_def
  bootstrap_configuration_def update_returning_def update_where_def supersede_def exists_where_def configuration_of_def

lemma staged_tables:
  "t_environments staged = t_environments (initial_database 0)" "t_listeners staged = []" "t_ports staged = t_ports (initial_database 0)"
  "map (\<lambda>r. (cf_id r, cf_environment r, cf_status r)) (t_configurations staged)
    = [(1, 1, ''active''), (2, 2, ''active''), (3, 3, ''active''), (4, 2, ''draft'')]"
  by (simp_all add: staged_def CreateConfiguration_def staged_evals initial_database_def Let_def del: upto_rec_numeral)

lemma four_rows:
  "map f rows = [x1, x2, x3, x4] \<longleftrightarrow> (\<exists>y1 y2 y3 y4. rows = [y1, y2, y3, y4] \<and> f y1 = x1 \<and> f y2 = x2 \<and> f y3 = x3 \<and> f y4 = x4)"
  by (auto simp: map_eq_Cons_conv)

lemma staged_validated_tables:
  "t_environments staged_validated = t_environments (initial_database 0)"
  "map (\<lambda>r. (cf_id r, cf_environment r, cf_status r)) (t_configurations staged_validated)
    = [(1, 1, ''active''), (2, 2, ''active''), (3, 3, ''active''), (4, 2, ''validated'')]"
  using staged_tables(4) unfolding four_rows
  by (auto simp: staged_validated_def ValidateConfiguration_def staged_evals staged_tables(1-3) initial_database_def in_environment_def Let_def
      simp del: upto_rec_numeral)

lemma staged_statuses:
  "map (\<lambda>r. (cf_id r, cf_environment r, cf_status r)) (t_configurations staged_active)
    = [(1, 1, ''active''), (2, 2, ''superseded''), (3, 3, ''active''), (4, 2, ''active'')]"
  using staged_validated_tables(2) unfolding four_rows
  by (auto simp: staged_active_def ActivateConfiguration_def staged_evals staged_validated_tables(1) initial_database_def
      example_quick_store_def example_store_def Let_def simp del: upto_rec_numeral)

lemma staged_run: "store_run example_quick_store example_libraries (initial_database 0) staged_active"
proof -
  have "store_step example_quick_store example_libraries (initial_database 0) staged"
    unfolding staged_def by (rule store_step.call, rule store_call.create_configuration)
  moreover have "store_step example_quick_store example_libraries staged staged_validated"
    unfolding staged_validated_def by (rule store_step.call, rule store_call.validate_configuration)
  moreover have "store_step example_quick_store example_libraries staged_validated staged_active"
    unfolding staged_active_def by (rule store_step.call, rule store_call.activate_configuration)
  ultimately show ?thesis by (intro store_run.step [OF store_run.step [OF store_run.step [OF store_run.start]]])
qed

theorem store_refines_lifecycle_witness:
  "life_of example_approved = life_of example_proposed
     \<or> life_step 1 (life_of example_proposed) (life_of example_approved)"
  using store_refines_lifecycle [OF example_steps(1)] example_proposed_fresh
  by (simp add: fresh_store_def example_store_def)

theorem one_active_configuration_witness:
  "(\<exists>!r. r \<in> set (t_configurations staged_active) \<and> cf_environment r = 2 \<and> cf_status r = ''active'')
    \<and> map (\<lambda>r. (cf_id r, cf_environment r, cf_status r)) (t_configurations staged_active)
    = [(1, 1, ''active''), (2, 2, ''superseded''), (3, 3, ''active''), (4, 2, ''active'')]"
proof -
  have "\<lparr>en_id = 2, en_name = ''staging''\<rparr> \<in> set (t_environments staged_active)"
    using run_environments [OF staged_run] by (simp add: initial_database_def)
  from one_active_configuration [OF staged_run this] staged_statuses show ?thesis by simp
qed
theorem live_contents_approved_witness:
  "\<exists>q \<in> set (t_configurations example_active). cf_snapshot q = example_contents
     \<and> 1 \<le> card (approvers (t_approvals example_active) (cf_id q))"
  using live_contents_approved [OF example_steps(2) example_proposed_fresh, of "example_configuration ''active''"]
  by (auto simp: example_active_tables example_store_def example_contents_def)

theorem configuration_history_witness:
  "\<exists>r' \<in> set (t_configurations example_active). cf_id r' = 2 \<and> cf_snapshot r' = example_contents
     \<and> 1 \<le> status_rank (cf_status r')"
  using configuration_history [OF example_steps(2), of "example_configuration ''validated''"] example_proposed_fresh
  by (auto simp: example_proposed_def fresh_store_def status_rank_def)

end
