(* ===== verification/Admin_Properties.thy ===== *)
theory Admin_Properties
  imports Admin_Handler Port_Inventory Config_Properties
begin

text \<open>
  What the admin API guarantees: each request is at most one call of the store, made in the name
  of the request's actor; a refused request changes nothing (unless its COMMIT took effect and only
  the answer was lost), and a change is always in the audit
  trail; so every sequence of requests keeps the invariants of the store.
\<close>

section \<open>Requests as calls of the store\<close>

text \<open>\<open>answered\<close> lists the ways a request is answered: a refusal, a list, or a call of the store.\<close>

inductive answered ::
  "store \<Rightarrow> libraries \<Rightarrow> call_env \<Rightarrow> string \<Rightarrow> string \<Rightarrow> database \<Rightarrow> outcome \<Rightarrow> bool" for s lib c a e db where
  refused: "answered s lib c a e db (refuse e' db)"
| listing: "answered s lib c a e db (listed c v db)"
| create_service: "answered s lib c a e db (reply 201 V_service (CreateService c a e name display owner db))"
| update_service: "answered s lib c a e db (reply 200 V_service (UpdateService c a e name display owner enabled n db))"
| create_version: "answered s lib c a e db (reply 201 V_version (CreateServiceVersion c a e name version path ms bytes db))"
| update_version: "answered s lib c a e db (reply 200 V_version (UpdateServiceVersion c a e rid version path ms bytes enabled n db))"
| create_upstream: "answered s lib c a e db (reply 201 V_upstream
    (CreateUpstreamWithScheme s (lib_host lib) c a e vid scheme address port weight path db))"
| update_upstream: "answered s lib c a e db (reply 200 V_upstream
    (UpdateUpstream s (lib_host lib) c a e rid scheme address port weight path enabled n db))"
| update_port: "answered s lib c a e db (reply 200 V_port (UpdatePortStatus c a e port status db))"
| allocate: "answered s lib c a e db (reply 201 V_listener
    (AllocateListener (lib_compile lib) (lib_parse_media lib) locked c a e i db))"
| update_listener: "answered s lib c a e db (reply 200 V_listener (UpdateListener c a e rid status n db))"
| update_policies: "answered s lib c a e db (reply 200 V_listener (UpdateListenerPolicies (lib_compile lib) c a e rid p db))"
| create_permission: "answered s lib c a e db (reply 201 V_permission (CreatePermission c a e name description db))"
| update_permission: "answered s lib c a e db (reply 200 V_permission (UpdatePermission c a e rid description db))"
| delete_permission: "answered s lib c a e db (reply 200 (\<lambda>_. V_status st) (DeletePermission c a e rid db))"
| create_consumer: "answered s lib c a e db (reply 201 V_consumer (CreateConsumer c a e name display permissions db))"
| update_consumer: "answered s lib c a e db (reply_notified 200 V_consumer (UpdateConsumer s c a e rid display enabled permissions n db))"
| delete_consumer: "answered s lib c a e db (reply_notified 200 (\<lambda>_. V_status st) (DeleteConsumer s c a e rid db))"
| issue_key: "answered s lib c a e db (reply 201 V_issued
    (IssueKey (lib_hmac lib) s c a e consumer name permissions expires rotated db))"
| rotate_key: "answered s lib c a e db (reply_notified 201 V_issued (RotateKey (lib_hmac lib) s c a e key db))"
| revoke_key: "answered s lib c a e db (reply_notified 200 (\<lambda>_. V_status st) (RevokeKey s c a e key db))"
| create_configuration: "answered s lib c a e db (reply 201 V_configuration (CreateConfiguration (lib_host lib) c a e db))"
| validate_configuration: "answered s lib c a e db (reply 200 V_configuration (ValidateConfiguration c a e id' db))"
| activate_configuration: "answered s lib c a e db (reply_notified 200 V_configuration (ActivateConfiguration s c a e id' expected db))"
| approve_configuration: "answered s lib c a e db (reply 201 V_approval (ApproveConfiguration c a e id' db))"
| rollback_configuration: "answered s lib c a e db (reply_notified 201 V_configuration (RollbackConfiguration s c a e id' db))"

lemma answered_if: "answered s lib c a e db y \<Longrightarrow> answered s lib c a e db z \<Longrightarrow> answered s lib c a e db (if g then y else z)"
  by simp

lemma answered_option:
  "answered s lib c a e db y \<Longrightarrow> (\<And>v. answered s lib c a e db (f v)) \<Longrightarrow>
   answered s lib c a e db (case m of None \<Rightarrow> y | Some v \<Rightarrow> f v)"
  by (simp split: option.split)

lemma answered_body:
  "(\<And>i. answered s lib c a e db (f i)) \<Longrightarrow> answered s lib c a e db (with_body l flds r zero f db)"
  by (simp add: with_body_def answered.refused split: option.split)

lemmas answered_intros = answered_if answered_option answered_body answered.intros

lemma catalog_answered:
  "answered (ah_store h) (al_store lib) (ac_call x) (actor r) (ah_environment h) db (admin_services h lib x r segments db)"
  "answered (ah_store h) (al_store lib) (ac_call x) (actor r) (ah_environment h) db (admin_service_versions h lib x r segments db)"
  unfolding admin_services_def admin_service_versions_def Let_def by (intro answered_intros)+

lemma ports_answered:
  "answered (ah_store h) (al_store lib) (ac_call x) (actor r) (ah_environment h) db (admin_ports h lib x r segments db)"
  "answered (ah_store h) (al_store lib) (ac_call x) (actor r) (ah_environment h) db (admin_listeners h lib x r segments db)"
  unfolding admin_ports_def admin_listeners_def Let_def by (intro answered_intros)+

lemma access_answered:
  "answered (ah_store h) (al_store lib) (ac_call x) (actor r) (ah_environment h) db (admin_permissions h lib x r segments db)"
  "answered (ah_store h) (al_store lib) (ac_call x) (actor r) (ah_environment h) db (admin_consumers h lib x r segments db)"
  "answered (ah_store h) (al_store lib) (ac_call x) (actor r) (ah_environment h) db (admin_keys h lib x r segments db)"
  unfolding admin_permissions_def admin_consumers_def admin_keys_def Let_def by (intro answered_intros)+

lemma configurations_answered:
  "answered (ah_store h) (al_store lib) (ac_call x) (actor r) (ah_environment h) db (admin_configurations h lib x r segments db)"
  unfolding admin_configurations_def Let_def by (intro answered_intros)

lemma route_answered:
  "answered (ah_store h) (al_store lib) (ac_call x) (actor r) (ah_environment h) db (admin_route h lib x r db)"
  unfolding admin_route_def Let_def
  by (intro answered_if answered.refused answered.listing catalog_answered ports_answered access_answered
      configurations_answered)

lemma answered_step:
  "answered s lib c a e db out \<Longrightarrow> snd (fst out) = db \<or> store_call s lib e db (snd (fst out))"
  by (induction rule: answered.induct) (simp_all add: outcome_simps store_call.intros)

section \<open>The audit trail\<close>

text \<open>
  A call of the store is accounted for: when it succeeds the audit trail has grown, by events of the
  actor alone, and when it fails the database is the same, unless its COMMIT took effect and the
  answer was lost: then its changes are there, with their audit events, behind the error.
\<close>

definition appends :: "string \<Rightarrow> database \<Rightarrow> database \<Rightarrow> bool" where
  "appends a db db' \<longleftrightarrow> (\<exists>rows. t_audit db' = t_audit db @ rows \<and> au_actor ` set rows = {a})"

definition accounted :: "call_env \<Rightarrow> string \<Rightarrow> database \<Rightarrow> (store_error, 'a) result \<times> database \<Rightarrow> bool" where
  "accounted c a db out \<longleftrightarrow> (case fst out of
       Inr y \<Rightarrow> appends a db (snd out)
     | Inl e \<Rightarrow> snd out = db \<or> commit_lost c \<and> e = ErrOther OtherError \<and> appends a db (snd out))"

lemma accounted_Inl [simp]: "accounted c a db (Inl e, db)"
  by (simp add: accounted_def)

lemma accounted_if: "accounted c a db y \<Longrightarrow> accounted c a db z \<Longrightarrow> accounted c a db (if g then y else z)"
  by simp

lemma accounted_if_fst:
  "accounted c a db (fst y) \<Longrightarrow> accounted c a db (fst z) \<Longrightarrow> accounted c a db (fst (if g then y else z))"
  by simp

lemma accounted_fst: "accounted c a db y \<Longrightarrow> accounted c a db (fst (y, z))"
  by simp

lemma accounted_option:
  "accounted c a db y \<Longrightarrow> (\<And>v. accounted c a db (f v)) \<Longrightarrow>
   accounted c a db (case m of None \<Rightarrow> y | Some v \<Rightarrow> f v)"
  by (simp split: option.split)

lemma accounted_withTx:
  "(\<And>y db'. body db = Inr (y, db') \<Longrightarrow> appends a db db') \<Longrightarrow> accounted c a db (withTx c body db)"
  by (auto simp: accounted_def withTx_def commit_lost_def split: sum.splits)

lemmas accounted_intros = accounted_if accounted_if_fst accounted_fst accounted_option accounted_withTx accounted_Inl

lemma audit_appends_actor:
  "audit c e a action rt rid details db1 = Inr db' \<Longrightarrow> t_audit db1 = t_audit db \<Longrightarrow> appends a db db'"
  by (auto simp: audit_def appends_def split: option.splits)

lemma audited_appends_actor:
  "audited c e a action rt rid details y db1 = Inr (z, db') \<Longrightarrow> t_audit db1 = t_audit db \<Longrightarrow> appends a db db'"
  by (auto simp: audited_def bind_ok_eq_Inr intro: audit_appends_actor)

lemma appends_trans: "appends a db db1 \<Longrightarrow> appends a db1 db2 \<Longrightarrow> appends a db db2"
proof -
  assume "appends a db db1" and "appends a db1 db2"
  then obtain r1 r2 where "t_audit db1 = t_audit db @ r1" "au_actor ` set r1 = {a}"
    and "t_audit db2 = t_audit db1 @ r2" "au_actor ` set r2 = {a}"
    by (auto simp: appends_def)
  then show ?thesis by (auto simp: appends_def image_Un intro!: exI [of _ "r1 @ r2"])
qed

lemma insert_audit:
  "insert_service q1 db = Inr db' \<Longrightarrow> t_audit db' = t_audit db"
  "insert_version q2 db = Inr db' \<Longrightarrow> t_audit db' = t_audit db"
  "insert_upstream q3 db = Inr db' \<Longrightarrow> t_audit db' = t_audit db"
  "insert_listener q4 db = Inr db' \<Longrightarrow> t_audit db' = t_audit db"
  "insert_key q5 db = Inr db' \<Longrightarrow> t_audit db' = t_audit db"
  "assignPermissions consumer names db = Inr db' \<Longrightarrow> t_audit db' = t_audit db"
  by (auto dest!: inserts assignPermissions_tables)

text \<open>Taking a transaction apart without its audit event, whose \<open>appends\<close> ends the proof.\<close>

lemmas body_elims = bind_okE if_InlE
lemmas body_dests = insert_audit translated_Inr [THEN iffD1]

lemma catalog_accounted:
  "accounted c a db (CreateService c a e name display owner db)"
  "accounted c a db (UpdateService c a e name display owner enabled n db)"
  "accounted c a db (CreateServiceVersion c a e name version path ms bytes db)"
  "accounted c a db (UpdateServiceVersion c a e rid version path ms bytes enabled n db)"
  "accounted c a db (CreateUpstreamWithScheme s host c a e vid scheme address port weight path db)"
  "accounted c a db (UpdateUpstream s host c a e rid scheme address port weight path enabled n db)"
  unfolding CreateService_def UpdateService_def CreateServiceVersion_def UpdateServiceVersion_def
    CreateUpstreamWithScheme_def UpdateUpstream_def Let_def
  by (intro accounted_intros;
      auto elim!: body_elims dest!: body_dests intro: audited_appends_actor split: prod.splits)+

lemma access_accounted:
  "accounted c a db (CreatePermission c a e name description db)"
  "accounted c a db (UpdatePermission c a e rid description db)"
  "accounted c a db (DeletePermission c a e rid db)"
  "accounted c a db (CreateConsumer c a e name display permissions db)"
  "accounted c a db (fst (UpdateConsumer s c a e rid display enabled permissions n db))"
  "accounted c a db (fst (DeleteConsumer s c a e rid db))"
  unfolding CreatePermission_def UpdatePermission_def DeletePermission_def CreateConsumer_def
    UpdateConsumer_def DeleteConsumer_def Let_def
  by (intro accounted_intros;
      auto elim!: body_elims dest!: body_dests intro: audited_appends_actor split: prod.splits if_splits)+

lemma key_accounted:
  "accounted c a db (IssueKey hmac s c a e consumer name permissions expires rotated db)"
  "accounted c a db (fst (RotateKey hmac s c a e key db))"
  "accounted c a db (fst (RevokeKey s c a e key db))"
  unfolding IssueKey_def RotateKey_def RevokeKey_def Let_def split_def fst_conv
  by (intro accounted_intros;
      auto elim!: body_elims dest!: body_dests intro: audited_appends_actor split: prod.splits if_splits)+

lemma configuration_accounted:
  "accounted c a db (CreateConfiguration host c a e db)"
  "accounted c a db (ValidateConfiguration c a e rid db)"
  "accounted c a db (fst (RollbackConfiguration s c a e rid db))"
  "accounted c a db (fst (ActivateConfiguration s c a e rid expected db))"
  "accounted c (trim_space a) db (ApproveConfiguration c a e rid db)"
  unfolding CreateConfiguration_def ValidateConfiguration_def ActivateConfiguration_def
      ApproveConfiguration_def RollbackConfiguration_def Let_def fst_conv
  by (intro accounted_intros;
      auto elim!: body_elims intro: audited_appends_actor split: prod.splits if_splits)+

lemma listener_accounted:
  "accounted c a db (UpdateListener c a e rid status n db)"
  "accounted c a db (UpdateListenerPolicies compile c a e rid p db)"
  "accounted c a db (AllocateListener compile parse_media locked c a e i db)"
  unfolding UpdateListener_def UpdateListenerPolicies_def AllocateListener_def Let_def prod.case
  by (intro accounted_intros;
      auto elim!: body_elims dest!: body_dests intro: audited_appends_actor split: prod.splits if_splits)+

lemma set_port_status_appends: "set_port_status c a e port status db = Inr (y, db') \<Longrightarrow> appends a db db'"
  unfolding set_port_status_def by (auto elim!: body_elims intro: audited_appends_actor)

lemma disable_listener_appends:
  "disable_listener c e a rid db = Inr db' \<Longrightarrow> db' = db \<or> appends a db db'"
  unfolding disable_listener_def by (auto intro: audit_appends_actor split: if_splits)

lemma release_port_appends:
  assumes "release_port c a e port rid db = Inr (y, db')"
  shows "appends a db db'"
proof -
  from assms obtain rows r db1 db2 where
    "audit c e a ''listener.deleted'' ''listener'' rid
       [(''listenPort'', DInt port), (''reason'', DStr ''port-released'')] db1 = Inr db2"
    and db1: "db1 = db\<lparr>t_ports := rows, t_listeners := delete_where (\<lambda>l. ls_id l = rid) (t_listeners db)\<rparr>"
    and "audited c e a ''port.status-changed'' ''port'' (show_int port)
       [(''status'', DStr ''available'')] (port_of e r) db2 = Inr (y, db')"
    unfolding release_port_def by (auto elim!: body_elims)
  then have "appends a db db2" and "appends a db2 db'"
    by (auto intro: audit_appends_actor audited_appends_actor)
  then show ?thesis by (rule appends_trans)
qed

lemma update_port_accounted: "accounted c a db (UpdatePortStatus c a e port status db)"
  unfolding UpdatePortStatus_def
  by (intro accounted_intros)
    (auto elim!: body_elims dest!: disable_listener_appends set_port_status_appends release_port_appends
      dest: appends_trans split: if_splits option.splits)

lemmas all_accounted = catalog_accounted access_accounted key_accounted configuration_accounted
  listener_accounted update_port_accounted

section \<open>Responses\<close>

lemma bootstrap_admin_plain: "trim_space ''bootstrap-admin'' = ''bootstrap-admin''"
  by (intro trim_space_plain) (auto simp: byte_eval)

lemma trim_actor [simp]: "trim_space (actor r) = actor r"
  by (simp add: actor_def Let_def bootstrap_admin_plain)

text \<open>The events of a call that fails: none.\<close>

lemma events_of_failure:
  "\<not> is_ok (fst (fst (UpdateConsumer s c a e rid display enabled permissions n db))) \<Longrightarrow>
   snd (UpdateConsumer s c a e rid display enabled permissions n db) = []"
  "\<not> is_ok (fst (fst (DeleteConsumer s c a e rid db))) \<Longrightarrow> snd (DeleteConsumer s c a e rid db) = []"
  "\<not> is_ok (fst (fst (RotateKey hmac s c a e key db))) \<Longrightarrow> snd (RotateKey hmac s c a e key db) = []"
  "\<not> is_ok (fst (fst (RevokeKey s c a e key db))) \<Longrightarrow> snd (RevokeKey s c a e key db) = []"
  "\<not> is_ok (fst (fst (ActivateConfiguration s c a e i expected db))) \<Longrightarrow>
   snd (ActivateConfiguration s c a e i expected db) = []"
  "\<not> is_ok (fst (fst (RollbackConfiguration s c a e i db))) \<Longrightarrow> snd (RollbackConfiguration s c a e i db) = []"
  unfolding UpdateConsumer_def DeleteConsumer_def RotateKey_def RevokeKey_def
      ActivateConfiguration_def RollbackConfiguration_def notify_def Let_def split_def
  by (simp_all split: if_splits)

lemma map_sum_eq_Inr: "map_sum f g m = Inr y \<longleftrightarrow> (\<exists>x. m = Inr x \<and> y = g x)"
  by (cases m) auto

lemma is_ok_map_sum [simp]: "is_ok (map_sum f g m) = is_ok m"
  by (cases m) auto

text \<open>
  An outcome is accounted for: it changes and publishes nothing, or it succeeds and is audited, or
  it is audited, publishes nothing and reports the failure of a COMMIT that was kept.
\<close>

definition outcome_accounted :: "call_env \<Rightarrow> string \<Rightarrow> database \<Rightarrow> outcome \<Rightarrow> bool" where
  "outcome_accounted c a db out \<longleftrightarrow> snd (fst out) = db \<and> snd out = []
     \<or> is_ok (fst (fst out)) \<and> appends a db (snd (fst out))
     \<or> commit_lost c \<and> fst (fst out) = Inl (ErrOther OtherError) \<and> snd out = [] \<and> appends a db (snd (fst out))"

lemma reply_accounted: "accounted c a db o1 \<Longrightarrow> outcome_accounted c a db (reply n w o1)"
  by (auto simp: outcome_accounted_def accounted_def outcome_simps split: sum.splits)

lemma reply_notified_accounted:
  "accounted c a db (fst out) \<Longrightarrow> (\<not> is_ok (fst (fst out)) \<Longrightarrow> snd out = []) \<Longrightarrow>
   outcome_accounted c a db (reply_notified n w out)"
  by (auto simp: outcome_accounted_def accounted_def outcome_simps split: sum.splits)

lemma answered_accounted:
  assumes "answered s lib c a e db out" and "trim_space a = a"
  shows "outcome_accounted c a db out"
  using assms(1)
proof (cases rule: answered.cases)
  case (approve_configuration i)
  then show ?thesis
    using configuration_accounted(5) [of c a db e i] assms(2) by (simp add: reply_accounted)
qed (simp_all add: reply_accounted reply_notified_accounted all_accounted events_of_failure,
    simp_all add: outcome_accounted_def outcome_simps)

lemma answered_status:
  "answered s lib c a e db out \<Longrightarrow> fst (fst out) = Inr (status, v) \<Longrightarrow> status \<in> {200, 201}"
  by (induction rule: answered.induct)
    (auto simp: outcome_simps listed_def map_sum_eq_Inr split: if_splits)

lemma is_ok_cases: "is_ok m \<Longrightarrow> (\<And>y. m = Inr y \<Longrightarrow> P) \<Longrightarrow> P"
  by (cases m) auto

lemma request_accounted:
  "outcome_accounted (ac_call x) (actor r) db (admin_route h lib x r db)"
  by (rule answered_accounted [OF route_answered]) simp

lemma request_run:
  "store_run (ah_store h) (al_store lib) db0 db \<Longrightarrow>
   store_run (ah_store h) (al_store lib) db0 (admin_serve h lib reqs db)"
proof (induction reqs arbitrary: db)
  case Nil
  then show ?case by simp
next
  case (Cons q reqs)
  obtain x r where q: "q = (x, r)" by fastforce
  have "store_run (ah_store h) (al_store lib) db0 (snd (fst (admin_route h lib x r db)))"
    using answered_step [OF route_answered, of h lib x r db] Cons.prems by (auto intro: store_run.step store_step.call)
  then show ?case using Cons.IH by (simp add: q admin_ServeHTTP_def Let_def)
qed

lemma served_accounted:
  "(case admin_ServeHTTP h lib x r db of ((status, body), db', events) \<Rightarrow>
     db' = db \<and> events = []
     \<or> (status \<in> {200, 201} \<or> status = 500 \<and> events = [] \<and> commit_lost (ac_call x))
       \<and> (\<exists>rows. t_audit db' = t_audit db @ rows \<and> au_actor ` set rows = {actor r}))"
proof -
  let ?out = "admin_route h lib x r db"
  consider "snd (fst ?out) = db" "snd ?out = []" | "is_ok (fst (fst ?out))" "appends (actor r) db (snd (fst ?out))"
    | "commit_lost (ac_call x)" "fst (fst ?out) = Inl (ErrOther OtherError)" "snd ?out = []"
      "appends (actor r) db (snd (fst ?out))"
    using request_accounted [of x r db h lib] by (auto simp: outcome_accounted_def)
  then show ?thesis
  proof cases
    case 2
    then obtain status v where res: "fst (fst ?out) = Inr (status, v)" by (auto elim: is_ok_cases)
    with answered_status [OF route_answered res] 2 show ?thesis
      by (auto simp: admin_ServeHTTP_def Let_def appends_def)
  qed (auto simp: admin_ServeHTTP_def Let_def appends_def split: prod.split)
qed

section \<open>Properties\<close>

text \<open>
  Claim C19: A request to the admin API either changes nothing and publishes nothing, or has added
  audit events to the end of the trail, every one of them in the name of the request's actor, who is
  never blank, and is answered with status 200 or 201; only when its COMMIT took effect and the
  answer to it was lost is it answered with status 500, and then it publishes nothing. So nothing
  changes without being recorded, and a request answered with an error leaves no trace unless the
  database kept a COMMIT that it reported as failed.
\<close>

theorem admin_request_accounted:
  "actor r \<noteq> [] \<and>
   (case admin_ServeHTTP h lib x r db of ((status, body), db', events) \<Rightarrow>
     db' = db \<and> events = []
     \<or> (status \<in> {200, 201} \<or> status = 500 \<and> events = [] \<and> commit_lost (ac_call x))
       \<and> (\<exists>rows. t_audit db' = t_audit db @ rows \<and> au_actor ` set rows = {actor r}))"
  using actor_ok(1) served_accounted by (rule conjI)

text \<open>
  Claim C20: Every sequence of requests to the admin API, with any bodies, actors and failures of
  the database, is a run of the store's operations; so, from the database the migrations leave, the
  port inventory agrees with the listeners, and the configurations have followed the abstract
  lifecycle machine, with its approvals.
\<close>

theorem admin_requests_refine_store:
  "store_run (ah_store h) (al_store lib) (initial_database now) (admin_serve h lib reqs (initial_database now))
   \<and> inventory_ok (admin_serve h lib reqs (initial_database now))
   \<and> life_run (st_requiredApprovals (ah_store h)) (life_of (initial_database now))
       (life_of (admin_serve h lib reqs (initial_database now)))"
proof -
  have run: "store_run (ah_store h) (al_store lib) (initial_database now)
      (admin_serve h lib reqs (initial_database now))"
    by (rule request_run) (rule store_run.start)
  moreover from run initial_inventory step_inventory
  have "inventory_ok (admin_serve h lib reqs (initial_database now))" by (rule store_machine.run_invariant)
  ultimately show ?thesis using lifecycle.run_simulates [OF run initial_ok] by simp
qed

end
