(* ===== verification/Http_Api.thy ===== *)
theory Http_Api
  imports Admin_Properties Correlation Metrics
begin

text \<open>
  The HTTP surface of both processes, \<^verbatim>\<open>internal/httpapi/handler.go\<close>: health and metrics
  endpoints, the bearer token in front of the admin API, the access log with its bounded routes,
  and the middleware around them. The admin API and the gateway are handlers given to it.
\<close>

section \<open>Words of a header\<close>

text \<open>
  \<open>strings.Fields\<close>: the words between white space. The first byte of an encoding of white space
  never continues another rune, so that the bytes can be read one by one.
\<close>

function fields_from :: "string \<Rightarrow> string \<Rightarrow> string list" where
  "fields_from word s =
     (case strip_space_prefix s of
        Some t \<Rightarrow> (if word = [] then [] else [word]) @ fields_from [] t
      | None \<Rightarrow> (case s of
          [] \<Rightarrow> (if word = [] then [] else [word])
        | c # cs \<Rightarrow> fields_from (word @ [c]) cs))"
  by pat_completeness auto

termination
  by (relation "measure (\<lambda>(word, s). length s)") (auto dest: strip_space_prefix_shorter)

declare fields_from.simps [simp del]

definition strings_fields :: "string \<Rightarrow> string list" where
  "strings_fields s = fields_from [] s"

text \<open>\<open>strings.EqualFold\<close> with a word that has none of the letters with a fold outside ASCII.\<close>

definition equal_fold :: "string \<Rightarrow> string \<Rightarrow> bool" where
  "equal_fold s word \<longleftrightarrow> map lower_byte s = map lower_byte word"

definition visible :: "string \<Rightarrow> bool" where
  "visible s \<longleftrightarrow> s \<noteq> [] \<and> (\<forall>c \<in> set s. 33 \<le> byte_of c \<and> byte_of c < 127)"

lemma strip_space_space: "strip_space_prefix (CHR '' '' # s) = Some s"
  by (simp add: strip_space_prefix_def space_encodings_def has_prefix_def)

lemma fields_from_word:
  "\<forall>c \<in> set w. 33 \<le> byte_of c \<and> byte_of c < 127 \<Longrightarrow> fields_from word (w @ s) = fields_from (word @ w) s"
proof (induction w arbitrary: word)
  case Nil
  then show ?case by simp
next
  case (Cons c w)
  then show ?case
    by (subst fields_from.simps) (simp add: no_space_prefix)
qed

lemma fields_of_two:
  assumes "visible u" and "visible w"
  shows "strings_fields (u @ '' '' @ w) = [u, w]"
proof -
  have "fields_from w [] = [w]" if "w \<noteq> []" for w
    using that by (subst fields_from.simps) (simp add: no_space_prefix)
  moreover have "fields_from u (CHR '' '' # w) = u # fields_from [] w"
    using assms(1) by (subst fields_from.simps) (simp add: strip_space_space visible_def)
  ultimately show ?thesis
    using assms fields_from_word [of u "[]" "CHR '' '' # w"] fields_from_word [of w "[]" "[]"]
    by (simp add: strings_fields_def visible_def)
qed

section \<open>Handlers\<close>

text \<open>
  The state a request meets: the process metrics, the access log, and what the admin API or the
  gateway work on. A response is its status, headers and body.
\<close>

record log_line =
  lg_method :: string
  lg_route :: string
  lg_status :: int
  lg_correlation_id :: string

record 's server_state =
  ss_metrics :: metrics
  ss_log :: "log_line list"
  ss_data :: 's

datatype 'b http_body =
    Body_health string string string int
  | Body_error string
  | Body_metrics metrics
  | Body_api 'b

record 'b http_response =
  hr_status :: int
  hr_header :: header
  hr_body :: "'b http_body"

type_synonym ('q, 's, 'b) http_api =
  "header \<Rightarrow> 'q admin_request_scheme \<Rightarrow> 's server_state \<Rightarrow> 'b http_response \<times> 's server_state"

record ('q, 's, 'b) http_options =
  ho_Service :: string
  ho_Environment :: string
  ho_Readiness :: "bool option"
  ho_AdminBearerToken :: string
  ho_AdminAPI :: "('q, 's, 'b) http_api option"
  ho_GatewayAPI :: "('q, 's, 'b) http_api option"
  ho_Metrics :: bool
  ho_MetricsBearerToken :: string
  ho_Now :: int

record ('q, 's, 'b) http_handler =
  hh_service :: string
  hh_environment :: string
  hh_readiness :: "bool option"
  hh_adminTokenDigest :: string
  hh_hasAdminToken :: bool
  hh_adminAPI :: "('q, 's, 'b) http_api option"
  hh_gatewayAPI :: "('q, 's, 'b) http_api option"
  hh_metrics :: bool
  hh_metricsTokenDigest :: string
  hh_hasMetricsToken :: bool
  hh_now :: int

definition http_writeJSON :: "header \<Rightarrow> int \<Rightarrow> 'b http_body \<Rightarrow> 'b http_response" where
  "http_writeJSON w status body =
     \<lparr>hr_status = status, hr_header = header_set ''Content-Type'' ''application/json; charset=utf-8'' w,
      hr_body = body\<rparr>"

definition writeHealth :: "('q, 's, 'b) http_handler \<Rightarrow> header \<Rightarrow> int \<Rightarrow> string \<Rightarrow> 'b http_response" where
  "writeHealth h w status text =
     http_writeJSON w status (Body_health text (hh_service h) (hh_environment h) (hh_now h))"

definition http_writeError :: "header \<Rightarrow> int \<Rightarrow> string \<Rightarrow> 'b http_response" where
  "http_writeError w status message = http_writeJSON w status (Body_error message)"

text \<open>\<open>sha\<close> is SHA-256. The digest of a token that is not configured is all zeros.\<close>

definition authorized :: "(string \<Rightarrow> string) \<Rightarrow> string \<Rightarrow> string \<Rightarrow> bool \<Rightarrow> bool" where
  "authorized sha auth digest configured \<longleftrightarrow> configured
     \<and> (case strings_fields auth of
          [scheme, token] \<Rightarrow> equal_fold scheme ''Bearer'' \<and> sha token = digest
        | _ \<Rightarrow> False)"

definition admin_path :: "string \<Rightarrow> bool" where
  "admin_path path \<longleftrightarrow> path = ''/admin/v1'' \<or> has_prefix path ''/admin/v1/''"

definition unauthorized :: "header \<Rightarrow> 'b http_response" where
  "unauthorized w = http_writeError (header_set ''WWW-Authenticate'' ''Bearer'' w) 401 ''unauthorized''"

definition metrics_response :: "header \<Rightarrow> metrics \<Rightarrow> 'b http_response" where
  "metrics_response w m = \<lparr>hr_status = 200,
     hr_header = header_set ''Cache-Control'' ''no-store''
       (header_set ''Content-Type'' ''text/plain; version=0.0.4; charset=utf-8'' w), hr_body = Body_metrics m\<rparr>"

definition http_ServeHTTP ::
  "(string \<Rightarrow> string) \<Rightarrow> ('q, 's, 'b) http_handler \<Rightarrow> ('q, 's, 'b) http_api" where
  "http_ServeHTTP sha h w r s =
     (let path = aq_path r; get = (aq_method r = ''GET'');
          auth = header_get (aq_header r) ''Authorization'';
          rest = (case hh_gatewayAPI h of
              Some api \<Rightarrow> api w r s
            | None \<Rightarrow> (http_writeError w 404 ''not found'', s))
      in if path = ''/health/live'' then
           (if \<not> get then (http_writeError w 405 ''method not allowed'', s)
            else (writeHealth h w 200 ''live'', s))
         else if path = ''/health/ready'' then
           (if \<not> get then (http_writeError w 405 ''method not allowed'', s)
            else if hh_readiness h = Some True then (writeHealth h w 200 ''ready'', s)
            else (writeHealth h w 503 ''not_ready'', s))
         else if path = ''/metrics'' then
           (if \<not> get then (http_writeError w 405 ''method not allowed'', s)
            else if \<not> hh_metrics h \<or> \<not> authorized sha auth (hh_metricsTokenDigest h) (hh_hasMetricsToken h)
            then (unauthorized w, s)
            else (metrics_response w (ss_metrics s), s))
         else if admin_path path then
           (if \<not> authorized sha auth (hh_adminTokenDigest h) (hh_hasAdminToken h) then (unauthorized w, s)
            else (case hh_adminAPI h of Some api \<Rightarrow> api w r s | None \<Rightarrow> rest))
         else rest)"

section \<open>Access log\<close>

definition admin_resources :: "string list" where
  "admin_resources = [''services'', ''service-versions'', ''ports'', ''listeners'', ''permissions'', ''consumers'',
     ''keys'', ''configurations'', ''audit-events'', ''audit-logs'', ''gateway-instances'']"

definition trim_prefix :: "string \<Rightarrow> string \<Rightarrow> string" where
  "trim_prefix p s = (if has_prefix s p then drop (length p) s else s)"

definition boundedRoute :: "string \<Rightarrow> string" where
  "boundedRoute path =
     (if path \<in> {''/health/live'', ''/health/ready'', ''/metrics''} then path
      else if admin_path path then
        (let part = hd (split_on CHR ''/'' (trim_prefix ''/admin/v1/'' path))
         in if part \<in> set admin_resources then ''/admin/v1/'' @ part else ''/admin/v1/other'')
      else ''gateway'')"

text \<open>
  The access log around the handler: the gauge of requests in flight, the status and duration of
  the response, and the line that is logged. \<open>duration\<close> is how long the handler took.
\<close>

definition accessLog ::
  "bool \<Rightarrow> int \<Rightarrow> string \<Rightarrow> ('q, 's, 'b) http_api \<Rightarrow> ('q, 's, 'b) http_api" where
  "accessLog has_metrics duration cid api w r s =
     (let s0 = (if has_metrics then s\<lparr>ss_metrics := record_event BeginRequest (ss_metrics s)\<rparr> else s);
          (resp, s1) = api w r s0;
          s2 = (if has_metrics then s1\<lparr>ss_metrics := ObserveRequest (hr_status resp) duration (ss_metrics s1)\<rparr> else s1);
          s3 = s2\<lparr>ss_log := ss_log s2 @ [\<lparr>lg_method = aq_method r, lg_route = boundedRoute (aq_path r),
                 lg_status = hr_status resp, lg_correlation_id = cid\<rparr>]\<rparr>
      in (resp, if has_metrics then s3\<lparr>ss_metrics := record_event EndRequest (ss_metrics s3)\<rparr> else s3))"

definition http_handler_of :: "(string \<Rightarrow> string) \<Rightarrow> ('q, 's, 'b) http_options \<Rightarrow> ('q, 's, 'b) http_handler" where
  "http_handler_of sha opts = \<lparr>hh_service = ho_Service opts, hh_environment = ho_Environment opts,
     hh_readiness = ho_Readiness opts,
     hh_adminTokenDigest = (if ho_AdminBearerToken opts = [] then replicate 32 CHR 0x00
        else sha (ho_AdminBearerToken opts)),
     hh_hasAdminToken = (ho_AdminBearerToken opts \<noteq> []), hh_adminAPI = ho_AdminAPI opts,
     hh_gatewayAPI = ho_GatewayAPI opts, hh_metrics = ho_Metrics opts,
     hh_metricsTokenDigest = (if ho_MetricsBearerToken opts = [] then replicate 32 CHR 0x00
        else sha (ho_MetricsBearerToken opts)),
     hh_hasMetricsToken = (ho_MetricsBearerToken opts \<noteq> []), hh_now = ho_Now opts\<rparr>"

text \<open>What \<open>New\<close> returns: the middleware around the access log around the handler.\<close>

definition http_New ::
  "(string \<Rightarrow> string) \<Rightarrow> ('q, 's, 'b) http_options \<Rightarrow> string \<Rightarrow> int \<Rightarrow> ('q, 's, 'b) http_api" where
  "http_New sha opts random duration w r s =
     Middleware random
       (\<lambda>w' cid. accessLog (ho_Metrics opts) duration cid (http_ServeHTTP sha (http_handler_of sha opts)) w' r s)
       w (aq_header r)"

text \<open>The label of the log is one of fifteen, whatever the path holds.\<close>

lemma boundedRoute_bounded:
  "boundedRoute path \<in> {''/health/live'', ''/health/ready'', ''/metrics'', ''/admin/v1/other'', ''gateway''}
     \<union> (\<lambda>part. ''/admin/v1/'' @ part) ` set admin_resources"
  by (simp add: boundedRoute_def Let_def)

section \<open>The admin process\<close>

text \<open>The admin API as a handler: its data are the database and the events it has published.\<close>

definition admin_api ::
  "admin_handler \<Rightarrow> admin_libraries \<Rightarrow> admin_context \<Rightarrow>
   ('q, database \<times> (string \<times> string) list, admin_body) http_api" where
  "admin_api h lib x w r s =
     (case admin_ServeHTTP h lib x (admin_request.truncate r) (fst (ss_data s)) of
        ((status, body), db', events) \<Rightarrow>
          (http_writeJSON w (int status) (Body_api body),
           s\<lparr>ss_data := (db', snd (ss_data s) @ events)\<rparr>))"

section \<open>Who reaches the admin API\<close>

text \<open>A request presents the admin token when its digest is that of the configured one.\<close>

definition presents_token ::
  "(string \<Rightarrow> string) \<Rightarrow> ('q, 's, 'b) http_options \<Rightarrow> 'q admin_request_scheme \<Rightarrow> bool" where
  "presents_token sha opts r \<longleftrightarrow> ho_AdminBearerToken opts \<noteq> []
     \<and> (\<exists>scheme token. strings_fields (header_get (aq_header r) ''Authorization'') = [scheme, token]
         \<and> equal_fold scheme ''Bearer'' \<and> sha token = sha (ho_AdminBearerToken opts))"

lemma authorized_iff:
  "authorized sha auth digest configured \<longleftrightarrow> configured
     \<and> (\<exists>scheme token. strings_fields auth = [scheme, token] \<and> equal_fold scheme ''Bearer'' \<and> sha token = digest)"
  by (auto simp: authorized_def split: list.splits)

lemma authorized_presents:
  "authorized sha (header_get (aq_header r) ''Authorization'')
     (hh_adminTokenDigest (http_handler_of sha opts)) (hh_hasAdminToken (http_handler_of sha opts))
   \<longleftrightarrow> presents_token sha opts r"
  by (auto simp: authorized_iff presents_token_def http_handler_of_def)

lemma handler_apis [simp]:
  "hh_adminAPI (http_handler_of sha opts) = ho_AdminAPI opts"
  "hh_gatewayAPI (http_handler_of sha opts) = ho_GatewayAPI opts"
  by (simp_all add: http_handler_of_def)

lemma admin_path_other:
  "admin_path path \<Longrightarrow> path \<noteq> ''/health/live'' \<and> path \<noteq> ''/health/ready'' \<and> path \<noteq> ''/metrics''"
  by (auto simp: admin_path_def has_prefix_def)

lemma ServeHTTP_admin:
  assumes "admin_path (aq_path r)"
  shows "http_ServeHTTP sha (http_handler_of sha opts) w r s =
    (if presents_token sha opts r
     then (case ho_AdminAPI opts of Some api \<Rightarrow> api w r s
           | None \<Rightarrow> (case ho_GatewayAPI opts of Some api \<Rightarrow> api w r s
                       | None \<Rightarrow> (http_writeError w 404 ''not found'', s)))
     else (unauthorized w, s))"
  unfolding http_ServeHTTP_def Let_def authorized_presents
  using assms admin_path_other [OF assms] by (simp cong: option.case_cong)

lemma accessLog_response:
  "fst (accessLog m d cid api w r s) =
     fst (api w r (if m then s\<lparr>ss_metrics := record_event BeginRequest (ss_metrics s)\<rparr> else s))"
  "ss_data (snd (accessLog m d cid api w r s)) =
     ss_data (snd (api w r (if m then s\<lparr>ss_metrics := record_event BeginRequest (ss_metrics s)\<rparr> else s)))"
  by (simp_all add: accessLog_def Let_def split: prod.split)

text \<open>What the handler inside \<open>New\<close> is called with.\<close>

definition inner_header :: "string \<Rightarrow> header \<Rightarrow> header \<Rightarrow> header" where
  "inner_header random w h = Middleware random (\<lambda>w' cid. w') w h"

definition inner_state :: "('q, 's, 'b) http_options \<Rightarrow> 's server_state \<Rightarrow> 's server_state" where
  "inner_state opts s =
     (if ho_Metrics opts then s\<lparr>ss_metrics := record_event BeginRequest (ss_metrics s)\<rparr> else s)"

lemma inner_state_data [simp]: "ss_data (inner_state opts s) = ss_data s"
  by (simp add: inner_state_def)

lemma New_inner:
  "fst (http_New sha opts random d w r s) =
     fst (http_ServeHTTP sha (http_handler_of sha opts) (inner_header random w (aq_header r)) r (inner_state opts s))"
  "ss_data (snd (http_New sha opts random d w r s)) =
     ss_data (snd (http_ServeHTTP sha (http_handler_of sha opts) (inner_header random w (aq_header r)) r (inner_state opts s)))"
  by (simp_all add: http_New_def Middleware_def Let_def accessLog_response inner_header_def inner_state_def)

text \<open>
  Claim C18: A request under \<^verbatim>\<open>/admin/v1\<close> that does not present the configured token (no token
  configured, no bearer credentials, or a token with another digest) is answered 401, and neither
  the admin API nor the gateway behind it is called: their data stay as they were. This holds for
  the gateway process too, which has no admin token.
\<close>

theorem admin_prefix_guarded:
  assumes "admin_path (aq_path r)" and "\<not> presents_token sha opts r"
  shows "hr_status (fst (http_New sha opts random d w r s)) = 401
    \<and> ss_data (snd (http_New sha opts random d w r s)) = ss_data s"
  using assms by (simp add: New_inner ServeHTTP_admin unauthorized_def http_writeError_def http_writeJSON_def)

theorem admin_prefix_guarded_witness:
  "hr_status (fst (http_New (\<lambda>t. t) \<lparr>ho_Service = ''gateway'', ho_Environment = ''development'',
     ho_Readiness = None, ho_AdminBearerToken = [], ho_AdminAPI = None,
     ho_GatewayAPI = Some (\<lambda>w r s. (http_writeError w 502 [], s\<lparr>ss_data := (1::nat)\<rparr>)),
     ho_Metrics = True, ho_MetricsBearerToken = [], ho_Now = 0\<rparr> (replicate 16 CHR 0x01) 0 Map.empty
     \<lparr>aq_method = ''GET'', aq_path = ''/admin/v1/services'', aq_query = (\<lambda>_. []), aq_header = Map.empty,
      aq_body = [], aq_content_length = 0\<rparr>
     \<lparr>ss_metrics = new_metrics, ss_log = [], ss_data = 0\<rparr>)) = 401" (is "hr_status (fst (http_New _ ?o _ _ _ ?r ?s)) = 401")
proof -
  have "admin_path (aq_path ?r)" and "\<not> presents_token (\<lambda>t. t) ?o ?r"
    by (simp_all add: admin_path_def has_prefix_def presents_token_def)
  from admin_prefix_guarded [OF this] show ?thesis by blast
qed

text \<open>A process without an admin token refuses everything under the prefix.\<close>

lemma no_token_configured: "ho_AdminBearerToken opts = [] \<Longrightarrow> \<not> presents_token sha opts r"
  by (simp add: presents_token_def)

lemma equal_fold_refl [simp]: "equal_fold s s"
  by (simp add: equal_fold_def)

lemma token_presented:
  assumes "header_get (aq_header r) ''Authorization'' = scheme @ '' '' @ ho_AdminBearerToken opts"
    and "visible scheme" and "equal_fold scheme ''Bearer''" and "visible (ho_AdminBearerToken opts)"
  shows "presents_token sha opts r"
  using assms fields_of_two [OF assms(2,4)] by (auto simp: presents_token_def visible_def)

text \<open>
  White space never is part of a word, so that a configured token with a space in it is presented
  by nobody, as long as no other token has its digest.
\<close>

lemma fields_from_no_space:
  "CHR '' '' \<notin> set word \<Longrightarrow> f \<in> set (fields_from word s) \<Longrightarrow> CHR '' '' \<notin> set f"
proof (induction word s rule: fields_from.induct)
  case (1 word s)
  show ?case
  proof (cases "strip_space_prefix s")
    case (Some t)
    with 1 show ?thesis by (auto simp: fields_from.simps [of word s] split: if_splits)
  next
    case None
    show ?thesis
    proof (cases s)
      case Nil
      with None "1.prems" show ?thesis by (auto simp: fields_from.simps [of word "[]"] split: if_splits)
    next
      case (Cons c cs)
      with None have "c \<noteq> CHR '' ''" using strip_space_space by auto
      with None Cons 1 show ?thesis by (auto simp: fields_from.simps [of word "c # cs"])
    qed
  qed
qed

lemma spaced_token_locks_out:
  assumes "CHR '' '' \<in> set (ho_AdminBearerToken opts)"
    and "\<And>t. sha t = sha (ho_AdminBearerToken opts) \<Longrightarrow> t = ho_AdminBearerToken opts"
  shows "\<not> presents_token sha opts r"
proof
  assume "presents_token sha opts r"
  then obtain scheme token where "strings_fields (header_get (aq_header r) ''Authorization'') = [scheme, token]"
    and "sha token = sha (ho_AdminBearerToken opts)"
    by (auto simp: presents_token_def)
  with assms(2) have "ho_AdminBearerToken opts \<in> set (strings_fields (header_get (aq_header r) ''Authorization''))"
    by auto
  then have "CHR '' '' \<notin> set (ho_AdminBearerToken opts)"
    unfolding strings_fields_def by (rule fields_from_no_space [rotated]) simp
  with assms(1) show False by simp
qed

text \<open>
  Claim C6: In the admin process, the database changes only by requests that present the token, and
  then the audit trail has grown by events in the name of the actor that the request gives; every
  other request, whatever its path, leaves the database and the published events alone.
\<close>

theorem admin_process_changes:
  assumes "ho_AdminAPI opts = Some (admin_api h lib x)" and "ho_GatewayAPI opts = None"
    and "ss_data (snd (http_New sha opts random d w r s)) \<noteq> ss_data s"
  shows "presents_token sha opts r \<and>
    (\<exists>rows. t_audit (fst (ss_data (snd (http_New sha opts random d w r s)))) = t_audit (fst (ss_data s)) @ rows
       \<and> au_actor ` set rows = {actor (admin_request.truncate r)})"
proof -
  let ?w = "inner_header random w (aq_header r)" and ?s = "inner_state opts s"
  let ?q = "admin_request.truncate r"
  from assms(3) have changed: "ss_data (snd (http_ServeHTTP sha (http_handler_of sha opts) ?w r ?s)) \<noteq> ss_data s"
    by (simp add: New_inner)
  with assms(2) have "admin_path (aq_path r)"
    by (auto simp: http_ServeHTTP_def Let_def split: if_splits)
  with changed assms(1) have token: "presents_token sha opts r"
    and inner: "http_ServeHTTP sha (http_handler_of sha opts) ?w r ?s = admin_api h lib x ?w r ?s"
    by (auto simp: ServeHTTP_admin split: if_splits)
  obtain status body db' events where served:
    "admin_ServeHTTP h lib x ?q (fst (ss_data s)) = ((status, body), db', events)"
    by (metis prod.exhaust)
  then have data: "ss_data (snd (http_New sha opts random d w r s)) = (db', snd (ss_data s) @ events)"
    by (simp add: New_inner inner admin_api_def)
  with assms(3) have "\<not> (db' = fst (ss_data s) \<and> events = [])"
    by (metis append_Nil2 prod.collapse)
  with served_accounted [where h = h and lib = lib and x = x and r = ?q and db = "fst (ss_data s)"] served
  have "\<exists>rows. t_audit db' = t_audit (fst (ss_data s)) @ rows \<and> au_actor ` set rows = {actor ?q}"
    by simp
  with token data show ?thesis by simp
qed

definition example_http_options ::
  "(unit, database \<times> (string \<times> string) list, admin_body) http_options" where
  "example_http_options = \<lparr>ho_Service = ''gateway-admin'', ho_Environment = ''development'', ho_Readiness = Some True,
     ho_AdminBearerToken = ''secret-token'',
     ho_AdminAPI = Some (admin_api (NewHandler example_store ''development'')
       \<lparr>al_store = example_libraries, al_json = (\<lambda>_. None), al_time = (\<lambda>_. None)\<rparr>
       \<lparr>ac_call = example_context, ac_locked = {}\<rparr>),
     ho_GatewayAPI = None, ho_Metrics = False, ho_MetricsBearerToken = [], ho_Now = 0\<rparr>"

definition example_admin_request :: admin_request where
  "example_admin_request = \<lparr>aq_method = ''POST'', aq_path = ''/admin/v1/configurations'', aq_query = (\<lambda>_. []),
     aq_header = header_set ''Authorization'' ''bearer secret-token'' Map.empty, aq_body = [],
     aq_content_length = 0\<rparr>"

definition example_state :: "(database \<times> (string \<times> string) list) server_state" where
  "example_state = \<lparr>ss_metrics = new_metrics, ss_log = [], ss_data = (initial_database 0, [])\<rparr>"

lemma example_presents: "presents_token (\<lambda>t. t) example_http_options example_admin_request"
proof (rule token_presented [where scheme = "''bearer''"])
  show "header_get (aq_header example_admin_request) ''Authorization''
      = ''bearer'' @ '' '' @ ho_AdminBearerToken example_http_options"
    by (simp add: example_admin_request_def example_http_options_def header_get_def header_values_set)
qed (simp_all add: example_http_options_def visible_def equal_fold_def byte_eval)

lemma example_segments: "splitPath ''/admin/v1/configurations'' = [''admin'', ''v1'', ''configurations'']"
  by (simp add: splitPath_def trim_byte_def Let_def)

lemma example_created:
  "snd (CreateConfiguration host example_context a ''development'' (initial_database 0)) \<noteq> initial_database 0"
proof -
  have "t_next_configuration (snd (CreateConfiguration host example_context a ''development'' (initial_database 0)))
     \<noteq> t_next_configuration (initial_database 0)"
    by (simp add: CreateConfiguration_def withTx_def audited_def audit_def query_row_def environment_id_def
      example_context_def initial_database_def Let_def)
  then show ?thesis by auto
qed

lemma example_changes:
  "ss_data (snd (http_New (\<lambda>t. t) example_http_options (replicate 16 CHR 0x01) 0 Map.empty example_admin_request example_state))
     \<noteq> ss_data example_state"
proof -
  have "admin_path (aq_path example_admin_request)"
    by (simp add: example_admin_request_def admin_path_def has_prefix_def)
  moreover have "fst (snd (admin_ServeHTTP (NewHandler example_store ''development'')
       \<lparr>al_store = example_libraries, al_json = (\<lambda>_. None), al_time = (\<lambda>_. None)\<rparr>
       \<lparr>ac_call = example_context, ac_locked = {}\<rparr> (admin_request.truncate example_admin_request) (initial_database 0)))
     \<noteq> initial_database 0"
    using example_created
    by (simp add: admin_ServeHTTP_def admin_route_def admin_configurations_def Let_def example_admin_request_def
        admin_request.defs example_segments NewHandler_def outcome_simps)
  ultimately show ?thesis
    using example_presents
    by (auto simp: New_inner ServeHTTP_admin example_http_options_def example_state_def admin_api_def split: prod.split)
qed

theorem admin_process_changes_witness:
  "\<exists>rows. t_audit (fst (ss_data (snd (http_New (\<lambda>t. t) example_http_options (replicate 16 CHR 0x01) 0 Map.empty
       example_admin_request example_state)))) = rows \<and> au_actor ` set rows = {actor example_admin_request}"
proof -
  have "ho_AdminAPI example_http_options = Some (admin_api (NewHandler example_store ''development'')
       \<lparr>al_store = example_libraries, al_json = (\<lambda>_. None), al_time = (\<lambda>_. None)\<rparr>
       \<lparr>ac_call = example_context, ac_locked = {}\<rparr>)" and "ho_GatewayAPI example_http_options = None"
    by (simp_all add: example_http_options_def)
  from admin_process_changes [OF this example_changes] show ?thesis
    by (simp add: example_state_def initial_database_def example_admin_request_def admin_request.defs)
qed

end
