(* ===== verification/Connections.thy ===== *)
theory Connections
  imports Prelude
begin

text \<open>
  The connections of a process to what is outside it: the transport to the upstreams
  (\<^verbatim>\<open>internal/dataplane/transport.go\<close>), the client of Redis (\<open>New\<close> in
  \<^verbatim>\<open>internal/coordination/redis.go\<close>) and the pool of the database (\<open>Open\<close> in
  \<^verbatim>\<open>internal/database/database.go\<close>). The parsers of the drivers, the certificate store and the
  file system are arguments; a duration is in nanoseconds.
\<close>

section \<open>The transport\<close>

datatype tls_version = VersionTLS10 | VersionTLS11 | VersionTLS12 | VersionTLS13

instantiation tls_version :: linorder
begin

fun tls_number :: "tls_version \<Rightarrow> nat" where
  "tls_number VersionTLS10 = 0x0301"
| "tls_number VersionTLS11 = 0x0302"
| "tls_number VersionTLS12 = 0x0303"
| "tls_number VersionTLS13 = 0x0304"

definition less_eq_tls_version :: "tls_version \<Rightarrow> tls_version \<Rightarrow> bool" where
  "less_eq_tls_version v v' \<longleftrightarrow> tls_number v \<le> tls_number v'"

definition less_tls_version :: "tls_version \<Rightarrow> tls_version \<Rightarrow> bool" where
  "less_tls_version v v' \<longleftrightarrow> tls_number v < tls_number v'"

instance
proof
  fix v v' :: tls_version
  show "v \<le> v' \<Longrightarrow> v' \<le> v \<Longrightarrow> v = v'"
    by (cases v; cases v') (simp_all add: less_eq_tls_version_def)
qed (auto simp: less_eq_tls_version_def less_tls_version_def)

end

text \<open>\<open>RootCAs\<close> is \<open>None\<close> for the roots of the system; a client that has a TLS configuration without
  \<open>InsecureSkipVerify\<close> verifies the certificate of the server against them.\<close>

record 'p tls_config =
  tc_MinVersion :: tls_version
  tc_RootCAs :: "'p option"
  tc_InsecureSkipVerify :: bool

record 'p transport =
  tr_Proxy :: bool
  tr_DialTimeout :: int
  tr_KeepAlive :: int
  tr_MaxIdleConns :: nat
  tr_MaxIdleConnsPerHost :: nat
  tr_IdleConnTimeout :: int
  tr_ResponseHeaderTimeout :: int
  tr_TLSClientConfig :: "'p tls_config"

record 'p certificate_store =
  cs_system :: "'p option"
  cs_read :: "string \<Rightarrow> string option"
  cs_append :: "'p \<Rightarrow> string \<Rightarrow> 'p \<times> bool"

definition NewTransport :: "'p certificate_store \<Rightarrow> string \<Rightarrow> string + 'p transport" where
  "NewTransport C caFile =
     (let transport = \<lparr>tr_Proxy = False, tr_DialTimeout = 5 * 1000000000, tr_KeepAlive = 30 * 1000000000,
            tr_MaxIdleConns = 256, tr_MaxIdleConnsPerHost = 32, tr_IdleConnTimeout = 90 * 1000000000,
            tr_ResponseHeaderTimeout = 30 * 1000000000,
            tr_TLSClientConfig = \<lparr>tc_MinVersion = VersionTLS12, tc_RootCAs = None, tc_InsecureSkipVerify = False\<rparr>\<rparr>
      in if caFile = [] then Inr transport
         else (case cs_system C of
           None \<Rightarrow> Inl ''load system certificate roots''
         | Some roots \<Rightarrow>
             (case cs_read C caFile of
                None \<Rightarrow> Inl ''load upstream TLS CA bundle''
              | Some encoded \<Rightarrow>
                  (case cs_append C roots encoded of
                     (roots', ok) \<Rightarrow>
                       if \<not> ok then Inl ''load upstream TLS CA bundle''
                       else Inr (transport\<lparr>tr_TLSClientConfig :=
                         (tr_TLSClientConfig transport)\<lparr>tc_RootCAs := Some roots'\<rparr>\<rparr>)))))"

text \<open>
  Every transport verifies its upstreams with TLS 1.2 at least, goes through no proxy and gives up
  on headers; roots other than the system's are those of the system with the bundle added.
\<close>

lemma NewTransport_secure:
  assumes "NewTransport C caFile = Inr t"
  shows "\<not> tr_Proxy t \<and> \<not> tc_InsecureSkipVerify (tr_TLSClientConfig t)
    \<and> VersionTLS12 \<le> tc_MinVersion (tr_TLSClientConfig t) \<and> 0 < tr_ResponseHeaderTimeout t
    \<and> (case tc_RootCAs (tr_TLSClientConfig t) of
         None \<Rightarrow> caFile = []
       | Some roots \<Rightarrow> \<exists>system encoded. cs_system C = Some system \<and> cs_read C caFile = Some encoded
           \<and> cs_append C system encoded = (roots, True))"
  using assms by (auto simp: NewTransport_def Let_def split: if_splits option.splits prod.splits)

section \<open>Redis\<close>

record redis_options =
  rd_DialTimeout :: int
  rd_ReadTimeout :: int
  rd_WriteTimeout :: int

text \<open>The options that a URL gives, with the timeouts of the client in place of its own.\<close>

definition coordination_New :: "(string \<Rightarrow> redis_options option) \<Rightarrow> string \<Rightarrow> string + redis_options" where
  "coordination_New ParseURL rawURL =
     (case ParseURL rawURL of
        None \<Rightarrow> Inl ''parse Redis configuration''
      | Some options \<Rightarrow> Inr (options\<lparr>rd_DialTimeout := 2 * 1000000000, rd_ReadTimeout := 2 * 1000000000,
          rd_WriteTimeout := 2 * 1000000000\<rparr>))"

section \<open>The database\<close>

record pool_config =
  pc_MinConns :: int
  pc_MaxConns :: int

record 'a pool_driver =
  pd_ParseConfig :: "string \<Rightarrow> pool_config option"
  pd_New :: "int \<Rightarrow> pool_config \<Rightarrow> 'a option"
  pd_Ping :: "int \<Rightarrow> 'a \<Rightarrow> bool"
  pd_Close :: "'a \<Rightarrow> 'a"

text \<open>The result, and the pool that was closed again when the database did not answer.\<close>

definition Open :: "'a pool_driver \<Rightarrow> string \<Rightarrow> int \<Rightarrow> int \<Rightarrow> int \<Rightarrow> (string + 'a) \<times> 'a option" where
  "Open D databaseURL minConnections maxConnections timeout =
     (case pd_ParseConfig D databaseURL of
        None \<Rightarrow> (Inl ''parse database configuration'', None)
      | Some poolConfig \<Rightarrow>
          (case pd_New D timeout (poolConfig\<lparr>pc_MinConns := minConnections, pc_MaxConns := maxConnections\<rparr>) of
             None \<Rightarrow> (Inl ''create database pool'', None)
           | Some pool \<Rightarrow>
               if \<not> pd_Ping D timeout pool then (Inl ''connect to database'', Some (pd_Close D pool))
               else (Inr pool, None)))"

end
