(* ===== verification/Server.thy ===== *)
theory Server
  imports Connections
begin

text \<open>
  The HTTP server of a process, \<^verbatim>\<open>internal/server/server.go\<close>, and the readiness it drives,
  \<^verbatim>\<open>internal/health/health.go\<close>. A run of the server is the list of its actions, in order, and the
  error it returns; the listener, the key pair and the ends of the library's server are arguments.
\<close>

section \<open>Readiness\<close>

definition readiness_Set :: "bool \<Rightarrow> bool \<Rightarrow> bool" where
  "readiness_Set ready r = ready"

definition readiness_IsReady :: "bool \<Rightarrow> bool" where
  "readiness_IsReady r = r"

datatype server_action = StartServing | SetReady bool | ShutDown | CloseServer | CloseListener

fun readiness_after :: "server_action list \<Rightarrow> bool \<Rightarrow> bool" where
  "readiness_after [] r = r"
| "readiness_after (SetReady ready # acts) r = readiness_after acts (readiness_Set ready r)"
| "readiness_after (_ # acts) r = readiness_after acts r"

lemma readiness_after_append [simp]:
  "readiness_after (acts @ acts') r = readiness_after acts' (readiness_after acts r)"
  by (induction acts r rule: readiness_after.induct) simp_all

section \<open>Serving\<close>

record server_settings =
  ss_ReadHeaderTimeout :: int
  ss_IdleTimeout :: int
  ss_TLSMinVersion :: "tls_version option"

definition settings_of :: "string \<Rightarrow> server_settings" where
  "settings_of certFile = \<lparr>ss_ReadHeaderTimeout = 5 * 1000000000, ss_IdleTimeout = 60 * 1000000000,
     ss_TLSMinVersion = (if certFile = [] then None else Some VersionTLS12)\<rparr>"

datatype serve_error = ServerClosed | ServeFailed string

text \<open>
  What the select of \<open>Serve\<close> receives: the server's own end, or the cancelled context, after which
  the shutdown and then the server report.
\<close>

datatype serve_event = ServerEnded serve_error | ContextDone "string option" serve_error

definition serve_result :: "serve_error \<Rightarrow> string option" where
  "serve_result e = (case e of ServerClosed \<Rightarrow> None | ServeFailed x \<Rightarrow> Some x)"

definition Serve :: "serve_event \<Rightarrow> server_action list \<times> string option" where
  "Serve ev =
     (case ev of
        ServerEnded e \<Rightarrow> ([StartServing, SetReady True, SetReady False], serve_result e)
      | ContextDone shutdown e \<Rightarrow>
          ([StartServing, SetReady True, SetReady False, ShutDown] @ (if shutdown = None then [] else [CloseServer]),
           case shutdown of Some x \<Rightarrow> Some x | None \<Rightarrow> serve_result e))"

text \<open>\<open>listening\<close> is the error of the listener, \<open>certificate\<close> whether the key pair loads.\<close>

definition server_Run ::
  "string option \<Rightarrow> bool \<Rightarrow> string \<Rightarrow> serve_event \<Rightarrow> server_action list \<times> string option" where
  "server_Run listening certificate certFile ev =
     (case listening of
        Some e \<Rightarrow> ([], Some e)
      | None \<Rightarrow>
          if certFile \<noteq> [] \<and> \<not> certificate then ([CloseListener], Some ''load server TLS certificate'')
          else Serve ev)"

text \<open>
  A process is ready only while its server runs: it stops being ready before the shutdown begins and
  before the connections are closed, and it ends not ready.
\<close>

lemma ready_only_while_serving:
  assumes "server_Run listening certificate certFile ev = (acts, r)" and "acts = before @ a # after"
    and "readiness_after before False"
  shows "StartServing \<in> set before \<and> a = SetReady False"
  using assms
  by (auto simp: server_Run_def Serve_def readiness_Set_def Cons_eq_append_conv append_eq_Cons_conv
      split: option.splits if_splits serve_event.splits)

lemma ends_not_ready: "\<not> readiness_after (fst (server_Run listening certificate certFile ev)) False"
  by (simp add: server_Run_def Serve_def readiness_Set_def split: option.split serve_event.split)

end
