(* ===== verification/Runtime.thy ===== *)
theory Runtime
  imports Store_Steps Gateway Metrics "HOL-Library.AList"
begin

text \<open>
  The runtime of a gateway, \<^verbatim>\<open>internal/dataplane/runtime.go\<close>: it loads the active configuration
  and the live credentials of its environment from the control plane's database, polls for
  changes, probes the upstreams and reports itself. Instants are nanoseconds; the database keeps
  microseconds.
\<close>

section \<open>State\<close>

record runtime =
  rt_environment :: string
  rt_allowlist :: "cidr list"
  rt_instanceID :: string
  rt_advertiseAddr :: string
  rt_pollInterval :: int
  rt_pollJitter :: int
  rt_healthInterval :: int
  rt_healthTimeout :: int
  rt_current :: "snapshot option"
  rt_configGeneration :: int
  rt_credentialGeneration :: int
  rt_metrics :: "metrics option"

record runtime_options =
  ro_Environment :: string
  ro_Allowlist :: "cidr list"
  ro_InstanceID :: string
  ro_AdvertiseAddr :: string
  ro_PollInterval :: int
  ro_PollJitter :: int
  ro_HealthInterval :: int
  ro_HealthTimeout :: int
  ro_Metrics :: "metrics option"

definition NewRuntime :: "runtime_options \<Rightarrow> runtime" where
  "NewRuntime options = \<lparr>rt_environment = ro_Environment options, rt_allowlist = ro_Allowlist options,
     rt_instanceID = ro_InstanceID options, rt_advertiseAddr = ro_AdvertiseAddr options,
     rt_pollInterval = ro_PollInterval options, rt_pollJitter = ro_PollJitter options,
     rt_healthInterval = ro_HealthInterval options, rt_healthTimeout = ro_HealthTimeout options,
     rt_current = None, rt_configGeneration = 0, rt_credentialGeneration = 0,
     rt_metrics = ro_Metrics options\<rparr>"

definition update_metrics :: "(metrics \<Rightarrow> metrics) \<Rightarrow> runtime \<Rightarrow> runtime" where
  "update_metrics f r = r\<lparr>rt_metrics := map_option f (rt_metrics r)\<rparr>"

text \<open>
  What a call gets from outside: the process clock, the transaction's \<open>NOW()\<close>, the statements
  that succeed, the compiler of regular expressions, and the order in which Go iterates over the
  map of listeners.
\<close>

datatype load_point =
    AtBegin | AtConfiguration | AtGeneration | AtDecode | AtCredentials | AtCommit
  | AtCheckConfiguration | AtCheckGeneration

record load_env =
  le_clock :: int
  le_now :: int
  le_ok :: "load_point \<Rightarrow> bool"
  le_compile :: regex_compiler
  le_order :: "(int \<rightharpoonup> listener) \<Rightarrow> int list"

section \<open>Queries\<close>

definition active_row :: "database \<Rightarrow> string \<Rightarrow> config_row option" where
  "active_row db environment =
     find (\<lambda>r. in_environment db environment (cf_environment r) \<and> cf_status r = ''active'')
       (t_configurations db)"

definition coalesce_max :: "int list \<Rightarrow> int" where
  "coalesce_max xs = (if xs = [] then 0 else Max (set xs))"

definition key_in :: "database \<Rightarrow> string \<Rightarrow> key_row \<Rightarrow> bool" where
  "key_in db environment k \<longleftrightarrow> exists_where (\<lambda>c. cn_id c = ky_consumer k
     \<and> in_environment db environment (cn_environment c)) (t_consumers db)"

definition microseconds :: "int \<Rightarrow> int" where
  "microseconds t = t div 1000"

definition credentialGenerationQuery :: "database \<Rightarrow> string \<Rightarrow> int" where
  "credentialGenerationQuery db environment =
     (let keys = filter (key_in db environment) (t_keys db)
      in max (max
        (coalesce_max (map (\<lambda>c. microseconds (cn_updated_at c))
          (filter (\<lambda>c. in_environment db environment (cn_environment c)) (t_consumers db))))
        (coalesce_max (map (\<lambda>k. microseconds (ky_created_at k)) keys)))
        (coalesce_max (map microseconds (List.map_filter ky_revoked_at keys))))"

definition live_key :: "database \<Rightarrow> string \<Rightarrow> int \<Rightarrow> key_row \<Rightarrow> bool" where
  "live_key db environment now k \<longleftrightarrow> exists_where (\<lambda>c. cn_id c = ky_consumer k \<and> cn_enabled c
       \<and> in_environment db environment (cn_environment c)) (t_consumers db)
     \<and> ky_revoked_at k = None
     \<and> (case ky_expires_at k of None \<Rightarrow> True | Some t \<Rightarrow> now < t)"

definition credential_record_of :: "database \<Rightarrow> key_row \<Rightarrow> credential_record" where
  "credential_record_of db k = \<lparr>cr_ID = ky_id k, cr_ConsumerID = ky_consumer k, cr_Prefix = ky_prefix k,
     cr_Verifier = ky_verifier k, cr_ExpiresAt = ky_expires_at k,
     cr_Permissions = permissions_of db (ky_consumer k)\<rparr>"

definition live_credentials :: "database \<Rightarrow> string \<Rightarrow> int \<Rightarrow> credential_record list" where
  "live_credentials db environment now =
     map (credential_record_of db) (filter (live_key db environment now) (t_keys db))"

section \<open>Health\<close>

text \<open>The upstreams in the order of two nested loops over the listeners.\<close>

definition upstreams_of :: "((int \<rightharpoonup> listener) \<Rightarrow> int list) \<Rightarrow> snapshot \<Rightarrow> upstream list" where
  "upstreams_of ord s = concat (map (\<lambda>p. case sn_Listeners s p of None \<Rightarrow> [] | Some l \<Rightarrow> l_Upstreams l)
     (ord (sn_Listeners s)))"

definition health_states :: "((int \<rightharpoonup> listener) \<Rightarrow> int list) \<Rightarrow> snapshot \<Rightarrow> (string \<times> bool) list" where
  "health_states ord s = foldl (\<lambda>seen u. AList.update (u_ID u) (Healthy (sn_health s) u) seen) []
     (upstreams_of ord s)"

definition copyHealth :: "((int \<rightharpoonup> listener) \<Rightarrow> int list) \<Rightarrow> snapshot \<Rightarrow> snapshot \<Rightarrow> snapshot" where
  "copyHealth ord previous fresh =
     (let states = health_states ord previous
      in fresh\<lparr>sn_health := foldl (\<lambda>h u. case map_of states (u_ID u) of
             None \<Rightarrow> h | Some v \<Rightarrow> SetHealthy u v h) (sn_health fresh) (upstreams_of ord fresh)\<rparr>)"

definition updateUpstreamMetrics ::
  "((int \<rightharpoonup> listener) \<Rightarrow> int list) \<Rightarrow> snapshot \<Rightarrow> metrics \<Rightarrow> metrics" where
  "updateUpstreamMetrics ord s m =
     (let seen = health_states ord s
      in SetUpstreams (int (length (filter snd seen))) (int (length seen)) m)"

text \<open>
  A probe of an upstream: the status of the answer, an error, or nothing because the context was
  cancelled before the probe got a slot. The probes run concurrently, each on its own object, and
  \<open>probe\<close> waits for all of them; redirects are not followed.
\<close>

datatype probe_outcome = Answered int | Unreachable | Cancelled

definition probe_one :: "(upstream \<Rightarrow> probe_outcome) \<Rightarrow> health \<Rightarrow> upstream \<Rightarrow> health" where
  "probe_one outcome h u =
     (case outcome u of
        Answered status \<Rightarrow> SetHealthy u (200 \<le> status \<and> status < 400) h
      | Unreachable \<Rightarrow> SetHealthy u False h
      | Cancelled \<Rightarrow> h)"

definition probed :: "((int \<rightharpoonup> listener) \<Rightarrow> int list) \<Rightarrow> snapshot \<Rightarrow> upstream list" where
  "probed ord s = map snd (foldl (\<lambda>seen u. AList.update (u_ID u) u seen) [] (upstreams_of ord s))"

definition probe ::
  "((int \<rightharpoonup> listener) \<Rightarrow> int list) \<Rightarrow> (upstream \<Rightarrow> probe_outcome) \<Rightarrow> runtime \<Rightarrow> runtime" where
  "probe ord outcome r =
     (case rt_current r of
        None \<Rightarrow> r
      | Some s \<Rightarrow>
          let s' = s\<lparr>sn_health := foldl (probe_one outcome) (sn_health s) (probed ord s)\<rparr>
          in update_metrics (updateUpstreamMetrics ord s') (r\<lparr>rt_current := Some s'\<rparr>))"

section \<open>Loading\<close>

datatype load_error =
    BeginSnapshot | NoActiveConfiguration | LoadActiveConfiguration | LoadCredentialGeneration
  | DecodeConfiguration | LoadCredentials | CommitSnapshot | InvalidSnapshot snapshot_error
  | CheckConfigurationGeneration | CheckCredentialGeneration

definition read_snapshot ::
  "load_env \<Rightarrow> database \<Rightarrow> runtime \<Rightarrow> (load_error, snapshot \<times> int \<times> int) result" where
  "read_snapshot e db r =
     (if \<not> le_ok e AtBegin then Inl BeginSnapshot
      else if \<not> le_ok e AtConfiguration then Inl LoadActiveConfiguration
      else (case active_row db (rt_environment r) of
        None \<Rightarrow> Inl NoActiveConfiguration
      | Some c \<Rightarrow>
          if \<not> le_ok e AtGeneration then Inl LoadCredentialGeneration
          else if \<not> le_ok e AtDecode then Inl DecodeConfiguration
          else if \<not> le_ok e AtCredentials then Inl LoadCredentials
          else if \<not> le_ok e AtCommit then Inl CommitSnapshot
          else (case buildSnapshot (le_compile e) (le_clock e) (cf_id c) (rt_environment r) (cf_snapshot c)
                   (live_credentials db (rt_environment r) (le_now e)) (rt_allowlist r) of
                  Inl x \<Rightarrow> Inl (InvalidSnapshot x)
                | Inr s \<Rightarrow> Inr (s, cf_id c, credentialGenerationQuery db (rt_environment r)))))"

definition Load :: "load_env \<Rightarrow> database \<Rightarrow> runtime \<Rightarrow> load_error option \<times> runtime" where
  "Load e db r =
     (case read_snapshot e db r of
        Inl x \<Rightarrow> (Some x, r)
      | Inr (s, version, generation) \<Rightarrow>
          let s' = (case rt_current r of None \<Rightarrow> s | Some previous \<Rightarrow> copyHealth (le_order e) previous s)
          in (None, update_metrics (\<lambda>m. updateUpstreamMetrics (le_order e) s'
                 (SnapshotRefreshed (le_clock e) (SetConfigurationVersion version m)))
               (r\<lparr>rt_current := Some s', rt_configGeneration := version,
                  rt_credentialGeneration := generation\<rparr>)))"

text \<open>
  The two generations are read by queries of their own before \<open>Load\<close> begins its transaction, so
  each of the three may see a database of its own.
\<close>

definition refreshIfChanged ::
  "load_env \<Rightarrow> database \<Rightarrow> database \<Rightarrow> database \<Rightarrow> runtime \<Rightarrow> (load_error, bool) result \<times> runtime" where
  "refreshIfChanged e db1 db2 db r =
     (if \<not> le_ok e AtCheckConfiguration then (Inl CheckConfigurationGeneration, r)
      else (case active_row db1 (rt_environment r) of
        None \<Rightarrow> (Inl CheckConfigurationGeneration, r)
      | Some c \<Rightarrow>
          if \<not> le_ok e AtCheckGeneration then (Inl CheckCredentialGeneration, r)
          else if cf_id c = rt_configGeneration r
             \<and> credentialGenerationQuery db2 (rt_environment r) = rt_credentialGeneration r
          then (Inr False, update_metrics (record_event ConfigurationRefreshSkipped) r)
          else (case Load e db r of
                  (Some x, r') \<Rightarrow> (Inl x, r')
                | (None, r') \<Rightarrow> (Inr True, r'))))"

text \<open>
  \<open>drawn\<close> is the number that \<open>rand.Int64N\<close> returns, below its argument; it panics (\<open>None\<close>) when the
  argument is not positive, as \<open>jitter*2+1\<close> is once it overflows.
\<close>

definition jitteredDelay :: "int \<Rightarrow> int \<Rightarrow> int \<Rightarrow> int option" where
  "jitteredDelay drawn interval jitter =
     (if interval \<le> 0 \<or> jitter \<le> 0 then Some interval
      else let spread = int64 (int64 (jitter * 2) + 1)
           in if spread \<le> 0 then None
              else Some (int64 (int64 (interval - jitter) + drawn)))"

section \<open>Reporting\<close>

text \<open>
  The heartbeat inserts or updates the row of the instance; a failure is only logged, whether the
  statement has taken effect or not.
\<close>

definition report :: "call_env \<Rightarrow> bool \<Rightarrow> runtime \<Rightarrow> database \<Rightarrow> database" where
  "report c ready r db =
     (let version = map_option sn_Version (rt_current r)
      in case environment_id db (rt_environment r) of
           None \<Rightarrow> db
         | Some eid \<Rightarrow>
             if \<not> ce_commit_ok c \<and> \<not> ce_commit_kept c then db
             else if exists_where (\<lambda>g. gi_id g = rt_instanceID r) (t_instances db) then
               db\<lparr>t_instances := update_where (\<lambda>g. gi_id g = rt_instanceID r)
                 (\<lambda>g. g\<lparr>gi_address := rt_advertiseAddr r, gi_loaded_version := version, gi_ready := ready,
                        gi_last_seen_at := ce_now c\<rparr>) (t_instances db)\<rparr>
             else db\<lparr>t_instances := t_instances db @ [\<lparr>gi_id = rt_instanceID r, gi_environment = eid,
                 gi_address = rt_advertiseAddr r, gi_loaded_version = version, gi_ready = ready,
                 gi_last_seen_at = ce_now c\<rparr>]\<rparr>)"

definition MarkNotReady :: "call_env \<Rightarrow> runtime \<Rightarrow> database \<Rightarrow> database" where
  "MarkNotReady c r db = report c False r db"

section \<open>The loop\<close>

text \<open>
  One pass of the loop of \<open>Run\<close>: what the select receives, and its effect on the runtime and the
  database. A poll names the databases that its two checks saw. A notification that arrives after
  the channel is closed is not received.
\<close>

datatype run_event = Stop | PollDue database database | HealthDue | Heartbeat | Notified string | EventsClosed

record loop =
  lp_runtime :: runtime
  lp_running :: bool
  lp_events :: bool

definition Run_start :: "call_env \<Rightarrow> runtime \<Rightarrow> database \<Rightarrow> loop \<times> database" where
  "Run_start c r db = (\<lparr>lp_runtime = r, lp_running = True, lp_events = True\<rparr>, report c True r db)"

definition refresh_failed :: "runtime \<Rightarrow> runtime" where
  "refresh_failed r = update_metrics (record_event ConfigurationRefreshFailure) r"

fun Run_step ::
  "load_env \<Rightarrow> call_env \<Rightarrow> (upstream \<Rightarrow> probe_outcome) \<Rightarrow> run_event \<Rightarrow> loop \<Rightarrow> database \<Rightarrow> loop \<times> database" where
  "Run_step e c outcome Stop lp db = (lp\<lparr>lp_running := False\<rparr>, report c False (lp_runtime lp) db)"
| "Run_step e c outcome (PollDue db1 db2) lp db =
     (case refreshIfChanged e db1 db2 db (lp_runtime lp) of
        (Inl _, r) \<Rightarrow> (lp\<lparr>lp_runtime := refresh_failed r\<rparr>, db)
      | (Inr True, r) \<Rightarrow> (lp\<lparr>lp_runtime := r\<rparr>, report c True r db)
      | (Inr False, r) \<Rightarrow> (lp\<lparr>lp_runtime := r\<rparr>, db))"
| "Run_step e c outcome HealthDue lp db =
     (lp\<lparr>lp_runtime := probe (le_order e) outcome (lp_runtime lp)\<rparr>, db)"
| "Run_step e c outcome Heartbeat lp db = (lp, report c True (lp_runtime lp) db)"
| "Run_step e c outcome EventsClosed lp db = (lp\<lparr>lp_events := False\<rparr>, db)"
| "Run_step e c outcome (Notified kind) lp db =
     (if \<not> lp_events lp then (lp, db)
      else (case Load e db (lp_runtime lp) of
              (Some _, r) \<Rightarrow> (lp\<lparr>lp_runtime := refresh_failed r\<rparr>, db)
            | (None, r) \<Rightarrow> (lp\<lparr>lp_runtime := r\<rparr>, report c True r db)))"

end
