(* ===== verification/Key_Properties.thy ===== *)
theory Key_Properties
  imports Runtime Snapshot_Build Store_Initial
begin

text \<open>
  API keys from the control plane to the gateway: a generated key is one the gateway can read,
  an issued key is accepted once a snapshot has been loaded, and a revoked one never again.
\<close>

section \<open>The table of keys\<close>

definition keys_ok :: "database \<Rightarrow> bool" where
  "keys_ok db \<longleftrightarrow> distinct (map ky_id (t_keys db)) \<and> distinct (map ky_prefix (t_keys db))"

text \<open>Keys are added, and revoked; nothing else happens to them.\<close>

definition keys_follow :: "key_row list \<Rightarrow> key_row list \<Rightarrow> bool" where
  "keys_follow ks ks' \<longleftrightarrow> (\<exists>f new. ks' = map f ks @ new
     \<and> (\<forall>k. f k = k \<or> (\<exists>t. f k = k\<lparr>ky_revoked_at := Some t\<rparr>))
     \<and> distinct (map ky_id new) \<and> distinct (map ky_prefix new)
     \<and> (\<forall>n \<in> set new. \<forall>k \<in> set ks. ky_id n \<noteq> ky_id k \<and> ky_prefix n \<noteq> ky_prefix k))"

lemma keys_follow_refl: "keys_follow ks ks"
  unfolding keys_follow_def by (intro exI [of _ id] exI [of _ "[]"]) auto

lemma keys_followI:
  "(\<And>k. f k = k \<or> (\<exists>t. f k = k\<lparr>ky_revoked_at := Some t\<rparr>)) \<Longrightarrow> keys_follow ks (map f ks)"
  unfolding keys_follow_def by (intro exI [of _ f] exI [of _ "[]"]) auto

lemma keys_follow_revoke:
  "keys_follow ks (update_where P (\<lambda>k. k\<lparr>ky_revoked_at := Some t\<rparr>) ks)"
  unfolding update_where_def by (rule keys_followI) auto

lemma keys_follow_new:
  assumes "\<And>k. k \<in> set ks \<Longrightarrow> ky_id r \<noteq> ky_id k \<and> ky_prefix r \<noteq> ky_prefix k"
  shows "keys_follow ks (ks @ [r])"
  unfolding keys_follow_def using assms by (intro exI [of _ id] exI [of _ "[r]"]) auto

lemma keys_follow_rotate:
  assumes "\<And>k. k \<in> set ks \<Longrightarrow> ky_id r \<noteq> ky_id k \<and> ky_prefix r \<noteq> ky_prefix k" and "\<not> P r"
  shows "keys_follow ks (update_where P (\<lambda>k. k\<lparr>ky_revoked_at := Some t\<rparr>) (ks @ [r]))"
  unfolding keys_follow_def update_where_def
  using assms by (intro exI [of _ "\<lambda>k. if P k then k\<lparr>ky_revoked_at := Some t\<rparr> else k"] exI [of _ "[r]"]) auto

lemma follow_withTx:
  "(\<And>x db'. body db = Inr (x, db') \<Longrightarrow> keys_follow (t_keys db) (t_keys db')) \<Longrightarrow>
   keys_follow (t_keys db) (t_keys (snd (withTx c body db)))"
  by (rule withTx_invariant) (simp_all add: keys_follow_refl)

lemma insert_key_fresh:
  "insert_key r db = Inr db' \<Longrightarrow> db' = db\<lparr>t_keys := t_keys db @ [r]\<rparr>
     \<and> (\<forall>k \<in> set (t_keys db). ky_id r \<noteq> ky_id k \<and> ky_prefix r \<noteq> ky_prefix k)"
  by (auto simp: insert_key_def exists_where_iff split: if_splits)

lemma assignPermissions_keys: "assignPermissions consumer names db = Inr db' \<Longrightarrow> t_keys db' = t_keys db"
  using assignPermissions_tables by fastforce

lemma issue_follows:
  "keys_follow (t_keys db) (t_keys (snd (IssueKey hmac s c actor e consumer name ps expires rotated db)))"
  unfolding IssueKey_def Let_def split_def
  by (auto intro!: follow_withTx keys_follow_refl keys_follow_new elim!: tx_elims
      dest!: insert_key_fresh assignPermissions_keys simp: translated_Inr split: option.splits)

lemma rotate_follows:
  "keys_follow (t_keys db) (t_keys (snd (fst (RotateKey hmac s c actor e key db))))"
  unfolding RotateKey_def Let_def split_def fst_conv
proof (rule follow_withTx, elim bind_okE if_InlE audited_Inr, simp only: query_row_Inr translated_Inr)
  fix k :: key_row and db1
  let ?r = "\<lparr>ky_id = newID ''key'' (ce_id_bytes c), ky_consumer = ky_consumer k,
    ky_name = ky_name k @ '' rotation'', ky_prefix = fst (snd (generateKey hmac (st_pepper s) (ce_key_bytes c))),
    ky_verifier = snd (snd (generateKey hmac (st_pepper s) (ce_key_bytes c))),
    ky_expires_at = ky_expires_at k, ky_revoked_at = None, ky_rotated_from = Some key, ky_created_at = ce_now c\<rparr>"
  assume found: "find (\<lambda>k. ky_id k = key \<and> consumer_in db e (ky_consumer k)) (t_keys db) = Some k"
    and ins: "insert_key ?r db = Inr db1"
  from insert_key_fresh [OF ins] have db1: "db1 = db\<lparr>t_keys := t_keys db @ [?r]\<rparr>"
    and fresh: "\<And>q. q \<in> set (t_keys db) \<Longrightarrow> ky_id ?r \<noteq> ky_id q \<and> ky_prefix ?r \<noteq> ky_prefix q" by blast+
  from find_Some_iff_mem [OF found] fresh have "ky_id ?r \<noteq> key" by blast
  with fresh show "keys_follow (t_keys db) (t_keys (with_audit a n (db1\<lparr>t_keys := update_where
      (\<lambda>q. ky_id q = key \<and> ky_revoked_at q = None) (\<lambda>q. q\<lparr>ky_revoked_at := Some (ce_now c)\<rparr>) (t_keys db1)\<rparr>)))" for a n
    using keys_follow_rotate [of "t_keys db" ?r "\<lambda>q. ky_id q = key \<and> ky_revoked_at q = None" "ce_now c"]
    by (simp add: db1)
qed

lemma revoke_follows: "keys_follow (t_keys db) (t_keys (snd (fst (RevokeKey s c actor e key db))))"
  unfolding RevokeKey_def Let_def fst_conv
  by (auto intro!: follow_withTx keys_follow_revoke elim!: tx_elims)

lemma touches_follow: "touches a p g False db db' \<Longrightarrow> keys_follow (t_keys db) (t_keys db')"
  by (auto simp: touches_def same_keys_def keys_follow_refl)

lemma step_follows: "store_step s lib db db' \<Longrightarrow> keys_follow (t_keys db) (t_keys db')"
  by (elim store_step.cases store_call.cases)
    (auto intro: issue_follows rotate_follows revoke_follows
      touches_follow [OF catalog_ops(1)] touches_follow [OF catalog_ops(2)] touches_follow [OF catalog_ops(3)]
      touches_follow [OF catalog_ops(4)] touches_follow [OF upstream_ops(1)] touches_follow [OF upstream_ops(2)]
      touches_follow [OF access_ops(1)] touches_follow [OF access_ops(2)] touches_follow [OF access_ops(3)]
      touches_follow [OF access_ops(4)] touches_follow [OF consumer_ops(1)] touches_follow [OF consumer_ops(2)]
      touches_follow [OF configuration_ops(1)] touches_follow [OF configuration_ops(2)]
      touches_follow [OF configuration_ops(3)] touches_follow [OF configuration_ops(4)]
      touches_follow [OF configuration_ops(5)] touches_follow [OF port_ops(1)] touches_follow [OF port_ops(2)]
      touches_follow [OF allocate_touches] touches_follow [OF update_port_touches])

lemma follow_distinct:
  assumes "keys_follow ks ks'" and "distinct (map ky_id ks)" and "distinct (map ky_prefix ks)"
  shows "distinct (map ky_id ks') \<and> distinct (map ky_prefix ks')"
proof -
  from assms(1) obtain f new where ks': "ks' = map f ks @ new"
    and f: "\<And>k. f k = k \<or> (\<exists>t. f k = k\<lparr>ky_revoked_at := Some t\<rparr>)"
    and new: "distinct (map ky_id new)" "distinct (map ky_prefix new)"
      "\<forall>n \<in> set new. \<forall>k \<in> set ks. ky_id n \<noteq> ky_id k \<and> ky_prefix n \<noteq> ky_prefix k"
    by (auto simp: keys_follow_def)
  have same: "ky_id (f k) = ky_id k" "ky_prefix (f k) = ky_prefix k" for k using f [of k] by auto
  have "map ky_id ks' = map ky_id ks @ map ky_id new" "map ky_prefix ks' = map ky_prefix ks @ map ky_prefix new"
    by (simp_all add: ks' same)
  with assms(2,3) new show ?thesis by fastforce
qed

text \<open>A key that is revoked stays so.\<close>

definition key_revoked :: "string \<Rightarrow> key_row list \<Rightarrow> bool" where
  "key_revoked kid ks \<longleftrightarrow> (\<exists>k \<in> set ks. ky_id k = kid) \<and> (\<forall>k \<in> set ks. ky_id k = kid \<longrightarrow> ky_revoked_at k \<noteq> None)"

lemma follow_revoked:
  assumes "keys_follow ks ks'" and "key_revoked kid ks"
  shows "key_revoked kid ks'"
proof -
  from assms(1) obtain f new where ks': "ks' = map f ks @ new"
    and f: "\<And>k. f k = k \<or> (\<exists>t. f k = k\<lparr>ky_revoked_at := Some t\<rparr>)"
    and new: "\<And>n k. n \<in> set new \<Longrightarrow> k \<in> set ks \<Longrightarrow> ky_id n \<noteq> ky_id k"
    unfolding keys_follow_def by blast
  have same: "ky_id (f k) = ky_id k" and rev: "ky_revoked_at k \<noteq> None \<Longrightarrow> ky_revoked_at (f k) \<noteq> None" for k
    using f [of k] by auto
  from assms(2) obtain k where k: "k \<in> set ks" "ky_id k = kid" by (auto simp: key_revoked_def)
  have "f k \<in> set ks'" "ky_id (f k) = kid" using k by (simp_all add: ks' same)
  moreover have "ky_revoked_at q \<noteq> None" if "q \<in> set ks'" "ky_id q = kid" for q
  proof -
    from that(1) have "q \<in> f ` set ks \<or> q \<in> set new" by (auto simp: ks')
    with new [OF _ k(1)] k(2) that(2) have "q \<in> f ` set ks" by metis
    then obtain q0 where "q0 \<in> set ks" "q = f q0" by blast
    with that assms(2) rev same show ?thesis by (simp add: key_revoked_def)
  qed
  ultimately show ?thesis unfolding key_revoked_def by blast
qed

lemma revoke_Inr:
  assumes "RevokeKey s c actor e kid db = ((Inr (), db'), ev)"
  obtains k a n where "k \<in> set (t_keys db)" and "ky_id k = kid" and "consumer_in db e (ky_consumer k)"
    and "ky_revoked_at k = None"
    and "db' = with_audit a n (db\<lparr>t_keys := update_where
      (\<lambda>k. ky_id k = kid \<and> consumer_in db e (ky_consumer k) \<and> ky_revoked_at k = None)
      (\<lambda>k. k\<lparr>ky_revoked_at := Some (ce_now c)\<rparr>) (t_keys db)\<rparr>)"
  using assms unfolding RevokeKey_def Let_def prod.inject
  by (elim conjE withTxE if_InlE audited_Inr, unfold not_not exists_where_iff, elim bexE conjE) (rule that)

lemma revoke_revokes:
  assumes "RevokeKey s c actor e kid db = ((Inr (), db'), ev)" and "keys_ok db"
  shows "key_revoked kid (t_keys db')"
proof -
  let ?live = "\<lambda>k. ky_id k = kid \<and> consumer_in db e (ky_consumer k) \<and> ky_revoked_at k = None"
  from assms(1) obtain k a n where k: "k \<in> set (t_keys db)" "?live k"
    and db': "db' = with_audit a n (db\<lparr>t_keys := update_where ?live
      (\<lambda>k. k\<lparr>ky_revoked_at := Some (ce_now c)\<rparr>) (t_keys db)\<rparr>)"
    by (elim revoke_Inr) blast
  have only: "q = k" if "q \<in> set (t_keys db)" "ky_id q = kid" for q
    using assms(2) that k(1) conjunct1 [OF k(2)]
    by (intro distinct_key_unique [of ky_id "t_keys db"]) (simp_all add: keys_ok_def)
  show ?thesis
    unfolding key_revoked_def
  proof (intro conjI ballI impI)
    show "\<exists>q \<in> set (t_keys db'). ky_id q = kid"
      using k by (intro bexI [of _ "k\<lparr>ky_revoked_at := Some (ce_now c)\<rparr>"]) (auto simp: db' set_update_where)
  next
    fix q assume "q \<in> set (t_keys db')" and q: "ky_id q = kid"
    then obtain q0 where q0: "q0 \<in> set (t_keys db)" "q = (if ?live q0 then q0\<lparr>ky_revoked_at := Some (ce_now c)\<rparr> else q0)"
      by (auto simp: db' set_update_where)
    from q0(2) have "ky_id q = ky_id q0" by simp
    with q have "q0 = k" using only q0(1) by simp
    with q0(2) k(2) show "ky_revoked_at q \<noteq> None" by simp
  qed
qed

section \<open>From the key to the credential\<close>

lemma generated_key_prefix:
  assumes "generateKey hmac pepper random = (raw, prefix, verifier)" and "length random = 32"
  shows "keyPrefix raw = Some prefix \<and> verifier = hmac pepper raw"
proof -
  let ?secret = "hex_encode (take 32 random)"
  from assms have raw: "raw = ''shn_'' @ take 12 ?secret @ ''.'' @ drop 12 ?secret"
    and prefix: "prefix = take 12 ?secret" and ver: "verifier = hmac pepper raw"
    by (auto simp: generateKey_def Let_def)
  have len: "length ?secret = 64" using assms(2) by simp
  have hex: "is_lower_hex x" if "x \<in> set ?secret" for x using hex_encode_chars that by blast
  have "length raw = 69" "raw ! 16 = CHR ''.''" "take 12 (drop 4 raw) = prefix" "has_prefix raw ''shn_''"
    using len by (simp_all add: raw prefix nth_append has_prefix_def)
  moreover have "list_all (\<lambda>x. x = CHR ''.'' \<or> is_lower_hex x) (drop 4 raw)"
    using hex by (auto simp: raw list_all_iff dest: in_set_takeD in_set_dropD)
  ultimately show ?thesis by (simp add: keyPrefix_def ver)
qed

lemma load_credentials_keeps:
  "load_credentials records cs = Inr cs' \<Longrightarrow> p \<notin> cr_Prefix ` set records \<Longrightarrow> cs' p = cs p"
  by (induction records arbitrary: cs) (auto split: if_splits)

lemma load_credentials_complete:
  "load_credentials records cs = Inr cs' \<Longrightarrow> distinct (map cr_Prefix records) \<Longrightarrow> r \<in> set records \<Longrightarrow>
   \<exists>c. cs' (cr_Prefix r) = Some c \<and> c_ID c = cr_ID r \<and> c_ConsumerID c = cr_ConsumerID r
     \<and> c_Verifier c = cr_Verifier r \<and> c_ExpiresAt c = cr_ExpiresAt r
     \<and> set (c_Permissions c) = set (cr_Permissions r)"
proof (induction records arbitrary: cs)
  case (Cons r0 records)
  let ?c = "\<lparr>c_ID = cr_ID r0, c_ConsumerID = cr_ConsumerID r0, c_Prefix = cr_Prefix r0,
       c_Verifier = cr_Verifier r0, c_ExpiresAt = cr_ExpiresAt r0,
       c_Permissions = key_set id (cr_Permissions r0)\<rparr>"
  from Cons.prems(1) have rest: "load_credentials records (cs(cr_Prefix r0 \<mapsto> ?c)) = Inr cs'"
    by (simp split: if_splits)
  show ?case
  proof (cases "r = r0")
    case True
    have "cr_Prefix r0 \<notin> cr_Prefix ` set records" using Cons.prems(2) by auto
    from load_credentials_keeps [OF rest this] show ?thesis by (simp add: True)
  next
    case False
    with Cons.prems(3) have "r \<in> set records" by simp
    moreover have "distinct (map cr_Prefix records)" using Cons.prems(2) by simp
    ultimately show ?thesis using Cons.IH [OF rest] by blast
  qed
qed simp

lemma Load_success:
  assumes "Load e db r = (None, r')"
  obtains s c where "active_row db (rt_environment r) = Some c"
    and "buildSnapshot (le_compile e) (le_clock e) (cf_id c) (rt_environment r) (cf_snapshot c)
           (live_credentials db (rt_environment r) (le_now e)) (rt_allowlist r) = Inr s"
    and "rt_current r' = Some (case rt_current r of None \<Rightarrow> s | Some previous \<Rightarrow> copyHealth (le_order e) previous s)"
    and "rt_configGeneration r' = cf_id c"
    and "rt_credentialGeneration r' = credentialGenerationQuery db (rt_environment r)"
    and "rt_environment r' = rt_environment r" and "rt_allowlist r' = rt_allowlist r"
  using assms
  by (auto simp: Load_def read_snapshot_def update_metrics_def Let_def split: sum.splits if_splits option.splits)

lemma copyHealth_same [simp]:
  "sn_Credentials (copyHealth ord p s) = sn_Credentials s" "sn_Listeners (copyHealth ord p s) = sn_Listeners s"
  "sn_Version (copyHealth ord p s) = sn_Version s" "sn_Environment (copyHealth ord p s) = sn_Environment s"
  by (simp_all add: copyHealth_def Let_def)

text \<open>The credentials of a loaded snapshot are those of the database.\<close>

lemma Load_credentials:
  assumes "Load e db r = (None, r')"
  obtains s where "rt_current r' = Some s"
    and "load_credentials (live_credentials db (rt_environment r) (le_now e)) Map.empty = Inr (sn_Credentials s)"
proof -
  from assms obtain s and c :: config_row where b: "buildSnapshot (le_compile e) (le_clock e) (cf_id c) (rt_environment r) (cf_snapshot c)
           (live_credentials db (rt_environment r) (le_now e)) (rt_allowlist r) = Inr s"
    and cur: "rt_current r' = Some (case rt_current r of None \<Rightarrow> s | Some previous \<Rightarrow> copyHealth (le_order e) previous s)"
    by (elim Load_success) blast
  from b have "load_credentials (live_credentials db (rt_environment r) (le_now e)) Map.empty = Inr (sn_Credentials s)"
    by (rule buildSnapshot_parts)
  then show thesis using that [OF cur] by (simp split: option.split)
qed

lemma revoked_absent:
  assumes "RevokeKey st c actor env kid db = ((Inr (), db1), ev)" and "keys_ok db"
    and "store_run st' lib db1 db2" and "Load e db2 r = (None, r')"
  shows "\<exists>s. rt_current r' = Some s \<and> (\<forall>p cr. sn_Credentials s p = Some cr \<longrightarrow> c_ID cr \<noteq> kid)"
proof -
  have "key_revoked kid (t_keys db2)"
    using assms(3) revoke_revokes [OF assms(1,2)] by (rule store_machine.run_invariant) (rule follow_revoked [OF step_follows])
  then have dead: "cr_ID x \<noteq> kid" if "x \<in> set (live_credentials db2 (rt_environment r) (le_now e))" for x
    using that by (auto simp: live_credentials_def live_key_def key_revoked_def credential_record_of_def)
  from assms(4) obtain s where s: "rt_current r' = Some s"
    "load_credentials (live_credentials db2 (rt_environment r) (le_now e)) Map.empty = Inr (sn_Credentials s)"
    by (rule Load_credentials)
  have "c_ID cr \<noteq> kid" if "sn_Credentials s p = Some cr" for p cr
    using load_credentials_spec [OF s(2) that] dead by force
  with s(1) show ?thesis by blast
qed

text \<open>
  Claim C16: revocation is final. Once a key has been revoked, no snapshot that any gateway loads
  afterwards holds it, whatever else is done to the store in between.
\<close>

theorem revoked_key_refused:
  assumes "RevokeKey st c actor env kid db = ((Inr (), db1), ev)" and "keys_ok db"
    and "store_run st' lib db1 db2" and "Load e db2 r = (None, r')"
  shows "\<exists>s. rt_current r' = Some s \<and> (\<forall>p cr. sn_Credentials s p = Some cr \<longrightarrow> c_ID cr \<noteq> kid)"
  using assms by (rule revoked_absent)

text \<open>Assigned permissions are permissions of the consumer.\<close>

lemma assign_keeps:
  "assignPermissions consumer names db = Inr db' \<Longrightarrow>
   t_permissions db' = t_permissions db \<and> t_consumers db' = t_consumers db \<and> t_keys db' = t_keys db
   \<and> t_environments db' = t_environments db \<and> set (t_grants db) \<subseteq> set (t_grants db')"
proof (induction consumer names db rule: assignPermissions.induct)
  case (2 consumer name names db)
  then show ?case by (fastforce split: if_splits option.splits)
qed simp

lemma assign_grants:
  "assignPermissions consumer names db = Inr db' \<Longrightarrow> set names \<subseteq> set (permissions_of db' consumer)"
proof (induction consumer names db rule: assignPermissions.induct)
  case (2 consumer name names db)
  from 2(3) obtain p where p: "find (\<lambda>p. pm_name p = name) (t_permissions db) = Some p"
    by (auto split: if_splits option.splits)
  let ?g = "\<lparr>gr_consumer = consumer, gr_permission = pm_id p\<rparr>"
  have granted: "?g \<in> set (t_grants db')" and same: "t_permissions db' = t_permissions db"
    and rest: "set names \<subseteq> set (permissions_of db' consumer)"
  proof -
    show "set names \<subseteq> set (permissions_of db' consumer)"
      using 2 p by (auto split: if_splits)
    show "t_permissions db' = t_permissions db" using assign_keeps [OF 2(3)] by simp
    show "?g \<in> set (t_grants db')"
    proof (cases "exists_where (\<lambda>g. gr_consumer g = consumer \<and> gr_permission g = pm_id p) (t_grants db)")
      case True
      then obtain g where g: "g \<in> set (t_grants db)" "gr_consumer g = consumer" "gr_permission g = pm_id p"
        unfolding exists_where_iff by blast
      have "g = ?g" using g(2,3) by simp
      moreover have "assignPermissions consumer names db = Inr db'" using 2(3) p True by (simp split: if_splits)
      ultimately show ?thesis using g(1) assign_keeps by blast
    next
      case False
      with 2(3) p have "assignPermissions consumer names (db\<lparr>t_grants := t_grants db @ [?g]\<rparr>) = Inr db'"
        by (simp split: if_splits)
      from assign_keeps [OF this] show ?thesis by auto
    qed
  qed
  from find_Some_iff_mem [OF p] have "p \<in> set (t_permissions db')" "pm_name p = name" by (simp_all add: same)
  with granted rest show ?case by (force simp: permissions_of_def)
qed simp

lemma issue_Inr:
  assumes "IssueKey hmac st c actor env consumer name permissions expires rotated db = (Inr (key, raw), db')"
  obtains k prefix verifier where "generateKey hmac (st_pepper st) (ce_key_bytes c) = (raw, prefix, verifier)"
    and "k \<in> set (t_keys db')" and "ky_prefix k = prefix" and "ky_verifier k = verifier"
    and "ky_consumer k = consumer" and "ky_id k = K_ID key" and "ky_revoked_at k = None"
    and "ky_expires_at k = expires" and "\<exists>q \<in> set (t_consumers db'). cn_id q = consumer \<and> cn_enabled q
      \<and> in_environment db' env (cn_environment q)"
    and "set permissions \<subseteq> set (permissions_of db' consumer)"
proof -
  obtain raw0 prefix verifier where g: "generateKey hmac (st_pepper st) (ce_key_bytes c) = (raw0, prefix, verifier)"
    by (cases "generateKey hmac (st_pepper st) (ce_key_bytes c)")
  let ?k = "\<lparr>ky_id = newID ''key'' (ce_id_bytes c), ky_consumer = consumer, ky_name = trim_space name,
    ky_prefix = prefix, ky_verifier = verifier, ky_expires_at = expires, ky_revoked_at = None,
    ky_rotated_from = rotated, ky_created_at = ce_now c\<rparr>"
  from assms obtain db1 q db2 a n where
    assign: "assignPermissions consumer permissions db = Inr db1" and
    q: "find (\<lambda>k. cn_id k = consumer \<and> cn_enabled k \<and> in_environment db1 env (cn_environment k)) (t_consumers db1) = Some q" and
    ins: "insert_key ?k db1 = Inr db2" and out: "db' = with_audit a n db2" "(key, raw) = (api_key_of ?k, raw0)"
    unfolding IssueKey_def g Let_def prod.case
    by (elim if_pairE withTxE bind_okE audited_Inr) (simp only: query_row_Inr translated_Inr)
  from insert_key_fresh [OF ins] have db2: "db2 = db1\<lparr>t_keys := t_keys db1 @ [?k]\<rparr>" by blast
  have env': "in_environment db' = in_environment db1" by (intro ext) (simp add: in_environment_def out(1) db2)
  have perms: "permissions_of db' consumer = permissions_of db1 consumer"
    by (simp add: permissions_of_def out(1) db2)
  show thesis
  proof (rule that)
    show "generateKey hmac (st_pepper st) (ce_key_bytes c) = (raw, prefix, verifier)" using g out(2) by simp
    show "?k \<in> set (t_keys db')" by (simp add: out(1) db2)
    show "\<exists>q \<in> set (t_consumers db'). cn_id q = consumer \<and> cn_enabled q \<and> in_environment db' env (cn_environment q)"
      using find_Some_iff_mem [OF q] by (auto simp: env') (auto simp: out(1) db2)
    show "set permissions \<subseteq> set (permissions_of db' consumer)" using assign_grants [OF assign] by (simp add: perms)
  qed (use out(2) in \<open>simp_all add: api_key_of_def\<close>)
qed

text \<open>
  Claim C14: an issued key works. Once a gateway of the environment has loaded a snapshot after the
  key was issued, it accepts the key until it expires, as the consumer it was issued to and with the
  permissions it was issued with.
\<close>

theorem issued_key_accepted:
  assumes "IssueKey hmac st c actor env consumer name permissions expires rotated db = (Inr (key, raw), db')"
    and "keys_ok db" and "length (ce_key_bytes c) = 32"
    and "Load e db' r = (None, r')" and "rt_environment r = env"
    and "\<And>t. expires = Some t \<Longrightarrow> le_now e < t \<and> now < t"
  shows "\<exists>s cr. rt_current r' = Some s \<and> authenticate hmac (st_pepper st) now s raw = Some cr
    \<and> c_ID cr = K_ID key \<and> c_ConsumerID cr = consumer \<and> set permissions \<subseteq> set (c_Permissions cr)"
proof -
  from assms(1) obtain k prefix verifier where
    g: "generateKey hmac (st_pepper st) (ce_key_bytes c) = (raw, prefix, verifier)" and
    k: "k \<in> set (t_keys db')" "ky_prefix k = prefix" "ky_verifier k = verifier" "ky_consumer k = consumer"
      "ky_id k = K_ID key" "ky_revoked_at k = None" "ky_expires_at k = expires" and
    q: "\<exists>q \<in> set (t_consumers db'). cn_id q = consumer \<and> cn_enabled q \<and> in_environment db' env (cn_environment q)" and
    perms: "set permissions \<subseteq> set (permissions_of db' consumer)"
    by (rule issue_Inr)
  let ?records = "live_credentials db' (rt_environment r) (le_now e)"
  have "keys_follow (t_keys db) (t_keys db')"
    using issue_follows [of db hmac st c actor env consumer name permissions expires rotated] by (simp add: assms(1))
  from follow_distinct [OF this] assms(2) have "distinct (map ky_prefix (t_keys db'))" by (simp add: keys_ok_def)
  then have distinct: "distinct (map cr_Prefix ?records)"
    by (auto simp: live_credentials_def credential_record_of_def comp_def intro: distinct_map_filter_keys)
  have "live_key db' env (le_now e) k"
    using q k assms(6) by (auto simp: live_key_def exists_where_iff split: option.split)
  with k(1) have mem: "credential_record_of db' k \<in> set ?records"
    by (auto simp: live_credentials_def assms(5))
  from assms(4) obtain s where s: "rt_current r' = Some s"
    "load_credentials ?records Map.empty = Inr (sn_Credentials s)" by (rule Load_credentials)
  from load_credentials_complete [OF s(2) distinct mem] obtain cr where
    cr: "sn_Credentials s prefix = Some cr" "c_ID cr = ky_id k" "c_ConsumerID cr = consumer"
      "c_Verifier cr = verifier" "c_ExpiresAt cr = expires"
      "set (c_Permissions cr) = set (permissions_of db' consumer)"
    by (auto simp: credential_record_of_def k)
  from generated_key_prefix [OF g assms(3)] cr assms(6)
  have "authenticate hmac (st_pepper st) now s raw = Some cr"
    by (auto simp: authenticate_def split: option.split)
  with s(1) cr k(5) perms show ?thesis by auto
qed

section \<open>Polling\<close>

lemma set_map_filter: "set (List.map_filter f xs) = {y. \<exists>x \<in> set xs. f x = Some y}"
  by (induction xs) (auto simp: map_filter_simps split: option.splits)

lemma coalesce_max_extend:
  assumes "set ys = insert t (set xs)" and "0 \<le> t" and "t \<le> g" and "g = max m (coalesce_max xs)"
  shows "max m (coalesce_max ys) = g"
proof -
  from assms(1) have "ys \<noteq> []" by auto
  then have "coalesce_max ys = (if xs = [] then t else max t (coalesce_max xs))"
    using assms(1) by (auto simp: coalesce_max_def)
  with assms(2-4) show ?thesis by (auto simp: coalesce_max_def)
qed

text \<open>
  Claim C29: polling can miss a revocation. The poll compares the latest change it can see with the
  one it loaded; a revocation whose transaction began before that change but commits after it
  leaves the latest change as it was, so the poll skips the reload and the revoked key stays in the
  snapshot.
\<close>

theorem poll_misses_revocation:
  assumes "RevokeKey st c actor env kid db = ((Inr (), db'), ev)"
    and "rt_environment r = env" and "active_row db env = Some a" and "rt_configGeneration r = cf_id a"
    and "rt_credentialGeneration r = credentialGenerationQuery db env"
    and "0 \<le> ce_now c" and "microseconds (ce_now c) \<le> credentialGenerationQuery db env"
    and "le_ok e AtCheckConfiguration" and "le_ok e AtCheckGeneration"
  shows "fst (refreshIfChanged e db' db' db' r) = Inr False
    \<and> rt_current (snd (refreshIfChanged e db' db' db' r)) = rt_current r"
proof -
  let ?live = "\<lambda>k. ky_id k = kid \<and> consumer_in db env (ky_consumer k) \<and> ky_revoked_at k = None"
  define f :: "key_row \<Rightarrow> key_row" where "f = (\<lambda>k. if ?live k then k\<lparr>ky_revoked_at := Some (ce_now c)\<rparr> else k)"
  from assms(1) obtain k x n where k: "k \<in> set (t_keys db)" "?live k"
    and out: "db' = with_audit x n (db\<lparr>t_keys := update_where ?live
      (\<lambda>k. k\<lparr>ky_revoked_at := Some (ce_now c)\<rparr>) (t_keys db)\<rparr>)"
    by (elim revoke_Inr) blast
  have db': "db' = with_audit x n (db\<lparr>t_keys := map f (t_keys db)\<rparr>)"
    unfolding out update_where_def f_def ..
  have env: "in_environment db' = in_environment db" by (intro ext) (simp add: in_environment_def db')
  have in_iff: "key_in db' env k = key_in db env k" for k by (simp add: key_in_def env) (simp add: db')
  have "active_row db' env = active_row db env" by (simp add: active_row_def env) (simp add: db')
  with assms(3) have active: "active_row db' env = Some a" by simp
  have same: "ky_consumer (f k) = ky_consumer k" "ky_created_at (f k) = ky_created_at k" for k by (simp_all add: f_def)
  have in_f: "key_in db env (f k) = key_in db env k" for k by (simp add: key_in_def same)
  have keys: "filter (key_in db' env) (t_keys db') = map f (filter (key_in db env) (t_keys db))"
    using in_iff in_f by (simp add: filter_map comp_def db')
  have revoked_f: "ky_revoked_at (f q) = (if ?live q then Some (ce_now c) else ky_revoked_at q)" for q
    by (simp add: f_def)
  from k have "key_in db env k" by (auto simp: key_in_def consumer_in_def exists_where_iff)
  with k have rev: "set (List.map_filter ky_revoked_at (map f (filter (key_in db env) (t_keys db))))
      = insert (ce_now c) (set (List.map_filter ky_revoked_at (filter (key_in db env) (t_keys db))))"
    by (auto simp: set_map_filter revoked_f split: if_splits)
  let ?m = "max (coalesce_max (map (\<lambda>c. microseconds (cn_updated_at c))
      (filter (\<lambda>c. in_environment db env (cn_environment c)) (t_consumers db))))
    (coalesce_max (map (\<lambda>k. microseconds (ky_created_at k)) (filter (key_in db env) (t_keys db))))"
  let ?revoked = "\<lambda>ks. map microseconds (List.map_filter ky_revoked_at ks)"
  have "max ?m (coalesce_max (?revoked (map f (filter (key_in db env) (t_keys db)))))
      = credentialGenerationQuery db env"
  proof (rule coalesce_max_extend)
    show "set (?revoked (map f (filter (key_in db env) (t_keys db)))) = insert (microseconds (ce_now c))
        (set (?revoked (filter (key_in db env) (t_keys db))))"
      unfolding set_map rev by simp
    show "0 \<le> microseconds (ce_now c)" using assms(6) by (simp add: microseconds_def)
    show "credentialGenerationQuery db env = max ?m (coalesce_max (?revoked (filter (key_in db env) (t_keys db))))"
      by (simp add: credentialGenerationQuery_def Let_def)
  qed (rule assms(7))
  then have "credentialGenerationQuery db' env = credentialGenerationQuery db env"
    unfolding credentialGenerationQuery_def Let_def keys
    by (simp add: env comp_def same) (simp add: db')
  with active assms(2-5,8,9) show ?thesis
    by (simp add: refreshIfChanged_def update_metrics_def)
qed

section \<open>Witnesses\<close>

definition example_options :: runtime_options where
  "example_options = \<lparr>ro_Environment = ''development'', ro_Allowlist = [Cidr (V4 0x0A000000) 8],
     ro_InstanceID = ''gw-1'', ro_AdvertiseAddr = ''10.0.0.9:8080'', ro_PollInterval = 2000000000,
     ro_PollJitter = 500000000, ro_HealthInterval = 5000000000, ro_HealthTimeout = 1000000000,
     ro_Metrics = Some new_metrics\<rparr>"

definition example_load_env :: load_env where
  "example_load_env = \<lparr>le_clock = 200, le_now = 200, le_ok = (\<lambda>_. True), le_compile = (\<lambda>_. None),
     le_order = (\<lambda>m. sorted_list_of_set (dom m))\<rparr>"

definition example_raw_key :: string where
  "example_raw_key = fst (generateKey (lib_hmac example_libraries) ''pepper'' (ce_key_bytes example_context))"

definition example_key_row :: key_row where
  "example_key_row = \<lparr>ky_id = newID ''key'' (ce_id_bytes example_context), ky_consumer = ''con_1'', ky_name = ''main'',
     ky_prefix = take 12 (hex_encode (replicate 32 CHR 0xAB)),
     ky_verifier = lib_hmac example_libraries ''pepper'' example_raw_key, ky_expires_at = None,
     ky_revoked_at = None, ky_rotated_from = None, ky_created_at = 100\<rparr>"

definition example_issued :: database where
  "example_issued = snd (IssueKey (lib_hmac example_libraries) example_store example_context ''alice'' ''development''
     ''con_1'' ''main'' [''billing:v1:read''] None None example_database)"

lemma example_generated:
  "generateKey (lib_hmac example_libraries) ''pepper'' (ce_key_bytes example_context)
     = (example_raw_key, take 12 (hex_encode (replicate 32 CHR 0xAB)),
        lib_hmac example_libraries ''pepper'' example_raw_key)"
  by (simp add: example_raw_key_def generateKey_def example_context_def Let_def)

lemma example_issue:
  "\<exists>a n. IssueKey (lib_hmac example_libraries) example_store example_context ''alice'' ''development''
     ''con_1'' ''main'' [''billing:v1:read''] None None example_database
   = (Inr (api_key_of example_key_row, example_raw_key), with_audit a n (example_database\<lparr>t_keys := [example_key_row]\<rparr>))"
proof -
  let ?db = "example_database\<lparr>t_keys := [example_key_row]\<rparr>"
  have "t_environments ?db = t_environments example_database" by simp
  from example_audited [OF this, of example_context "''alice''" "''api-key.issued''" "''api-key''"
      "newID ''key'' (ce_id_bytes example_context)"
      "[(''consumerId'', DStr ''con_1''), (''keyPrefix'', DStr (maskPrefix (ky_prefix example_key_row)))]"
      "(api_key_of example_key_row, example_raw_key)"]
  obtain a n where au: "audited example_context ''development'' ''alice'' ''api-key.issued'' ''api-key''
      (newID ''key'' (ce_id_bytes example_context))
      [(''consumerId'', DStr ''con_1''), (''keyPrefix'', DStr (maskPrefix (ky_prefix example_key_row)))]
      (api_key_of example_key_row, example_raw_key) ?db
      = Inr ((api_key_of example_key_row, example_raw_key), with_audit a n ?db)" by blast
  have assign: "assignPermissions ''con_1'' [''billing:v1:read''] example_database = Inr example_database"
    by (simp add: example_normalized) (simp add: example_database_def exists_where_def)
  have row: "\<lparr>ky_id = newID ''key'' (ce_id_bytes example_context), ky_consumer = ''con_1'', ky_name = ''main'',
      ky_prefix = take 12 (hex_encode (replicate 32 CHR 0xAB)),
      ky_verifier = lib_hmac example_libraries ''pepper'' example_raw_key, ky_expires_at = None,
      ky_revoked_at = None, ky_rotated_from = None, ky_created_at = ce_now example_context\<rparr> = example_key_row"
    by (simp add: example_key_row_def) (simp add: example_context_def)
  have ins: "insert_key example_key_row example_database = Inr ?db"
    by (simp add: insert_key_def exists_where_def example_key_row_def) (simp add: example_database_def)
  have consumer: "find (\<lambda>k. cn_id k = ''con_1'' \<and> cn_enabled k \<and> in_environment example_database ''development'' (cn_environment k))
      (t_consumers example_database) = Some (hd (t_consumers example_database))"
    by (simp add: in_environment_def example_database_def)
  have "trim_space ''main'' = ''main''" by (rule trim_space_plain) simp_all
  moreover have "ce_begin_ok example_context" "ce_commit_ok example_context" by (simp_all add: example_context_def)
  moreover have "st_pepper example_store = ''pepper''" by (simp add: example_store_def)
  moreover have "ky_prefix example_key_row = take 12 (hex_encode (replicate 32 CHR 0xAB))"
    by (simp add: example_key_row_def)
  ultimately show ?thesis
    using au by (simp only: IssueKey_def example_generated row assign consumer ins translated_def query_row_def
        withTx_def Let_def prod.case bind_ok_Inr sum.case option.case if_True if_False simp_thms)
      auto
qed

lemma example_keys_ok: "keys_ok example_database" "keys_ok (with_audit a n (example_database\<lparr>t_keys := [example_key_row]\<rparr>))"
  by (simp_all add: keys_ok_def) (simp add: example_database_def)

lemma example_active_row:
  "active_row (with_audit a n (example_database\<lparr>t_keys := ks\<rparr>)) ''development''
     = Some (bootstrap_configuration 0 1 ''development'')"
  by (simp add: active_row_def in_environment_def example_database_def bootstrap_configuration_def)

lemma example_credentials:
  "live_credentials (with_audit a n (example_database\<lparr>t_keys := [k]\<rparr>)) ''development'' now
     = (if ky_revoked_at k = None \<and> ky_consumer k = ''con_1'' \<and> ky_expires_at k = None
        then [credential_record_of (with_audit a n (example_database\<lparr>t_keys := [k]\<rparr>)) k]
        else if ky_revoked_at k = None \<and> ky_consumer k = ''con_1'' \<and> now < the (ky_expires_at k)
        then [credential_record_of (with_audit a n (example_database\<lparr>t_keys := [k]\<rparr>)) k] else [])"
  by (auto simp: live_credentials_def live_key_def exists_where_def in_environment_def example_database_def
      split: option.splits)

text \<open>Any load of the example succeeds when the verifier has 32 bytes.\<close>

lemma example_load:
  assumes "length (ky_verifier k) = 32" and "ky_prefix k \<noteq> []"
  shows "fst (Load example_load_env (with_audit a n (example_database\<lparr>t_keys := [k]\<rparr>)) (NewRuntime example_options)) = None"
proof -
  let ?db = "with_audit a n (example_database\<lparr>t_keys := [k]\<rparr>)"
  have "\<exists>cs. load_credentials (live_credentials ?db ''development'' 200) Map.empty = Inr cs"
    unfolding example_credentials using assms by (simp add: credential_record_of_def)
  moreover have env: "rt_environment (NewRuntime example_options) = ''development''"
    "rt_current (NewRuntime example_options) = None"
    by (simp_all add: NewRuntime_def example_options_def)
  ultimately show ?thesis
    by (auto simp: Load_def read_snapshot_def env example_active_row example_load_env_def buildSnapshot_def
        enabled_services_def bootstrap_configuration_def empty_snapshot_def Let_def)
qed

lemma example_key_lengths: "length (ky_verifier example_key_row) = 32" "ky_prefix example_key_row \<noteq> []"
proof -
  have "length example_raw_key = 69"
    by (simp add: example_raw_key_def generateKey_def example_context_def Let_def)
  then show "length (ky_verifier example_key_row) = 32"
    by (simp add: example_key_row_def example_libraries_def)
  have "length (ky_prefix example_key_row) = 12" by (simp add: example_key_row_def)
  then show "ky_prefix example_key_row \<noteq> []" by auto
qed

theorem issued_key_accepted_witness:
  "\<exists>db r s cr. rt_current (snd (Load example_load_env db (NewRuntime example_options))) = Some s
     \<and> authenticate (lib_hmac example_libraries) ''pepper'' 300 s example_raw_key = Some cr
     \<and> c_ConsumerID cr = ''con_1'' \<and> ''billing:v1:read'' \<in> set (c_Permissions cr)"
proof -
  obtain a n where issue: "IssueKey (lib_hmac example_libraries) example_store example_context ''alice'' ''development''
     ''con_1'' ''main'' [''billing:v1:read''] None None example_database
   = (Inr (api_key_of example_key_row, example_raw_key), with_audit a n (example_database\<lparr>t_keys := [example_key_row]\<rparr>))"
    using example_issue by blast
  let ?db = "with_audit a n (example_database\<lparr>t_keys := [example_key_row]\<rparr>)"
  have load: "Load example_load_env ?db (NewRuntime example_options)
      = (None, snd (Load example_load_env ?db (NewRuntime example_options)))"
    using example_load [OF example_key_lengths, of a n] by (metis prod.collapse)
  from issued_key_accepted [OF issue example_keys_ok(1) _ load, of 300] show ?thesis
    by (auto simp: example_context_def NewRuntime_def example_options_def example_store_def)
qed

text \<open>The key is revoked at 150, after the consumer's row last changed and before the load at 200.\<close>

definition example_revoked_row :: key_row where
  "example_revoked_row = example_key_row\<lparr>ky_revoked_at := Some 150\<rparr>"

lemma example_revoke:
  "\<exists>a' n' ev. RevokeKey example_store (example_context\<lparr>ce_now := 150\<rparr>) ''alice'' ''development'' (ky_id example_key_row)
     (with_audit a n (example_database\<lparr>t_keys := [example_key_row]\<rparr>))
   = ((Inr (), with_audit a' n' (example_database\<lparr>t_keys := [example_revoked_row]\<rparr>)), ev)"
proof -
  let ?db = "with_audit a n (example_database\<lparr>t_keys := [example_revoked_row]\<rparr>)"
  let ?c = "example_context\<lparr>ce_now := 150\<rparr>"
  have "t_environments ?db = t_environments example_database" by simp
  from example_audited [OF this, of ?c "''alice''" "''api-key.revoked''" "''api-key''" "ky_id example_key_row" "[]" "()"]
  obtain a' n' where au: "audited ?c ''development'' ''alice'' ''api-key.revoked'' ''api-key'' (ky_id example_key_row) [] ()
      ?db = Inr ((), with_audit a' n' ?db)" by blast
  have row: "ky_consumer example_key_row = ''con_1''" "ky_revoked_at example_key_row = None"
    by (simp_all add: example_key_row_def)
  have "consumer_in (with_audit a n (example_database\<lparr>t_keys := [example_key_row]\<rparr>)) ''development'' ''con_1''"
    by (simp add: consumer_in_def in_environment_def example_database_def)
  moreover have "ce_begin_ok ?c" "ce_commit_ok ?c" "ce_now ?c = 150" by (simp_all add: example_context_def)
  ultimately show ?thesis
    using au by (simp add: RevokeKey_def withTx_def exists_where_def row example_revoked_row_def Let_def) blast
qed

theorem revoked_key_refused_witness:
  "\<exists>db s. rt_current (snd (Load example_load_env db (NewRuntime example_options))) = Some s
     \<and> sn_Credentials s (ky_prefix example_key_row) = None"
proof -
  obtain a' n' ev where revoke: "RevokeKey example_store (example_context\<lparr>ce_now := 150\<rparr>) ''alice'' ''development''
      (ky_id example_key_row) (with_audit [] 0 (example_database\<lparr>t_keys := [example_key_row]\<rparr>))
    = ((Inr (), with_audit a' n' (example_database\<lparr>t_keys := [example_revoked_row]\<rparr>)), ev)"
    using example_revoke by blast
  let ?db = "with_audit a' n' (example_database\<lparr>t_keys := [example_revoked_row]\<rparr>)"
  let ?r = "snd (Load example_load_env ?db (NewRuntime example_options))"
  have "length (ky_verifier example_revoked_row) = 32" "ky_prefix example_revoked_row \<noteq> []"
    using example_key_lengths by (simp_all add: example_revoked_row_def)
  from example_load [OF this, of a' n'] have load: "Load example_load_env ?db (NewRuntime example_options) = (None, ?r)"
    by (metis prod.collapse)
  from revoked_key_refused [OF revoke example_keys_ok(2) store_run.start [of example_store example_libraries] load]
  obtain s where s: "rt_current ?r = Some s" "\<forall>p cr. sn_Credentials s p = Some cr \<longrightarrow> c_ID cr \<noteq> ky_id example_key_row"
    by blast
  obtain s' where s': "rt_current ?r = Some s'"
    "load_credentials (live_credentials ?db ''development'' 200) Map.empty = Inr (sn_Credentials s')"
    using load by (rule Load_credentials) (simp add: NewRuntime_def example_options_def example_load_env_def)
  have "live_credentials ?db ''development'' 200 = []"
    unfolding example_credentials by (simp add: example_revoked_row_def)
  with s' s(1) have "Map.empty = sn_Credentials s" by simp
  from this [symmetric] have "sn_Credentials s (ky_prefix example_key_row) = None" by simp
  with s(1) show ?thesis by blast
qed

theorem poll_misses_revocation_witness:
  "\<exists>r db'. key_revoked (ky_id example_key_row) (t_keys db')
     \<and> fst (refreshIfChanged example_load_env db' db' db' r) = Inr False"
proof -
  let ?db = "with_audit [] 0 (example_database\<lparr>t_keys := [example_key_row]\<rparr>)"
  let ?r = "(NewRuntime example_options)\<lparr>rt_configGeneration := 1,
    rt_credentialGeneration := credentialGenerationQuery ?db ''development''\<rparr>"
  obtain a' n' ev where revoke: "RevokeKey example_store (example_context\<lparr>ce_now := 150\<rparr>) ''alice'' ''development''
      (ky_id example_key_row) ?db = ((Inr (), with_audit a' n' (example_database\<lparr>t_keys := [example_revoked_row]\<rparr>)), ev)"
    using example_revoke by blast
  let ?db' = "with_audit a' n' (example_database\<lparr>t_keys := [example_revoked_row]\<rparr>)"
  have "0 \<le> credentialGenerationQuery ?db ''development''"
    by (simp add: credentialGenerationQuery_def key_in_def exists_where_def in_environment_def
        example_database_def coalesce_max_def microseconds_def example_key_row_def map_filter_simps Let_def)
  then have "fst (refreshIfChanged example_load_env ?db' ?db' ?db' ?r) = Inr False"
    using poll_misses_revocation [OF revoke, of ?r "bootstrap_configuration 0 1 ''development''" example_load_env]
    by (simp add: NewRuntime_def example_options_def example_active_row example_load_env_def microseconds_def
        bootstrap_configuration_def)
  moreover have "key_revoked (ky_id example_key_row) (t_keys ?db')"
    using revoke example_keys_ok(2) by (rule revoke_revokes)
  ultimately show ?thesis by blast
qed

end
