(* ===== verification/Runtime_Properties.thy ===== *)
theory Runtime_Properties
  imports Key_Properties
begin

text \<open>
  The loop of a gateway's runtime: it never loses a valid snapshot, a reload keeps what the probes
  have found out, and the delays of its timers stay within their bounds.
\<close>

section \<open>Health over a reload\<close>

definition serves :: "snapshot \<Rightarrow> upstream \<Rightarrow> bool" where
  "serves s u \<longleftrightarrow> (\<exists>p l. sn_Listeners s p = Some l \<and> u \<in> set (l_Upstreams l))"

definition enumerates :: "((int \<rightharpoonup> listener) \<Rightarrow> int list) \<Rightarrow> bool" where
  "enumerates ord \<longleftrightarrow> (\<forall>m. finite (dom m) \<longrightarrow> set (ord m) = dom m)"

lemma set_upstreams_of:
  "enumerates ord \<Longrightarrow> finite (dom (sn_Listeners s)) \<Longrightarrow> u \<in> set (upstreams_of ord s) \<longleftrightarrow> serves s u"
  by (fastforce simp: upstreams_of_def serves_def enumerates_def dom_def split: option.splits)

lemma fold_update_other:
  "\<forall>u \<in> set us. f u \<noteq> i \<Longrightarrow> map_of (foldl (\<lambda>seen u. AList.update (f u) (g u) seen) acc us) i = map_of acc i"
  by (induction us arbitrary: acc) (auto simp: update_conv')

lemma fold_update_same:
  "u \<in> set us \<Longrightarrow> f u = i \<Longrightarrow> \<forall>v \<in> set us. f v = i \<longrightarrow> g v = x \<Longrightarrow>
   map_of (foldl (\<lambda>seen u. AList.update (f u) (g u) seen) acc us) i = Some x"
proof (induction us arbitrary: acc u)
  case (Cons v us)
  show ?case
  proof (cases "\<exists>w \<in> set us. f w = i")
    case True
    with Cons show ?thesis by auto
  next
    case False
    with Cons.prems have "f v = i" "g v = x" by auto
    with False show ?thesis by (simp add: fold_update_other update_conv')
  qed
qed simp

lemma fold_copy_other:
  "\<forall>v \<in> set us. u_ref v \<noteq> n \<or> states (u_ID v) = None \<Longrightarrow>
   foldl (\<lambda>h u. case states (u_ID u) of None \<Rightarrow> h | Some x \<Rightarrow> SetHealthy u x h) h us n = h n"
  by (induction us arbitrary: h) (auto simp: SetHealthy_def split: option.splits)

lemma fold_copy_same:
  "u \<in> set us \<Longrightarrow> states (u_ID u) = Some x \<Longrightarrow> \<forall>v \<in> set us. u_ref v = u_ref u \<longrightarrow> v = u \<Longrightarrow>
   foldl (\<lambda>h u. case states (u_ID u) of None \<Rightarrow> h | Some x \<Rightarrow> SetHealthy u x h) h us (u_ref u) = x"
proof (induction us arbitrary: h)
  case (Cons v us)
  show ?case
  proof (cases "u \<in> set us")
    case True
    with Cons show ?thesis by simp
  next
    case False
    with Cons.prems have "v = u" and other: "\<forall>w \<in> set us. u_ref w \<noteq> u_ref u \<or> states (u_ID w) = None" by auto
    with Cons.prems(2) show ?thesis by (simp add: fold_copy_other [OF other] SetHealthy_def)
  qed
qed simp

text \<open>
  Claim C28: a reload keeps the health that the probes have found: an upstream that was served
  before keeps its state, whichever object now stands for it, and a new one starts healthy.
\<close>

theorem reload_preserves_health:
  assumes "Load e db r = (None, r')" and "rt_current r = Some old" and "rt_current r' = Some s"
    and "enumerates (le_order e)" and "finite (dom (sn_Listeners old))"
    and "\<And>v w. serves old v \<Longrightarrow> serves old w \<Longrightarrow> u_ID v = u_ID w \<Longrightarrow> u_ref v = u_ref w"
    and "serves s u"
  shows "(\<forall>v. serves old v \<and> u_ID v = u_ID u \<longrightarrow> Healthy (sn_health s) u = Healthy (sn_health old) v)
    \<and> ((\<nexists>v. serves old v \<and> u_ID v = u_ID u) \<longrightarrow> Healthy (sn_health s) u)"
proof -
  from assms(1) obtain fresh and c :: config_row where
    b: "buildSnapshot (le_compile e) (le_clock e) (cf_id c) (rt_environment r) (cf_snapshot c)
           (live_credentials db (rt_environment r) (le_now e)) (rt_allowlist r) = Inr fresh"
    and cur: "rt_current r' = Some (copyHealth (le_order e) old fresh)"
    by (elim Load_success) (simp add: assms(2))
  with assms(3) have s: "s = copyHealth (le_order e) old fresh" by simp
  let ?states = "map_of (health_states (le_order e) old)" and ?us = "upstreams_of (le_order e) fresh"
  have healthy: "sn_health fresh n" for n using b by (auto simp: buildSnapshot_def bind_ok_eq_Inr split: if_splits)
  have u: "serves fresh u" using assms(7) by (simp add: serves_def s)
  then have mem: "u \<in> set ?us" using set_upstreams_of [OF assms(4) built_finite [OF b]] by simp
  have same: "\<forall>v \<in> set ?us. u_ref v = u_ref u \<longrightarrow> v = u"
    using built_same_object [OF b] u set_upstreams_of [OF assms(4) built_finite [OF b]] by (auto simp: serves_def)
  have result: "sn_health s = foldl (\<lambda>h u. case ?states (u_ID u) of None \<Rightarrow> h | Some x \<Rightarrow> SetHealthy u x h)
      (sn_health fresh) ?us" by (simp add: s copyHealth_def Let_def)
  show ?thesis
  proof (intro conjI allI impI)
    fix v assume v: "serves old v \<and> u_ID v = u_ID u"
    have "?states (u_ID u) = Some (Healthy (sn_health old) v)"
      unfolding health_states_def
    proof (rule fold_update_same)
      show "v \<in> set (upstreams_of (le_order e) old)" "u_ID v = u_ID u"
        using v set_upstreams_of [OF assms(4,5)] by simp_all
      show "\<forall>w \<in> set (upstreams_of (le_order e) old). u_ID w = u_ID u \<longrightarrow>
          Healthy (sn_health old) w = Healthy (sn_health old) v"
        using v assms(6) set_upstreams_of [OF assms(4,5)] unfolding Healthy_def by metis
    qed
    from fold_copy_same [of u ?us ?states, OF mem this same] show "Healthy (sn_health s) u = Healthy (sn_health old) v"
      by (simp add: Healthy_def result)
  next
    assume "\<nexists>v. serves old v \<and> u_ID v = u_ID u"
    then have "?states (u_ID u) = None"
      unfolding health_states_def using set_upstreams_of [OF assms(4,5)]
      by (subst fold_update_other) auto
    with same have "\<forall>v \<in> set ?us. u_ref v \<noteq> u_ref u \<or> ?states (u_ID v) = None" by auto
    from fold_copy_other [OF this] healthy show "Healthy (sn_health s) u"
      by (simp add: Healthy_def result)
  qed
qed

section \<open>The loop\<close>

text \<open>Any sequence of passes of the loop, each over whatever the database is by then.\<close>

inductive loop_step :: "loop \<Rightarrow> loop \<Rightarrow> bool" where
  loop_pass: "lp_running lp \<Longrightarrow> loop_step lp (fst (Run_step e c outcome ev lp db))"

inductive_cases loop_stepE: "loop_step lp lp'"

inductive loop_run :: "loop \<Rightarrow> loop \<Rightarrow> bool" where
  loop_start: "loop_run lp lp"
| loop_next: "loop_run lp lp1 \<Longrightarrow> loop_step lp1 lp2 \<Longrightarrow> loop_run lp lp2"

interpretation loop_machine: machine loop_step loop_run
proof unfold_locales
  fix lp lp' :: loop and P
  assume "loop_run lp lp'" and "P lp" and "\<And>t u. P t \<Longrightarrow> loop_step t u \<Longrightarrow> P u"
  then show "P lp'" by (induction rule: loop_run.induct) auto
qed (auto intro: loop_run.intros)

definition snapshot_valid :: "runtime \<Rightarrow> bool" where
  "snapshot_valid r \<longleftrightarrow> (\<exists>s. rt_current r = Some s \<and> sn_Environment s = rt_environment r
     \<and> sn_Version s = rt_configGeneration r
     \<and> (\<forall>p l. sn_Listeners s p = Some l \<longrightarrow> listener_wf (rt_allowlist r) p l))"

definition same_runtime :: "runtime \<Rightarrow> runtime \<Rightarrow> bool" where
  "same_runtime r r' \<longleftrightarrow> rt_environment r' = rt_environment r \<and> rt_allowlist r' = rt_allowlist r
     \<and> rt_instanceID r' = rt_instanceID r"

lemma Load_failure: "Load e db r = (Some x, r') \<Longrightarrow> r' = r"
  by (auto simp: Load_def Let_def split: sum.splits prod.splits)

lemma same_runtime_refl [simp]: "same_runtime r r"
  by (simp add: same_runtime_def)

lemma Load_same: "same_runtime r (snd (Load e db r))"
  by (auto simp: Load_def Let_def same_runtime_def update_metrics_def split: sum.splits prod.splits)

lemma Load_valid:
  assumes "Load e db r = (None, r')"
  shows "snapshot_valid r'"
proof -
  from assms obtain s and c :: config_row where
    b: "buildSnapshot (le_compile e) (le_clock e) (cf_id c) (rt_environment r) (cf_snapshot c)
           (live_credentials db (rt_environment r) (le_now e)) (rt_allowlist r) = Inr s"
    and cur: "rt_current r' = Some (case rt_current r of None \<Rightarrow> s | Some old \<Rightarrow> copyHealth (le_order e) old s)"
    and rest: "rt_configGeneration r' = cf_id c" "rt_environment r' = rt_environment r" "rt_allowlist r' = rt_allowlist r"
    by (elim Load_success) blast
  from b have "sn_Environment s = rt_environment r" "sn_Version s = cf_id c" by (elim buildSnapshot_parts, simp)+
  with built_listener_wf [OF b] cur rest show ?thesis
    by (auto simp: snapshot_valid_def split: option.splits)
qed

lemma Load_keeps_valid: "snapshot_valid r \<Longrightarrow> snapshot_valid (snd (Load e db r))"
  by (cases "Load e db r"; cases "fst (Load e db r)") (auto dest: Load_failure Load_valid)

lemma update_metrics_valid [simp]:
  "snapshot_valid (update_metrics f r) = snapshot_valid r" "same_runtime r0 (update_metrics f r) = same_runtime r0 r"
  by (simp_all add: snapshot_valid_def same_runtime_def update_metrics_def)

lemma refresh_valid:
  "snapshot_valid r \<Longrightarrow> snapshot_valid (snd (refreshIfChanged e db1 db2 db r))
     \<and> same_runtime r (snd (refreshIfChanged e db1 db2 db r))"
  using Load_keeps_valid [of r e db] Load_same [of r e db]
  by (auto simp: refreshIfChanged_def split: option.splits prod.splits)

lemma probe_valid: "snapshot_valid r \<Longrightarrow> snapshot_valid (probe ord outcome r) \<and> same_runtime r (probe ord outcome r)"
  by (auto simp: probe_def snapshot_valid_def same_runtime_def update_metrics_def Let_def split: option.split)

lemma Run_step_valid:
  "snapshot_valid (lp_runtime lp) \<Longrightarrow> snapshot_valid (lp_runtime (fst (Run_step e c outcome ev lp db)))
     \<and> same_runtime (lp_runtime lp) (lp_runtime (fst (Run_step e c outcome ev lp db)))"
proof (induction e c outcome ev lp db rule: Run_step.induct)
  case (2 e c outcome db1 db2 lp db)
  from refresh_valid [OF 2, of e db1 db2 db] show ?case
    by (auto simp: refresh_failed_def split: prod.splits sum.splits bool.splits)
next
  case (3 e c outcome lp db)
  then show ?case by (simp add: probe_valid)
next
  case (6 e c outcome kind lp db)
  from Load_keeps_valid [OF 6, of e db] Load_same [of "lp_runtime lp" e db] 6 show ?case
    by (auto simp: refresh_failed_def split: prod.splits option.splits)
qed auto

lemma same_runtime_trans: "same_runtime r1 r2 \<Longrightarrow> same_runtime r2 r3 \<Longrightarrow> same_runtime r1 r3"
  by (simp add: same_runtime_def)

lemma loop_step_valid:
  "loop_step lp lp' \<Longrightarrow> snapshot_valid (lp_runtime lp) \<Longrightarrow>
   snapshot_valid (lp_runtime lp') \<and> same_runtime (lp_runtime lp) (lp_runtime lp')"
  by (auto elim!: loop_stepE dest: Run_step_valid)

lemma run_keeps_valid:
  assumes "loop_run lp lp'" and "snapshot_valid (lp_runtime lp)"
  shows "snapshot_valid (lp_runtime lp') \<and> same_runtime (lp_runtime lp) (lp_runtime lp')"
  using assms(1)
  by (rule loop_machine.run_invariant) (use assms(2) in \<open>auto dest: loop_step_valid intro: same_runtime_trans\<close>)

text \<open>
  Claim C17: a gateway that has a valid snapshot always has one. Whatever the loop receives, however
  often the database, a decoding or the checks of a configuration fail, the runtime keeps a snapshot
  of its own environment whose listeners are all well formed.
\<close>

theorem runtime_keeps_valid_snapshot:
  assumes "loop_run lp lp'" and "snapshot_valid (lp_runtime lp)"
  shows "snapshot_valid (lp_runtime lp') \<and> rt_environment (lp_runtime lp') = rt_environment (lp_runtime lp)
    \<and> rt_allowlist (lp_runtime lp') = rt_allowlist (lp_runtime lp)"
  using run_keeps_valid [OF assms] by (simp add: same_runtime_def)

section \<open>Timers\<close>

text \<open>
  A delay drawn for a timer stays within the jitter of its interval, and is positive when
  the jitter is smaller than the interval; without jitter it is the interval. From a jitter of
  \<open>2 ^ 62\<close> nanoseconds (146 years) on, the draw panics.
\<close>

lemma jittered_delay_bounds:
  assumes "0 < interval" and "0 < jitter" and "jitter < 2 ^ 62" and "interval + jitter < 2 ^ 63"
    and "0 \<le> drawn" and "drawn < 2 * jitter + 1"
  shows "\<exists>d. jitteredDelay drawn interval jitter = Some d \<and> interval - jitter \<le> d \<and> d \<le> interval + jitter
    \<and> (jitter < interval \<longrightarrow> 0 < d)"
proof -
  have "in_int64 (interval - jitter)" "in_int64 (interval - jitter + drawn)" "in_int64 (jitter * 2)"
    "in_int64 (jitter * 2 + 1)"
    using assms by (auto simp: in_int64_def)
  then have "jitteredDelay drawn interval jitter = Some (interval - jitter + drawn)"
    using assms by (simp add: jitteredDelay_def)
  with assms show ?thesis by simp
qed

lemma jittered_delay_panics: "0 < interval \<Longrightarrow> jitteredDelay drawn interval (2 ^ 62) = None"
  by (simp add: jitteredDelay_def int64_def)

section \<open>Witnesses\<close>

text \<open>A gateway that serves the example snapshot and has found its first upstream down.\<close>

definition example_down :: snapshot where
  "example_down = example_snapshot\<lparr>sn_health := (\<lambda>n. n \<noteq> 1)\<rparr>"

definition example_gateway_runtime :: runtime where
  "example_gateway_runtime = (NewRuntime example_options)\<lparr>rt_current := Some example_down, rt_configGeneration := 7\<rparr>"

definition example_stored :: database where
  "example_stored = example_database\<lparr>t_configurations :=
     [\<lparr>cf_id = 7, cf_environment = 1, cf_status = ''active'', cf_snapshot = example_raw, cf_source = None,
       cf_created_by = ''alice'', cf_validated_at = Some 100, cf_activated_at = Some 100, cf_created_at = 100\<rparr>]\<rparr>"

lemma example_enumerates: "enumerates (le_order example_load_env)"
  by (simp add: enumerates_def example_load_env_def)

lemma example_valid: "snapshot_valid example_gateway_runtime"
proof -
  have "listener_wf example_allowlist p l" if "sn_Listeners example_snapshot p = Some l" for p l
    using built_listener_wf [OF example_build that] .
  then show ?thesis
    by (auto simp: snapshot_valid_def example_gateway_runtime_def example_down_def NewRuntime_def example_options_def
        example_allowlist_def) (simp_all add: example_snapshot_def)
qed

lemma example_reload:
  "\<exists>r' s. Load example_load_env example_stored example_gateway_runtime = (None, r') \<and> rt_current r' = Some s
     \<and> sn_Listeners s = sn_Listeners example_snapshot"
proof -
  have "active_row example_stored ''development'' = Some (hd (t_configurations example_stored))"
    by (simp add: active_row_def in_environment_def example_stored_def) (simp add: example_database_def)
  moreover have "live_credentials example_stored ''development'' 200 = []"
    by (simp add: live_credentials_def example_stored_def example_database_def)
  moreover have "\<exists>s. buildSnapshot (\<lambda>_. None) 200 7 ''development'' example_raw [] example_allowlist = Inr s
      \<and> sn_Listeners s = sn_Listeners example_snapshot"
    by (simp add: snapshot_eval snapshot_example_defs)
  ultimately show ?thesis
    by (auto simp: Load_def read_snapshot_def example_load_env_def example_gateway_runtime_def NewRuntime_def
        example_options_def example_stored_def example_allowlist_def update_metrics_def Let_def)
qed

theorem reload_preserves_health_witness:
  "\<exists>s. rt_current (snd (Load example_load_env example_stored example_gateway_runtime)) = Some s
     \<and> \<not> Healthy (sn_health s) (hd example_pool)"
proof -
  obtain r' s where load: "Load example_load_env example_stored example_gateway_runtime = (None, r')"
    and s: "rt_current r' = Some s" "sn_Listeners s = sn_Listeners example_snapshot"
    using example_reload by blast
  have serves: "serves example_down v \<longleftrightarrow> v \<in> set example_pool" "serves s v \<longleftrightarrow> v \<in> set example_pool" for v
    using s(2) by (auto simp: serves_def example_down_def example_snapshot_def example_lis1_def example_lis2_def
        split: if_splits)
  have old: "rt_current example_gateway_runtime = Some example_down" by (simp add: example_gateway_runtime_def)
  have fin: "finite (dom (sn_Listeners example_down))" by (simp add: example_down_def example_snapshot_def)
  have ids: "u_ref v = u_ref w" if "serves example_down v" "serves example_down w" "u_ID v = u_ID w" for v w
    using that unfolding serves by (auto simp: example_pool_def)
  have up: "serves s (hd example_pool)" unfolding serves by (simp add: example_pool_def)
  from reload_preserves_health [OF load old s(1) example_enumerates fin ids up] up
  have "Healthy (sn_health s) (hd example_pool) = Healthy (sn_health example_down) (hd example_pool)"
    unfolding serves by blast
  then show ?thesis
    using load s(1) by (simp add: example_down_def Healthy_def example_pool_def)
qed

theorem runtime_keeps_valid_snapshot_witness:
  "snapshot_valid (lp_runtime (fst (Run_step (example_load_env\<lparr>le_ok := \<lambda>_. False\<rparr>) example_context
     (\<lambda>_. Unreachable) (Notified ''configuration'') \<lparr>lp_runtime = example_gateway_runtime, lp_running = True,
       lp_events = True\<rparr> example_stored)))"
proof -
  let ?lp = "\<lparr>lp_runtime = example_gateway_runtime, lp_running = True, lp_events = True\<rparr>"
  have "loop_run ?lp (fst (Run_step (example_load_env\<lparr>le_ok := \<lambda>_. False\<rparr>) example_context
     (\<lambda>_. Unreachable) (Notified ''configuration'') ?lp example_stored))"
    by (rule loop_machine.run_one [OF loop_pass]) simp
  from runtime_keeps_valid_snapshot [OF this] example_valid show ?thesis by simp
qed

end
