(* ===== verification/Serving.thy ===== *)
theory Serving
  imports Gateway_Policy Runtime_Properties
begin

text \<open>
  The gateway at work: its handler takes the snapshot that the runtime holds. \<open>snapshot_source\<close> is
  what the handler relies on, and the runtime provides it; requests and passes of the runtime's
  loop interleave in any order.
\<close>

section \<open>The interface between the handler and the runtime\<close>

text \<open>
  The handler and the runtime share the snapshot; the handler only moves the cursors of its
  listeners, which are left out of the comparison.
\<close>

definition stationary :: "snapshot \<Rightarrow> snapshot" where
  "stationary s = s\<lparr>sn_Listeners := (\<lambda>p. map_option (\<lambda>l. l\<lparr>l_cursor := 0\<rparr>) (sn_Listeners s p))\<rparr>"

definition shares :: "'c gateway \<Rightarrow> snapshot option \<Rightarrow> bool" where
  "shares g current \<longleftrightarrow> map_option stationary (g_snapshot g) = map_option stationary current"

lemma listener_wf_cursor [simp]: "listener_wf allowlist p (l\<lparr>l_cursor := n\<rparr>) = listener_wf allowlist p l"
  by (simp add: listener_wf_def)

lemma shares_listener:
  assumes "shares g (Some s0)" and "g_snapshot g = Some s" and "sn_Listeners s p = Some l"
  obtains l0 where "sn_Listeners s0 p = Some l0" and "l\<lparr>l_cursor := 0\<rparr> = l0\<lparr>l_cursor := 0\<rparr>"
proof -
  from assms have "sn_Listeners (stationary s) p = sn_Listeners (stationary s0) p"
    by (simp add: shares_def)
  with assms(3) have "map_option (\<lambda>l. l\<lparr>l_cursor := 0\<rparr>) (sn_Listeners s0 p) = Some (l\<lparr>l_cursor := 0\<rparr>)"
    by (simp add: stationary_def)
  then show thesis using that by (auto simp: map_option_eq_Some)
qed

locale snapshot_source =
  fixes current :: "'r \<Rightarrow> snapshot option"
    and allowlist :: "'r \<Rightarrow> cidr list"
    and valid_source :: "'r \<Rightarrow> bool"
  assumes listeners_wf: "valid_source r \<Longrightarrow> current r = Some s \<Longrightarrow> sn_Listeners s p = Some l \<Longrightarrow>
      listener_wf (allowlist r) p l"
begin

text \<open>Whatever is sent goes to an address inside the allowlist of the source.\<close>

lemma sent_inside:
  assumes "ServeHTTP h en w q g = ((p, Some out), g')" and "valid_source r" and "shares g (current r)"
  shows "\<exists>u. upstream_wf (allowlist r) u \<and> o_Host out = Some (Authority u) \<and> o_Scheme out = URLScheme u"
proof -
  from assms(1) obtain port s l cred g1 blocked g3 u g4 where
    a: "admit h en w q g = (Inr (port, s, l, cred), g1)" and
    u: "choose_upstream en w q port l blocked g3 = (Inr u, g4)" and
    f: "forward_request h en w q s l u g4 = ((p, Some out), g')"
    by (rule ServeHTTP_sent)
  note s = admit_Inr(2,3) [OF a]
  with assms(3) obtain s0 where s0: "current r = Some s0"
    by (cases "current r") (simp_all add: shares_def)
  with assms(3) s obtain l0 where l0: "sn_Listeners s0 port = Some l0" "l\<lparr>l_cursor := 0\<rparr> = l0\<lparr>l_cursor := 0\<rparr>"
    by (auto elim: shares_listener)
  have "listener_wf (allowlist r) port l0" using assms(2) s0 l0(1) by (rule listeners_wf)
  then have "listener_wf (allowlist r) port l"
    using l0(2) by (metis listener_wf_cursor)
  then have "upstream_wf (allowlist r) u"
    using choose_upstream_Inr [OF u] by (auto simp: listener_wf_def)
  moreover have "o_Host out = Some (Authority u)" "o_Scheme out = URLScheme u"
    by (simp_all add: forward_sent [OF f] rewrite_request_def Let_def)
  ultimately show ?thesis by blast
qed

end

interpretation runtime_source: snapshot_source rt_current rt_allowlist snapshot_valid
  by unfold_locales (auto simp: snapshot_valid_def)

section \<open>Requests leave the snapshot in place\<close>

lemma count_event_snapshot [simp]: "g_snapshot (count_event ev g) = g_snapshot g"
  by (simp add: count_event_def)

lemma shares_snapshot: "g_snapshot g' = g_snapshot g \<Longrightarrow> shares g' = shares g"
  by (simp add: shares_def fun_eq_iff)

lemma admit_snapshot: "admit h en w r g = (x, g') \<Longrightarrow> g_snapshot g' = g_snapshot g"
  by (auto simp: admit_def Let_def split: option.splits if_splits)

lemma handle_error_snapshot: "g_snapshot (snd (handle_error h en w r s l u err g)) = g_snapshot g"
  by (simp add: handle_error_def Let_def split: option.split)

lemma modify_response_snapshot: "g_snapshot (snd (modify_response h s l u res g)) = g_snapshot g"
  by (simp add: modify_response_def Let_def split: option.split prod.split sum.split)

lemma reverse_proxy_snapshot:
  assumes "\<And>e g1. g_snapshot (snd (error e g1)) = g_snapshot g1"
    and "\<And>res g1. g_snapshot (snd (modify res g1)) = g_snapshot g1"
  shows "g_snapshot (snd (reverse_proxy rewrite modify error en w out g)) = g_snapshot g"
  unfolding reverse_proxy_def Let_def split_def
  by (simp add: assms split: sum.split option.split)

lemma forward_snapshot: "g_snapshot (snd (forward_request h en w r s l u g)) = g_snapshot g"
  unfolding forward_request_def
  by (rule reverse_proxy_snapshot) (rule handle_error_snapshot modify_response_snapshot)+

lemma select_cursor: "\<exists>n. snd (SelectUpstreamWhere h1 h2 allowed l) = l\<lparr>l_cursor := n\<rparr>"
  by (cases l) (simp add: SelectUpstreamWhere_def Let_def)

lemma choose_shares:
  assumes "choose_upstream en w r port l blocked g = (x, g')"
    and "g_snapshot g = Some s" and "sn_Listeners s port = Some l"
  shows "shares g' = shares g"
proof -
  obtain y l' where sel: "SelectUpstreamWhere (e_health1 en) (e_health2 en)
      (Some (\<lambda>u. \<not> is_blocked blocked (u_ID u))) l = (y, l')" by fastforce
  then have "l'\<lparr>l_cursor := 0\<rparr> = l\<lparr>l_cursor := 0\<rparr>" 
    using select_cursor [of "e_health1 en" "e_health2 en" "Some (\<lambda>u. \<not> is_blocked blocked (u_ID u))" l]
    by auto
  then have "stationary (s\<lparr>sn_Listeners := (sn_Listeners s)(port \<mapsto> l')\<rparr>) = stationary s"
    using assms(3) by (auto simp: stationary_def fun_eq_iff intro!: arg_cong [of _ _ "\<lambda>f. s\<lparr>sn_Listeners := f\<rparr>"])
  moreover have "g_snapshot g' = Some (s\<lparr>sn_Listeners := (sn_Listeners s)(port \<mapsto> l')\<rparr>)"
    using assms(1,2) unfolding choose_upstream_def sel prod.case Let_def
    by (auto split: option.splits if_splits)
  ultimately show ?thesis using assms(2) by (simp add: shares_def fun_eq_iff)
qed

lemma and_then_shares:
  assumes "shares (snd m) = shares g"
    and "\<And>x g1. m = (Inr x, g1) \<Longrightarrow> shares (snd (f x g1)) = shares g"
  shows "shares (snd (and_then m f)) = shares g"
  using assms by (auto simp: and_then_def split: prod.splits sum.splits)

lemma stage_snapshot:
  assumes "\<And>x g'. m = (x, g') \<Longrightarrow> g_snapshot g' = g_snapshot g"
    and "\<And>x g'. m = (Inr x, g') \<Longrightarrow> g_snapshot g' = g_snapshot g \<Longrightarrow> shares (snd (f x g')) = shares g"
  shows "shares (snd (and_then m f)) = shares g"
  using assms by (intro and_then_shares) (cases m, auto intro: shares_snapshot)

lemma chosen_shares:
  assumes "g_snapshot g = Some s" and "sn_Listeners s port = Some l"
  shows "shares (snd (and_then (choose_upstream en w r port l blocked g)
      (\<lambda>u g4. forward_request h en w r s l u g4))) = shares g"
proof (rule and_then_shares)
  show chosen: "shares (snd (choose_upstream en w r port l blocked g)) = shares g"
    by (rule choose_shares [OF prod.collapse [symmetric] assms])
  fix u and g4 :: "'a gateway"
  assume "choose_upstream en w r port l blocked g = (Inr u, g4)"
  with chosen have "shares g4 = shares g" by simp
  then show "shares (snd (forward_request h en w r s l u g4)) = shares g"
    by (simp add: shares_snapshot [OF forward_snapshot])
qed

lemma ServeHTTP_shares: "shares (snd (ServeHTTP h en w r g)) = shares g"
  unfolding ServeHTTP_def
proof (rule stage_snapshot)
  show "g_snapshot g' = g_snapshot g" if "admit h en w r g = (x, g')" for x g'
    using that by (rule admit_snapshot)
  fix x and g1 :: "'a gateway"
  assume adm: "admit h en w r g = (Inr x, g1)" and g1: "g_snapshot g1 = g_snapshot g"
  obtain port s l cred where x: "x = (port, s, l, cred)" by (cases x)
  note s = admit_Inr(2,3) [OF adm [unfolded x]]
  have "shares (snd (and_then (apply_policy h w r s l cred g1) (\<lambda>_ g2.
      and_then (check_circuits h w r s l g2) (\<lambda>blocked g3.
      and_then (choose_upstream en w r port l blocked g3) (\<lambda>u g4.
      forward_request h en w r s l u g4))))) = shares g1"
  proof (rule stage_snapshot)
    fix y and g2 :: "'a gateway" assume g2: "g_snapshot g2 = g_snapshot g1"
    have "shares (snd (and_then (check_circuits h w r s l g2) (\<lambda>blocked g3.
      and_then (choose_upstream en w r port l blocked g3) (\<lambda>u g4.
      forward_request h en w r s l u g4)))) = shares g2"
    proof (rule stage_snapshot)
      fix blocked and g3 :: "'a gateway" assume g3: "g_snapshot g3 = g_snapshot g2"
      then have "g_snapshot g3 = Some s" using g1 g2 s by simp
      from chosen_shares [OF this s(2)] shares_snapshot [OF g3]
      show "shares (snd (and_then (choose_upstream en w r port l blocked g3) (\<lambda>u g4.
          forward_request h en w r s l u g4))) = shares g2" by simp
    qed (rule check_circuits_snapshot)
    then show "shares (snd (and_then (check_circuits h w r s l g2) (\<lambda>blocked g3.
      and_then (choose_upstream en w r port l blocked g3) (\<lambda>u g4.
      forward_request h en w r s l u g4)))) = shares g1" using shares_snapshot [OF g2] by simp
  qed (rule apply_policy_snapshot)
  then show "shares (snd ((\<lambda>(port, s, l, cred) g1.
      and_then (apply_policy h w r s l cred g1) (\<lambda>_ g2.
      and_then (check_circuits h w r s l g2) (\<lambda>blocked g3.
      and_then (choose_upstream en w r port l blocked g3) (\<lambda>u g4.
      forward_request h en w r s l u g4)))) x g1)) = shares g"
    using shares_snapshot [OF g1] by (simp add: x)
qed

section \<open>Requests and passes interleaved\<close>

record 'c gateway_state =
  sv_loop :: loop
  sv_gateway :: "'c gateway"

text \<open>
  A request changes the state of the gateway; a pass of the loop changes the runtime, and the
  gateway then shares the snapshot that the runtime holds. Other gateways may use the coordinator
  in between.
\<close>

inductive serving_step :: "'c gateway_handler \<Rightarrow> 'c gateway_state \<Rightarrow> 'c gateway_state \<Rightarrow> bool" for h where
  serving_request: "serving_step h sv (sv\<lparr>sv_gateway := snd (ServeHTTP h en w q (sv_gateway sv))\<rparr>)"
| serving_pass: "loop_step (sv_loop sv) lp \<Longrightarrow> shares g (rt_current (lp_runtime lp)) \<Longrightarrow>
    serving_step h sv \<lparr>sv_loop = lp, sv_gateway = g\<rparr>"

inductive_cases serving_stepE: "serving_step h sv sv'"

inductive serving_run :: "'c gateway_handler \<Rightarrow> 'c gateway_state \<Rightarrow> 'c gateway_state \<Rightarrow> bool" for h where
  serving_start: "serving_run h sv sv"
| serving_next: "serving_run h sv sv1 \<Longrightarrow> serving_step h sv1 sv2 \<Longrightarrow> serving_run h sv sv2"

interpretation serving_machine: machine "serving_step h" "serving_run h" for h :: "'c gateway_handler"
proof unfold_locales
  fix sv sv' :: "'c gateway_state" and P
  assume "serving_run h sv sv'" and "P sv" and "\<And>t u. P t \<Longrightarrow> serving_step h t u \<Longrightarrow> P u"
  then show "P sv'" by (induction rule: serving_run.induct) auto
qed (auto intro: serving_run.intros)

definition in_service :: "runtime \<Rightarrow> 'c gateway_state \<Rightarrow> bool" where
  "in_service r sv \<longleftrightarrow> snapshot_valid (lp_runtime (sv_loop sv)) \<and> same_runtime r (lp_runtime (sv_loop sv))
     \<and> shares (sv_gateway sv) (rt_current (lp_runtime (sv_loop sv)))"

lemma serving_step_in_service: "serving_step h sv sv' \<Longrightarrow> in_service r sv \<Longrightarrow> in_service r sv'"
  by (erule serving_stepE)
    (auto simp: in_service_def ServeHTTP_shares dest: loop_step_valid intro: same_runtime_trans)

text \<open>
  Whatever is sent after any run goes to a well-formed upstream inside the allowlist the gateway was
  started with, whoever wrote the configurations.
\<close>

lemma contacts_allowlist:
  assumes "serving_run h sv sv'" and "snapshot_valid (lp_runtime (sv_loop sv))"
    and "shares (sv_gateway sv) (rt_current (lp_runtime (sv_loop sv)))"
    and "ServeHTTP h en w q (sv_gateway sv') = ((p, Some out), g')"
  shows "\<exists>u. upstream_wf (rt_allowlist (lp_runtime (sv_loop sv))) u \<and> o_Host out = Some (Authority u)
    \<and> o_Scheme out = URLScheme u"
proof -
  let ?r = "lp_runtime (sv_loop sv)"
  have "in_service ?r sv'"
    using assms(1) by (rule serving_machine.run_invariant)
      (use assms(2,3) in \<open>auto simp: in_service_def [of _ sv] intro: serving_step_in_service\<close>)
  then have "snapshot_valid (lp_runtime (sv_loop sv'))" and same: "same_runtime ?r (lp_runtime (sv_loop sv'))"
    and "shares (sv_gateway sv') (rt_current (lp_runtime (sv_loop sv')))"
    by (simp_all add: in_service_def)
  from runtime_source.sent_inside [OF assms(4) this(1,3)] same show ?thesis
    by (auto simp: same_runtime_def)
qed

end
