(* ===== verification/Process.thy ===== *)
theory Process
  imports Config Migrate Http_Api Server Serving
begin

text \<open>
  The two processes: \<^verbatim>\<open>internal/bootstrap/bootstrap.go\<close> builds the parts out of the configuration
  and runs the server of \<open>Server\<close>. What the database, Redis, the file system and the network answer
  is an argument.
\<close>

section \<open>Wiring\<close>

definition gateway_runtime_options :: "config \<Rightarrow> runtime_options" where
  "gateway_runtime_options c = \<lparr>ro_Environment = cfg_Environment c, ro_Allowlist = cfg_UpstreamCIDRs c,
     ro_InstanceID = cfg_GatewayInstanceID c, ro_AdvertiseAddr = cfg_GatewayAdvertiseAddr c,
     ro_PollInterval = cfg_ConfigPollInterval c, ro_PollJitter = cfg_ConfigPollJitter c,
     ro_HealthInterval = cfg_HealthInterval c, ro_HealthTimeout = cfg_HealthTimeout c,
     ro_Metrics = Some new_metrics\<rparr>"

definition admin_store :: "config \<Rightarrow> store" where
  "admin_store c = ConfigureDistributed True (cfg_ConfigurationApprovalsRequired c)
     (NewStore (Value (cfg_APIKeyPepper c)) (cfg_UpstreamCIDRs c))"

text \<open>The options of the HTTP handler: the token is set, and the admin API served, by the admin process only.\<close>

definition process_options ::
  "config \<Rightarrow> ('q, 's, 'b) http_api option \<Rightarrow> ('q, 's, 'b) http_api option \<Rightarrow> bool \<Rightarrow> int \<Rightarrow> ('q, 's, 'b) http_options" where
  "process_options c admin gateway ready now =
     \<lparr>ho_Service = cfg_Role c, ho_Environment = cfg_Environment c, ho_Readiness = Some (readiness_IsReady ready),
      ho_AdminBearerToken = (if cfg_Role c = Admin then Value (cfg_AdminBearerToken c) else []),
      ho_AdminAPI = (if cfg_Role c = Admin then admin else None),
      ho_GatewayAPI = (if cfg_Role c = Admin then None else gateway),
      ho_Metrics = True, ho_MetricsBearerToken = Value (cfg_MetricsBearerToken c), ho_Now = now\<rparr>"

text \<open>
  \<open>gateway_NewHandler\<close> takes the transport of its options, or the default one, with its own limits. The
  snapshot it reads is the runtime's, shared as in \<open>Serving\<close>.
\<close>

definition gateway_NewHandler ::
  "'p transport \<Rightarrow> cidr list \<Rightarrow> string \<Rightarrow> 'c coordinator option \<Rightarrow> 'p transport option \<Rightarrow>
   'c gateway_handler \<times> 'p transport" where
  "gateway_NewHandler fallback trusted pepper coordinator transport =
     (let t = (case transport of None \<Rightarrow> fallback | Some t \<Rightarrow> t)
      in (\<lparr>gh_trusted = trusted, gh_pepper = pepper, gh_coordinator = coordinator\<rparr>,
          t\<lparr>tr_Proxy := False, tr_DialTimeout := 5 * 1000000000, tr_KeepAlive := 30 * 1000000000,
            tr_MaxIdleConns := 256, tr_MaxIdleConnsPerHost := 32, tr_IdleConnTimeout := 90 * 1000000000,
            tr_ResponseHeaderTimeout := 30 * 1000000000\<rparr>))"

text \<open>
  Starting: each step may fail, and then the process ends with status 1 before it serves anything.
  The gateway has loaded a snapshot before it serves; the admin process has run the migrations.
  \<open>outside\<close> is what the process finds: the drivers, the database with its schema, the certificates.
  \<open>os_coordinator\<close> is the client behind the options that \<open>New\<close> returns.
\<close>

record ('a, 'p, 'd, 'c) outside =
  os_driver :: "'a pool_driver"
  os_parse_redis :: "string \<Rightarrow> redis_options option"
  os_coordinator :: "redis_options \<Rightarrow> 'c coordinator"
  os_migrate :: "'d migrate_env"
  os_migrated :: "'d migrated"
  os_certificates :: "'p certificate_store"
  os_transport :: "'p transport"
  os_load :: load_env
  os_tables :: database

datatype ('a, 'p, 'd, 'c) process =
    AdminProcess config 'a store "'d migrated"
  | GatewayProcess config 'a runtime "'c gateway_handler" "'p transport"

definition start_process ::
  "config_libraries \<Rightarrow> string \<Rightarrow> lookup \<Rightarrow> ('a, 'p, 'd, 'c) outside \<Rightarrow> ('a, 'p, 'd, 'c) process option" where
  "start_process L role lookup w =
     (case load_config L role lookup of
        Inl _ \<Rightarrow> None
      | Inr c \<Rightarrow>
          (case fst (Open (os_driver w) (Value (cfg_DatabaseURL c)) (cfg_DatabaseMinConns c)
                  (cfg_DatabaseMaxConns c) (cfg_DatabaseTimeout c)) of
             Inl _ \<Rightarrow> None
           | Inr pool \<Rightarrow>
               (case coordination_New (os_parse_redis w) (Value (cfg_RedisURL c)) of
                  Inl _ \<Rightarrow> None
                | Inr redis \<Rightarrow>
                    if role = Admin then
                      (case Migrate (os_migrate w) migrationFiles (os_migrated w) of
                         (Some _, _) \<Rightarrow> None
                       | (None, schema) \<Rightarrow> Some (AdminProcess c pool (admin_store c) schema))
                    else
                      (case NewTransport (os_certificates w) (cfg_UpstreamTLSCAFile c) of
                         Inl _ \<Rightarrow> None
                       | Inr transport \<Rightarrow>
                           (case Load (os_load w) (os_tables w) (NewRuntime (gateway_runtime_options c)) of
                              (Some _, _) \<Rightarrow> None
                            | (None, r) \<Rightarrow>
                                (case gateway_NewHandler (os_transport w) (cfg_TrustedProxyCIDRs c) (Value (cfg_APIKeyPepper c))
                                        (Some (os_coordinator w redis)) (Some transport) of
                                   (h, t) \<Rightarrow> Some (GatewayProcess c pool r h t)))))))"

text \<open>
  The exit status, 0 only when the server ended without an error, and the database: a gateway that
  ends reports that it is not ready, with the runtime as it is by then.
\<close>

fun process_certificate :: "('a, 'p, 'd, 'c) process \<Rightarrow> string" where
  "process_certificate (AdminProcess c _ _ _) = cfg_TLSCertFile c"
| "process_certificate (GatewayProcess c _ _ _ _) = cfg_TLSCertFile c"

definition bootstrap_Run ::
  "config_libraries \<Rightarrow> string \<Rightarrow> lookup \<Rightarrow> ('a, 'p, 'd, 'c) outside \<Rightarrow> string option \<Rightarrow> bool \<Rightarrow> serve_event \<Rightarrow>
   call_env \<Rightarrow> (runtime \<Rightarrow> runtime) \<Rightarrow> database \<Rightarrow> nat \<times> database" where
  "bootstrap_Run L role lookup w listening certificate ev c later db =
     (case start_process L role lookup w of
        None \<Rightarrow> (1, db)
      | Some p \<Rightarrow>
          (let ended = snd (server_Run listening certificate (process_certificate p) ev);
               db' = (case p of AdminProcess _ _ _ _ \<Rightarrow> db
                      | GatewayProcess _ _ r _ _ \<Rightarrow> MarkNotReady c (later r) db)
           in case ended of
                None \<Rightarrow> (0, db')
              | Some e \<Rightarrow> (if e = ''context canceled'' then 0 else 1, db')))"

text \<open>The two programs, \<^verbatim>\<open>cmd/gateway\<close> and \<^verbatim>\<open>cmd/gateway-admin\<close>, exit with the status of their role.\<close>

definition gateway_main where "gateway_main L = bootstrap_Run L DataPlane"
definition gateway_admin_main where "gateway_admin_main L = bootstrap_Run L Admin"

section \<open>Operational metrics\<close>

text \<open>
  One refresh of \<open>monitorMetrics\<close>: the connections of the pool, and in the admin process the
  replicas seen in the last thirty seconds and the use of the port inventory. Times are
  microseconds, as the database keeps them; a query that fails ends the refresh.
\<close>

definition active_version :: "database \<Rightarrow> string \<Rightarrow> int option" where
  "active_version db environment =
     map_option cf_id (find (\<lambda>c. in_environment db environment (cf_environment c) \<and> cf_status c = ''active'')
       (t_configurations db))"

definition recent_replicas :: "database \<Rightarrow> string \<Rightarrow> int \<Rightarrow> instance_row list" where
  "recent_replicas db environment now =
     filter (\<lambda>g. in_environment db environment (gi_environment g) \<and> now - 30000000 < gi_last_seen_at g)
       (t_instances db)"

definition replica_counts :: "database \<Rightarrow> string \<Rightarrow> int \<Rightarrow> nat \<times> nat \<times> nat" where
  "replica_counts db environment now =
     (let recent = recent_replicas db environment now; ready = filter gi_ready recent
      in (length ready,
          length (filter (\<lambda>g. active_version db environment \<noteq> None
            \<and> gi_loaded_version g = active_version db environment) ready),
          length recent))"

definition port_counts :: "database \<Rightarrow> string \<Rightarrow> nat \<times> nat" where
  "port_counts db environment =
     (let ports = filter (\<lambda>p. in_environment db environment (po_environment p)) (t_ports db)
      in (length (filter (\<lambda>p. po_status p \<noteq> ''available'') ports), length ports))"

definition monitorMetrics ::
  "bool \<Rightarrow> bool \<Rightarrow> bool \<Rightarrow> int \<Rightarrow> int \<Rightarrow> string \<Rightarrow> int \<Rightarrow> database \<Rightarrow> metrics \<Rightarrow> metrics" where
  "monitorMetrics controlPlane replicas_read ports_read acquired maximum environment now db m =
     (let m1 = SetDatabaseConnections acquired maximum m
      in if \<not> controlPlane \<or> \<not> replicas_read then m1
         else (case replica_counts db environment now of (ready, current, all) \<Rightarrow>
           let m2 = SetGatewayReplicas (int ready) (int current) (int all) m1
           in if \<not> ports_read then m2
              else (case port_counts db environment of (used, all_ports) \<Rightarrow>
                SetListenerPorts (int used) (int all_ports) m2)))"

lemma replica_counts_ordered:
  "replica_counts db environment now = (ready, current, all) \<Longrightarrow> current \<le> ready \<and> ready \<le> all"
  by (auto simp: replica_counts_def Let_def simp del: filter_filter)

lemma port_counts_ordered: "port_counts db environment = (used, all) \<Longrightarrow> used \<le> all"
  by (auto simp: port_counts_def Let_def simp del: filter_filter)

section \<open>What a process that serves can rely on\<close>

lemma start_gateway:
  assumes "start_process L role lookup w = Some (GatewayProcess c pool r h t)"
  obtains redis transport where "load_config L DataPlane lookup = Inr c" and "role = DataPlane"
    and "Load (os_load w) (os_tables w) (NewRuntime (gateway_runtime_options c)) = (None, r)"
    and "NewTransport (os_certificates w) (cfg_UpstreamTLSCAFile c) = Inr transport"
    and "gateway_NewHandler (os_transport w) (cfg_TrustedProxyCIDRs c) (Value (cfg_APIKeyPepper c))
        (Some (os_coordinator w redis)) (Some transport) = (h, t)"
proof -
  from assms have "load_config L role lookup = Inr c" and other: "role \<noteq> Admin"
    and rest: "\<exists>redis transport. Load (os_load w) (os_tables w) (NewRuntime (gateway_runtime_options c)) = (None, r)
      \<and> NewTransport (os_certificates w) (cfg_UpstreamTLSCAFile c) = Inr transport
      \<and> gateway_NewHandler (os_transport w) (cfg_TrustedProxyCIDRs c) (Value (cfg_APIKeyPepper c))
          (Some (os_coordinator w redis)) (Some transport) = (h, t)"
    by (auto simp: start_process_def split: sum.splits if_splits prod.splits option.splits)
  moreover from this(1) other have "role = DataPlane" using load_config_ok [of L role lookup c] by (auto split: if_splits)
  ultimately show thesis using that by auto
qed

lemma start_admin:
  assumes "start_process L role lookup w = Some (AdminProcess c pool s schema)"
  shows "load_config L Admin lookup = Inr c \<and> role = Admin \<and> s = admin_store c
    \<and> Migrate (os_migrate w) migrationFiles (os_migrated w) = (None, schema)"
  using assms by (auto simp: start_process_def split: sum.splits if_splits prod.splits option.splits)

text \<open>An admin process serves only over the complete schema.\<close>

lemma admin_schema_complete:
  assumes "start_process L role lookup w = Some (AdminProcess c pool s schema)"
  shows "{1..10} \<subseteq> set (mg_ledger schema)"
proof -
  from start_admin [OF assms] have run: "Migrate (os_migrate w) migrationFiles (os_migrated w) = (None, schema)"
    by simp
  have "Some i \<in> set (map migration_version migrationFiles)" if "1 \<le> i" "i \<le> 10" for i :: int
    using that unfolding migrationFiles_versions by (auto intro!: image_eqI [of _ _ "nat i"])
  then show ?thesis using Migrate_done [OF run] by fastforce
qed

text \<open>A gateway that ended is recorded as not ready, when the report is written.\<close>

lemma report_ready:
  assumes "ce_commit_ok c" and "environment_id db (rt_environment r) \<noteq> None" and "g \<in> set (t_instances (report c ready r db))"
    and "gi_id g = rt_instanceID r"
  shows "gi_ready g = ready"
  using assms by (auto simp: report_def update_where_def Let_def exists_where_def list_ex_iff split: if_splits)

lemma gateway_ends_not_ready:
  assumes "start_process L role lookup w = Some (GatewayProcess c pool r h t)" and "ce_commit_ok ce"
    and "environment_id db (rt_environment (later r)) \<noteq> None"
    and "g \<in> set (t_instances (snd (bootstrap_Run L role lookup w listening certificate ev ce later db)))"
    and "gi_id g = rt_instanceID (later r)"
  shows "\<not> gi_ready g"
proof -
  have "g \<in> set (t_instances (report ce False (later r) db))"
    using assms(1,4) by (simp add: bootstrap_Run_def MarkNotReady_def Let_def split: option.splits)
  from report_ready [OF assms(2,3) this assms(5)] show ?thesis by simp
qed

lemma Load_keeps_options:
  "rt_pollInterval (snd (Load e db r)) = rt_pollInterval r \<and> rt_pollJitter (snd (Load e db r)) = rt_pollJitter r"
  by (auto simp: Load_def Let_def update_metrics_def split: sum.splits prod.splits)

lemma gateway_started:
  assumes "start_process L role lookup w = Some (GatewayProcess c pool r h t)"
  shows "common_ok c \<and> shared_ok c \<and> data_plane_ok c \<and> cfg_Role c = DataPlane \<and> snapshot_valid r
    \<and> rt_environment r = cfg_Environment c \<and> rt_allowlist r = cfg_UpstreamCIDRs c
    \<and> rt_pollInterval r = cfg_ConfigPollInterval c \<and> rt_pollJitter r = cfg_ConfigPollJitter c
    \<and> gh_trusted h = cfg_TrustedProxyCIDRs c
    \<and> VersionTLS12 \<le> tc_MinVersion (tr_TLSClientConfig t) \<and> \<not> tc_InsecureSkipVerify (tr_TLSClientConfig t)"
  using assms
proof (rule start_gateway)
  fix redis transport
  assume cfg: "load_config L DataPlane lookup = Inr c"
    and load: "Load (os_load w) (os_tables w) (NewRuntime (gateway_runtime_options c)) = (None, r)"
    and transport: "NewTransport (os_certificates w) (cfg_UpstreamTLSCAFile c) = Inr transport"
    and handler: "gateway_NewHandler (os_transport w) (cfg_TrustedProxyCIDRs c) (Value (cfg_APIKeyPepper c))
        (Some (os_coordinator w redis)) (Some transport) = (h, t)"
  have "snd (Load (os_load w) (os_tables w) (NewRuntime (gateway_runtime_options c))) = r" by (simp add: load)
  with Load_same [of "NewRuntime (gateway_runtime_options c)" "os_load w" "os_tables w"]
    Load_keeps_options [of "os_load w" "os_tables w" "NewRuntime (gateway_runtime_options c)"]
    Load_valid [OF load] load_config_ok [OF cfg] NewTransport_secure [OF transport] handler
  show ?thesis by (auto simp: same_runtime_def NewRuntime_def gateway_runtime_options_def gateway_NewHandler_def Let_def)
qed

section \<open>Properties\<close>

text \<open>
  Claim C32: A configuration that loads is complete and within bounds: a known role and environment,
  an address with a port in range, secrets of at least 32 bytes, connection counts in order and
  within 32 bits, prefixes that are valid and masked; for the gateway also a poll jitter below the
  poll interval and a probe timeout below the probe interval, for the admin process at most five
  approvals.
\<close>

theorem loaded_config_valid:
  assumes "load_config L role lookup = Inr c"
  shows "cfg_Role c = role \<and> common_ok c \<and> shared_ok c
    \<and> (role = DataPlane \<and> data_plane_ok c \<or> role = Admin \<and> admin_ok c)"
  using load_config_ok [OF assms] by (auto split: if_splits)

text \<open>
  Claim C24: A gateway that starts serving has loaded a valid snapshot of its environment under its
  allowlist, trusts only valid proxy prefixes, and lets no request present an admin token, so that
  everything under the admin prefix is refused; and, as long as the poll interval is below \<open>2 ^ 62\<close>
  nanoseconds (146 years, from where the arithmetic of durations would overflow), drawing the delay
  before a poll never panics and the delay is positive.
\<close>

theorem gateway_starts_safely:
  assumes "start_process L role lookup w = Some (GatewayProcess c pool r h t)"
    and "cfg_ConfigPollInterval c < 2 ^ 62" and "0 \<le> drawn" and "drawn < 2 * cfg_ConfigPollJitter c + 1"
  shows "snapshot_valid r \<and> rt_environment r = cfg_Environment c \<and> rt_allowlist r = cfg_UpstreamCIDRs c
    \<and> prefixes_ok (cfg_TrustedProxyCIDRs c) \<and> prefixes_ok (cfg_UpstreamCIDRs c)
    \<and> (\<exists>d. jitteredDelay drawn (rt_pollInterval r) (rt_pollJitter r) = Some d \<and> 0 < d)
    \<and> \<not> presents_token sha (process_options c admin gateway ready now) q"
proof -
  have started: "data_plane_ok c" "shared_ok c" "cfg_Role c = DataPlane" "snapshot_valid r"
      "rt_environment r = cfg_Environment c" "rt_allowlist r = cfg_UpstreamCIDRs c"
      "rt_pollInterval r = cfg_ConfigPollInterval c" "rt_pollJitter r = cfg_ConfigPollJitter c"
    using gateway_started [OF assms(1)] by auto
  then have jitter: "0 \<le> cfg_ConfigPollJitter c" "cfg_ConfigPollJitter c < cfg_ConfigPollInterval c"
    by (auto simp: data_plane_ok_def)
  have "\<exists>d. jitteredDelay drawn (cfg_ConfigPollInterval c) (cfg_ConfigPollJitter c) = Some d \<and> 0 < d"
  proof (cases "cfg_ConfigPollJitter c = 0")
    case True
    with jitter show ?thesis by (simp add: jitteredDelay_def)
  next
    case False
    with jitter assms jittered_delay_bounds [of "cfg_ConfigPollInterval c" "cfg_ConfigPollJitter c" drawn]
    show ?thesis by auto
  qed
  with started show ?thesis
    by (simp add: data_plane_ok_def shared_ok_def no_token_configured process_options_def)
qed

text \<open>
  Claim C2: From the environment variables to the wire. Once a gateway has started, and after any
  interleaving of requests with passes of its loop, whatever the database, Redis and the
  upstreams did, a request is sent only for a peer inside GATEWAY_TRUSTED_PROXY_CIDRS, only to the
  address and port of an upstream inside GATEWAY_UPSTREAM_ALLOWED_CIDRS, and over a transport that
  verifies certificates, with TLS 1.2 at least.
\<close>

theorem started_gateway_stays_inside:
  assumes "start_process L role lookup w = Some (GatewayProcess c pool r h t)"
    and "g_snapshot g = rt_current r"
    and "serving_run h \<lparr>sv_loop = fst (Run_start ce r db), sv_gateway = g\<rparr> sv"
    and "ServeHTTP h en header q (sv_gateway sv) = ((p, Some out), g')"
  shows "peer_within (cfg_TrustedProxyCIDRs c) q
    \<and> (\<exists>port. listenerPort (cfg_TrustedProxyCIDRs c) q = Some port)
    \<and> (\<exists>u. o_Host out = Some (Authority u) \<and> o_Scheme out = URLScheme u
        \<and> allowedAddress (u_Address u) (cfg_UpstreamCIDRs c) \<and> 1 \<le> u_Port u \<and> u_Port u \<le> 65535)
    \<and> VersionTLS12 \<le> tc_MinVersion (tr_TLSClientConfig t) \<and> \<not> tc_InsecureSkipVerify (tr_TLSClientConfig t)"
proof -
  note started = gateway_started [OF assms(1)]
  obtain port s l cred g1 where "admit h en header q (sv_gateway sv) = (Inr (port, s, l, cred), g1)"
    using assms(4) by (rule ServeHTTP_sent)
  then have port: "listenerPort (gh_trusted h) q = Some port" by (rule admit_Inr)
  moreover have "peer_within (gh_trusted h) q" using listenerPort_peer [OF port] by blast
  moreover from contacts_allowlist [OF assms(3) _ _ assms(4)] started assms(2) obtain u where
    "o_Host out = Some (Authority u)" "o_Scheme out = URLScheme u" "upstream_wf (cfg_UpstreamCIDRs c) u"
    by (auto simp: Run_start_def shares_def)
  ultimately show ?thesis using started by (auto simp: upstream_wf_def)
qed

section \<open>Witnesses\<close>

definition example_config_libraries :: config_libraries where
  "example_config_libraries = \<lparr>
     cl_duration = map_of [(''10s'', 10000000000), (''2s'', 2000000000), (''500ms'', 500000000)],
     cl_url = map_of [(''redis://127.0.0.1:4044/0'', (''redis'', ''127.0.0.1:4044''))]\<rparr>"

definition example_environment :: lookup where
  "example_environment = map_of
     [(''GATEWAY_ENVIRONMENT'', ''development''), (''GATEWAY_INSTANCE_ID'', ''gateway-1''),
      (''GATEWAY_TRUSTED_PROXY_CIDRS'', ''10.0.0.0/8''), (''GATEWAY_UPSTREAM_ALLOWED_CIDRS'', ''10.0.0.0/8''),
      (''GATEWAY_API_KEY_PEPPER'', ''0123456789abcdef0123456789abcdef''),
      (''GATEWAY_DATABASE_URL'', ''postgres://db'')]"

definition example_config :: config where
  "example_config = zero_config\<lparr>cfg_Role := DataPlane, cfg_Environment := ''development'',
     cfg_ListenAddr := '':4040'', cfg_LogLevel := LevelInfo, cfg_ShutdownTimeout := 10000000000,
     cfg_TrustedProxyCIDRs := [Cidr (V4 0x0A000000) 8],
     cfg_APIKeyPepper := Secret ''0123456789abcdef0123456789abcdef'', cfg_DatabaseURL := Secret ''postgres://db'',
     cfg_DatabaseMinConns := 1, cfg_DatabaseMaxConns := 10, cfg_DatabaseTimeout := 10000000000,
     cfg_UpstreamCIDRs := [Cidr (V4 0x0A000000) 8], cfg_ConfigPollInterval := 2000000000,
     cfg_ConfigPollJitter := 500000000, cfg_HealthInterval := 10000000000, cfg_HealthTimeout := 2000000000,
     cfg_GatewayInstanceID := ''gateway-1'', cfg_GatewayAdvertiseAddr := '':4040'',
     cfg_RedisURL := Secret ''redis://127.0.0.1:4044/0''\<rparr>"

lemma example_config_loads:
  "load_config example_config_libraries DataPlane example_environment = Inr example_config"
  by code_simp

theorem loaded_config_valid_witness:
  "shared_ok example_config \<and> common_ok example_config \<and> data_plane_ok example_config"
  using loaded_config_valid [OF example_config_loads] by simp

definition example_redis_options :: redis_options where
  "example_redis_options = \<lparr>rd_DialTimeout = 0, rd_ReadTimeout = 0, rd_WriteTimeout = 0\<rparr>"

definition example_outside :: "(unit, unit, string list, mem) outside" where
  "example_outside = \<lparr>
     os_driver = \<lparr>pd_ParseConfig = (\<lambda>_. Some \<lparr>pc_MinConns = 0, pc_MaxConns = 4\<rparr>), pd_New = (\<lambda>_ _. Some ()),
       pd_Ping = (\<lambda>_ _. True), pd_Close = id\<rparr>,
     os_parse_redis = (\<lambda>_. Some example_redis_options),
     os_coordinator = (\<lambda>_. redis_coordinator mem_redis True 0),
     os_migrate = \<lparr>me_fails = (\<lambda>_. False), me_committed = (\<lambda>_. False), me_apply = (\<lambda>n d. Some (d @ [n]))\<rparr>,
     os_migrated = \<lparr>mg_ledger = [], mg_schema = []\<rparr>,
     os_certificates = \<lparr>cs_system = Some (), cs_read = (\<lambda>_. None), cs_append = (\<lambda>_ _. ((), False))\<rparr>,
     os_transport = \<lparr>tr_Proxy = True, tr_DialTimeout = 0, tr_KeepAlive = 0, tr_MaxIdleConns = 0,
       tr_MaxIdleConnsPerHost = 0, tr_IdleConnTimeout = 0, tr_ResponseHeaderTimeout = 0,
       tr_TLSClientConfig = \<lparr>tc_MinVersion = VersionTLS10, tc_RootCAs = None, tc_InsecureSkipVerify = False\<rparr>\<rparr>,
     os_load = example_load_env, os_tables = example_stored\<rparr>"

lemma example_start:
  "\<exists>r h t. start_process example_config_libraries DataPlane example_environment example_outside
     = Some (GatewayProcess example_config () r h t)"
proof -
  have "active_row example_stored ''development'' = Some (hd (t_configurations example_stored))"
    by (simp add: active_row_def in_environment_def example_stored_def) (simp add: example_database_def)
  moreover have "live_credentials example_stored ''development'' 200 = []"
    by (simp add: live_credentials_def example_stored_def example_database_def)
  moreover have "\<exists>s. buildSnapshot (\<lambda>_. None) 200 7 ''development'' example_raw [] [Cidr (V4 0x0A000000) 8] = Inr s"
    using example_build by (simp add: snapshot_eval snapshot_example_defs)
  ultimately have "fst (Load example_load_env example_stored (NewRuntime (gateway_runtime_options example_config))) = None"
    by (auto simp: Load_def read_snapshot_def example_load_env_def NewRuntime_def gateway_runtime_options_def
        example_config_def example_stored_def update_metrics_def Let_def)
  moreover have "\<exists>transport. NewTransport (os_certificates example_outside) (cfg_UpstreamTLSCAFile example_config) = Inr transport"
    by (simp add: NewTransport_def example_config_def zero_config_def Let_def)
  moreover have "DataPlane \<noteq> Admin" by (simp add: DataPlane_def Admin_def)
  ultimately show ?thesis
    by (auto simp: start_process_def example_config_loads Open_def coordination_New_def example_outside_def
        split: prod.splits)
qed

theorem gateway_starts_safely_witness:
  "\<exists>r h t. start_process example_config_libraries DataPlane example_environment example_outside
       = Some (GatewayProcess example_config () r h t)
     \<and> snapshot_valid r \<and> (\<exists>d. jitteredDelay 1000000000 (rt_pollInterval r) (rt_pollJitter r) = Some d \<and> 0 < d)"
proof -
  obtain r h t where r: "start_process example_config_libraries DataPlane example_environment example_outside
      = Some (GatewayProcess example_config () r h t)"
    using example_start by blast
  have "cfg_ConfigPollInterval example_config < 2 ^ 62" "(0::int) \<le> 1000000000"
    "1000000000 < 2 * cfg_ConfigPollJitter example_config + 1"
    by (simp_all add: example_config_def)
  from gateway_starts_safely [OF r this] r show ?thesis by blast
qed

text \<open>A gateway whose only listener is open to every path, without policies.\<close>

definition open_raw :: raw_snapshot where
  "open_raw = example_raw\<lparr>r_Listeners := [(hd (r_Listeners example_raw))\<lparr>rl_UnprotectedRouteRegex := ''^/'',
     rl_RateLimitPerSecond := 0, rl_RateLimitBurst := 0, rl_CircuitFailureThreshold := 0\<rparr>]\<rparr>"

definition open_listener :: listener where
  "open_listener = example_lis1\<lparr>l_UnprotectedRouteRegex := Some (\<lambda>_. True), l_RateLimitPerSecond := 0,
     l_RateLimitBurst := 0, l_CircuitFailureThreshold := 0\<rparr>"

definition open_stored :: database where
  "open_stored = example_stored\<lparr>t_configurations :=
     [(hd (t_configurations example_stored))\<lparr>cf_snapshot := open_raw\<rparr>]\<rparr>"

definition open_outside :: "(unit, unit, string list, mem) outside" where
  "open_outside = example_outside\<lparr>os_load := example_load_env\<lparr>le_compile := \<lambda>_. Some (\<lambda>_. True)\<rparr>, os_tables := open_stored\<rparr>"

lemma open_build:
  "buildSnapshot (\<lambda>_. Some (\<lambda>_. True)) 200 7 ''development'' open_raw [] [Cidr (V4 0x0A000000) 8] =
   Inr \<lparr>sn_Version = 7, sn_Environment = ''development'', sn_Listeners = [4100 \<mapsto> open_listener],
        sn_Credentials = Map.empty, sn_LoadedAt = 200, sn_health = (\<lambda>_. True)\<rparr>"
  by (simp add: snapshot_eval snapshot_example_defs open_raw_def open_listener_def contains_any_def)

lemma open_start:
  "\<exists>r h t. start_process example_config_libraries DataPlane example_environment open_outside
     = Some (GatewayProcess example_config () r h t)
   \<and> gh_trusted h = [Cidr (V4 0x0A000000) 8] \<and> gh_coordinator h \<noteq> None
   \<and> (\<exists>s. rt_current r = Some s \<and> sn_Listeners s = [4100 \<mapsto> open_listener] \<and> sn_Credentials s = Map.empty)"
proof -
  have "active_row open_stored ''development'' = Some (hd (t_configurations open_stored))"
    by (simp add: active_row_def in_environment_def open_stored_def example_stored_def) (simp add: example_database_def)
  moreover have "live_credentials open_stored ''development'' 200 = []"
    by (simp add: live_credentials_def open_stored_def example_stored_def example_database_def)
  ultimately have "\<exists>r. Load (os_load open_outside) (os_tables open_outside)
      (NewRuntime (gateway_runtime_options example_config)) = (None, r)
    \<and> (\<exists>s. rt_current r = Some s \<and> sn_Listeners s = [4100 \<mapsto> open_listener] \<and> sn_Credentials s = Map.empty)"
    using open_build
    by (auto simp: Load_def read_snapshot_def example_load_env_def NewRuntime_def gateway_runtime_options_def
        example_config_def open_stored_def example_stored_def update_metrics_def open_outside_def Let_def)
  moreover have "\<exists>transport. NewTransport (os_certificates open_outside) (cfg_UpstreamTLSCAFile example_config) = Inr transport"
    by (simp add: NewTransport_def example_config_def zero_config_def Let_def)
  ultimately show ?thesis
    by (auto simp: start_process_def example_config_loads Open_def coordination_New_def gateway_NewHandler_def
        open_outside_def example_outside_def example_config_def Let_def split: prod.splits)
qed

lemma open_port: "listenerPort [Cidr (V4 0x0A000000) 8] (example_request key) = Some 4100"
proof -
  have "listenerPort (gh_trusted example_handler) (example_request key) = Some 4100" by (rule example_port)
  moreover have "trusted_peer [Cidr (V4 0x0A000000) 8] (V4 0x0A010001)" by (simp add: trusted_peer_def)
  moreover have "parse_addr ''10.1.0.1'' = Some (V4 0x0A010001)"
    by (simp add: parse_addr_def parse_v4_def v4_word_def byte_eval Let_def)
  moreover have "split_host_port ''10.1.0.1:5000'' = Some (''10.1.0.1'', ''5000'')"
    by (simp add: split_host_port_def last_index_def has_prefix_def)
  ultimately show ?thesis by (simp add: listenerPort_def example_request_def split: if_splits)
qed

lemma open_sends:
  assumes "gh_trusted h = [Cidr (V4 0x0A000000) 8]" and "g_snapshot g = Some s"
    and "sn_Listeners s = [4100 \<mapsto> open_listener]" and "sn_Credentials s = Map.empty"
  shows "\<exists>p out g'. ServeHTTP h example_env w (example_request example_key) g = ((p, Some out), g')"
proof -
  let ?r = "example_request example_key"
  have public: "allowsPublicRequest open_listener ''GET'' ''/''"
    by (simp add: allowsPublicRequest_def open_listener_def has_prefix_def contains_any_def)
  have "admit h example_env w ?r g = (Inr (4100, s, open_listener, None), g)"
    using public assms open_port [of example_key]
    by (simp add: admit_def authenticate_def example_api_key example_key_prefix Let_def)
      (simp add: example_request_def open_listener_def example_lis1_def contentTypeAllowed_def)
  moreover have "apply_policy h w ?r s open_listener None g = (Inr (), g)"
    by (simp add: apply_policy_def open_listener_def example_lis1_def)
  moreover have "check_circuits h w ?r s open_listener g = (Inr [], g)"
    by (simp add: check_circuits_def open_listener_def example_lis1_def)
  moreover have "\<exists>u g'. choose_upstream example_env w ?r 4100 open_listener [] g = (Inr u, g')"
    by (simp add: choose_upstream_def SelectUpstreamWhere_def open_listener_def example_lis1_def example_pool_def
        eligible_def admits_def Healthy_def example_env_def is_blocked_def in_int64_def Let_def)
  ultimately show ?thesis
    using forward_sends [OF example_printable] by (auto simp: ServeHTTP_def and_then_def)
qed

theorem started_gateway_stays_inside_witness:
  "\<exists>r (h :: mem gateway_handler) t out u. start_process example_config_libraries DataPlane example_environment open_outside
       = Some (GatewayProcess example_config () r h t)
     \<and> o_Host (out :: out_request) = Some (Authority u) \<and> allowedAddress (u_Address u) [Cidr (V4 0x0A000000) 8]"
proof -
  obtain r h t s where start: "start_process example_config_libraries DataPlane example_environment open_outside
      = Some (GatewayProcess example_config () r h t)" and h: "gh_trusted h = [Cidr (V4 0x0A000000) 8]"
    and s: "rt_current r = Some s" "sn_Listeners s = [4100 \<mapsto> open_listener]" "sn_Credentials s = Map.empty"
    using open_start by blast
  let ?g = "\<lparr>g_coord = Map.empty, g_metrics = None, g_snapshot = Some s\<rparr> :: mem gateway"
  let ?lp = "fst (Run_start example_context r open_stored)"
  have beat: "loop_step ?lp ?lp"
    using loop_pass [of ?lp example_load_env example_context "\<lambda>_. Unreachable" Heartbeat open_stored]
    by (simp add: Run_start_def)
  have run: "serving_run h \<lparr>sv_loop = ?lp, sv_gateway = ?g\<rparr> \<lparr>sv_loop = ?lp, sv_gateway = ?g\<rparr>"
    using serving_machine.run_one [OF serving_pass [where h = h and g = ?g and sv = "\<lparr>sv_loop = ?lp, sv_gateway = ?g\<rparr>"]] beat s(1)
    by (simp add: Run_start_def shares_def)
  obtain p out g' where sent: "ServeHTTP h example_env Map.empty (example_request example_key) ?g = ((p, Some out), g')"
    using open_sends [OF h, of ?g s Map.empty] s by auto
  have snapshot: "g_snapshot ?g = rt_current r" using s(1) by simp
  have "ServeHTTP h example_env Map.empty (example_request example_key) (sv_gateway \<lparr>sv_loop = ?lp, sv_gateway = ?g\<rparr>)
      = ((p, Some out), g')" using sent by simp
  from started_gateway_stays_inside [OF start snapshot run this]
  obtain u where "o_Host out = Some (Authority u)" "allowedAddress (u_Address u) (cfg_UpstreamCIDRs example_config)" by blast
  with start show ?thesis by (auto simp: example_config_def)
qed

end
