(* ===== verification/Event_Bus.thy ===== *)
theory Event_Bus
  imports Coordination Admin_Input
begin

text \<open>
  The events between the processes, \<^verbatim>\<open>internal/coordination/redis.go\<close>: the admin process publishes
  on the channel of an environment, a gateway subscribes to the channel of its own and passes on
  the two kinds of event it knows, without waiting when its buffer is full.
\<close>

section \<open>Messages\<close>

text \<open>A message is its channel and its payload; a payload that is not JSON is \<open>None\<close>.\<close>

type_synonym message = "string \<times> json option"

definition event_json :: "string \<Rightarrow> json" where
  "event_json eventType = JObj [(''type'', JStr eventType)]"

definition Publish :: "string \<times> string \<Rightarrow> message" where
  "Publish ev = (eventChannel (fst ev), Some (event_json (snd ev)))"

text \<open>Decoding ignores members it does not know, unlike the bodies of the admin API.\<close>

fun unmarshal_event :: "(string \<times> json) list \<Rightarrow> string \<Rightarrow> string option" where
  "unmarshal_event [] t = Some t"
| "unmarshal_event ((name, v) # members) t =
     (if fold_name name \<noteq> fold_name ''type'' then unmarshal_event members t
      else (case v of
              JStr t' \<Rightarrow> unmarshal_event members t'
            | JNull \<Rightarrow> unmarshal_event members t
            | _ \<Rightarrow> None))"

definition event_type :: "json option \<Rightarrow> string option" where
  "event_type payload =
     (case payload of
        Some (JObj members) \<Rightarrow> unmarshal_event members []
      | Some JNull \<Rightarrow> Some []
      | _ \<Rightarrow> None)"

definition known_event :: "string \<Rightarrow> bool" where
  "known_event t \<longleftrightarrow> t = ''configuration'' \<or> t = ''credentials''"

definition event_buffer :: nat where
  "event_buffer = 16"

text \<open>One message at the subscriber of an environment, with the events waiting in its channel.\<close>

definition Events :: "string \<Rightarrow> message \<Rightarrow> string list \<Rightarrow> string list" where
  "Events environment msg queue =
     (if fst msg \<noteq> eventChannel environment then queue
      else (case event_type (snd msg) of
              None \<Rightarrow> queue
            | Some t \<Rightarrow> if known_event t \<and> length queue < event_buffer then queue @ [t] else queue))"

section \<open>Delivery\<close>

lemma eventChannel_inj [simp]: "eventChannel e = eventChannel e' \<longleftrightarrow> e = e'"
  by (simp add: eventChannel_def)

lemma event_type_json [simp]: "event_type (Some (event_json t)) = Some t"
  by (simp add: event_type_def event_json_def)

lemma Events_Publish:
  "known_event (snd ev) \<Longrightarrow>
   Events environment (Publish ev) queue =
     (if fst ev = environment \<and> length queue < event_buffer then queue @ [snd ev] else queue)"
  by (auto simp: Events_def Publish_def)

text \<open>
  A subscriber that is not served gets the first sixteen events of its environment, in the order of
  publication, and none of any other environment.
\<close>

lemma events_delivered:
  "\<forall>ev \<in> set evs. known_event (snd ev) \<Longrightarrow> length queue \<le> event_buffer \<Longrightarrow>
   foldl (\<lambda>q ev. Events environment (Publish ev) q) queue evs =
     take event_buffer (queue @ map snd (filter (\<lambda>ev. fst ev = environment) evs))"
proof (induction evs arbitrary: queue)
  case Nil
  then show ?case by simp
next
  case (Cons ev evs)
  show ?case
  proof (cases "fst ev = environment \<and> length queue < event_buffer")
    case True
    with Cons show ?thesis by (simp add: Events_Publish take_Cons' Suc_diff_Suc)
  next
    case False
    with Cons.prems have "fst ev \<noteq> environment \<or> length queue = event_buffer" by auto
    with Cons False show ?thesis by (auto simp: Events_Publish)
  qed
qed

text \<open>What the store publishes are events a gateway knows.\<close>

lemma notify_known:
  "ev \<in> set (notify s environment t r) \<Longrightarrow> known_event t \<Longrightarrow> fst ev = environment \<and> known_event (snd ev)"
  by (auto simp: notify_def split: if_splits)

end
