(* ===== verification/Exposition.thy ===== *)
theory Exposition
  imports Metrics
begin

text \<open>
  The exposition of the metrics in \<^verbatim>\<open>internal/observability/metrics.go\<close>, as the lines of its text,
  and a scraper that reads them back.
\<close>

section \<open>The service label\<close>

definition sanitizeLabel :: "string \<Rightarrow> string" where
  "sanitizeLabel value =
     map (\<lambda>c. if c = CHR 0x5C \<or> c = CHR 0x22 \<or> c = CHR 0x0A \<or> c = CHR 0x0D then CHR ''_'' else c) value"

text \<open>
  \<open>strconv.Quote\<close>; a byte outside ASCII is kept, which is what the function does with a printable
  rune. The services of the program are the names of its two roles.
\<close>

definition quote_byte :: "char \<Rightarrow> string" where
  "quote_byte c =
     (if c = CHR 0x22 \<or> c = CHR 0x5C then [CHR 0x5C, c]
      else if c = CHR 0x07 then [CHR 0x5C, CHR ''a'']
      else if c = CHR 0x08 then [CHR 0x5C, CHR ''b'']
      else if c = CHR 0x0C then [CHR 0x5C, CHR ''f'']
      else if c = CHR 0x0A then [CHR 0x5C, CHR ''n'']
      else if c = CHR 0x0D then [CHR 0x5C, CHR ''r'']
      else if c = CHR 0x09 then [CHR 0x5C, CHR ''t'']
      else if c = CHR 0x0B then [CHR 0x5C, CHR ''v'']
      else if byte_of c < 32 \<or> byte_of c = 127 then [CHR 0x5C, CHR ''x''] @ hex_encode [c]
      else [c])"

definition Quote :: "string \<Rightarrow> string" where
  "Quote s = CHR 0x22 # concat (map quote_byte s) @ [CHR 0x22]"

section \<open>The lines\<close>

definition writeHelp :: "string \<Rightarrow> string \<Rightarrow> string \<Rightarrow> string list" where
  "writeHelp name help kind =
     [''# HELP '' @ name @ '' '' @ help, ''# TYPE '' @ name @ '' '' @ kind]"

definition sample :: "string \<Rightarrow> string \<Rightarrow> string \<Rightarrow> string \<Rightarrow> string" where
  "sample name service labels value = name @ ''{service='' @ service @ labels @ ''} '' @ value"

definition writeCounter :: "string \<Rightarrow> string \<Rightarrow> string \<Rightarrow> 64 word \<Rightarrow> string list" where
  "writeCounter name help service value =
     writeHelp name help ''counter'' @ [sample name service [] (show_int (uint value))]"

definition writeGauge :: "string \<Rightarrow> string \<Rightarrow> string \<Rightarrow> int \<Rightarrow> string list" where
  "writeGauge name help service value =
     writeHelp name help ''gauge'' @ [sample name service [] (show_int value)]"

text \<open>
  \<open>g\<close> prints the seconds of a number of nanoseconds with the format \<^verbatim>\<open>%g\<close>, after the division of
  doubles.
\<close>

definition request_lines :: "string \<Rightarrow> metrics \<Rightarrow> string list" where
  "request_lines service m =
     writeHelp ''shinmon_http_requests_total'' ''HTTP requests by bounded status class.'' ''counter''
     @ map (\<lambda>i. sample ''shinmon_http_requests_total'' service
          ('',status_class='' @ [CHR 0x22] @ show_int (int i + 1) @ ''xx'' @ [CHR 0x22])
          (show_int (uint (m_requests m ! i)))) [0..<length (m_requests m)]"

definition bucket_line :: "string \<Rightarrow> string \<Rightarrow> 64 word \<Rightarrow> string" where
  "bucket_line service bound value =
     sample ''shinmon_http_request_duration_seconds_bucket'' service
       ('',le='' @ [CHR 0x22] @ bound @ [CHR 0x22]) (show_int (uint value))"

definition duration_lines :: "(int \<Rightarrow> string) \<Rightarrow> string \<Rightarrow> metrics \<Rightarrow> string list" where
  "duration_lines g service m =
     writeHelp ''shinmon_http_request_duration_seconds'' ''HTTP request duration.'' ''histogram''
     @ map2 (bucket_line service) (map g latencyBounds @ [''+Inf'']) (exposed_buckets m)
     @ [sample ''shinmon_http_request_duration_seconds_sum'' service [] (g (uint (m_latencyNanoseconds m))),
        sample ''shinmon_http_request_duration_seconds_count'' service [] (show_int (uint (exposed_count m)))]"

definition counter_lines :: "string \<Rightarrow> metrics \<Rightarrow> string list" where
  "counter_lines service m =
     writeCounter ''shinmon_authentication_failures_total'' ''Rejected authentication attempts.'' service (m_authFailures m)
     @ writeCounter ''shinmon_upstream_failures_total'' ''Controlled upstream failures.'' service (m_upstreamFailures m)
     @ writeCounter ''shinmon_configuration_refresh_failures_total'' ''Failed configuration refreshes.'' service
         (m_configRefreshFailures m)
     @ writeCounter ''shinmon_rate_limited_requests_total'' ''Requests rejected by distributed rate limits.'' service
         (m_rateLimited m)
     @ writeCounter ''shinmon_quota_exceeded_requests_total'' ''Requests rejected by distributed quotas.'' service
         (m_quotaExceeded m)
     @ writeCounter ''shinmon_circuit_open_rejections_total'' ''Requests rejected by open upstream circuits.'' service
         (m_circuitOpen m)
     @ writeCounter ''shinmon_coordination_failures_total''
         ''Conservative failures caused by unavailable coordination.'' service (m_coordinationFailures m)
     @ writeCounter ''shinmon_configuration_refresh_skipped_total''
         ''Polling refreshes skipped because generations were unchanged.'' service (m_configRefreshSkipped m)"

definition gauge_lines :: "string \<Rightarrow> metrics \<Rightarrow> string list" where
  "gauge_lines service m =
     writeGauge ''shinmon_configuration_version'' ''Loaded configuration version.'' service (m_configVersion m)
     @ writeGauge ''shinmon_http_requests_in_flight'' ''Requests currently being processed.'' service (m_inFlight m)
     @ writeGauge ''shinmon_snapshot_last_refresh_timestamp_seconds''
         ''Unix timestamp of the last valid snapshot refresh.'' service (m_snapshotRefreshedUnix m)
     @ writeGauge ''shinmon_gateway_replicas_ready'' ''Recently seen gateway replicas reporting ready.'' service
         (m_gatewayReplicasReady m)
     @ writeGauge ''shinmon_gateway_replicas_current'' ''Ready gateway replicas on the active configuration.'' service
         (m_gatewayReplicasCurrent m)
     @ writeGauge ''shinmon_gateway_replicas_total'' ''Recently seen gateway replicas.'' service (m_gatewayReplicasTotal m)
     @ writeGauge ''shinmon_listener_ports_used'' ''Listener ports not currently available.'' service (m_listenerPortsUsed m)
     @ writeGauge ''shinmon_listener_ports_total'' ''Listener ports in the configured environment inventory.'' service
         (m_listenerPortsTotal m)
     @ writeGauge ''shinmon_database_connections'' ''Database connections currently acquired by this process.'' service
         (m_databaseConnections m)
     @ writeGauge ''shinmon_database_connections_max''
         ''Maximum database connections configured for this process.'' service (m_databaseConnectionsMax m)
     @ writeGauge ''shinmon_upstreams_healthy'' ''Healthy upstream count.'' service (m_healthyUpstreams m)
     @ writeGauge ''shinmon_upstreams_total'' ''Configured upstream count.'' service (m_totalUpstreams m)"

definition metrics_ServeHTTP :: "(int \<Rightarrow> string) \<Rightarrow> string \<Rightarrow> metrics \<Rightarrow> string" where
  "metrics_ServeHTTP g name m =
     (let service = Quote (sanitizeLabel name)
      in concat (map (\<lambda>line. line @ [CHR 0x0A])
           (request_lines service m @ duration_lines g service m @ counter_lines service m @ gauge_lines service m)))"

section \<open>A scraper\<close>

text \<open>
  A scraper splits the text into lines, leaves the comments out and splits every other line at the
  space before its value.
\<close>

definition read_sample :: "string \<Rightarrow> string \<times> string" where
  "read_sample line =
     (let r = rev line
      in (rev (drop 1 (dropWhile (\<lambda>c. c \<noteq> CHR '' '') r)), rev (takeWhile (\<lambda>c. c \<noteq> CHR '' '') r)))"

definition scrape :: "string \<Rightarrow> (string \<times> string) list" where
  "scrape text = map read_sample
     (filter (\<lambda>line. line \<noteq> [] \<and> hd line \<noteq> CHR ''#'') (split_on CHR 0x0A text))"

definition series :: "string \<Rightarrow> string \<Rightarrow> string \<Rightarrow> string" where
  "series name service labels = name @ ''{service='' @ service @ labels @ ''}''"

definition plain_value :: "string \<Rightarrow> bool" where
  "plain_value v \<longleftrightarrow> CHR '' '' \<notin> set v \<and> CHR 0x0A \<notin> set v"

lemma show_int_plain [simp]: "plain_value (show_int i)"
  by (auto simp: plain_value_def show_int_def is_digit_def dest!: show_nat_digits)

lemma read_sample: "plain_value v \<Longrightarrow> read_sample (sample name service labels v) = (series name service labels, v)"
  by (simp add: read_sample_def sample_def series_def plain_value_def takeWhile_tail dropWhile_append
      takeWhile_append Let_def)

lemma quote_byte_line: "CHR 0x0A \<notin> set (quote_byte c)"
  by (auto simp: quote_byte_def hex_encode_def dest!: arg_cong [of _ _ byte_of] simp: byte_of_hex_digit byte_nibbles split: if_splits)

lemma Quote_line [simp]: "CHR 0x0A \<notin> set (Quote s)"
  using quote_byte_line by (auto simp: Quote_def)

lemma split_on_lines:
  "\<forall>line \<in> set lines. d \<notin> set line \<Longrightarrow> split_on d (concat (map (\<lambda>line. line @ [d]) lines)) = lines @ [[]]"
  by (induction lines) (auto simp: split_on_append)

section \<open>What a scraper reads\<close>

text \<open>The metrics of a process, as the names, further labels and values of its time series.\<close>

definition exposed_values :: "(int \<Rightarrow> string) \<Rightarrow> metrics \<Rightarrow> (string \<times> string \<times> string) list" where
  "exposed_values g m =
     map (\<lambda>i. (''shinmon_http_requests_total'',
         '',status_class='' @ [CHR 0x22] @ show_int (int i + 1) @ ''xx'' @ [CHR 0x22],
         show_int (uint (m_requests m ! i)))) [0..<length (m_requests m)]
     @ map2 (\<lambda>bound value. (''shinmon_http_request_duration_seconds_bucket'',
         '',le='' @ [CHR 0x22] @ bound @ [CHR 0x22], show_int (uint value)))
         (map g latencyBounds @ [''+Inf'']) (exposed_buckets m)
     @ [(''shinmon_http_request_duration_seconds_sum'', [], g (uint (m_latencyNanoseconds m))),
        (''shinmon_http_request_duration_seconds_count'', [], show_int (uint (exposed_count m)))]
     @ map (\<lambda>(name, n). (name, [], show_int (uint n)))
         [(''shinmon_authentication_failures_total'', m_authFailures m),
          (''shinmon_upstream_failures_total'', m_upstreamFailures m),
          (''shinmon_configuration_refresh_failures_total'', m_configRefreshFailures m),
          (''shinmon_rate_limited_requests_total'', m_rateLimited m),
          (''shinmon_quota_exceeded_requests_total'', m_quotaExceeded m),
          (''shinmon_circuit_open_rejections_total'', m_circuitOpen m),
          (''shinmon_coordination_failures_total'', m_coordinationFailures m),
          (''shinmon_configuration_refresh_skipped_total'', m_configRefreshSkipped m)]
     @ map (\<lambda>(name, i). (name, [], show_int i))
         [(''shinmon_configuration_version'', m_configVersion m),
          (''shinmon_http_requests_in_flight'', m_inFlight m),
          (''shinmon_snapshot_last_refresh_timestamp_seconds'', m_snapshotRefreshedUnix m),
          (''shinmon_gateway_replicas_ready'', m_gatewayReplicasReady m),
          (''shinmon_gateway_replicas_current'', m_gatewayReplicasCurrent m),
          (''shinmon_gateway_replicas_total'', m_gatewayReplicasTotal m),
          (''shinmon_listener_ports_used'', m_listenerPortsUsed m),
          (''shinmon_listener_ports_total'', m_listenerPortsTotal m),
          (''shinmon_database_connections'', m_databaseConnections m),
          (''shinmon_database_connections_max'', m_databaseConnectionsMax m),
          (''shinmon_upstreams_healthy'', m_healthyUpstreams m),
          (''shinmon_upstreams_total'', m_totalUpstreams m)]"

definition is_sample :: "string \<Rightarrow> bool" where
  "is_sample line \<longleftrightarrow> line \<noteq> [] \<and> hd line \<noteq> CHR ''#''"

definition good_lines :: "(string \<times> string) list \<Rightarrow> string list \<Rightarrow> bool" where
  "good_lines samples lines \<longleftrightarrow>
     (\<forall>line \<in> set lines. CHR 0x0A \<notin> set line) \<and> map read_sample (filter is_sample lines) = samples"

lemma good_append: "good_lines ss ls \<Longrightarrow> good_lines ts ms \<Longrightarrow> good_lines (ss @ ts) (ls @ ms)"
  by (auto simp: good_lines_def)

lemma good_Cons: "good_lines [s] [l] \<Longrightarrow> good_lines ts ms \<Longrightarrow> good_lines (s # ts) (l # ms)"
  using good_append [of "[s]" "[l]" ts ms] by simp

lemma good_sample:
  assumes "is_sample name" and "CHR 0x0A \<notin> set (name @ service @ labels)" and "plain_value v"
  shows "good_lines [(series name service labels, v)] [sample name service labels v]"
proof -
  have "is_sample (sample name service labels v)" using assms(1) by (auto simp: is_sample_def sample_def)
  then show ?thesis using assms read_sample [OF assms(3)] by (auto simp: good_lines_def sample_def plain_value_def)
qed

lemma good_help: "CHR 0x0A \<notin> set (name @ help @ kind) \<Longrightarrow> good_lines [] (writeHelp name help kind)"
  by (auto simp: good_lines_def writeHelp_def is_sample_def)

lemma good_map:
  "\<forall>x \<in> set xs. good_lines [f x] [h x] \<Longrightarrow> good_lines (map f xs) (map h xs)"
proof (induction xs)
  case (Cons x xs)
  then show ?case by (simp add: good_Cons)
qed (simp add: good_lines_def)

lemma good_counter:
  "is_sample name \<Longrightarrow> CHR 0x0A \<notin> set (name @ help @ service) \<Longrightarrow>
   good_lines [(series name service [], show_int (uint n))] (writeCounter name help service n)"
  using good_append [OF good_help [of name "help" "''counter''"] good_sample [of name service "[]"]]
  by (simp add: writeCounter_def)

lemma good_gauge:
  "is_sample name \<Longrightarrow> CHR 0x0A \<notin> set (name @ help @ service) \<Longrightarrow>
   good_lines [(series name service [], show_int i)] (writeGauge name help service i)"
  using good_append [OF good_help [of name "help" "''gauge''"] good_sample [of name service "[]"]]
  by (simp add: writeGauge_def)

lemma good_scrape:
  "good_lines samples lines \<Longrightarrow> scrape (concat (map (\<lambda>line. line @ [CHR 0x0A]) lines)) = samples"
  by (simp add: scrape_def good_lines_def split_on_lines is_sample_def [abs_def])

definition to_series :: "string \<Rightarrow> string \<times> string \<times> string \<Rightarrow> string \<times> string" where
  "to_series service e = (case e of (name, labels, v) \<Rightarrow> (series name service labels, v))"

lemma show_int_line [simp]: "CHR 0x0A \<notin> set (show_int i)"
  using show_int_plain [of i] unfolding plain_value_def by blast

lemma good_map2:
  "\<forall>x \<in> set xs. \<forall>y. good_lines [f x y] [h x y] \<Longrightarrow> good_lines (map2 f xs ys) (map2 h xs ys)"
  by (rule good_map) (auto dest: set_zip_leftD)

lemma good_help_append:
  "CHR 0x0A \<notin> set (name @ help @ kind) \<Longrightarrow> good_lines ss ls \<Longrightarrow> good_lines ss (writeHelp name help kind @ ls)"
  using good_append [OF good_help] by simp

lemma good_counter_append:
  "is_sample name \<Longrightarrow> CHR 0x0A \<notin> set (name @ help @ service) \<Longrightarrow> good_lines ss ls \<Longrightarrow>
   good_lines ((series name service [], show_int (uint n)) # ss) (writeCounter name help service n @ ls)"
  using good_append [OF good_counter] by simp

lemma good_gauge_append:
  "is_sample name \<Longrightarrow> CHR 0x0A \<notin> set (name @ help @ service) \<Longrightarrow> good_lines ss ls \<Longrightarrow>
   good_lines ((series name service [], show_int n) # ss) (writeGauge name help service n @ ls)"
  using good_append [OF good_gauge] by simp

lemma good_requests:
  assumes line: "CHR 0x0A \<notin> set service"
  shows "good_lines (map (\<lambda>i. (series ''shinmon_http_requests_total'' service
         ('',status_class='' @ [CHR 0x22] @ show_int (int i + 1) @ ''xx'' @ [CHR 0x22]),
         show_int (uint (m_requests m ! i)))) [0..<length (m_requests m)]) (request_lines service m)"
  unfolding request_lines_def
  by (intro good_help_append good_map ballI good_sample) (simp_all add: is_sample_def line)

lemma good_durations:
  assumes line: "CHR 0x0A \<notin> set service" and plain: "\<And>n. plain_value (g n)"
  shows "good_lines (map2 (\<lambda>bound value. (series ''shinmon_http_request_duration_seconds_bucket'' service
         ('',le='' @ [CHR 0x22] @ bound @ [CHR 0x22]), show_int (uint value)))
         (map g latencyBounds @ [''+Inf'']) (exposed_buckets m)
     @ [(series ''shinmon_http_request_duration_seconds_sum'' service [], g (uint (m_latencyNanoseconds m))),
        (series ''shinmon_http_request_duration_seconds_count'' service [], show_int (uint (exposed_count m)))])
     (duration_lines g service m)"
proof -
  have "CHR 0x0A \<notin> set bound" if "bound \<in> set (map g latencyBounds @ [''+Inf''])" for bound
    using that plain by (auto simp: plain_value_def)
  then show ?thesis
    unfolding duration_lines_def bucket_line_def
    by (intro good_help_append good_append good_map2 ballI allI good_sample good_Cons)
      (simp_all add: is_sample_def line plain good_lines_def)
qed

lemma good_counters:
  assumes line: "CHR 0x0A \<notin> set service"
  shows "good_lines (map (\<lambda>(name, n). (series name service [], show_int (uint n)))
         [(''shinmon_authentication_failures_total'', m_authFailures m),
          (''shinmon_upstream_failures_total'', m_upstreamFailures m),
          (''shinmon_configuration_refresh_failures_total'', m_configRefreshFailures m),
          (''shinmon_rate_limited_requests_total'', m_rateLimited m),
          (''shinmon_quota_exceeded_requests_total'', m_quotaExceeded m),
          (''shinmon_circuit_open_rejections_total'', m_circuitOpen m),
          (''shinmon_coordination_failures_total'', m_coordinationFailures m),
          (''shinmon_configuration_refresh_skipped_total'', m_configRefreshSkipped m)])
     (counter_lines service m)"
  unfolding counter_lines_def list.map prod.case
  by (intro good_counter_append good_counter) (simp_all add: is_sample_def line)

lemma good_gauges:
  assumes line: "CHR 0x0A \<notin> set service"
  shows "good_lines (map (\<lambda>(name, i). (series name service [], show_int i))
         [(''shinmon_configuration_version'', m_configVersion m),
          (''shinmon_http_requests_in_flight'', m_inFlight m),
          (''shinmon_snapshot_last_refresh_timestamp_seconds'', m_snapshotRefreshedUnix m),
          (''shinmon_gateway_replicas_ready'', m_gatewayReplicasReady m),
          (''shinmon_gateway_replicas_current'', m_gatewayReplicasCurrent m),
          (''shinmon_gateway_replicas_total'', m_gatewayReplicasTotal m),
          (''shinmon_listener_ports_used'', m_listenerPortsUsed m),
          (''shinmon_listener_ports_total'', m_listenerPortsTotal m),
          (''shinmon_database_connections'', m_databaseConnections m),
          (''shinmon_database_connections_max'', m_databaseConnectionsMax m),
          (''shinmon_upstreams_healthy'', m_healthyUpstreams m),
          (''shinmon_upstreams_total'', m_totalUpstreams m)])
     (gauge_lines service m)"
  unfolding gauge_lines_def list.map prod.case
  by (intro good_gauge_append good_gauge) (simp_all add: is_sample_def line)

text \<open>
  Claim C37: The exposition reads back. For any state of the metrics and any name of the service, a
  scraper that splits the text into lines gets exactly the time series of the process with their
  values, in order; no name of a service adds a line. The only premise is that the format of a
  number of seconds has neither a space nor a line break.
\<close>

theorem exposition_scrapes_back:
  assumes "\<And>n. plain_value (g n)"
  shows "scrape (metrics_ServeHTTP g name m) =
    map (to_series (Quote (sanitizeLabel name))) (exposed_values g m)"
proof -
  let ?service = "Quote (sanitizeLabel name)"
  have "map (to_series ?service) (exposed_values g m) = scrape (metrics_ServeHTTP g name m)"
    unfolding metrics_ServeHTTP_def Let_def
  proof (rule good_scrape [symmetric])
    note durations = good_durations [where service = ?service and g = g and m = m, OF Quote_line assms]
    from good_append [OF good_requests [OF Quote_line] good_append [OF durations
        good_append [OF good_counters [OF Quote_line] good_gauges [OF Quote_line]]]]
    show "good_lines (map (to_series ?service) (exposed_values g m))
        (request_lines ?service m @ duration_lines g ?service m @ counter_lines ?service m @ gauge_lines ?service m)"
      by (simp add: exposed_values_def to_series_def comp_def split_def)
  qed
  then show ?thesis ..
qed

text \<open>A format of whole seconds.\<close>

theorem exposition_scrapes_back_witness:
  "(series ''shinmon_authentication_failures_total'' (Quote ''gateway'') [], ''1'')
     \<in> set (scrape (metrics_ServeHTTP (\<lambda>n. show_int (n div 1000000000)) ''gateway''
         (record_event AuthenticationFailure new_metrics)))"
proof -
  have name: "sanitizeLabel ''gateway'' = ''gateway''" by (simp add: sanitizeLabel_def)
  have one: "show_int 1 = ''1''" by code_simp
  have "(''shinmon_authentication_failures_total'', [], ''1'')
      \<in> set (exposed_values g (record_event AuthenticationFailure new_metrics))" for g
    by (simp add: exposed_values_def new_metrics_def one)
  then show ?thesis
    unfolding exposition_scrapes_back [OF show_int_plain] name by (force simp: to_series_def)
qed

end
