(* ===== verification/Load_Test.thy ===== *)
theory Load_Test
  imports Complex_Main Machines Prelude
begin

text \<open>
  The load test, \<^verbatim>\<open>cmd/shinmon-loadtest/main.go\<close>: a pool of workers takes the indices of requests
  from a channel, and the durations are sorted and reported by their percentiles. The request of an
  index and the answers are arguments; \<open>None\<close> stands for a request that could not be made, whose nil
  pointer makes the program panic.
\<close>

section \<open>The pool\<close>

datatype worker = Waiting | Working nat | Answered bool | Returned

record pool =
  po_next :: nat
  po_closed :: bool
  po_workers :: "worker list"
  po_durations :: "int list"
  po_success :: int
  po_failures :: int
  po_panicked :: bool

definition start_pool :: "nat \<Rightarrow> nat \<Rightarrow> pool" where
  "start_pool count concurrency =
     \<lparr>po_next = 0, po_closed = False, po_workers = replicate concurrency Waiting,
      po_durations = replicate count 0, po_success = 0, po_failures = 0, po_panicked = False\<rparr>"

text \<open>\<open>None\<close> is an error of the client, otherwise the status code.\<close>

definition succeeded :: "int option \<Rightarrow> bool" where
  "succeeded answer = (case answer of None \<Rightarrow> False | Some code \<Rightarrow> 200 \<le> code \<and> code < 400)"

text \<open>
  The channel is not buffered: the main goroutine and a waiting worker meet. A worker writes its
  duration first and moves a counter afterwards.
\<close>

inductive pool_step :: "(nat \<Rightarrow> 'q option) \<Rightarrow> nat \<Rightarrow> pool \<Rightarrow> pool \<Rightarrow> bool" for request count where
  hand_over: "\<not> po_panicked p \<Longrightarrow> po_next p < count \<Longrightarrow> i < length (po_workers p) \<Longrightarrow> po_workers p ! i = Waiting \<Longrightarrow>
    pool_step request count p
      (p\<lparr>po_next := Suc (po_next p), po_workers := (po_workers p)[i := Working (po_next p)]\<rparr>)"
| make_panic: "\<not> po_panicked p \<Longrightarrow> i < length (po_workers p) \<Longrightarrow> po_workers p ! i = Working k \<Longrightarrow> request k = None \<Longrightarrow>
    pool_step request count p (p\<lparr>po_panicked := True\<rparr>)"
| take_answer: "\<not> po_panicked p \<Longrightarrow> i < length (po_workers p) \<Longrightarrow> po_workers p ! i = Working k \<Longrightarrow> request k = Some q \<Longrightarrow>
    pool_step request count p
      (p\<lparr>po_workers := (po_workers p)[i := Answered (succeeded answer)], po_durations := (po_durations p)[k := d]\<rparr>)"
| add_success: "\<not> po_panicked p \<Longrightarrow> i < length (po_workers p) \<Longrightarrow> po_workers p ! i = Answered True \<Longrightarrow>
    pool_step request count p (p\<lparr>po_workers := (po_workers p)[i := Waiting], po_success := po_success p + 1\<rparr>)"
| add_failure: "\<not> po_panicked p \<Longrightarrow> i < length (po_workers p) \<Longrightarrow> po_workers p ! i = Answered False \<Longrightarrow>
    pool_step request count p (p\<lparr>po_workers := (po_workers p)[i := Waiting], po_failures := po_failures p + 1\<rparr>)"
| close_jobs: "\<not> po_panicked p \<Longrightarrow> po_next p = count \<Longrightarrow> \<not> po_closed p \<Longrightarrow>
    pool_step request count p (p\<lparr>po_closed := True\<rparr>)"
| leave: "\<not> po_panicked p \<Longrightarrow> po_closed p \<Longrightarrow> i < length (po_workers p) \<Longrightarrow> po_workers p ! i = Waiting \<Longrightarrow>
    pool_step request count p (p\<lparr>po_workers := (po_workers p)[i := Returned]\<rparr>)"

inductive pool_run :: "(nat \<Rightarrow> 'q option) \<Rightarrow> nat \<Rightarrow> pool \<Rightarrow> pool \<Rightarrow> bool" for request count where
  pool_start: "pool_run request count p p"
| pool_next: "pool_run request count p p1 \<Longrightarrow> pool_step request count p1 p2 \<Longrightarrow> pool_run request count p p2"

section \<open>The result\<close>

record load_result =
  lr_Requests :: nat
  lr_Success :: int
  lr_Errors :: int
  lr_Throughput :: rat
  lr_P50MS :: rat
  lr_P95MS :: rat
  lr_P99MS :: rat

text \<open>
  \<open>fl\<close> is the rounding of a number to a double, which follows every operation on doubles.
  \<open>sort.Slice\<close> with \<open><\<close> on integers has one result. Times are nanoseconds.
\<close>

definition percentile :: "(rat \<Rightarrow> rat) \<Rightarrow> int list \<Rightarrow> rat \<Rightarrow> int" where
  "percentile fl values quantile =
     (if values = [] then 0
      else values ! nat \<lfloor>fl (fl (of_nat (length values - 1) * fl quantile) + 1 / 2)\<rfloor>)"

definition milliseconds_of :: "(rat \<Rightarrow> rat) \<Rightarrow> int \<Rightarrow> rat" where
  "milliseconds_of fl value = fl (fl (of_int value) / 1000000)"

text \<open>
  \<open>Duration.Seconds\<close> adds the whole seconds and the fraction. The clock has moved between the start
  and the end of a measurement, so the division is by a positive number.
\<close>

definition seconds_of :: "(rat \<Rightarrow> rat) \<Rightarrow> int \<Rightarrow> rat" where
  "seconds_of fl d = fl (of_int (d div 1000000000) + fl (of_int (d mod 1000000000) / 1000000000))"

definition measure_result :: "(rat \<Rightarrow> rat) \<Rightarrow> nat \<Rightarrow> int \<Rightarrow> pool \<Rightarrow> load_result" where
  "measure_result fl count elapsed p =
     (let durations = sort (po_durations p);
          quantile = (\<lambda>q. milliseconds_of fl (percentile fl durations q))
      in \<lparr>lr_Requests = count, lr_Success = po_success p, lr_Errors = po_failures p,
          lr_Throughput = fl (of_nat count / seconds_of fl elapsed),
          lr_P50MS = quantile (50 / 100), lr_P95MS = quantile (95 / 100), lr_P99MS = quantile (99 / 100)\<rparr>)"

text \<open>
  The requests: \<open>format\<close> puts a port into the template, \<open>new_request\<close> parses the URL, and its error is
  dropped, \<open>with_key\<close> sets the header.
\<close>

definition request_port :: "int \<Rightarrow> int \<Rightarrow> nat \<Rightarrow> int" where
  "request_port minPort maxPort index = minPort + int index mod (maxPort - minPort + 1)"

definition run_request ::
  "(string \<Rightarrow> int \<Rightarrow> string) \<Rightarrow> (string \<Rightarrow> 'q option) \<Rightarrow> (string \<Rightarrow> 'q \<Rightarrow> 'q) \<Rightarrow> string \<Rightarrow> string \<Rightarrow> int \<Rightarrow> int \<Rightarrow>
   nat \<Rightarrow> 'q option" where
  "run_request format new_request with_key template key minPort maxPort index =
     map_option (with_key key) (new_request (format template (request_port minPort maxPort index)))"

definition runFixed_request :: "(string \<Rightarrow> 'q option) \<Rightarrow> string \<Rightarrow> nat \<Rightarrow> 'q option" where
  "runFixed_request new_request url index = new_request url"

text \<open>
  The exit code of \<open>main\<close>: 2 for options that are not valid or for a panic, 1 when a request failed
  or a bound was passed. The measurement of the baseline only adds to the output.
\<close>

definition options_ok :: "string \<Rightarrow> int \<Rightarrow> int \<Rightarrow> int \<Rightarrow> int \<Rightarrow> bool" where
  "options_ok key requests concurrency portMin portMax \<longleftrightarrow>
     \<not> (key = [] \<or> requests < 1 \<or> concurrency < 1 \<or> portMin < 1 \<or> portMax < portMin)"

definition exit_code :: "load_result \<Rightarrow> int" where
  "exit_code r =
     (if 0 < lr_Errors r \<or> 100 < lr_P95MS r \<or> 250 < lr_P99MS r \<or> lr_Throughput r < 100 then 1 else 0)"

definition load_main ::
  "(rat \<Rightarrow> rat) \<Rightarrow> string \<Rightarrow> int \<Rightarrow> int \<Rightarrow> int \<Rightarrow> int \<Rightarrow> pool \<Rightarrow> int \<Rightarrow> string \<Rightarrow> pool \<Rightarrow> int" where
  "load_main fl key requests concurrency portMin portMax p elapsed baseline pb =
     (if \<not> options_ok key requests concurrency portMin portMax then 2
      else if po_panicked p then 2
      else if baseline \<noteq> [] \<and> po_panicked pb then 2
      else exit_code (measure_result fl (nat requests) elapsed p))"

section \<open>Every request is counted and the pool ends\<close>

text \<open>The work that is left, which every step makes smaller.\<close>

fun worker_left :: "worker \<Rightarrow> nat" where
  "worker_left Waiting = 1"
| "worker_left (Working k) = 3"
| "worker_left (Answered ok) = 2"
| "worker_left Returned = 0"

definition left :: "nat \<Rightarrow> pool \<Rightarrow> nat" where
  "left count p = (if po_panicked p then 0
     else 1 + 3 * (count - po_next p) + sum_list (map worker_left (po_workers p)) + (if po_closed p then 0 else 1))"

definition busy :: "worker list \<Rightarrow> nat" where
  "busy ws = length (filter (\<lambda>w. w \<noteq> Waiting \<and> w \<noteq> Returned) ws)"

definition pool_ok :: "nat \<Rightarrow> nat \<Rightarrow> pool \<Rightarrow> bool" where
  "pool_ok count concurrency p \<longleftrightarrow>
     po_next p \<le> count \<and> length (po_workers p) = concurrency \<and> length (po_durations p) = count
     \<and> 0 \<le> po_success p \<and> 0 \<le> po_failures p
     \<and> po_success p + po_failures p + int (busy (po_workers p)) = int (po_next p)
     \<and> (po_closed p \<longrightarrow> po_next p = count) \<and> (\<not> po_closed p \<longrightarrow> Returned \<notin> set (po_workers p))"

lemma sum_list_update_nat:
  "i < length xs \<Longrightarrow> sum_list (map f (xs[i := y])) + f (xs ! i) = sum_list (map f xs) + (f y :: nat)"
  by (induction xs arbitrary: i) (auto split: nat.split)

lemma busy_sum: "busy ws = sum_list (map (\<lambda>w. if w \<noteq> Waiting \<and> w \<noteq> Returned then 1 else 0) ws)"
  by (induction ws) (auto simp: busy_def)

lemma busy_update:
  "i < length ws \<Longrightarrow> busy (ws[i := w]) + (if ws ! i \<noteq> Waiting \<and> ws ! i \<noteq> Returned then 1 else 0) =
     busy ws + (if w \<noteq> Waiting \<and> w \<noteq> Returned then 1 else 0)"
  unfolding busy_sum by (rule sum_list_update_nat)

lemma pool_step_left:
  assumes "pool_step request count p p'"
  shows "left count p' < left count p"
  using assms
proof (cases rule: pool_step.cases)
  case (hand_over i)
  then show ?thesis
    using sum_list_update_nat [of i "po_workers p" worker_left "Working (po_next p)"] by (simp add: left_def)
next
  case (take_answer i k q d answer)
  then show ?thesis
    using sum_list_update_nat [of i "po_workers p" worker_left "Answered (succeeded answer)"] by (simp add: left_def)
next
  case (add_success i)
  then show ?thesis
    using sum_list_update_nat [of i "po_workers p" worker_left Waiting] by (simp add: left_def)
next
  case (add_failure i)
  then show ?thesis
    using sum_list_update_nat [of i "po_workers p" worker_left Waiting] by (simp add: left_def)
next
  case (leave i)
  then show ?thesis
    using sum_list_update_nat [of i "po_workers p" worker_left Returned] by (simp add: left_def)
qed (simp_all add: left_def)

interpretation pool_machine: terminating "pool_step request count" "pool_run request count" "left count"
  for request :: "nat \<Rightarrow> 'q option" and count
proof unfold_locales
  fix p p' :: pool and P
  assume "pool_run request count p p'" and "P p" and "\<And>t u. P t \<Longrightarrow> pool_step request count t u \<Longrightarrow> P u"
  then show "P p'" by (induction rule: pool_run.induct) auto
qed (auto intro: pool_run.intros pool_step_left)

lemma not_returned_update: "Returned \<notin> set ws \<Longrightarrow> w \<noteq> Returned \<Longrightarrow> Returned \<notin> set (ws[i := w])"
  using set_update_subset_insert [of ws i w] by blast

lemma pool_step_ok:
  assumes "pool_step request count p p'" and "pool_ok count concurrency p"
  shows "pool_ok count concurrency p'"
  using assms(1)
proof (cases rule: pool_step.cases)
  case (hand_over i)
  then show ?thesis
    using assms(2) busy_update [of i "po_workers p" "Working (po_next p)"] not_returned_update [of "po_workers p" "Working (po_next p)" i]
    by (simp add: pool_ok_def)
next
  case (take_answer i k q d answer)
  then show ?thesis
    using assms(2) busy_update [of i "po_workers p" "Answered (succeeded answer)"] not_returned_update [of "po_workers p" "Answered (succeeded answer)" i]
    by (simp add: pool_ok_def)
next
  case (add_success i)
  then show ?thesis
    using assms(2) busy_update [of i "po_workers p" "Waiting"] not_returned_update [of "po_workers p" "Waiting" i]
    by (simp add: pool_ok_def)
next
  case (add_failure i)
  then show ?thesis
    using assms(2) busy_update [of i "po_workers p" "Waiting"] not_returned_update [of "po_workers p" "Waiting" i]
    by (simp add: pool_ok_def)
next
  case (leave i)
  then show ?thesis
    using assms(2) busy_update [of i "po_workers p" Returned] by (simp add: pool_ok_def)
qed (use assms(2) in \<open>simp_all add: pool_ok_def\<close>)

text \<open>A pool that has not ended can make a step.\<close>

definition pool_ended :: "pool \<Rightarrow> bool" where
  "pool_ended p \<longleftrightarrow> po_panicked p \<or> po_closed p \<and> (\<forall>w \<in> set (po_workers p). w = Returned)"

lemma pool_progress:
  assumes "pool_ok count concurrency p" and "1 \<le> concurrency" and "\<not> pool_ended p"
  shows "\<exists>p'. pool_step request count p p'"
proof -
  obtain i where i: "i < length (po_workers p)" "po_closed p \<longrightarrow> po_workers p ! i \<noteq> Returned"
    using assms by (auto simp: pool_ended_def pool_ok_def in_set_conv_nth) (metis less_eq_Suc_le)+
  have running: "\<not> po_panicked p" using assms(3) by (simp add: pool_ended_def)
  have "po_workers p ! i \<noteq> Returned"
    using i assms(1) by (metis nth_mem pool_ok_def)
  then consider "po_workers p ! i = Waiting" | k where "po_workers p ! i = Working k" | "po_workers p ! i = Answered True"
    | "po_workers p ! i = Answered False"
    by (cases "po_workers p ! i") (metis (full_types) | simp)+
  then show ?thesis
  proof cases
    case 1
    then show ?thesis
      using running i assms(1) hand_over [of p count i request] close_jobs [of p count request] leave [of p i request count]
      by (metis le_neq_implies_less pool_ok_def)
  next
    case 2
    then show ?thesis
      using running i make_panic [of p i k request count] take_answer [of p i k request] by (metis option.exhaust)
  qed (use running i in \<open>blast intro: add_success add_failure\<close>)+
qed

lemma start_pool_ok: "pool_ok count concurrency (start_pool count concurrency)"
proof -
  have "busy (replicate concurrency Waiting) = 0" by (simp add: busy_def)
  then show ?thesis by (simp add: pool_ok_def start_pool_def)
qed

lemma start_pool_left: "left count (start_pool count concurrency) = 3 * count + concurrency + 2"
  by (simp add: left_def start_pool_def sum_list_replicate)

lemma ended_counts:
  assumes "pool_ok count concurrency p" and "pool_ended p" and "\<not> po_panicked p"
  shows "po_success p + po_failures p = int count"
proof -
  have "busy (po_workers p) = 0" using assms(2,3) by (auto simp: pool_ended_def busy_def filter_empty_conv)
  with assms show ?thesis by (simp add: pool_ok_def pool_ended_def)
qed

text \<open>
  Claim C38: The load test ends. With at least one worker, and whatever the answers and the order in
  which the workers run, an execution makes at most \<open>3 * count + concurrency + 2\<close> steps, it can always
  go on until every worker has returned (or a request that cannot be made has made the program
  panic), and then each request has been counted once, as a success or as a failure.
\<close>

theorem load_test_ends:
  assumes "(pool_step request count ^^ n) (start_pool count concurrency) p" and "1 \<le> concurrency"
  shows "n \<le> 3 * count + concurrency + 2
    \<and> ((\<exists>p'. pool_step request count p p') \<or> po_panicked p
      \<or> (\<forall>w \<in> set (po_workers p). w = Returned) \<and> length (po_durations p) = count
        \<and> lr_Success (measure_result fl count elapsed p) + lr_Errors (measure_result fl count elapsed p) = int count)"
proof -
  have ok: "pool_ok count concurrency p"
    using pool_machine.steps_run [OF assms(1)] start_pool_ok
    by (rule pool_machine.run_invariant) (rule pool_step_ok)
  moreover have "n \<le> 3 * count + concurrency + 2"
    using pool_machine.steps_bounded [OF assms(1)] by (simp add: start_pool_left)
  moreover have "pool_ended p \<Longrightarrow> po_panicked p \<or> (\<forall>w \<in> set (po_workers p). w = Returned)
      \<and> length (po_durations p) = count
      \<and> lr_Success (measure_result fl count elapsed p) + lr_Errors (measure_result fl count elapsed p) = int count"
    using ended_counts [OF ok] ok by (auto simp: pool_ended_def pool_ok_def measure_result_def Let_def)
  ultimately show ?thesis using pool_progress [OF ok assms(2)] by blast
qed

text \<open>A load test that passes has had an answer to every request.\<close>

lemma load_main_passed:
  assumes "pool_ok (nat requests) (nat concurrency) p" and "pool_ended p"
    and "load_main fl key requests concurrency portMin portMax p elapsed baseline pb = 0"
  shows "po_success p = requests"
proof -
  have "\<not> po_panicked p" "1 \<le> requests" "po_failures p \<le> 0"
    using assms(3) by (auto simp: load_main_def options_ok_def exit_code_def measure_result_def Let_def split: if_splits)
  moreover have "0 \<le> po_failures p" using assms(1) by (simp add: pool_ok_def)
  ultimately show ?thesis using ended_counts [OF assms(1,2)] by simp
qed

text \<open>
  The percentiles stay inside the sorted durations, for any rounding that is monotone and exact on
  the halves of the numbers below \<open>2 ^ 53\<close>.
\<close>

definition rounding :: "(rat \<Rightarrow> rat) \<Rightarrow> bool" where
  "rounding fl \<longleftrightarrow> mono fl \<and> (\<forall>n < 2 ^ 53. fl (of_nat n / 2) = of_nat n / 2)"

lemma nat_below: "i < int k \<Longrightarrow> 0 < k \<Longrightarrow> nat i < k"
  by linarith

lemma percentile_in:
  assumes "rounding fl" and "values \<noteq> []" and "length values < 2 ^ 51" and "0 \<le> quantile" and "quantile \<le> 1"
  shows "percentile fl values quantile \<in> set values"
proof -
  let ?n = "length values - 1"
  have mono: "fl x \<le> fl y" if "x \<le> y" for x y using assms(1) that by (simp add: rounding_def monoD)
  have exact: "fl (of_nat k / 2) = of_nat k / 2" if "k < 2 ^ 53" for k using assms(1) that by (simp add: rounding_def)
  have zero: "fl 0 = 0" using exact [of 0] by simp
  have one: "fl 1 = 1" using exact [of 2] by simp
  have q: "0 \<le> fl quantile" "fl quantile \<le> 1" using mono assms(4,5) zero one by metis+
  have "of_nat ?n * fl quantile \<le> of_nat (2 * ?n) / 2" "0 \<le> of_nat ?n * fl quantile"
    using q by (simp_all add: mult_left_le)
  from mono [OF this(1)] mono [OF this(2)] have product: "fl (of_nat ?n * fl quantile) \<le> of_nat ?n"
    "0 \<le> fl (of_nat ?n * fl quantile)"
    using exact [of "2 * ?n"] zero assms(3) by simp_all
  then have "fl (of_nat ?n * fl quantile) + 1 / 2 \<le> of_nat (2 * ?n + 1) / 2" by (simp add: add_divide_distrib)
  from mono [OF this] have "fl (fl (of_nat ?n * fl quantile) + 1 / 2) \<le> fl (of_nat (2 * ?n + 1) / 2)" .
  also have "\<dots> = of_nat (2 * ?n + 1) / 2" by (rule exact) (use assms(3) in \<open>simp\<close>)
  also have "\<dots> < of_nat (length values)" using assms(2) by (cases "values") (simp_all add: field_simps)
  finally have "\<lfloor>fl (fl (of_nat ?n * fl quantile) + 1 / 2)\<rfloor> < int (length values)" by (simp add: floor_less_iff)
  then have "nat \<lfloor>fl (fl (of_nat ?n * fl quantile) + 1 / 2)\<rfloor> < length values"
    using assms(2) by (intro nat_below) simp_all
  from nth_mem [OF this] assms(2) show ?thesis unfolding percentile_def by simp
qed

lemma request_port_range:
  "1 \<le> minPort \<Longrightarrow> minPort \<le> maxPort \<Longrightarrow> minPort \<le> request_port minPort maxPort k \<and> request_port minPort maxPort k \<le> maxPort"
  using pos_mod_bound [of "maxPort - minPort + 1" "int k"] by (simp add: request_port_def)

section \<open>Witnesses\<close>

text \<open>One request, one worker, an answer of 200 after 7 ns.\<close>

theorem load_test_ends_witness:
  "\<exists>p. (pool_step (\<lambda>_. Some ()) 1 ^^ 5) (start_pool 1 1) p \<and> po_durations p = [7]
     \<and> ((\<exists>p'. pool_step (\<lambda>_. Some ()) 1 p p') \<or> po_panicked p \<or> po_success p + po_failures p = 1)"
proof -
  let ?p = "\<lambda>nx cl w d s. \<lparr>po_next = nx, po_closed = cl, po_workers = [w], po_durations = [d], po_success = s,
     po_failures = 0, po_panicked = False\<rparr>"
  let ?step = "pool_step (\<lambda>_. Some ()) 1"
  have start: "start_pool 1 1 = ?p 0 False Waiting 0 0" by (simp add: start_pool_def)
  have s1: "?step (?p 0 False Waiting 0 0) (?p 1 False (Working 0) 0 0)"
    using hand_over [of "?p 0 False Waiting 0 0" 1 0] by simp
  have s2: "?step (?p 1 False (Working 0) 0 0) (?p 1 False (Answered True) 7 0)"
    using take_answer [of "?p 1 False (Working 0) 0 0" 0 0 "\<lambda>_. Some ()" "()" 1 7 "Some 200"]
    by (simp add: succeeded_def)
  have s3: "?step (?p 1 False (Answered True) 7 0) (?p 1 False Waiting 7 1)"
    using add_success [of "?p 1 False (Answered True) 7 0" 0] by simp
  have s4: "?step (?p 1 False Waiting 7 1) (?p 1 True Waiting 7 1)"
    using close_jobs [of "?p 1 False Waiting 7 1" 1] by simp
  have s5: "?step (?p 1 True Waiting 7 1) (?p 1 True Returned 7 1)"
    using leave [of "?p 1 True Waiting 7 1" 0] by simp
  have run: "(?step ^^ 5) (start_pool 1 1) (?p 1 True Returned 7 1)"
  proof -
    note next_step = relpowp_Suc_I [where P = ?step]
    have "(?step ^^ 0) (?p 0 False Waiting 0 0) (?p 0 False Waiting 0 0)" by simp
    from next_step [OF next_step [OF next_step [OF next_step [OF next_step [OF this s1] s2] s3] s4] s5]
    show ?thesis unfolding start by (simp add: eval_nat_numeral del: relpowp.simps)
  qed
  from load_test_ends [OF run, where fl = id and elapsed = 1] show ?thesis
    by (intro exI [of _ "?p 1 True Returned 7 1"]) (use run in \<open>auto simp: measure_result_def Let_def\<close>)
qed

end
