(* ===== verification/Migration_Lock.thy ===== *)
theory Migration_Lock
  imports Migrate
begin

text \<open>
  Several admin processes that start together: each runs the migrations under the advisory lock of
  the database (\<^verbatim>\<open>internal/database/database.go\<close>), may fail or die at any statement, and the steps of
  all of them interleave. The ledger is always an initial part of the files, each applied once.
\<close>

section \<open>The processes and the lock\<close>

text \<open>
  \<open>cl_todo i\<close> is what is left of the loop of process \<open>i\<close>, \<open>None\<close> when it is not inside it. A connection
  that ends, in whatever way, gives its session's lock back.
\<close>

record 'd cluster =
  cl_db :: "'d migrated"
  cl_holder :: "nat option"
  cl_todo :: "nat \<rightharpoonup> string list"

definition leave_loop :: "nat \<Rightarrow> 'd cluster \<Rightarrow> 'd cluster" where
  "leave_loop i cl = cl\<lparr>cl_holder := (if cl_holder cl = Some i then None else cl_holder cl),
     cl_todo := (cl_todo cl)(i := None)\<rparr>"

inductive cluster_step :: "(string \<Rightarrow> 'd \<Rightarrow> 'd option) \<Rightarrow> string list \<Rightarrow> 'd cluster \<Rightarrow> 'd cluster \<Rightarrow> bool"
  for f names where
  take_lock: "cl_holder cl = None \<Longrightarrow> cl_todo cl i = None \<Longrightarrow>
    cluster_step f names cl (cl\<lparr>cl_holder := Some i, cl_todo := (cl_todo cl)(i \<mapsto> sort names)\<rparr>)"
| next_file: "cl_todo cl i = Some (n # ns) \<Longrightarrow> me_apply E = f \<Longrightarrow> migrate_file E n (cl_db cl) = (None, db) \<Longrightarrow>
    cluster_step f names cl (cl\<lparr>cl_db := db, cl_todo := (cl_todo cl)(i \<mapsto> ns)\<rparr>)"
| file_failed: "cl_todo cl i = Some (n # ns) \<Longrightarrow> me_apply E = f \<Longrightarrow> migrate_file E n (cl_db cl) = (Some e, db) \<Longrightarrow>
    cluster_step f names cl (leave_loop i (cl\<lparr>cl_db := db\<rparr>))"
| unlock: "cl_todo cl i = Some [] \<Longrightarrow> cluster_step f names cl (leave_loop i cl)"
| connection_lost: "cl_todo cl i = Some ns \<Longrightarrow> cluster_step f names cl (leave_loop i cl)"

inductive cluster_run :: "(string \<Rightarrow> 'd \<Rightarrow> 'd option) \<Rightarrow> string list \<Rightarrow> 'd cluster \<Rightarrow> 'd cluster \<Rightarrow> bool"
  for f names where
  cluster_start: "cluster_run f names cl cl"
| cluster_next: "cluster_run f names cl cl1 \<Longrightarrow> cluster_step f names cl1 cl2 \<Longrightarrow> cluster_run f names cl cl2"

interpretation cluster_machine: machine "cluster_step f names" "cluster_run f names"
  for f :: "string \<Rightarrow> 'd \<Rightarrow> 'd option" and names
proof unfold_locales
  fix cl cl' :: "'d cluster" and P
  assume "cluster_run f names cl cl'" and "P cl" and "\<And>t u. P t \<Longrightarrow> cluster_step f names t u \<Longrightarrow> P u"
  then show "P cl'" by (induction rule: cluster_run.induct) auto
qed (auto intro: cluster_run.intros)

text \<open>The steps of one process that is not disturbed are a run of \<open>migrate_files\<close>.\<close>

lemma cluster_runs_files:
  assumes "cl_todo cl i = Some ns" and "me_apply E = f"
  shows "\<exists>cl'. cluster_run f names cl cl' \<and> cl_db cl' = snd (migrate_files E ns (cl_db cl))
    \<and> cl_todo cl' i = None"
  using assms(1)
proof (induction ns arbitrary: cl)
  case Nil
  from cluster_machine.run_one [OF unlock [OF Nil]] show ?case
    by (intro exI [of _ "leave_loop i cl"]) (simp add: leave_loop_def)
next
  case (Cons n ns)
  obtain r db where result: "migrate_file E n (cl_db cl) = (r, db)" by fastforce
  show ?case
  proof (cases r)
    case (Some e)
    with cluster_machine.run_one [OF file_failed [OF Cons.prems assms(2)], of e db names] result show ?thesis
      by (intro exI [of _ "leave_loop i (cl\<lparr>cl_db := db\<rparr>)"]) (simp add: leave_loop_def)
  next
    case None
    let ?cl = "cl\<lparr>cl_db := db, cl_todo := (cl_todo cl)(i \<mapsto> ns)\<rparr>"
    have "cluster_run f names cl ?cl"
      using cluster_machine.run_one [OF next_file [OF Cons.prems assms(2)], of db names] result None by simp
    moreover obtain cl' where "cluster_run f names ?cl cl'" "cl_db cl' = snd (migrate_files E ns db)" "cl_todo cl' i = None"
      using Cons.IH [of ?cl] by auto
    ultimately show ?thesis using result None by (auto intro: cluster_machine.run_trans)
  qed
qed

section \<open>Every file is applied once and in order\<close>

fun apply_all :: "(string \<Rightarrow> 'd \<Rightarrow> 'd option) \<Rightarrow> string list \<Rightarrow> 'd \<Rightarrow> 'd option" where
  "apply_all f [] d = Some d"
| "apply_all f (n # ns) d = (case f n d of None \<Rightarrow> None | Some d' \<Rightarrow> apply_all f ns d')"

lemma apply_all_append:
  "apply_all f (ns @ ms) d = (case apply_all f ns d of None \<Rightarrow> None | Some d' \<Rightarrow> apply_all f ms d')"
  by (induction ns arbitrary: d) (auto split: option.split)

text \<open>The ledger and the schema are those of the first \<open>k\<close> files.\<close>

definition migrated_to :: "(string \<Rightarrow> 'd \<Rightarrow> 'd option) \<Rightarrow> 'd \<Rightarrow> string list \<Rightarrow> int list \<Rightarrow> nat \<Rightarrow> 'd migrated \<Rightarrow> bool" where
  "migrated_to f d0 ns vs k st \<longleftrightarrow>
     k \<le> length ns \<and> mg_ledger st = take k vs \<and> apply_all f (take k ns) d0 = Some (mg_schema st)"

lemma migrate_file_step:
  assumes "migrated_to f d0 ns vs k st" and "map migration_version ns = map Some vs" and "distinct vs"
    and "j < length ns" and "j \<le> k" and "me_apply E = f" and "migrate_file E (ns ! j) st = (r, st')"
  shows "\<exists>k' \<ge> k. migrated_to f d0 ns vs k' st' \<and> (r = None \<longrightarrow> Suc j \<le> k')"
proof -
  have len: "length vs = length ns" using assms(2) by (metis length_map)
  have version: "migration_version (ns ! j) = Some (vs ! j)"
    using assms(2,4) len by (metis nth_map)
  show ?thesis
  proof (cases "j < k")
    case True
    then have "vs ! j \<in> set (mg_ledger st)"
      using assms(1,4) len by (auto simp: migrated_to_def in_set_conv_nth intro!: exI [of _ j])
    with assms(7) version have "st' = st" by (auto simp: migrate_file_def split: if_splits)
    with assms(1) True show ?thesis by (intro exI [of _ k]) simp
  next
    case False
    with assms(5) have k: "j = k" by simp
    have fresh: "vs ! k \<notin> set (mg_ledger st)"
      using assms(1,3,4) len k by (auto simp: migrated_to_def in_set_conv_nth nth_eq_iff_index_eq)
    have step: "migrated_to f d0 ns vs (Suc k) (st\<lparr>mg_ledger := mg_ledger st @ [vs ! k], mg_schema := schema\<rparr>)"
      if "f (ns ! k) (mg_schema st) = Some schema" for schema
      using assms(1,4) len k that by (simp add: migrated_to_def take_Suc_conv_app_nth apply_all_append)
    consider "st' = st" "r \<noteq> None"
      | schema where "f (ns ! k) (mg_schema st) = Some schema"
          "st' = st\<lparr>mg_ledger := mg_ledger st @ [vs ! k], mg_schema := schema\<rparr>"
    proof (cases "f (ns ! k) (mg_schema st)")
      case None
      with assms(6,7) version fresh k show thesis
        by (intro that(1)) (simp_all add: migrate_file_def split: if_splits, blast+)
    next
      case (Some schema)
      with assms(6,7) version fresh k have "st' = st \<and> r \<noteq> None
          \<or> st' = st\<lparr>mg_ledger := mg_ledger st @ [vs ! k], mg_schema := schema\<rparr>"
        by (auto simp: migrate_file_def Let_def split: if_splits)
      with Some that show thesis by blast
    qed
    then show ?thesis
    proof cases
      case 1
      with assms(1) show ?thesis by blast
    next
      case 2
      with step k show ?thesis by (intro exI [of _ "Suc k"]) simp
    qed
  qed
qed

definition cluster_ok :: "(string \<Rightarrow> 'd \<Rightarrow> 'd option) \<Rightarrow> 'd \<Rightarrow> string list \<Rightarrow> int list \<Rightarrow> 'd cluster \<Rightarrow> bool" where
  "cluster_ok f d0 ns vs cl \<longleftrightarrow> (\<exists>k. migrated_to f d0 ns vs k (cl_db cl)
     \<and> (\<forall>i left. cl_todo cl i = Some left \<longrightarrow> cl_holder cl = Some i
          \<and> (\<exists>j \<le> k. j \<le> length ns \<and> left = drop j ns)))"

lemma leave_loop_ok:
  "cluster_ok f d0 ns vs (cl\<lparr>cl_todo := (cl_todo cl)(i := None)\<rparr>) \<Longrightarrow> (\<And>j. cl_todo cl j \<noteq> None \<Longrightarrow> j = i) \<Longrightarrow>
   cluster_ok f d0 ns vs (leave_loop i cl)"
  unfolding cluster_ok_def leave_loop_def by (elim ex_forward) auto

lemma cluster_pass:
  assumes "migrated_to f d0 ns vs k (cl_db cl)"
    and todo: "\<And>i left. cl_todo cl i = Some left \<Longrightarrow> cl_holder cl = Some i \<and> (\<exists>j \<le> k. j \<le> length ns \<and> left = drop j ns)"
    and "map migration_version ns = map Some vs" and "distinct vs"
    and "cl_todo cl i = Some (n # left)" and "me_apply E = f" and "migrate_file E n (cl_db cl) = (r, db)"
  shows "\<exists>k' \<ge> k. \<exists>j. migrated_to f d0 ns vs k' db \<and> j \<le> length ns \<and> left = drop j ns \<and> (r = None \<longrightarrow> j \<le> k')"
proof -
  from todo [OF assms(5)] obtain j where j: "j \<le> k" "n # left = drop j ns" by blast
  then have less: "j < length ns" by (metis drop_all linorder_not_less list.discI)
  then have "n = ns ! j" "left = drop (Suc j) ns" using j(2) by (metis Cons_nth_drop_Suc list.inject)+
  with migrate_file_step [OF assms(1,3,4) less j(1) assms(6)] assms(7) obtain k' where
    "k \<le> k'" "migrated_to f d0 ns vs k' db" "r = None \<longrightarrow> Suc j \<le> k'" by blast
  with \<open>left = drop (Suc j) ns\<close> less show ?thesis by (intro exI [of _ k'] conjI exI [of _ "Suc j"]) simp_all
qed

lemma cluster_step_ok:
  assumes "cluster_step f names cl cl'" and "cluster_ok f d0 (sort names) vs cl"
    and "map migration_version (sort names) = map Some vs" and "distinct vs"
  shows "cluster_ok f d0 (sort names) vs cl'"
proof -
  let ?ns = "sort names"
  from assms(2) obtain k where k: "migrated_to f d0 ?ns vs k (cl_db cl)"
    and todo: "\<And>i left. cl_todo cl i = Some left \<Longrightarrow> cl_holder cl = Some i \<and> (\<exists>j \<le> k. j \<le> length ?ns \<and> left = drop j ?ns)"
    unfolding cluster_ok_def by blast
  have only: "j = i" if "cl_todo cl i = Some left" "cl_todo cl j = Some left'" for i j left left'
    using todo [OF that(1)] todo [OF that(2)] by simp
  have gone: "cluster_ok f d0 ?ns vs (leave_loop i (cl\<lparr>cl_db := db\<rparr>))"
    if "cl_todo cl i = Some left" "migrated_to f d0 ?ns vs k' db" for i left k' db
  proof -
    have "cl_todo cl j = None" if "j \<noteq> i" for j
      using only [OF \<open>cl_todo cl i = Some left\<close>, of j] that by (cases "cl_todo cl j") auto
    with that(2) show ?thesis
      unfolding cluster_ok_def leave_loop_def by (intro exI [of _ k']) auto
  qed
  show ?thesis using assms(1)
  proof (cases rule: cluster_step.cases)
    case (take_lock i)
    then have "cl_todo cl j = None" for j using todo [of j] by (cases "cl_todo cl j") auto
    with take_lock k show ?thesis unfolding cluster_ok_def by (intro exI [of _ k]) (auto intro!: exI [of _ 0])
  next
    case (next_file i n ns E db)
    from cluster_pass [OF k todo assms(3,4) next_file(2-4)] obtain k' j where k': "migrated_to f d0 ?ns vs k' db"
      and j: "j \<le> k'" "j \<le> length ?ns" "ns = drop j ?ns" by blast
    have held: "cl_holder cl = Some i" using todo [OF next_file(2)] by simp
    have mine: "i' = i \<and> left = ns" if "((cl_todo cl)(i \<mapsto> ns)) i' = Some left" for i' left
      using that only [OF next_file(2), of i' left] by (simp split: if_splits)
    show ?thesis
      unfolding cluster_ok_def
    proof (intro exI conjI allI impI)
      show "migrated_to f d0 ?ns vs k' (cl_db cl')" using k' next_file(1) by simp
      fix i' left assume "cl_todo cl' i' = Some left"
      then have "((cl_todo cl)(i \<mapsto> ns)) i' = Some left" unfolding next_file(1) by simp
      from mine [OF this] have "i' = i" "left = ns" by simp_all
      then show "cl_holder cl' = Some i'" "j \<le> k'" "j \<le> length ?ns" "left = drop j ?ns"
        using held j next_file(1) by simp_all
    qed
  next
    case (file_failed i n ns E e db)
    with cluster_pass [OF k todo assms(3,4) file_failed(2-4)] gone show ?thesis by blast
  next
    case (unlock i)
    with gone [OF _ k] show ?thesis by simp
  next
    case (connection_lost i ns)
    with gone [OF _ k] show ?thesis by simp
  qed
qed

lemma sort_migrationFiles: "sort migrationFiles = migrationFiles"
  by (simp add: migrationFiles_def)

text \<open>
  Claim C30: However many admin processes run the migrations, in whatever order their steps
  interleave, and whichever of them fail or lose their connection at whatever statement, the ledger
  lists the first \<open>k\<close> versions and the schema is what the first \<open>k\<close> files make of the empty database,
  each applied exactly once and in order.
\<close>

theorem migrations_apply_once:
  assumes "cluster_run f migrationFiles cl cl'"
    and "mg_ledger (cl_db cl) = []" and "\<And>i. cl_todo cl i = None"
  shows "\<exists>k \<le> 10. mg_ledger (cl_db cl') = map int [1..<Suc k]
    \<and> apply_all f (take k migrationFiles) (mg_schema (cl_db cl)) = Some (mg_schema (cl_db cl'))"
proof -
  let ?vs = "map int [1..<11]" and ?d0 = "mg_schema (cl_db cl)"
  have versions: "map migration_version (sort migrationFiles) = map Some ?vs"
    unfolding sort_migrationFiles migrationFiles_versions by simp
  have "cluster_ok f ?d0 (sort migrationFiles) ?vs cl'"
    using assms(1)
  proof (rule cluster_machine.run_invariant)
    show "cluster_ok f ?d0 (sort migrationFiles) ?vs cl"
      using assms(2,3) by (auto simp: cluster_ok_def migrated_to_def)
    show "cluster_ok f ?d0 (sort migrationFiles) ?vs u"
      if "cluster_step f migrationFiles t u" "cluster_ok f ?d0 (sort migrationFiles) ?vs t" for t u
      using that versions by (rule cluster_step_ok) (simp add: distinct_map)
  qed
  then obtain k where "migrated_to f ?d0 migrationFiles ?vs k (cl_db cl')"
    unfolding cluster_ok_def sort_migrationFiles by blast
  moreover from this have "k \<le> 10" by (simp add: migrated_to_def migrationFiles_def)
  moreover from this have "take k ?vs = map int [1..<Suc k]" by (simp add: take_map)
  ultimately show ?thesis by (auto simp: migrated_to_def)
qed

section \<open>Witnesses\<close>

text \<open>A process that applies the first file and then loses its connection.\<close>

definition example_cluster :: "string list cluster" where
  "example_cluster = \<lparr>cl_db = \<lparr>mg_ledger = [], mg_schema = []\<rparr>, cl_holder = None, cl_todo = Map.empty\<rparr>"

definition example_migrate_env :: "string list migrate_env" where
  "example_migrate_env = \<lparr>me_fails = (\<lambda>_. False), me_committed = (\<lambda>_. False), me_apply = (\<lambda>n d. Some (d @ [n]))\<rparr>"

theorem migrations_apply_once_witness:
  "\<exists>cl. cluster_run (\<lambda>n d. Some (d @ [n])) migrationFiles example_cluster cl \<and> mg_ledger (cl_db cl) = [1]
     \<and> (\<exists>k \<le> 10. mg_ledger (cl_db cl) = map int [1..<Suc k])"
proof -
  let ?f = "\<lambda>n (d :: string list). Some (d @ [n])" and ?first = "hd migrationFiles"
  let ?db = "\<lparr>mg_ledger = [1], mg_schema = [?first]\<rparr>"
  let ?c1 = "example_cluster\<lparr>cl_holder := Some 0, cl_todo := [0 \<mapsto> migrationFiles]\<rparr>"
  let ?c2 = "?c1\<lparr>cl_db := ?db, cl_todo := [0 \<mapsto> tl migrationFiles]\<rparr>"
  have names: "migrationFiles = ?first # tl migrationFiles" by (simp add: migrationFiles_def)
  have "map migration_version migrationFiles = Some 1 # map (\<lambda>n. Some (int n)) [2..<11]"
    by (simp add: migrationFiles_versions upt_rec)
  then have version: "migration_version ?first = Some 1" by (metis names list.inject list.simps(9))
  have s1: "cluster_step ?f migrationFiles example_cluster ?c1"
    using take_lock [of example_cluster 0 ?f migrationFiles] by (simp add: example_cluster_def sort_migrationFiles)
  have s2: "cluster_step ?f migrationFiles ?c1 ?c2"
  proof -
    have todo: "cl_todo ?c1 0 = Some (?first # tl migrationFiles)" by (simp flip: names)
    have "migrate_file example_migrate_env ?first (cl_db ?c1) = (None, ?db)"
      using version by (simp add: migrate_file_def example_migrate_env_def example_cluster_def)
    from next_file [OF todo _ this, of ?f migrationFiles] show ?thesis
      by (simp add: example_migrate_env_def example_cluster_def)
  qed
  have s3: "cluster_step ?f migrationFiles ?c2 (leave_loop 0 ?c2)"
    by (rule connection_lost) simp
  have run: "cluster_run ?f migrationFiles example_cluster (leave_loop 0 ?c2)"
    by (rule cluster_next [OF cluster_next [OF cluster_machine.run_one [OF s1] s2] s3])
  have "mg_ledger (cl_db example_cluster) = []" "cl_todo example_cluster i = None" for i
    by (simp_all add: example_cluster_def)
  from migrations_apply_once [OF run this]
  have "\<exists>k \<le> 10. mg_ledger (cl_db (leave_loop 0 ?c2)) = map int [1..<Suc k]" by blast
  moreover have "mg_ledger (cl_db (leave_loop 0 ?c2)) = [1]" by (simp add: leave_loop_def)
  ultimately show ?thesis using run by blast
qed

end
