(* ===== verification/Tenants.thy ===== *)
theory Tenants
  imports Admin_Properties Key_Properties
begin

text \<open>
  Environments share one database. What belongs to an environment is a view of the tables, and a
  call of the store for one environment respects the views of all others, operation by operation.
  Permissions are common to all environments: of those the view has the names that each consumer
  has been granted.
\<close>

section \<open>The view of an environment\<close>

definition env_ports :: "database \<Rightarrow> int \<Rightarrow> port_row list" where
  "env_ports db x = filter (\<lambda>p. po_environment p = x) (t_ports db)"

definition env_all_listeners :: "database \<Rightarrow> int \<Rightarrow> listener_row list" where
  "env_all_listeners db x = filter (\<lambda>l. ls_environment l = x) (t_listeners db)"

definition env_consumers :: "database \<Rightarrow> int \<Rightarrow> consumer_row list" where
  "env_consumers db x = filter (\<lambda>c. cn_environment c = x) (t_consumers db)"

definition env_keys :: "database \<Rightarrow> int \<Rightarrow> key_row list" where
  "env_keys db x = filter (\<lambda>k. ky_consumer k \<in> cn_id ` set (env_consumers db x)) (t_keys db)"

definition env_permissions :: "database \<Rightarrow> int \<Rightarrow> string list list" where
  "env_permissions db x = map (\<lambda>c. permissions_of db (cn_id c)) (env_consumers db x)"

definition env_configurations :: "database \<Rightarrow> int \<Rightarrow> config_row list" where
  "env_configurations db x = filter (\<lambda>r. cf_environment r = x) (t_configurations db)"

definition env_approvals :: "database \<Rightarrow> int \<Rightarrow> approval_row list" where
  "env_approvals db x = filter (\<lambda>a. ap_configuration a \<in> cf_id ` set (env_configurations db x)) (t_approvals db)"

record tenant =
  tn_services :: "service_row list"
  tn_versions :: "version_row list"
  tn_upstreams :: "upstream_row list"
  tn_ports :: "port_row list"
  tn_listeners :: "listener_row list"
  tn_consumers :: "consumer_row list"
  tn_permissions :: "string list list"
  tn_keys :: "key_row list"
  tn_configurations :: "config_row list"
  tn_approvals :: "approval_row list"

definition tenant_of :: "database \<Rightarrow> int \<Rightarrow> tenant" where
  "tenant_of db x = \<lparr>tn_services = env_services db x, tn_versions = env_versions db x,
     tn_upstreams = env_upstreams db x, tn_ports = env_ports db x, tn_listeners = env_all_listeners db x,
     tn_consumers = env_consumers db x, tn_permissions = env_permissions db x, tn_keys = env_keys db x,
     tn_configurations = env_configurations db x, tn_approvals = env_approvals db x\<rparr>"

lemmas env_defs = env_services_def env_versions_def env_upstreams_def env_ports_def env_all_listeners_def
  env_consumers_def env_keys_def env_permissions_def env_configurations_def env_approvals_def

lemma tenant_audit [simp]: "tenant_of (with_audit a n db) x = tenant_of db x"
  by (simp add: tenant_of_def env_defs permissions_of_def)

text \<open>The view after an update of a table depends on that table alone.\<close>

lemma tenant_tables:
  "filter (\<lambda>q. sv_environment q = x) rows1 = env_services db x \<Longrightarrow> tenant_of (db\<lparr>t_services := rows1\<rparr>) x = tenant_of db x"
  "filter (\<lambda>v. vr_service v \<in> sv_id ` set (env_services db x)) rows2 = env_versions db x \<Longrightarrow>
   tenant_of (db\<lparr>t_versions := rows2\<rparr>) x = tenant_of db x"
  "filter (\<lambda>u. up_service_version u \<in> vr_id ` set (env_versions db x)) rows3 = env_upstreams db x \<Longrightarrow>
   tenant_of (db\<lparr>t_upstreams := rows3\<rparr>) x = tenant_of db x"
  "filter (\<lambda>p. po_environment p = x) rows4 = env_ports db x \<Longrightarrow> tenant_of (db\<lparr>t_ports := rows4\<rparr>) x = tenant_of db x"
  "filter (\<lambda>l. ls_environment l = x) rows5 = env_all_listeners db x \<Longrightarrow>
   tenant_of (db\<lparr>t_listeners := rows5\<rparr>) x = tenant_of db x"
  "filter (\<lambda>c. cn_environment c = x) rows6 = env_consumers db x \<Longrightarrow> tenant_of (db\<lparr>t_consumers := rows6\<rparr>) x = tenant_of db x"
  "filter (\<lambda>k. ky_consumer k \<in> cn_id ` set (env_consumers db x)) rows7 = env_keys db x \<Longrightarrow>
   tenant_of (db\<lparr>t_keys := rows7\<rparr>) x = tenant_of db x"
  "filter (\<lambda>a. ap_configuration a \<in> cf_id ` set (env_configurations db x)) rows8 = env_approvals db x \<Longrightarrow>
   tenant_of (db\<lparr>t_approvals := rows8\<rparr>) x = tenant_of db x"
  "filter (\<lambda>r. cf_environment r = x) rows9 = env_configurations db x \<Longrightarrow>
   tenant_of (db\<lparr>t_configurations := rows9\<rparr>) x = tenant_of db x"
  "tenant_of (db\<lparr>t_next_configuration := n\<rparr>) x = tenant_of db x"
  by (simp_all add: tenant_of_def env_defs permissions_of_def)

lemma tenant_grants:
  "(\<And>c. c \<in> set (env_consumers db x) \<Longrightarrow> permissions_of db' (cn_id c) = permissions_of db (cn_id c)) \<Longrightarrow>
   db' = db\<lparr>t_permissions := ps, t_grants := gs\<rparr> \<Longrightarrow> tenant_of db' x = tenant_of db x"
  by (simp add: tenant_of_def env_defs)

text \<open>Rows of others, updated, deleted or added.\<close>

lemma filter_update_where:
  "(\<And>r. r \<in> set rows \<Longrightarrow> P r \<Longrightarrow> \<not> Q r \<and> \<not> Q (f r)) \<Longrightarrow> filter Q (update_where P f rows) = filter Q rows"
  by (induction rows) auto

lemma map_filter_update_where:
  "(\<And>r. k (f r) = k r \<and> j (f r) = j r) \<Longrightarrow>
   map k (filter (\<lambda>r. j r = v) (update_where P f rows)) = map k (filter (\<lambda>r. j r = v) rows)"
  by (induction rows) auto

lemma filter_delete_where:
  "(\<And>r. r \<in> set rows \<Longrightarrow> P r \<Longrightarrow> \<not> Q r) \<Longrightarrow> filter Q (delete_where P rows) = filter Q rows"
  by (induction rows) (auto simp: delete_where_def)

section \<open>Identifiers\<close>

text \<open>What the primary and foreign keys of the schema say, as far as the views need it.\<close>

definition ids_ok :: "database \<Rightarrow> bool" where
  "ids_ok db \<longleftrightarrow> distinct (map sv_id (t_services db)) \<and> distinct (map vr_id (t_versions db))
     \<and> distinct (map cn_id (t_consumers db))
     \<and> (\<forall>g \<in> set (t_grants db). gr_permission g \<in> pm_id ` set (t_permissions db))"

definition shared_ok :: "database \<Rightarrow> bool" where
  "shared_ok db \<longleftrightarrow> ids_ok db \<and> inventory_ok db \<and> configurations_ok db \<and> keys_ok db"

lemma ids_audit [simp]: "ids_ok (with_audit a n db) = ids_ok db"
  by (simp add: ids_ok_def)

lemma ids_update [simp]:
  "ids_ok (db\<lparr>t_upstreams := x1\<rparr>) = ids_ok db" "ids_ok (db\<lparr>t_ports := x2\<rparr>) = ids_ok db"
  "ids_ok (db\<lparr>t_listeners := x3\<rparr>) = ids_ok db" "ids_ok (db\<lparr>t_keys := x4\<rparr>) = ids_ok db"
  "ids_ok (db\<lparr>t_configurations := x5\<rparr>) = ids_ok db" "ids_ok (db\<lparr>t_approvals := x6\<rparr>) = ids_ok db"
  "ids_ok (db\<lparr>t_next_configuration := x7\<rparr>) = ids_ok db"
  by (simp_all add: ids_ok_def)

text \<open>The owner of a row is unique.\<close>

lemma consumer_owner:
  assumes "ids_ok db" and "consumer_in db e c" and "\<not> in_environment db e x"
  shows "c \<notin> cn_id ` set (env_consumers db x)"
proof
  assume "c \<in> cn_id ` set (env_consumers db x)"
  then obtain k where k: "k \<in> set (t_consumers db)" "cn_id k = c" "cn_environment k = x"
    by (auto simp: env_consumers_def)
  from assms(2) obtain q where q: "q \<in> set (t_consumers db)" "cn_id q = c" "in_environment db e (cn_environment q)"
    by (auto simp: consumer_in_def)
  have "q = k" using assms(1) q k by (auto simp: ids_ok_def intro: distinct_key_unique)
  with q(3) k(3) assms(3) show False by simp
qed

lemma service_owner:
  assumes "ids_ok db" and "service_in db e sid" and "\<not> in_environment db e x"
  shows "sid \<notin> sv_id ` set (env_services db x)"
proof
  assume "sid \<in> sv_id ` set (env_services db x)"
  then obtain k where k: "k \<in> set (t_services db)" "sv_id k = sid" "sv_environment k = x"
    by (auto simp: env_services_def)
  from assms(2) obtain q where q: "q \<in> set (t_services db)" "sv_id q = sid" "in_environment db e (sv_environment q)"
    by (auto simp: service_in_def)
  have "q = k" using assms(1) q k by (auto simp: ids_ok_def intro: distinct_key_unique)
  with q(3) k(3) assms(3) show False by simp
qed

lemma version_owner:
  assumes "ids_ok db" and "version_in db e vid" and "\<not> in_environment db e x"
  shows "vid \<notin> vr_id ` set (env_versions db x)"
proof
  assume "vid \<in> vr_id ` set (env_versions db x)"
  then obtain k where k: "k \<in> set (t_versions db)" "vr_id k = vid" "vr_service k \<in> sv_id ` set (env_services db x)"
    by (auto simp: env_versions_def)
  from assms(2) obtain q where q: "q \<in> set (t_versions db)" "vr_id q = vid" "service_in db e (vr_service q)"
    by (auto simp: version_in_def)
  have "q = k" using assms(1) q k by (auto simp: ids_ok_def intro: distinct_key_unique)
  with k(3) service_owner [OF assms(1) q(3) assms(3)] show False by simp
qed

lemma environment_id_in: "environment_id db e = Some eid \<Longrightarrow> in_environment db e eid"
  by (auto simp: environment_id_def in_environment_def dest: find_Some_iff_mem)

section \<open>Calls respect the views of other environments\<close>

definition isolates :: "int \<Rightarrow> database \<Rightarrow> database \<Rightarrow> bool" where
  "isolates x db db' \<longleftrightarrow> tenant_of db' x = tenant_of db x \<and> ids_ok db'"

lemma isolates_refl: "ids_ok db \<Longrightarrow> isolates x db db"
  by (simp add: isolates_def)

lemma isolates_audit [simp]: "isolates x db (with_audit a n db') = isolates x db db'"
  by (simp add: isolates_def)

lemma isolates_trans: "isolates x db db1 \<Longrightarrow> isolates x db1 db2 \<Longrightarrow> isolates x db db2"
  by (simp add: isolates_def)

lemma isolates_withTx:
  "ids_ok db \<Longrightarrow> (\<And>y db'. body db = Inr (y, db') \<Longrightarrow> isolates x db db') \<Longrightarrow> isolates x db (snd (withTx c body db))"
  by (rule withTx_invariant) (simp_all add: isolates_refl)

lemma isolates_if:
  "isolates x db (snd y) \<Longrightarrow> isolates x db (snd z) \<Longrightarrow> isolates x db (snd (if g then y else z))"
  by simp

lemma isolates_if_fst:
  "isolates x db (snd (fst y)) \<Longrightarrow> isolates x db (snd (fst z)) \<Longrightarrow> isolates x db (snd (fst (if g then y else z)))"
  by simp

lemma isolates_pair: "isolates x db (snd y) \<Longrightarrow> isolates x db (snd (fst (y, z)))"
  by simp

lemma isolates_option:
  "isolates x db (snd y) \<Longrightarrow> (\<And>v. isolates x db (snd (f v))) \<Longrightarrow>
   isolates x db (snd (case m of None \<Rightarrow> y | Some v \<Rightarrow> f v))"
  by (simp split: option.split)

lemma isolates_Inl: "ids_ok db \<Longrightarrow> isolates x db (snd (Inl e, db))"
  by (simp add: isolates_refl)

lemmas isolates_intros = isolates_Inl isolates_if isolates_if_fst isolates_pair isolates_option isolates_withTx

text \<open>The catalogue.\<close>

lemma isolates_services:
  "ids_ok db \<Longrightarrow> filter (\<lambda>q. sv_environment q = x) rows = env_services db x \<Longrightarrow> distinct (map sv_id rows) \<Longrightarrow>
   isolates x db (db\<lparr>t_services := rows\<rparr>)"
  by (simp add: isolates_def tenant_tables ids_ok_def)

lemma isolates_versions:
  "ids_ok db \<Longrightarrow> filter (\<lambda>v. vr_service v \<in> sv_id ` set (env_services db x)) rows = env_versions db x \<Longrightarrow>
   distinct (map vr_id rows) \<Longrightarrow> isolates x db (db\<lparr>t_versions := rows\<rparr>)"
  by (simp add: isolates_def tenant_tables ids_ok_def)

lemma isolates_upstreams:
  "ids_ok db \<Longrightarrow> filter (\<lambda>u. up_service_version u \<in> vr_id ` set (env_versions db x)) rows = env_upstreams db x \<Longrightarrow>
   isolates x db (db\<lparr>t_upstreams := rows\<rparr>)"
  by (simp add: isolates_def tenant_tables)

lemma update_services_isolates:
  assumes "ids_ok db" and "\<And>s. s \<in> set (t_services db) \<Longrightarrow> P s \<Longrightarrow> sv_environment s \<noteq> x"
    and "\<And>s. sv_id (f s) = sv_id s \<and> sv_environment (f s) = sv_environment s"
  shows "isolates x db (db\<lparr>t_services := update_where P f (t_services db)\<rparr>)"
  using assms by (intro isolates_services)
    (simp_all add: env_services_def ids_ok_def map_update_where_same filter_update_where)

lemma update_versions_isolates:
  assumes "ids_ok db" and "\<And>v. v \<in> set (t_versions db) \<Longrightarrow> P v \<Longrightarrow> vr_service v \<notin> sv_id ` set (env_services db x)"
    and "\<And>v. vr_id (f v) = vr_id v \<and> vr_service (f v) = vr_service v"
  shows "isolates x db (db\<lparr>t_versions := update_where P f (t_versions db)\<rparr>)"
  using assms by (intro isolates_versions)
    (simp_all add: env_versions_def ids_ok_def map_update_where_same filter_update_where)

lemma update_upstreams_isolates:
  assumes "ids_ok db"
    and "\<And>u. u \<in> set (t_upstreams db) \<Longrightarrow> P u \<Longrightarrow> up_service_version u \<notin> vr_id ` set (env_versions db x)"
    and "\<And>u. up_service_version (f u) = up_service_version u"
  shows "isolates x db (db\<lparr>t_upstreams := update_where P f (t_upstreams db)\<rparr>)"
  using assms by (intro isolates_upstreams) (simp_all add: env_upstreams_def filter_update_where)

lemma insert_service_isolates:
  "insert_service r db = Inr db' \<Longrightarrow> ids_ok db \<Longrightarrow> sv_environment r \<noteq> x \<Longrightarrow> isolates x db db'"
  by (auto simp: insert_service_def exists_where_iff ids_ok_def env_services_def split: if_splits
      intro!: isolates_services) blast

lemma insert_version_isolates:
  "insert_version r db = Inr db' \<Longrightarrow> ids_ok db \<Longrightarrow> vr_service r \<notin> sv_id ` set (env_services db x) \<Longrightarrow>
   isolates x db db'"
  by (auto simp: insert_version_def exists_where_iff ids_ok_def env_versions_def split: if_splits
      intro!: isolates_versions) blast

lemma insert_upstream_isolates:
  "insert_upstream r db = Inr db' \<Longrightarrow> ids_ok db \<Longrightarrow> up_service_version r \<notin> vr_id ` set (env_versions db x) \<Longrightarrow>
   isolates x db db'"
  by (auto simp: insert_upstream_def env_upstreams_def split: if_splits intro!: isolates_upstreams)

text \<open>The result of an update that returns its row.\<close>

lemma updateE:
  assumes "query_row (update_returning P f rows) = Inr (r', rows')"
  obtains r where "r \<in> set rows" and "P r" and "r' = f r" and "rows' = update_where P f rows"
  using assms by (auto simp: query_row_Inr update_returning_Some dest!: find_Some_iff_mem)

lemma findE:
  assumes "query_row (find P rows) = Inr r"
  obtains "r \<in> set rows" and "P r"
  using assms by (auto simp: query_row_Inr dest!: find_Some_iff_mem)

lemmas isolates_elims = updateE bind_okE if_InlE audited_Inr audit_Inr findE

lemma bind_pairE:
  assumes "bind_ok m (\<lambda>(y, z). g y z) = Inr v"
  obtains y z where "m = Inr (y, z)" and "g y z = Inr v"
  using assms by (auto simp: bind_ok_eq_Inr)

text \<open>A row that is inserted.\<close>

lemmas insert_elims = bind_okE if_InlE audited_Inr audit_Inr

lemma create_service_isolates:
  assumes ok: "ids_ok db" and other: "\<not> in_environment db e x"
  shows "isolates x db (snd (CreateService c a e name display owner db))"
  unfolding CreateService_def Let_def
  by (intro isolates_intros ok, elim insert_elims, simp only: isolates_audit translated_Inr query_row_Inr,
      erule insert_service_isolates [OF _ ok]) (use other in \<open>auto dest: environment_id_in\<close>)

lemma update_service_isolates:
  assumes ok: "ids_ok db" and other: "\<not> in_environment db e x"
  shows "isolates x db (snd (UpdateService c a e name display owner enabled v db))"
  unfolding UpdateService_def Let_def using ok other
  by (intro isolates_intros; auto elim!: isolates_elims; intro update_services_isolates; auto)

lemma create_version_isolates:
  assumes ok: "ids_ok db" and other: "\<not> in_environment db e x"
  shows "isolates x db (snd (CreateServiceVersion c a e name version path ms bytes db))"
  unfolding CreateServiceVersion_def Let_def
  by (intro isolates_intros ok, elim insert_elims, simp only: isolates_audit translated_Inr,
      erule insert_version_isolates [OF _ ok])
    (auto elim!: findE intro!: service_owner [OF ok _ other] simp: service_in_def)

lemma update_version_isolates:
  assumes ok: "ids_ok db" and other: "\<not> in_environment db e x"
  shows "isolates x db (snd (UpdateServiceVersion c a e rid version path ms bytes enabled v db))"
  unfolding UpdateServiceVersion_def Let_def using ok other
  by (intro isolates_intros; auto elim!: isolates_elims; intro update_versions_isolates;
      auto dest: service_owner [OF ok _ other])

lemma create_upstream_isolates:
  assumes ok: "ids_ok db" and other: "\<not> in_environment db e x"
  shows "isolates x db (snd (CreateUpstreamWithScheme s host c a e vid scheme address port weight path db))"
  unfolding CreateUpstreamWithScheme_def Let_def
  by (intro isolates_intros ok, elim insert_elims, simp only: isolates_audit translated_Inr query_row_Inr,
      erule insert_upstream_isolates [OF _ ok])
    (use version_owner [OF ok _ other] in \<open>auto split: if_splits\<close>)

lemma update_upstream_isolates:
  assumes ok: "ids_ok db" and other: "\<not> in_environment db e x"
  shows "isolates x db (snd (UpdateUpstream s host c a e rid scheme address port weight path enabled v db))"
  unfolding UpdateUpstream_def Let_def using ok other
  by (intro isolates_intros; auto elim!: isolates_elims; intro update_upstreams_isolates;
      auto dest: version_owner [OF ok _ other])


text \<open>Ports and listeners: a port and its listener are in the same environment.\<close>

lemma isolates_ports:
  assumes "ids_ok db" and "filter (\<lambda>p. po_environment p = x) ps = env_ports db x"
    and "filter (\<lambda>l. ls_environment l = x) ls = env_all_listeners db x"
  shows "isolates x db (db\<lparr>t_ports := ps, t_listeners := ls\<rparr>)"
    and "isolates x db (db\<lparr>t_listeners := ls, t_ports := ps\<rparr>)"
  using assms by (simp_all add: isolates_def ids_ok_def tenant_of_def env_defs permissions_of_def)

lemma isolates_listeners:
  "ids_ok db \<Longrightarrow> filter (\<lambda>l. ls_environment l = x) ls = env_all_listeners db x \<Longrightarrow> isolates x db (db\<lparr>t_listeners := ls\<rparr>)"
  by (simp add: isolates_def tenant_tables)

lemma port_listener_environment:
  assumes "inventory_ok db" and "p \<in> set (t_ports db)" and "l \<in> set (t_listeners db)" and "po_listener p = Some (ls_id l)"
  shows "po_environment p = ls_environment l"
  using holder [of "t_ports db" "t_listeners db" p l] assms by (simp add: inventory_ok_def on_port_def)

lemma allocate_isolates:
  assumes ok: "ids_ok db" and other: "\<not> in_environment db e x"
  shows "isolates x db (snd (AllocateListener compile parse_media locked c a e i db))"
proof -
  have step: "isolates x db (db1\<lparr>t_ports := update_where (\<lambda>p. po_environment p = eid \<and> po_listen_port p = port)
      (\<lambda>p. p\<lparr>po_status := ''reserved'', po_listener := h, po_updated_at := ce_now c\<rparr>) (t_ports db1)\<rparr>)"
    if "environment_id db e = Some eid" "insert_listener r db = Inr db1" "ls_environment r = eid" for r db1 eid port h
  proof -
    from that(1) other have "eid \<noteq> x" using environment_id_in by blast
    then show ?thesis
      unfolding insert_listener_Inr [OF that(2)]
      by (simp, intro isolates_ports ok)
        (use that(3) in \<open>auto simp: env_ports_def env_all_listeners_def intro!: filter_update_where\<close>)
  qed
  show ?thesis
    unfolding AllocateListener_def Let_def prod.case
    by (intro isolates_intros ok, elim insert_elims, simp only: isolates_audit query_row_Inr translated_Inr,
      rule step, assumption, assumption, simp)
qed

lemma update_listener_isolates:
  assumes ok: "ids_ok db" and other: "\<not> in_environment db e x" and inv: "inventory_ok db"
  shows "isolates x db (snd (UpdateListener c a e rid status v db))"
  unfolding UpdateListener_def Let_def using ok other
  by (intro isolates_intros; auto elim!: isolates_elims; intro isolates_ports;
      auto simp: env_ports_def env_all_listeners_def dest: port_listener_environment [OF inv]
        intro!: filter_update_where)

lemma update_policies_isolates:
  assumes ok: "ids_ok db" and other: "\<not> in_environment db e x"
  shows "isolates x db (snd (UpdateListenerPolicies compile c a e rid p db))"
  unfolding UpdateListenerPolicies_def Let_def using ok other
  by (intro isolates_intros; auto elim!: isolates_elims; intro isolates_listeners; 
      auto simp: env_all_listeners_def intro!: filter_update_where)


lemma set_port_status_isolates:
  assumes ok: "ids_ok db" and other: "\<not> in_environment db e x"
    and set: "set_port_status c a e port status db = Inr (v, db')"
  shows "isolates x db db'"
proof -
  from set_port_status_result [OF set] obtain rows n where
    db': "db' = with_audit rows n (db\<lparr>t_ports := update_where (\<lambda>p. port_at db e port p
          \<and> (status = ''blocked'' \<or> po_status p \<notin> {''reserved'', ''active'', ''draining''}))
        (\<lambda>p. p\<lparr>po_status := status, po_listener := (if status = ''available'' then None else po_listener p),
               po_updated_at := ce_now c\<rparr>) (t_ports db)\<rparr>)" by blast
  have ports: "isolates x db (db\<lparr>t_ports := update_where P f (t_ports db)\<rparr>)"
    if "\<And>p. P p \<Longrightarrow> port_at db e port p" "\<And>p. po_environment (f p) = po_environment p" for P f
    using that other ok unfolding isolates_def
    by (intro conjI tenant_tables) (auto simp: env_ports_def port_at_def intro!: filter_update_where)
  show ?thesis unfolding db' isolates_audit by (rule ports) auto
qed

lemma disable_listener_isolates:
  assumes ok: "ids_ok db" and p: "p \<in> set (t_ports db)" "po_environment p \<noteq> x" "po_listener p = Some rid"
    and inv: "inventory_ok db" and dis: "disable_listener c e a rid db = Inr db'"
  shows "isolates x db db'"
proof -
  from disable_listener_result [OF dis] obtain rows n where db': "db' = with_audit rows n (db\<lparr>t_listeners := update_where
      (\<lambda>l. ls_id l = rid \<and> ls_status l \<noteq> ''disabled'')
      (\<lambda>l. l\<lparr>ls_status := ''disabled'', ls_row_version := ls_row_version l + 1\<rparr>) (t_listeners db)\<rparr>)" by blast
  show ?thesis
    unfolding db' isolates_audit using ok p port_listener_environment [OF inv p(1)]
    by (intro isolates_listeners) (auto simp: env_all_listeners_def intro!: filter_update_where)
qed

lemma release_port_isolates:
  assumes ok: "ids_ok db" and p: "p \<in> set (t_ports db)" "po_environment p \<noteq> x" "po_listener p = Some rid"
    and inv: "inventory_ok db" and other: "\<not> in_environment db e x"
    and rel: "release_port c a e port rid db = Inr (v, db')"
  shows "isolates x db db'"
  using rel ok other unfolding release_port_def
  by (auto elim!: isolates_elims intro!: isolates_ports filter_update_where filter_delete_where
      simp: env_ports_def env_all_listeners_def port_at_def dest!: port_listener_environment [OF inv p(1)] split: if_splits)
    (use p in auto)

lemma update_port_isolates:
  assumes ok: "ids_ok db" and other: "\<not> in_environment db e x" and inv: "inventory_ok db"
  shows "isolates x db (snd (UpdatePortStatus c a e port status db))"
proof -
  have at: "p \<in> set (t_ports db) \<and> po_environment p \<noteq> x" if "find (port_at db e port) (t_ports db) = Some p" for p
    using find_Some_iff_mem [OF that] other by (auto simp: port_at_def)
  have block: "isolates x db db'"
    if find: "find (port_at db e port) (t_ports db) = Some p"
      and dis: "(case po_listener p of None \<Rightarrow> Inr db | Some rid \<Rightarrow> disable_listener c e a rid db) = Inr db1"
      and set: "set_port_status c a e port ''blocked'' db1 = Inr (y, db')" for p db1 y db'
  proof -
    have 1: "isolates x db db1 \<and> t_environments db1 = t_environments db"
    proof (cases "po_listener p")
      case None
      with dis ok show ?thesis by (simp add: isolates_refl)
    next
      case (Some rid)
      with dis have "disable_listener c e a rid db = Inr db1" by simp
      with at [OF find] show ?thesis
        using disable_listener_isolates [OF ok _ _ Some inv] disable_listener_touches
        by (auto simp: touches_def)
    qed
    then have "ids_ok db1" and "in_environment db1 = in_environment db"
      by (auto simp: isolates_def intro: in_environment_tables)
    with other have "isolates x db1 db'" by (intro set_port_status_isolates [OF _ _ set]) simp_all
    with 1 show ?thesis by (blast intro: isolates_trans)
  qed
  have idle: "isolates x db db'" if "set_port_status c a e port st db = Inr (y, db')" for st y db'
    by (rule set_port_status_isolates [OF ok other that])
  have release: "isolates x db db'" if "find (port_at db e port) (t_ports db) = Some p"
      "po_listener p = Some rid" "release_port c a e port rid db = Inr (y, db')" for p rid y db'
    using release_port_isolates [OF ok _ _ that(2) inv other that(3)] at [OF that(1)] by blast
  show ?thesis
    unfolding UpdatePortStatus_def
  proof (intro isolates_intros ok, goal_cases)
    case body: (1 y db')
    consider "status = ''blocked''" | "status = ''available''" | "status \<noteq> ''blocked''" "status \<noteq> ''available''" by blast
    then show ?case
    proof cases
      case 1
      with body show ?thesis by (auto elim!: bind_okE simp: query_row_Inr intro: block)
    next
      case 2
      with body obtain p where find: "find (port_at db e port) (t_ports db) = Some p"
        and run: "(case po_listener p of None \<Rightarrow> set_port_status c a e port status db
          | Some rid \<Rightarrow> (if (case find_listener db rid of None \<Rightarrow> False | Some l \<Rightarrow> ls_status l = ''disabled'')
               then release_port c a e port rid db else Inl ErrConflict)) = Inr (y, db')"
        by (auto elim!: bind_okE simp: query_row_Inr)
      show ?thesis
      proof (cases "po_listener p")
        case None
        with run show ?thesis by (auto intro: idle)
      next
        case (Some rid)
        with run have "release_port c a e port rid db = Inr (y, db')" by (simp split: if_splits)
        with find Some show ?thesis by (rule release)
      qed
    next
      case 3
      with body show ?thesis by (auto intro: idle)
    qed
  qed
qed


text \<open>Permissions, consumers and their grants.\<close>

lemma isolates_permissions:
  assumes "ids_ok db"
    and "\<And>g. g \<in> set (t_grants db) \<Longrightarrow> map pm_name (filter (\<lambda>p. pm_id p = gr_permission g) ps)
      = map pm_name (filter (\<lambda>p. pm_id p = gr_permission g) (t_permissions db))"
    and "\<And>g. g \<in> set (t_grants db) \<Longrightarrow> gr_permission g \<in> pm_id ` set ps"
  shows "isolates x db (db\<lparr>t_permissions := ps\<rparr>)"
proof -
  have "permissions_of (db\<lparr>t_permissions := ps\<rparr>) c = permissions_of db c" for c
    unfolding permissions_of_def by (rule arg_cong [where f = concat], rule map_cong) (simp_all add: assms(2))
  with assms(1,3) show ?thesis by (auto simp: isolates_def tenant_of_def env_defs ids_ok_def)
qed

lemma isolates_consumers:
  assumes "ids_ok db" and "filter (\<lambda>c. cn_environment c = x) rows = env_consumers db x" and "distinct (map cn_id rows)"
    and "\<And>c. c \<in> cn_id ` set (env_consumers db x) \<Longrightarrow>
      filter (\<lambda>g. gr_consumer g = c) gs = filter (\<lambda>g. gr_consumer g = c) (t_grants db)"
    and "\<And>g. g \<in> set gs \<Longrightarrow> gr_permission g \<in> pm_id ` set (t_permissions db)"
  shows "isolates x db (db\<lparr>t_consumers := rows, t_grants := gs\<rparr>)"
proof -
  let ?db = "db\<lparr>t_consumers := rows, t_grants := gs\<rparr>"
  have c: "env_consumers ?db x = env_consumers db x" by (simp add: env_consumers_def [of ?db] assms(2))
  have "permissions_of ?db (cn_id q) = permissions_of db (cn_id q)" if "q \<in> set (env_consumers db x)" for q
    using assms(4) [of "cn_id q"] that by (simp add: permissions_of_def)
  then have "env_permissions ?db x = env_permissions db x" by (simp add: env_permissions_def c)
  with c have "tenant_of ?db x = tenant_of db x"
    by (simp add: tenant_of_def env_keys_def)
      (simp add: env_services_def env_versions_def env_upstreams_def env_ports_def env_all_listeners_def
        env_configurations_def env_approvals_def)
  with assms(1,3,5) show ?thesis by (simp add: isolates_def ids_ok_def)
qed

lemma env_consumers_grants [simp]: "env_consumers (db\<lparr>t_grants := gs\<rparr>) x = env_consumers db x"
  by (simp add: env_consumers_def)

lemma grant_isolates:
  assumes "ids_ok db" and "gr_consumer g \<notin> cn_id ` set (env_consumers db x)" and "gr_permission g \<in> pm_id ` set (t_permissions db)"
  shows "isolates x db (db\<lparr>t_grants := t_grants db @ [g]\<rparr>)"
proof -
  have "isolates x db (db\<lparr>t_consumers := t_consumers db, t_grants := t_grants db @ [g]\<rparr>)"
    by (rule isolates_consumers) (use assms in \<open>auto simp: env_consumers_def ids_ok_def\<close>)
  then show ?thesis by simp
qed

lemma assign_isolates:
  "assignPermissions consumer names db = Inr db' \<Longrightarrow> ids_ok db \<Longrightarrow>
   consumer \<notin> cn_id ` set (env_consumers db x) \<Longrightarrow> isolates x db db'"
proof (induction consumer names db rule: assignPermissions.induct)
  case (1 consumer db)
  then show ?case by (simp add: isolates_refl)
next
  case (2 consumer name names db)
  then obtain p where p: "find (\<lambda>p. pm_name p = name) (t_permissions db) = Some p" and pat: "permissionPattern name"
    by (auto split: if_splits option.splits)
  let ?g = "\<lparr>gr_consumer = consumer, gr_permission = pm_id p\<rparr>"
  show ?case
  proof (cases "exists_where (\<lambda>g. gr_consumer g = consumer \<and> gr_permission g = pm_id p) (t_grants db)")
    case True
    then show ?thesis using 2 p pat by simp
  next
    case False
    with 2(3) p pat have con: "exists_where (\<lambda>k. cn_id k = consumer) (t_consumers db)"
      and rest: "assignPermissions consumer names (db\<lparr>t_grants := t_grants db @ [?g]\<rparr>) = Inr db'"
      by (auto split: if_splits)
    have one: "isolates x db (db\<lparr>t_grants := t_grants db @ [?g]\<rparr>)"
      using 2(4,5) find_Some_iff_mem [OF p] by (intro grant_isolates) auto
    moreover have "isolates x (db\<lparr>t_grants := t_grants db @ [?g]\<rparr>) db'"
      using one 2(5) False pat con by (intro 2(2) [OF _ p _ _ rest]) (simp_all add: isolates_def)
    ultimately show ?thesis by (rule isolates_trans)
  qed
qed

lemma create_permission_isolates:
  assumes ok: "ids_ok db"
  shows "isolates x db (snd (CreatePermission c a e name description db))"
  unfolding CreatePermission_def Let_def using ok
  by (intro isolates_intros; auto elim!: isolates_elims split: if_splits; intro isolates_permissions;
      force simp: ids_ok_def exists_where_iff)

lemma update_permission_isolates:
  assumes ok: "ids_ok db"
  shows "isolates x db (snd (UpdatePermission c a e rid description db))"
  unfolding UpdatePermission_def Let_def
proof (intro isolates_intros ok, goal_cases)
  case (1 y db')
  let ?ps = "update_where (\<lambda>p. pm_id p = rid) (\<lambda>p. p\<lparr>pm_description := trim_space description\<rparr>) (t_permissions db)"
  from 1 obtain rows n where "db' = with_audit rows n (db\<lparr>t_permissions := ?ps\<rparr>)"
    by (auto elim!: isolates_elims)
  moreover have "pm_id ` set ?ps = pm_id ` set (t_permissions db)"
    by (simp add: map_update_where_same flip: set_map)
  then have "isolates x db (db\<lparr>t_permissions := ?ps\<rparr>)"
    using ok by (intro isolates_permissions) (simp_all add: map_filter_update_where ids_ok_def)
  ultimately show ?case by simp
qed

lemma delete_permission_isolates:
  assumes ok: "ids_ok db"
  shows "isolates x db (snd (DeletePermission c a e rid db))"
  unfolding DeletePermission_def Let_def
proof (intro isolates_intros ok, goal_cases)
  case (1 y db')
  let ?ps = "delete_where (\<lambda>p. pm_id p = rid) (t_permissions db)"
  from 1 obtain rows n where db': "db' = with_audit rows n (db\<lparr>t_permissions := ?ps\<rparr>)"
    and "\<not> exists_where (\<lambda>g. gr_permission g = rid) (t_grants db)"
    by (auto elim!: isolates_elims)
  then have unused: "gr_permission g \<noteq> rid" if "g \<in> set (t_grants db)" for g
    using that by (auto simp: exists_where_iff)
  have "isolates x db (db\<lparr>t_permissions := ?ps\<rparr>)"
  proof (rule isolates_permissions [OF ok])
    fix g assume g: "g \<in> set (t_grants db)"
    show "map pm_name (filter (\<lambda>p. pm_id p = gr_permission g) ?ps)
        = map pm_name (filter (\<lambda>p. pm_id p = gr_permission g) (t_permissions db))"
      using unused [OF g] by (subst filter_delete_where) auto
    show "gr_permission g \<in> pm_id ` set ?ps"
      using unused [OF g] g ok by (auto simp: ids_ok_def set_delete_where)
  qed
  then show ?case by (simp add: db')
qed


lemma create_consumer_isolates:
  assumes ok: "ids_ok db" and other: "\<not> in_environment db e x"
  shows "isolates x db (snd (CreateConsumer c a e name display permissions db))"
  unfolding CreateConsumer_def Let_def
proof (intro isolates_intros ok, elim insert_elims, simp only: isolates_audit query_row_Inr)
  fix eid db1
  let ?rid = "newID ''con'' (ce_id_bytes c)"
  let ?r = "\<lparr>cn_id = ?rid, cn_environment = eid, cn_name = name, cn_display_name = trim_space display,
    cn_enabled = True, cn_row_version = 1, cn_created_at = ce_now c, cn_updated_at = ce_now c\<rparr>"
  assume "environment_id db e = Some eid"
    and fresh: "\<not> exists_where (\<lambda>q. cn_id q = ?rid \<or> cn_environment q = eid \<and> cn_name q = name) (t_consumers db)"
    and assign: "assignPermissions ?rid permissions (db\<lparr>t_consumers := t_consumers db @ [?r]\<rparr>) = Inr db1"
  then have x: "eid \<noteq> x" and new: "\<And>q. q \<in> set (t_consumers db) \<Longrightarrow> cn_id q \<noteq> ?rid"
    using environment_id_in other by (auto simp: exists_where_iff)
  let ?db = "db\<lparr>t_consumers := t_consumers db @ [?r]\<rparr>"
  have "isolates x db (db\<lparr>t_consumers := t_consumers db @ [?r], t_grants := t_grants db\<rparr>)"
    by (rule isolates_consumers [OF ok]) (use ok x new in \<open>force simp: env_consumers_def ids_ok_def\<close>)+
  then have one: "isolates x db ?db" by simp
  have "?rid \<notin> cn_id ` set (env_consumers ?db x)" using x new by (force simp: env_consumers_def)
  with assign have "isolates x ?db db1" using one by (intro assign_isolates) (simp_all add: isolates_def)
  with one show "isolates x db db1" by (rule isolates_trans)
qed

lemma consumer_isolates:
  assumes ok: "ids_ok db" and other: "\<not> in_environment db e x"
    and r: "r \<in> set (t_consumers db)" "cn_id r = rid" "in_environment db e (cn_environment r)"
    and rows: "filter (\<lambda>c. cn_environment c = x) rows = env_consumers db x" "distinct (map cn_id rows)"
  shows "isolates x db (db\<lparr>t_consumers := rows, t_grants := delete_where (\<lambda>g. gr_consumer g = rid) (t_grants db)\<rparr>)"
proof (rule isolates_consumers [OF ok rows])
  have "rid \<notin> cn_id ` set (env_consumers db x)"
    using r by (intro consumer_owner [OF ok _ other]) (auto simp: consumer_in_def)
  then show "filter (\<lambda>g. gr_consumer g = k) (delete_where (\<lambda>g. gr_consumer g = rid) (t_grants db))
      = filter (\<lambda>g. gr_consumer g = k) (t_grants db)" if "k \<in> cn_id ` set (env_consumers db x)" for k
    using that by (intro filter_delete_where) auto
qed (use ok in \<open>auto simp: ids_ok_def set_delete_where\<close>)

lemma update_consumer_isolates:
  assumes ok: "ids_ok db" and other: "\<not> in_environment db e x"
  shows "isolates x db (snd (fst (UpdateConsumer s c a e rid display enabled permissions v db)))"
  unfolding UpdateConsumer_def Let_def
proof (intro isolates_intros ok, goal_cases)
  case (1 y db')
  let ?P = "\<lambda>k. in_environment db e (cn_environment k) \<and> cn_id k = rid \<and> cn_row_version k = v"
  let ?f = "\<lambda>k. k\<lparr>cn_display_name := trim_space display, cn_enabled := enabled,
    cn_row_version := cn_row_version k + 1, cn_updated_at := ce_now c\<rparr>"
  let ?rows = "update_where ?P ?f (t_consumers db)"
  let ?db = "db\<lparr>t_consumers := ?rows, t_grants := delete_where (\<lambda>g. gr_consumer g = rid) (t_grants db)\<rparr>"
  from 1 obtain r db1 n rows where r: "r \<in> set (t_consumers db)" "?P r"
    and assign: "assignPermissions rid permissions ?db = Inr db1" and db': "db' = with_audit rows n db1"
    by (auto elim!: isolates_elims)
  have ids: "map cn_id ?rows = map cn_id (t_consumers db)" by (rule map_update_where_same) simp
  have same: "filter (\<lambda>c. cn_environment c = x) ?rows = env_consumers db x"
    unfolding env_consumers_def using other by (intro filter_update_where) auto
  from r ok ids have one: "isolates x db ?db"
    by (intro consumer_isolates [OF ok other r(1) _ _ same]) (simp_all add: ids_ok_def)
  have "rid \<notin> cn_id ` set (env_consumers db x)"
    using r by (intro consumer_owner [OF ok _ other]) (auto simp: consumer_in_def)
  moreover have "env_consumers ?db x = env_consumers db x" using same by (simp add: env_consumers_def)
  ultimately have "rid \<notin> cn_id ` set (env_consumers ?db x)" by simp
  with assign have "isolates x ?db db1" using one by (intro assign_isolates) (simp_all add: isolates_def)
  with one have "isolates x db db1" by (rule isolates_trans)
  then show ?case by (simp add: db')
qed

lemma delete_consumer_isolates:
  assumes ok: "ids_ok db" and other: "\<not> in_environment db e x"
  shows "isolates x db (snd (fst (DeleteConsumer s c a e rid db)))"
  unfolding DeleteConsumer_def Let_def
proof (intro isolates_intros ok, goal_cases)
  case (1 y db')
  let ?rows = "delete_where (\<lambda>k. cn_id k = rid) (t_consumers db)"
  from 1 obtain r n rows where r: "r \<in> set (t_consumers db)" "cn_id r = rid" "in_environment db e (cn_environment r)"
    and db': "db' = with_audit rows n (db\<lparr>t_consumers := ?rows, t_grants := delete_where (\<lambda>g. gr_consumer g = rid) (t_grants db)\<rparr>)"
    by (auto elim!: isolates_elims)
  have "rid \<notin> cn_id ` set (env_consumers db x)"
    using r by (intro consumer_owner [OF ok _ other]) (auto simp: consumer_in_def)
  then have "filter (\<lambda>c. cn_environment c = x) ?rows = env_consumers db x"
    unfolding env_consumers_def by (intro filter_delete_where) auto
  moreover have "distinct (map cn_id ?rows)"
    using ok by (auto simp: ids_ok_def delete_where_def intro: distinct_map_filter_keys)
  ultimately show ?case unfolding db' isolates_audit by (rule consumer_isolates [OF ok other r])
qed

text \<open>Keys.\<close>

lemma isolates_keys:
  "ids_ok db \<Longrightarrow> filter (\<lambda>k. ky_consumer k \<in> cn_id ` set (env_consumers db x)) ks = env_keys db x \<Longrightarrow>
   isolates x db (db\<lparr>t_keys := ks\<rparr>)"
  by (simp add: isolates_def tenant_tables)

lemma issue_isolates:
  assumes ok: "ids_ok db" and other: "\<not> in_environment db e x"
  shows "isolates x db (snd (IssueKey hmac s c a e consumer name permissions expires rotated db))"
  unfolding IssueKey_def Let_def split_def
proof (intro isolates_intros ok, elim insert_elims, simp only: isolates_audit translated_Inr)
  fix q db1 db2 and r :: key_row
  assume assign: "assignPermissions consumer permissions db = Inr db1"
    and q: "query_row (find (\<lambda>k. cn_id k = consumer \<and> cn_enabled k
      \<and> in_environment db1 e (cn_environment k)) (t_consumers db1)) = Inr q"
    and ins: "insert_key \<lparr>ky_id = newID ''key'' (ce_id_bytes c), ky_consumer = consumer,
      ky_name = trim_space name, ky_prefix = fst (snd (generateKey hmac (st_pepper s) (ce_key_bytes c))),
      ky_verifier = snd (snd (generateKey hmac (st_pepper s) (ce_key_bytes c))), ky_expires_at = expires,
      ky_revoked_at = None, ky_rotated_from = rotated, ky_created_at = ce_now c\<rparr> db1 = Inr db2"
  from assign_keeps [OF assign] have same: "t_consumers db1 = t_consumers db" "in_environment db1 = in_environment db"
    by (blast intro: in_environment_tables)+
  from q have "consumer_in db e consumer" by (auto elim!: findE simp: consumer_in_def same)
  then have foreign: "consumer \<notin> cn_id ` set (env_consumers db x)" by (rule consumer_owner [OF ok _ other])
  with assign ok have one: "isolates x db db1" by (rule assign_isolates)
  have "env_consumers db1 x = env_consumers db x" by (simp add: env_consumers_def same)
  with foreign one have "isolates x db1 db2"
    unfolding insert_key_Inr [OF ins] by (intro isolates_keys) (auto simp: isolates_def env_keys_def)
  with one show "isolates x db db2" by (rule isolates_trans)
qed

lemma rotate_isolates:
  assumes ok: "ids_ok db" and other: "\<not> in_environment db e x" and keys: "keys_ok db"
  shows "isolates x db (snd (fst (RotateKey hmac s c a e key db)))"
  unfolding RotateKey_def Let_def split_def
proof (intro isolates_intros ok, elim insert_elims, simp only: isolates_audit translated_Inr)
  fix k :: key_row and db1
  assume k: "query_row (find (\<lambda>k. ky_id k = key \<and> consumer_in db e (ky_consumer k)) (t_keys db)) = Inr k"
    and ins: "insert_key \<lparr>ky_id = newID ''key'' (ce_id_bytes c), ky_consumer = ky_consumer k,
      ky_name = ky_name k @ '' rotation'', ky_prefix = fst (snd (generateKey hmac (st_pepper s) (ce_key_bytes c))),
      ky_verifier = snd (snd (generateKey hmac (st_pepper s) (ce_key_bytes c))), ky_expires_at = ky_expires_at k,
      ky_revoked_at = None, ky_rotated_from = Some key, ky_created_at = ce_now c\<rparr> db = Inr db1"
  from k have k: "k \<in> set (t_keys db)" "ky_id k = key" "consumer_in db e (ky_consumer k)" by (auto elim!: findE)
  from k(3) have foreign: "ky_consumer k \<notin> cn_id ` set (env_consumers db x)" by (rule consumer_owner [OF ok _ other])
  have only: "q = k" if "q \<in> set (t_keys db)" "ky_id q = key" for q
    using keys that k by (auto simp: keys_ok_def intro: distinct_key_unique)
  have old: "filter (\<lambda>q. ky_consumer q \<in> cn_id ` set (env_consumers db x)) (update_where
      (\<lambda>q. ky_id q = key \<and> ky_revoked_at q = None) (\<lambda>q. q\<lparr>ky_revoked_at := Some (ce_now c)\<rparr>) (t_keys db)) = env_keys db x"
    unfolding env_keys_def by (rule filter_update_where) (use foreign only in auto)
  show "isolates x db (db1\<lparr>t_keys := update_where (\<lambda>q. ky_id q = key \<and> ky_revoked_at q = None)
      (\<lambda>q. q\<lparr>ky_revoked_at := Some (ce_now c)\<rparr>) (t_keys db1)\<rparr>)"
    unfolding insert_key_Inr [OF ins] using ok foreign old by (auto intro!: isolates_keys)
qed

lemma revoke_isolates:
  assumes ok: "ids_ok db" and other: "\<not> in_environment db e x"
  shows "isolates x db (snd (fst (RevokeKey s c a e key db)))"
  unfolding RevokeKey_def Let_def
  by (intro isolates_intros ok, elim insert_elims, simp only: isolates_audit, intro isolates_keys ok)
    (unfold env_keys_def, rule filter_update_where, use consumer_owner [OF ok _ other] in auto)


text \<open>Configurations.\<close>

lemma isolates_configurations:
  "ids_ok db \<Longrightarrow> filter (\<lambda>r. cf_environment r = x) rows = env_configurations db x \<Longrightarrow>
   isolates x db (db\<lparr>t_configurations := rows\<rparr>)"
  "ids_ok db \<Longrightarrow> filter (\<lambda>r. cf_environment r = x) rows = env_configurations db x \<Longrightarrow>
   isolates x db (db\<lparr>t_configurations := rows, t_next_configuration := n\<rparr>)"
  by (simp_all add: isolates_def tenant_tables)

lemma isolates_activation:
  assumes "ids_ok db" and "filter (\<lambda>r. cf_environment r = x) rows = env_configurations db x"
    and "filter (\<lambda>l. ls_environment l = x) ls = env_all_listeners db x"
    and "filter (\<lambda>p. po_environment p = x) ps = env_ports db x"
  shows "isolates x db (db\<lparr>t_configurations := rows, t_listeners := ls, t_ports := ps\<rparr>)"
  using assms by (simp add: isolates_def ids_ok_def tenant_of_def env_defs permissions_of_def)

lemma superseded_foreign:
  "eid \<noteq> x \<Longrightarrow> filter (\<lambda>r. cf_environment r = x) (supersede eid rows) = filter (\<lambda>r. cf_environment r = x) rows"
  unfolding supersede_def by (rule filter_update_where) auto

lemma create_configuration_isolates:
  assumes ok: "ids_ok db" and other: "\<not> in_environment db e x"
  shows "isolates x db (snd (CreateConfiguration host c a e db))"
  unfolding CreateConfiguration_def Let_def
  by (intro isolates_intros ok, elim insert_elims, simp only: isolates_audit query_row_Inr, intro isolates_configurations ok)
    (use other in \<open>auto simp: env_configurations_def dest: environment_id_in\<close>)

lemma validate_isolates:
  assumes ok: "ids_ok db" and other: "\<not> in_environment db e x"
  shows "isolates x db (snd (ValidateConfiguration c a e rid db))"
  unfolding ValidateConfiguration_def Let_def using ok other
  by (intro isolates_intros; auto elim!: isolates_elims; intro isolates_configurations;
      auto simp: env_configurations_def intro!: filter_update_where)

lemma approve_isolates:
  assumes ok: "ids_ok db" and other: "\<not> in_environment db e x" and conf: "configurations_ok db"
  shows "isolates x db (snd (ApproveConfiguration c a e rid db))"
  unfolding ApproveConfiguration_def Let_def
proof (intro isolates_intros ok, elim insert_elims, simp only: isolates_audit)
  fix r assume "query_row (find (\<lambda>r. cf_id r = rid \<and> in_environment db e (cf_environment r)
      \<and> cf_status r = ''validated'' \<and> cf_created_by r \<noteq> trim_space a) (t_configurations db)) = Inr r"
  then have r: "r \<in> set (t_configurations db)" "cf_id r = rid" "in_environment db e (cf_environment r)"
    by (auto elim!: findE)
  have "rid \<notin> cf_id ` set (env_configurations db x)"
  proof
    assume "rid \<in> cf_id ` set (env_configurations db x)"
    then obtain q where q: "q \<in> set (t_configurations db)" "cf_id q = rid" "cf_environment q = x"
      by (auto simp: env_configurations_def)
    then have "q = r" using conf r by (auto simp: configurations_ok_def intro: distinct_key_unique)
    with q(3) r(3) other show False by simp
  qed
  with ok show "isolates x db (db\<lparr>t_approvals := t_approvals db @ [\<lparr>ap_configuration = rid, ap_actor = trim_space a,
      ap_created_at = ce_now c\<rparr>]\<rparr>)"
    unfolding isolates_def by (intro conjI tenant_tables) (simp_all add: env_approvals_def)
qed

lemma activate_isolates:
  assumes ok: "ids_ok db" and other: "\<not> in_environment db e x"
  shows "isolates x db (snd (fst (ActivateConfiguration s c a e rid expected db)))"
  unfolding ActivateConfiguration_def Let_def
proof (intro isolates_intros ok, elim bind_pairE insert_elims updateE, simp only: isolates_audit query_row_Inr)
  fix eid
  assume "environment_id db e = Some eid"
  with other have x: "eid \<noteq> x" using environment_id_in by blast
  let ?rows = "update_where (\<lambda>r. cf_id r = rid \<and> cf_environment r = eid \<and> cf_status r = ''validated'')
    (\<lambda>r. r\<lparr>cf_status := ''active'', cf_activated_at := Some (ce_now c)\<rparr>) (supersede eid (t_configurations db))"
  have "filter (\<lambda>r. cf_environment r = x) ?rows = filter (\<lambda>r. cf_environment r = x) (supersede eid (t_configurations db))"
    using x by (intro filter_update_where) auto
  then show "isolates x db (db\<lparr>t_configurations := ?rows,
      t_listeners := update_where (\<lambda>l. ls_environment l = eid) (\<lambda>l. l\<lparr>ls_configuration_version := Some rid,
        ls_status := (if ls_status l = ''reserved'' then ''active'' else ls_status l)\<rparr>) (t_listeners db),
      t_ports := update_where (\<lambda>p. po_environment p = eid \<and> po_status p = ''reserved'')
        (\<lambda>p. p\<lparr>po_status := ''active'', po_updated_at := ce_now c\<rparr>) (t_ports db)\<rparr>)"
    using x by (intro isolates_activation ok)
      (simp_all add: superseded_foreign env_configurations_def env_all_listeners_def env_ports_def,
        auto intro!: filter_update_where)
qed

lemma rollback_isolates:
  assumes ok: "ids_ok db" and other: "\<not> in_environment db e x"
  shows "isolates x db (snd (fst (RollbackConfiguration s c a e rid db)))"
  unfolding RollbackConfiguration_def Let_def
  by (intro isolates_intros ok, elim insert_elims, simp only: isolates_audit query_row_Inr, intro isolates_configurations ok)
    (use other in \<open>auto simp: env_configurations_def superseded_foreign dest: environment_id_in\<close>)

end
