(* ===== verification/Isolation.thy ===== *)
theory Isolation
  imports Tenants Http_Api
begin

text \<open>
  The isolation of environments: what the identifiers of the tables say is kept by every call, so a
  call, and a request to the admin process, of one environment respects the views of all others;
  and what a gateway loads depends on the view of its own environment alone.
\<close>

section \<open>Runs\<close>

lemma call_isolates:
  assumes "store_call s lib e db db'" and "shared_ok db" and other: "\<not> in_environment db e x"
  shows "isolates x db db'"
proof -
  from assms(2) have ok: "ids_ok db" and inv: "inventory_ok db" and conf: "configurations_ok db" and keys: "keys_ok db"
    by (simp_all add: shared_ok_def)
  show ?thesis
    using assms(1)
    by (cases rule: store_call.cases)
      (simp_all add: create_service_isolates [OF ok other] update_service_isolates [OF ok other]
        create_version_isolates [OF ok other] update_version_isolates [OF ok other]
        create_upstream_isolates [OF ok other] update_upstream_isolates [OF ok other]
        update_port_isolates [OF ok other inv] allocate_isolates [OF ok other]
        update_listener_isolates [OF ok other inv] update_policies_isolates [OF ok other]
        create_permission_isolates [OF ok] update_permission_isolates [OF ok] delete_permission_isolates [OF ok]
        create_consumer_isolates [OF ok other] update_consumer_isolates [OF ok other]
        delete_consumer_isolates [OF ok other] issue_isolates [OF ok other] rotate_isolates [OF ok other keys]
        revoke_isolates [OF ok other] create_configuration_isolates [OF ok other] validate_isolates [OF ok other]
        activate_isolates [OF ok other] approve_isolates [OF ok other conf] rollback_isolates [OF ok other])
qed

text \<open>A call keeps the identifiers, whichever environment it is for: some number is not its environment's.\<close>

lemma step_environments: "store_step s lib db db' \<Longrightarrow> t_environments db' = t_environments db"
  using run_environments [OF store_machine.run_one] .

lemma foreign_number: "\<exists>x. \<not> in_environment db e x"
proof -
  have "finite (en_id ` set (t_environments db))" by simp
  then obtain x :: int where "x \<notin> en_id ` set (t_environments db)"
    using ex_new_if_finite infinite_UNIV_int by blast
  then show ?thesis by (intro exI [of _ x]) (auto simp: in_environment_def)
qed

lemma step_shared: "store_step s lib db db' \<Longrightarrow> shared_ok db \<Longrightarrow> shared_ok db'"
proof -
  assume step: "store_step s lib db db'" and ok: "shared_ok db"
  from step obtain e where call: "store_call s lib e db db'" by (auto elim: store_step.cases)
  obtain x where "\<not> in_environment db e x" using foreign_number by blast
  with call ok have "ids_ok db'" using call_isolates by (auto simp: isolates_def)
  moreover have "inventory_ok db'" using step ok by (auto simp: shared_ok_def intro: step_inventory)
  moreover have "configurations_ok db'" using step_refines [OF step] ok by (auto simp: shared_ok_def refines_def)
  moreover have "keys_ok db'"
    using follow_distinct [OF step_follows [OF step]] ok by (simp add: shared_ok_def keys_ok_def)
  ultimately show ?thesis by (simp add: shared_ok_def)
qed

lemma initial_shared: "shared_ok (initial_database now)"
  using initial_inventory initial_ok
  by (simp add: shared_ok_def ids_ok_def keys_ok_def) (simp add: initial_database_def)

lemma run_shared: "store_run s lib (initial_database now) db \<Longrightarrow> shared_ok db"
  by (erule store_machine.run_invariant) (rule initial_shared, rule step_shared)

text \<open>A series of requests to the admin process of one environment.\<close>

lemma request_isolates:
  assumes "shared_ok db" and "\<not> in_environment db (ah_environment h) x"
  shows "tenant_of (admin_serve h lib reqs db) x = tenant_of db x
    \<and> t_environments (admin_serve h lib reqs db) = t_environments db"
  using assms
proof (induction reqs arbitrary: db)
  case (Cons q reqs)
  obtain y r where q: "q = (y, r)" by fastforce
  let ?db = "snd (fst (admin_route h lib y r db))"
  have "shared_ok ?db \<and> tenant_of ?db x = tenant_of db x \<and> t_environments ?db = t_environments db"
    using answered_step [OF route_answered, of h lib y r db]
  proof
    assume call: "store_call (ah_store h) (al_store lib) (ah_environment h) db ?db"
    then have "store_step (ah_store h) (al_store lib) db ?db" by (rule store_step.call)
    with call_isolates [OF call Cons.prems] Cons.prems(1) show ?thesis
      by (auto simp: isolates_def intro: step_shared step_environments)
  qed (simp add: Cons.prems)
  moreover from this have "\<not> in_environment ?db (ah_environment h) x"
    using Cons.prems(2) by (simp add: in_environment_def)
  ultimately show ?case using Cons.IH [of ?db] by (simp add: q admin_ServeHTTP_def Let_def)
qed simp

section \<open>What a gateway loads\<close>

lemma find_filter: "find P (filter Q xs) = find (\<lambda>x. Q x \<and> P x) xs"
  by (induction xs) auto

lemma in_environment_iff: "environments_ok db \<Longrightarrow> in_environment db e x \<Longrightarrow> in_environment db e y \<longleftrightarrow> y = x"
  using in_environment_unique by blast

lemma environment_name_unique:
  assumes "environments_ok db" and "in_environment db e x" and "in_environment db e' x"
  shows "e = e'"
proof -
  from assms(2,3) obtain q q' where q: "q \<in> set (t_environments db)" "en_id q = x" "en_name q = e"
    and q': "q' \<in> set (t_environments db)" "en_id q' = x" "en_name q' = e'"
    unfolding in_environment_def by blast
  have "q = q'" by (rule distinct_key_unique [of en_id "t_environments db"])
      (use assms(1) q q' in \<open>simp_all add: environments_ok_def\<close>)
  with q q' show ?thesis by simp
qed

lemma in_env_consumers: "q \<in> set (env_consumers db x) \<longleftrightarrow> q \<in> set (t_consumers db) \<and> cn_environment q = x"
  by (auto simp: env_consumers_def)

lemma consumer_ids:
  "c \<in> cn_id ` set (env_consumers db x) \<longleftrightarrow> (\<exists>q \<in> set (t_consumers db). cn_id q = c \<and> cn_environment q = x)"
  by (auto simp: env_consumers_def)

text \<open>The queries of a gateway see the view of its environment.\<close>

lemma active_row_view:
  assumes "environments_ok db" and "in_environment db e x"
  shows "active_row db e = find (\<lambda>r. cf_status r = ''active'') (env_configurations db x)"
  using in_environment_iff [OF assms] by (simp add: active_row_def env_configurations_def find_filter)

lemma consumers_view:
  assumes "environments_ok db" and "in_environment db e x"
  shows "filter (\<lambda>c. in_environment db e (cn_environment c)) (t_consumers db) = env_consumers db x"
  using in_environment_iff [OF assms] by (simp add: env_consumers_def)

lemma keys_view:
  assumes "environments_ok db" and "in_environment db e x"
  shows "filter (key_in db e) (t_keys db) = env_keys db x"
  unfolding env_keys_def using in_environment_iff [OF assms]
  by (intro filter_cong) (auto simp: key_in_def exists_where_iff consumer_ids)

lemma generation_view:
  assumes "environments_ok db" and "in_environment db e x"
  shows "credentialGenerationQuery db e = max (max
      (coalesce_max (map (\<lambda>c. microseconds (cn_updated_at c)) (env_consumers db x)))
      (coalesce_max (map (\<lambda>k. microseconds (ky_created_at k)) (env_keys db x))))
      (coalesce_max (map microseconds (List.map_filter ky_revoked_at (env_keys db x))))"
  unfolding credentialGenerationQuery_def Let_def keys_view [OF assms] consumers_view [OF assms] ..

definition live_in :: "consumer_row list \<Rightarrow> int \<Rightarrow> key_row \<Rightarrow> bool" where
  "live_in consumers now k \<longleftrightarrow> (\<exists>c \<in> set consumers. cn_id c = ky_consumer k \<and> cn_enabled c)
     \<and> ky_revoked_at k = None \<and> (case ky_expires_at k of None \<Rightarrow> True | Some t \<Rightarrow> now < t)"

lemma credentials_view:
  assumes "environments_ok db" and "in_environment db e x"
  shows "live_credentials db e now = map (credential_record_of db) (filter (live_in (env_consumers db x) now) (env_keys db x))"
proof -
  have "filter (live_key db e now) (t_keys db) = filter (live_in (env_consumers db x) now) (env_keys db x)"
    unfolding env_keys_def filter_filter using in_environment_iff [OF assms]
    by (intro filter_cong) (auto simp: live_key_def live_in_def exists_where_iff consumer_ids in_env_consumers)
  then show ?thesis by (simp add: live_credentials_def)
qed

lemma tenant_parts:
  assumes "tenant_of db' x = tenant_of db x"
  shows "env_consumers db' x = env_consumers db x" and "env_keys db' x = env_keys db x"
    and "env_configurations db' x = env_configurations db x"
    and "k \<in> set (env_keys db x) \<Longrightarrow> credential_record_of db' k = credential_record_of db k"
proof -
  show c: "env_consumers db' x = env_consumers db x" and "env_keys db' x = env_keys db x"
    and "env_configurations db' x = env_configurations db x" using assms by (simp_all add: tenant_of_def)
  assume "k \<in> set (env_keys db x)"
  then obtain q where q: "q \<in> set (env_consumers db x)" "ky_consumer k = cn_id q" by (auto simp: env_keys_def)
  from assms have "env_permissions db' x = env_permissions db x" by (simp add: tenant_of_def)
  with q(1) have "permissions_of db' (cn_id q) = permissions_of db (cn_id q)"
    by (simp add: env_permissions_def c)
  with q(2) show "credential_record_of db' k = credential_record_of db k" by (simp add: credential_record_of_def)
qed

lemma queries_view:
  assumes same: "t_environments db' = t_environments db" and ok: "environments_ok db"
    and "in_environment db e x" and tenant: "tenant_of db' x = tenant_of db x"
  shows "active_row db' e = active_row db e" and "credentialGenerationQuery db' e = credentialGenerationQuery db e"
    and "live_credentials db' e now = live_credentials db e now"
proof -
  note parts = tenant_parts [OF tenant]
  have ok': "environments_ok db'" and x: "in_environment db e x" "in_environment db' e x"
    using same ok assms(3) by (simp_all add: environments_ok_def in_environment_def)
  show "active_row db' e = active_row db e"
    by (simp add: active_row_view [OF ok x(1)] active_row_view [OF ok' x(2)] parts(3))
  show "credentialGenerationQuery db' e = credentialGenerationQuery db e"
    by (simp add: generation_view [OF ok x(1)] generation_view [OF ok' x(2)] parts(1,2))
  show "live_credentials db' e now = live_credentials db e now"
    unfolding credentials_view [OF ok x(1)] credentials_view [OF ok' x(2)] parts(1,2)
    by (rule map_cong [OF refl]) (simp add: parts(4))
qed

lemma no_active_row: "environment_id db e = None \<Longrightarrow> active_row db e = None"
  by (auto simp: active_row_def environment_id_def in_environment_def find_None_iff_mem split: option.splits)

lemma Load_view:
  assumes same: "t_environments db' = t_environments db" and ok: "environments_ok db"
    and tenant: "\<And>x. in_environment db (rt_environment r) x \<Longrightarrow> tenant_of db' x = tenant_of db x"
  shows "Load le db' r = Load le db r \<and> refreshIfChanged le db' db' db' r = refreshIfChanged le db db db r"
proof (cases "environment_id db (rt_environment r)")
  case None
  moreover from this same have "environment_id db' (rt_environment r) = None" by (simp add: environment_id_def)
  ultimately show ?thesis by (simp add: Load_def read_snapshot_def refreshIfChanged_def no_active_row)
next
  case (Some x)
  then have "in_environment db (rt_environment r) x" by (rule environment_id_in)
  note views = queries_view [OF same ok this tenant [OF this]]
  have "read_snapshot le db' r = read_snapshot le db r"
    unfolding read_snapshot_def views ..
  then have load: "Load le db' r = Load le db r" unfolding Load_def by simp
  then show ?thesis unfolding refreshIfChanged_def views load by blast
qed

section \<open>Properties\<close>

text \<open>
  Claim C7: environments are isolated. Whatever requests the admin process of one environment
  serves, with any actors and failures, everything that belongs to any other environment stays as
  it was, and a gateway of another environment loads the same snapshot or fails with the same
  error, and its polling sees the same generations, from any database the store can reach.
\<close>

theorem environments_isolated:
  assumes "store_run s lib0 (initial_database now) db" and "rt_environment r \<noteq> ah_environment h"
  shows "(\<forall>x. \<not> in_environment db (ah_environment h) x \<longrightarrow>
      tenant_of (admin_serve h lib reqs db) x = tenant_of db x)
    \<and> Load le (admin_serve h lib reqs db) r = Load le db r
    \<and> refreshIfChanged le (admin_serve h lib reqs db) (admin_serve h lib reqs db) (admin_serve h lib reqs db) r
      = refreshIfChanged le db db db r"
proof -
  from run_shared [OF assms(1)] have ok: "shared_ok db" "environments_ok db"
    by (simp_all add: shared_ok_def inventory_ok_def)
  have same: "t_environments (admin_serve h lib reqs db) = t_environments db"
    using request_isolates [OF ok(1)] foreign_number by blast
  have tenant: "tenant_of (admin_serve h lib reqs db) x = tenant_of db x" if "\<not> in_environment db (ah_environment h) x" for x
    using request_isolates [OF ok(1) that] ..
  have "\<not> in_environment db (ah_environment h) x" if "in_environment db (rt_environment r) x" for x
    using environment_name_unique [OF ok(2) that] assms(2) by blast
  with tenant Load_view [OF same ok(2)] show ?thesis by blast
qed


section \<open>Example\<close>

definition example_other_runtime :: runtime where
  "example_other_runtime = NewRuntime (example_options\<lparr>ro_Environment := ''staging''\<rparr>)"

theorem environments_isolated_witness:
  "\<exists>db'. db' = admin_serve (NewHandler example_store ''development'')
       \<lparr>al_store = example_libraries, al_json = (\<lambda>_. None), al_time = (\<lambda>_. None)\<rparr>
       [(\<lparr>ac_call = example_context, ac_locked = {}\<rparr>, example_admin_request)] (initial_database 0)
     \<and> db' \<noteq> initial_database 0 \<and> tenant_of db' 2 = tenant_of (initial_database 0) 2
     \<and> Load example_load_env db' example_other_runtime = Load example_load_env (initial_database 0) example_other_runtime"
proof (intro exI conjI, rule refl)
  let ?h = "NewHandler example_store ''development''"
  let ?lib = "\<lparr>al_store = example_libraries, al_json = (\<lambda>_. None), al_time = (\<lambda>_. None)\<rparr>"
  let ?reqs = "[(\<lparr>ac_call = example_context, ac_locked = {}\<rparr>, example_admin_request)]"
  have env: "ah_environment ?h = ''development''" "rt_environment example_other_runtime = ''staging''"
    by (simp_all add: NewHandler_def example_other_runtime_def NewRuntime_def)
  show "admin_serve ?h ?lib ?reqs (initial_database 0) \<noteq> initial_database 0"
    using example_created
    by (simp add: admin_ServeHTTP_def admin_route_def admin_configurations_def Let_def example_admin_request_def
        example_segments NewHandler_def outcome_simps)
  have "rt_environment example_other_runtime \<noteq> ah_environment ?h" by (simp add: env)
  from environments_isolated [OF store_run.start this, where now = 0 and lib = ?lib and reqs = ?reqs
      and le = example_load_env]
  have all: "\<forall>x. \<not> in_environment (initial_database 0) ''development'' x \<longrightarrow>
      tenant_of (admin_serve ?h ?lib ?reqs (initial_database 0)) x = tenant_of (initial_database 0) x"
    and load: "Load example_load_env (admin_serve ?h ?lib ?reqs (initial_database 0)) example_other_runtime
      = Load example_load_env (initial_database 0) example_other_runtime" unfolding env by blast+
  show "tenant_of (admin_serve ?h ?lib ?reqs (initial_database 0)) 2 = tenant_of (initial_database 0) 2"
    by (rule all [rule_format]) (simp add: in_environment_def initial_database_def)
  show "Load example_load_env (admin_serve ?h ?lib ?reqs (initial_database 0)) example_other_runtime
      = Load example_load_env (initial_database 0) example_other_runtime" by (rule load)
qed

end
