(* ===== verification/Publication.thy ===== *)
theory Publication
  imports Config_Properties Key_Properties Event_Bus
begin

text \<open>
  Publication, from the tables to the gateways: what \<open>CreateConfiguration\<close> found in the tables is what
  the gateways of the environment serve once the configuration has been activated.
\<close>

section \<open>Activation\<close>

lemma bind_splitE:
  assumes "bind_ok m (\<lambda>(y, z). g y z) = Inr v"
  obtains y z where "m = Inr (y, z)" and "g y z = Inr v"
  using assms by (auto simp: bind_ok_eq_Inr)

lemma activate_Inr:
  assumes "ActivateConfiguration s c a e rid expected db = ((Inr cfg, db'), ev)"
  obtains eid where "environment_id db e = Some eid" and "t_environments db' = t_environments db"
    and "t_configurations db' = update_where
        (\<lambda>r. cf_id r = rid \<and> cf_environment r = eid \<and> cf_status r = ''validated'')
        (\<lambda>r. r\<lparr>cf_status := ''active'', cf_activated_at := Some (ce_now c)\<rparr>) (supersede eid (t_configurations db))"
  using assms unfolding ActivateConfiguration_def Let_def prod.inject
  by (elim conjE withTxE bind_splitE bind_okE if_InlE audited_Inr)
    (simp only: query_row_Inr update_returning_Some, elim exE conjE, rule that, assumption, simp_all)

lemma activate_events:
  "ActivateConfiguration s c a e rid expected db = (out, ev) \<Longrightarrow> ev = notify s e ''configuration'' (fst out)"
  by (auto simp: ActivateConfiguration_def Let_def)

lemma activated_row:
  assumes act: "ActivateConfiguration s c a e rid expected db = ((Inr cfg, db'), ev)" and ok: "environments_ok db"
    and q: "active_row db' e = Some q"
  shows "cf_id q = rid \<and> (\<exists>q0 \<in> set (t_configurations db). cf_id q0 = rid \<and> cf_snapshot q0 = cf_snapshot q)"
proof -
  from act obtain eid where eid: "environment_id db e = Some eid" and same: "t_environments db' = t_environments db"
    and rows: "t_configurations db' = update_where
        (\<lambda>r. cf_id r = rid \<and> cf_environment r = eid \<and> cf_status r = ''validated'')
        (\<lambda>r. r\<lparr>cf_status := ''active'', cf_activated_at := Some (ce_now c)\<rparr>) (supersede eid (t_configurations db))"
    by (rule activate_Inr)
  from q have mem: "q \<in> set (t_configurations db')" and "in_environment db' e (cf_environment q)" and act: "cf_status q = ''active''"
    by (auto simp: active_row_def dest!: find_Some_iff_mem)
  then have "in_environment db e (cf_environment q)" by (simp add: in_environment_def same)
  with eid ok have env: "cf_environment q = eid" by (simp flip: environment_id_iff)
  from mem obtain p where p: "p \<in> set (supersede eid (t_configurations db))"
    "q = (if cf_id p = rid \<and> cf_environment p = eid \<and> cf_status p = ''validated''
       then p\<lparr>cf_status := ''active'', cf_activated_at := Some (ce_now c)\<rparr> else p)"
    by (auto simp: rows set_update_where)
  from p(1) obtain q0 where q0: "q0 \<in> set (t_configurations db)"
    "p = (if cf_environment q0 = eid \<and> cf_status q0 = ''active'' then q0\<lparr>cf_status := ''superseded''\<rparr> else q0)"
    by (auto simp: supersede_def set_update_where)
  with p(2) env act show ?thesis by (intro conjI bexI [OF _ q0(1)]) (auto split: if_splits)
qed

section \<open>From a row to a listener\<close>

text \<open>
  The listeners of an environment that take traffic, and what a row of the tables becomes on the
  gateway: the listener with everything its row says, the limits of its version, and for its upstreams
  the usable ones of that version, each once and with everything its own row says. \<open>host\<close> prints the
  address of an upstream, which \<open>parse_addr\<close> reads back.
\<close>

definition traffic_rows :: "database \<Rightarrow> string \<Rightarrow> listener_row set" where
  "traffic_rows db e = {l \<in> set (t_listeners db). in_environment db e (ls_environment l)
     \<and> ls_status l \<noteq> ''disabled'' \<and> ls_status l \<noteq> ''draining''}"

definition usable_rows :: "database \<Rightarrow> string \<Rightarrow> upstream_row multiset" where
  "usable_rows db vid = {#u \<in># mset (t_upstreams db). up_service_version u = vid \<and> up_enabled u
     \<and> 1 \<le> up_port u \<and> up_port u \<le> 65535 \<and> 1 \<le> up_weight u#}"

definition row_fields ::
  "(addr \<Rightarrow> string) \<Rightarrow> string \<Rightarrow> upstream_row \<Rightarrow> string \<times> string \<times> addr option \<times> int \<times> int \<times> string" where
  "row_fields host path u =
     (up_id u, or_default (up_scheme u) ''http'', parse_addr (host (up_address u)), up_port u, up_weight u,
      or_default (up_health_check_path u) path)"

definition serves_version ::
  "(addr \<Rightarrow> string) \<Rightarrow> database \<Rightarrow> listener_row \<Rightarrow> listener \<Rightarrow> version_row \<Rightarrow> bool" where
  "serves_version host db r l v \<longleftrightarrow> vr_id v = ls_service_version r \<and> vr_enabled v
     \<and> (\<exists>s \<in> set (t_services db). sv_id s = vr_service v \<and> sv_enabled s)
     \<and> l_RequestTimeout l = milliseconds (vr_request_timeout_ms v) \<and> l_MaxRequestBytes l = vr_max_request_bytes v
     \<and> image_mset upstream_fields (mset (l_Upstreams l))
       = image_mset (row_fields host (or_default (vr_health_check_path v) ''/health'')) (usable_rows db (vr_id v))"

definition serves :: "regex_compiler \<Rightarrow> (addr \<Rightarrow> string) \<Rightarrow> database \<Rightarrow> listener_row \<Rightarrow> listener \<Rightarrow> bool" where
  "serves compile host db r l \<longleftrightarrow> l_ID l = ls_id r \<and> l_Status l = ''active''
     \<and> l_RequiredPermission l = ls_required_permission r
     \<and> set (l_AllowedMethods l) = to_upper ` set (ls_allowed_methods r)
     \<and> set (l_AllowedContentTypes l) = content_types_of (ls_allowed_content_types r)
     \<and> public_routes compile (ls_unprotected_route_regex r) (l_UnprotectedRouteRegex l)
     \<and> l_RateLimitPerSecond l = ls_rate_limit_per_second r \<and> l_RateLimitBurst l = ls_rate_limit_burst r
     \<and> l_QuotaRequestsPerMinute l = ls_quota_requests_per_minute r
     \<and> l_CircuitFailureThreshold l = ls_circuit_failure_threshold r
     \<and> l_CircuitOpen l = milliseconds (ls_circuit_open_ms r)
     \<and> (\<exists>v \<in> set (t_versions db). serves_version host db r l v)"

lemma snapshot_listeners:
  assumes "environments_ok db" and "environment_id db e = Some eid"
  shows "{item \<in> set (r_Listeners (snapshot_of host db e eid)). serving item} = raw_listener_of ` traffic_rows db e"
proof -
  have "in_environment db e x \<longleftrightarrow> x = eid" for x
    using environment_id_iff [OF assms(1), of e] assms(2) by (metis option.inject)
  then show ?thesis
    by (auto simp: snapshot_of_def traffic_rows_def env_listeners_def serving_def raw_listener_of_def)
qed

lemma raw_fields_row: "raw_fields path (raw_upstream_of host u) = row_fields host path u"
  by (simp add: raw_fields_def row_fields_def raw_upstream_of_def)

lemma usable_upstreams:
  assumes "v \<in> set (env_versions db eid)"
  shows "mset (filter (usable (vr_id v)) (r_Upstreams (snapshot_of host db e eid)))
    = image_mset (raw_upstream_of host) (usable_rows db (vr_id v))"
proof -
  have same: "up_service_version u \<in> vr_id ` set (env_versions db eid) \<and> usable (vr_id v) (raw_upstream_of host u)
      \<longleftrightarrow> up_service_version u = vr_id v \<and> up_enabled u \<and> 1 \<le> up_port u \<and> up_port u \<le> 65535 \<and> 1 \<le> up_weight u" for u
    using assms by (auto simp: usable_def raw_upstream_of_def)
  have "mset (filter (usable (vr_id v)) (r_Upstreams (snapshot_of host db e eid))) = image_mset (raw_upstream_of host)
      (filter_mset (\<lambda>u. usable (vr_id v) (raw_upstream_of host u)) (mset (sort_key up_id (env_upstreams db eid))))"
    by (simp add: snapshot_of_def filter_map o_def)
  also have "filter_mset (\<lambda>u. usable (vr_id v) (raw_upstream_of host u)) (mset (sort_key up_id (env_upstreams db eid)))
      = usable_rows db (vr_id v)"
    unfolding mset_sort env_upstreams_def mset_filter filter_filter_mset same usable_rows_def ..
  finally show ?thesis .
qed

lemma built_serves:
  assumes "listener_built compile (snapshot_of host db e eid) (raw_listener_of r) l"
  shows "serves compile host db r l"
proof -
  let ?raw = "snapshot_of host db e eid"
  from assms obtain w where w: "w \<in> set (r_ServiceVersions ?raw)" "version_built ?raw (raw_listener_of r) l w"
    by (auto simp: listener_built_def)
  from w(1) obtain v where v: "v \<in> set (env_versions db eid)" "w = raw_version_of v"
    by (auto simp: snapshot_of_def)
  have fields: "rv_ID w = vr_id v" "rv_ServiceID w = vr_service v" "rv_Enabled w = vr_enabled v"
    "rv_HealthCheckPath w = vr_health_check_path v" "rv_RequestTimeoutMS w = vr_request_timeout_ms v"
    "rv_MaxRequestBytes w = vr_max_request_bytes v"
    by (simp_all add: v(2) raw_version_of_def)
  have "\<exists>s \<in> set (t_services db). sv_id s = vr_service v \<and> sv_enabled s"
    using w(2) unfolding version_built_def fields by (auto simp: snapshot_of_def env_services_def)
  moreover have "image_mset upstream_fields (mset (l_Upstreams l))
      = image_mset (row_fields host (or_default (vr_health_check_path v) ''/health'')) (usable_rows db (vr_id v))"
    using w(2) unfolding version_built_def fields mset_map usable_upstreams [OF v(1)]
    by (simp add: multiset.map_comp o_def raw_fields_row)
  moreover have "v \<in> set (t_versions db)" using v(1) by (simp add: env_versions_def)
  moreover have "rl_ServiceVersionID (raw_listener_of r) = ls_service_version r" by (simp add: raw_listener_of_def)
  ultimately have "\<exists>v \<in> set (t_versions db). serves_version host db r l v"
    using w(2) unfolding version_built_def fields by (intro bexI [of _ v]) (simp_all add: serves_version_def)
  with assms show ?thesis by (simp add: listener_built_def serves_def raw_listener_of_def)
qed

lemma create_Inr:
  assumes "CreateConfiguration host c a e db = (Inr cfg, db')"
  obtains eid where "environment_id db e = Some eid" and "CF_row cfg \<in> set (t_configurations db')"
    and "cf_snapshot (CF_row cfg) = snapshot_of host db e eid" and "t_environments db' = t_environments db"
  using assms unfolding CreateConfiguration_def Let_def
  by (elim withTxE bind_okE audited_Inr) (rule that, simp_all add: query_row_Inr configuration_of_def)

text \<open>What a gateway loads after an activation is the activated configuration.\<close>

lemma activated_load:
  assumes act: "ActivateConfiguration s c a e rid expected db = ((Inr cfg, db'), ev)" and ok: "configurations_ok db"
    and q1: "q1 \<in> set (t_configurations db)" "cf_id q1 = rid"
    and load: "Load le db' r = (None, r')" and env: "rt_environment r = e"
  obtains sn where "rt_current r' = Some sn" and "sn_Version sn = rid"
    and "dom (sn_Listeners sn) = rl_ListenPort ` {item \<in> set (r_Listeners (cf_snapshot q1)). serving item}"
    and "\<And>item. item \<in> set (r_Listeners (cf_snapshot q1)) \<Longrightarrow> serving item \<Longrightarrow>
      \<exists>l. sn_Listeners sn (rl_ListenPort item) = Some l \<and> listener_built (le_compile le) (cf_snapshot q1) item l"
proof -
  from load obtain sn0 and q :: config_row where q: "active_row db' (rt_environment r) = Some q"
    and built: "buildSnapshot (le_compile le) (le_clock le) (cf_id q) (rt_environment r) (cf_snapshot q)
      (live_credentials db' (rt_environment r) (le_now le)) (rt_allowlist r) = Inr sn0"
    and cur: "rt_current r' = Some (case rt_current r of None \<Rightarrow> sn0 | Some previous \<Rightarrow> copyHealth (le_order le) previous sn0)"
    by (rule Load_success)
  have "environments_ok db" using ok by (simp add: configurations_ok_def)
  from activated_row [OF act this q [unfolded env]] obtain q0 where
    q0: "cf_id q = rid" "q0 \<in> set (t_configurations db)" "cf_id q0 = rid" "cf_snapshot q0 = cf_snapshot q" by blast
  have "q0 = q1" by (rule distinct_key_unique [of cf_id "t_configurations db"])
      (use ok q0 q1 in \<open>simp_all add: configurations_ok_def\<close>)
  with q0(4) have raw: "cf_snapshot q = cf_snapshot q1" by simp
  have version: "sn_Version sn0 = rid" using built q0(1) by (auto elim: buildSnapshot_parts)
  note listeners = built_listeners [OF built, unfolded raw]
  show thesis by (rule that [OF cur]) (use listeners version in \<open>auto split: option.split\<close>)
qed

section \<open>Properties\<close>

text \<open>
  Claim C13: publication delivers. A configuration that was created from the tables and, whatever
  else was done to the store in between, is activated, publishes one event; the event reaches a
  gateway of the environment, and the pass of its loop that receives it leaves, provided that the
  snapshot loads, a snapshot with the configuration's number that serves on exactly the ports that
  had a listener to take traffic when the configuration was created, each with that listener's
  permission, methods, content types, public routes (the matcher that the compiler makes of the row's
  expression), limits and circuit, with the timeout and body limit of its version, and with that
  version's usable upstreams, each once with its identifier, scheme, address, port, weight and health
  path, all as they were then.
\<close>

theorem publication_delivers:
  assumes "CreateConfiguration host c a e db0 = (Inr cfg, db1)" and "configurations_ok db0"
    and "store_run s0 lib db1 db2"
    and "ActivateConfiguration s c' a' e (cf_id (CF_row cfg)) expected db2 = ((Inr cfg', db3), ev)"
    and "st_publisher s" and "rt_environment (lp_runtime lp) = e" and "lp_events lp"
    and "fst (Load le db3 (lp_runtime lp)) = None"
  shows "\<exists>t sn. foldl (\<lambda>q m. Events e m q) [] (map Publish ev) = [t]
    \<and> rt_current (lp_runtime (fst (Run_step le c'' outcome (Notified t) lp db3))) = Some sn
    \<and> sn_Version sn = cf_id (CF_row cfg)
    \<and> dom (sn_Listeners sn) = ls_listen_port ` traffic_rows db0 e
    \<and> (\<forall>r \<in> traffic_rows db0 e. \<exists>l. sn_Listeners sn (ls_listen_port r) = Some l \<and> serves (le_compile le) host db0 r l)"
proof -
  from assms(1) obtain eid where eid: "environment_id db0 e = Some eid" and row: "CF_row cfg \<in> set (t_configurations db1)"
    and contents: "cf_snapshot (CF_row cfg) = snapshot_of host db0 e eid" and same: "t_environments db1 = t_environments db0"
    by (rule create_Inr)
  have ok1: "configurations_ok db1"
    using refines_create [of 0 db0 host c a e] assms(1,2) by (simp add: refines_def)
  note ok2 = lifecycle.run_ok [OF assms(3) ok1]
  from history_kept [OF assms(3) ok1 row] obtain q1 where q1: "q1 \<in> set (t_configurations db2)"
    "cf_id q1 = cf_id (CF_row cfg)" "cf_snapshot q1 = snapshot_of host db0 e eid" using contents by auto
  obtain r' where load: "Load le db3 (lp_runtime lp) = (None, r')"
    using assms(8) by (metis prod.collapse)
  from activated_load [OF assms(4) ok2 q1(1,2) load assms(6)] obtain sn where
    cur: "rt_current r' = Some sn" and version: "sn_Version sn = cf_id (CF_row cfg)"
    and dom: "dom (sn_Listeners sn) = rl_ListenPort ` {item \<in> set (r_Listeners (snapshot_of host db0 e eid)). serving item}"
    and built: "\<And>item. item \<in> set (r_Listeners (snapshot_of host db0 e eid)) \<Longrightarrow> serving item \<Longrightarrow>
      \<exists>l. sn_Listeners sn (rl_ListenPort item) = Some l \<and> listener_built (le_compile le) (snapshot_of host db0 e eid) item l"
    unfolding q1(3) by blast
  have "environments_ok db0" using assms(2) by (simp add: configurations_ok_def)
  note rows = snapshot_listeners [OF this eid, of host]
  have ports: "dom (sn_Listeners sn) = ls_listen_port ` traffic_rows db0 e"
    unfolding dom rows image_image by (simp add: raw_listener_of_def)
  have each: "\<exists>l. sn_Listeners sn (ls_listen_port r) = Some l \<and> serves (le_compile le) host db0 r l" if "r \<in> traffic_rows db0 e" for r
  proof -
    from that have "raw_listener_of r \<in> {item \<in> set (r_Listeners (snapshot_of host db0 e eid)). serving item}"
      unfolding rows by (rule imageI)
    then obtain l where l: "sn_Listeners sn (rl_ListenPort (raw_listener_of r)) = Some l"
      "listener_built (le_compile le) (snapshot_of host db0 e eid) (raw_listener_of r) l" using built by blast
    from l(1) built_serves [OF l(2)] show ?thesis by (simp add: raw_listener_of_def)
  qed
  have ev: "ev = [(e, ''configuration'')]"
    using activate_events [OF assms(4)] assms(5) by (simp add: notify_def)
  have "foldl (\<lambda>q m. Events e m q) [] (map Publish ev) = [''configuration'']"
    unfolding ev by (simp add: Events_Publish known_event_def event_buffer_def)
  moreover have "rt_current (lp_runtime (fst (Run_step le c'' outcome (Notified ''configuration'') lp db3))) = Some sn"
    using assms(7) cur by (simp add: load)
  ultimately show ?thesis using ports each version by blast
qed

section \<open>Example\<close>

text \<open>A configuration is created, validated and, without approvals, activated.\<close>

definition example_publisher :: store where
  "example_publisher = example_store\<lparr>st_requiredApprovals := 0\<rparr>"

lemma example_row_updates:
  "example_configuration ''draft''\<lparr>cf_status := ''validated'', cf_validated_at := Some 100\<rparr> = example_configuration ''validated''"
  "example_configuration ''validated''\<lparr>cf_status := ''active'', cf_activated_at := Some 100\<rparr> = example_configuration ''active''"
  by (simp_all add: example_configuration_def)

lemma example_create:
  "\<exists>b n. CreateConfiguration (lib_host example_libraries) example_context ''alice'' ''development'' example_allocated
     = (Inr (configuration_of ''development'' (example_configuration ''draft'')),
        with_audit b n (with_configurations [bootstrap_configuration 0 1 ''development'', example_configuration ''draft''] []))"
proof -
  let ?db = "with_configurations [bootstrap_configuration 0 1 ''development'', example_configuration ''draft''] []"
  obtain b n where au: "audited example_context ''development'' ''alice'' ''configuration.created'' ''configuration''
      (show_int 2) [] (configuration_of ''development'' (example_configuration ''draft'')) ?db
      = Inr (configuration_of ''development'' (example_configuration ''draft''), with_audit b n ?db)"
    using example_audited [of ?db] by fastforce
  have "environment_id example_allocated ''development'' = Some 1" "t_next_configuration example_allocated = 2"
    "t_configurations example_allocated = [bootstrap_configuration 0 1 ''development'']"
    "t_approvals example_allocated = []"
    by (simp_all add: environment_id_def example_allocated_def example_database_def)
  moreover have "\<lparr>cf_id = 2, cf_environment = 1, cf_status = ''draft'', cf_snapshot = example_contents, cf_source = None,
      cf_created_by = ''alice'', cf_validated_at = None, cf_activated_at = None, cf_created_at = 100\<rparr>
    = example_configuration ''draft''" by (simp add: example_configuration_def)
  moreover have "example_allocated\<lparr>t_configurations := [bootstrap_configuration 0 1 ''development'', example_configuration ''draft''],
      t_next_configuration := 3\<rparr> = ?db"
    by (simp add: with_configurations_def) (simp add: example_allocated_def example_database_def)
  ultimately have "CreateConfiguration (lib_host example_libraries) example_context ''alice'' ''development'' example_allocated
     = (Inr (configuration_of ''development'' (example_configuration ''draft'')), with_audit b n ?db)"
    using au by (simp add: CreateConfiguration_def withTx_def query_row_def example_snapshot_of Let_def example_context_def)
  then show ?thesis by blast
qed

lemma example_validate:
  "\<exists>b' n'. snd (ValidateConfiguration example_context ''alice'' ''development'' 2 (with_audit b n
      (with_configurations [bootstrap_configuration 0 1 ''development'', example_configuration ''draft''] [])))
    = with_audit b' n' example_proposed"
proof -
  let ?rows = "[bootstrap_configuration 0 1 ''development'', example_configuration ''draft'']"
  obtain b' n' where au: "audited example_context ''development'' ''alice'' ''configuration.validated'' ''configuration''
      (show_int 2) [] (configuration_of ''development'' (example_configuration ''validated'')) (with_audit b n example_proposed)
      = Inr (configuration_of ''development'' (example_configuration ''validated''), with_audit b' n' (with_audit b n example_proposed))"
    using example_audited [of "with_audit b n example_proposed"] by (fastforce simp: example_proposed_def)
  have upd: "update_returning (\<lambda>r. cf_id r = 2 \<and> cf_environment r = 1 \<and> cf_status r = ''draft'')
      (\<lambda>r. r\<lparr>cf_status := ''validated'', cf_validated_at := Some 100\<rparr>) ?rows
      = Some (example_configuration ''validated'', [bootstrap_configuration 0 1 ''development'', example_configuration ''validated''])"
    by (simp add: update_returning_def bootstrap_configuration_def example_configuration_def)
  have env: "in_environment (with_audit b n (with_configurations rows [])) ''development'' x \<longleftrightarrow> x = 1" for rows x
    using in_environment_tables [of "with_audit b n (with_configurations rows [])" "with_configurations rows []"] by simp
  have valid: "\<not> exists_where (\<lambda>l. Some (ls_environment l) = Some 1 \<and> invalid_listener (with_audit b n (with_configurations ?rows [])) l)
      [example_listener_row]"
    by (simp add: exists_where_def invalid_listener_def example_listener_row_def example_database_def)
  have c: "ce_begin_ok example_context" "ce_commit_ok example_context" "ce_now example_context = 100"
    by (simp_all add: example_context_def)
  have tables: "environment_id (with_audit b n (with_configurations ?rows [])) ''development'' = Some 1"
    "t_listeners (with_audit b n (with_configurations ?rows [])) = [example_listener_row]"
    "t_configurations (with_audit b n (with_configurations ?rows [])) = ?rows"
    "with_audit b n (with_configurations ?rows [])\<lparr>t_configurations :=
      [bootstrap_configuration 0 1 ''development'', example_configuration ''validated'']\<rparr> = with_audit b n example_proposed"
    by (simp_all add: example_proposed_def)
  have "snd (ValidateConfiguration example_context ''alice'' ''development'' 2 (with_audit b n (with_configurations ?rows [])))
      = with_audit b' n' (with_audit b n example_proposed)"
    unfolding ValidateConfiguration_def withTx_def query_row_def env tables c upd option.case bind_ok_Inr prod.case
    using valid by (simp only: c if_False au sum.case prod.case snd_conv simp_thms if_True)
  then show ?thesis unfolding with_audit_updates by blast
qed

lemma example_activate:
  "\<exists>cfg db. fst (ActivateConfiguration example_publisher example_context ''alice'' ''development'' 2 None
      (with_audit b n example_proposed)) = (Inr cfg, db)
    \<and> active_row db ''development'' = Some (example_configuration ''active'') \<and> t_keys db = []"
proof -
  let ?rows = "[bootstrap_configuration 0 1 ''development''\<lparr>cf_status := ''superseded''\<rparr>, example_configuration ''active'']"
  let ?cfg = "configuration_of ''development'' (example_configuration ''active'')"
  have au: "\<exists>b' n'. audited example_context ''development'' ''alice'' ''configuration.activated'' ''configuration''
      (show_int 2) [(''previousVersion'', detail_of_active a)] ?cfg (with_audit b n example_proposed\<lparr>t_configurations := ?rows,
        t_listeners := ls, t_ports := ps\<rparr>) = Inr (?cfg, with_audit b' n' (with_audit b n example_proposed\<lparr>t_configurations := ?rows,
        t_listeners := ls, t_ports := ps\<rparr>))" for ls ps a
    by (rule example_audited) (simp add: example_proposed_def)
  have upd: "update_returning (\<lambda>r. cf_id r = 2 \<and> cf_environment r = 1 \<and> cf_status r = ''validated'')
      (\<lambda>r. r\<lparr>cf_status := ''active'', cf_activated_at := Some 100\<rparr>) (supersede 1 (t_configurations (with_audit b n example_proposed)))
      = Some (example_configuration ''active'', ?rows)"
    by (simp add: example_proposed_def update_returning_def supersede_def bootstrap_configuration_def example_configuration_def)
  have env: "environment_id (with_audit b n example_proposed) ''development'' = Some 1" by (simp add: example_proposed_def)
  let ?ls = "update_where (\<lambda>l. ls_environment l = 1) (\<lambda>l. l\<lparr>ls_configuration_version := Some 2,
      ls_status := (if ls_status l = ''reserved'' then ''active'' else ls_status l)\<rparr>) (t_listeners (with_audit b n example_proposed))"
  let ?ps = "update_where (\<lambda>p. po_environment p = 1 \<and> po_status p = ''reserved'')
      (\<lambda>p. p\<lparr>po_status := ''active'', po_updated_at := 100\<rparr>) (t_ports (with_audit b n example_proposed))"
  let ?db = "with_audit b n example_proposed\<lparr>t_configurations := ?rows, t_listeners := ?ls, t_ports := ?ps\<rparr>"
  obtain b' n' where fin: "audited example_context ''development'' ''alice'' ''configuration.activated'' ''configuration''
      (show_int 2) [(''previousVersion'', detail_of_active (active_configuration (with_audit b n example_proposed) 1))] ?cfg ?db
      = Inr (?cfg, with_audit b' n' ?db)" using au by blast
  have c: "ce_begin_ok example_context" "ce_commit_ok example_context" "ce_now example_context = 100"
    "st_requiredApprovals example_publisher = 0"
    by (simp_all add: example_context_def example_publisher_def)
  have "fst (ActivateConfiguration example_publisher example_context ''alice'' ''development'' 2 None
      (with_audit b n example_proposed)) = (Inr ?cfg, with_audit b' n' ?db)"
    unfolding ActivateConfiguration_def withTx_def Let_def env query_row_def c upd option.case bind_ok_Inr prod.case fst_conv
    by (simp add: fin c del: with_audit_tables with_audit_updates)
  moreover have "active_row (with_audit b' n' ?db) ''development'' = Some (example_configuration ''active'')"
    by (simp add: active_row_def in_environment_def) (simp add: example_proposed_def example_database_def
        bootstrap_configuration_def example_configuration_def)
  moreover have "t_keys (with_audit b' n' ?db) = []"
    by (simp add: example_proposed_def with_configurations_def example_allocated_def example_database_def)
  ultimately show ?thesis by blast
qed

lemma example_publication_loads:
  assumes "active_row db ''development'' = Some (example_configuration ''active'')" and "t_keys db = []"
  shows "fst (Load example_load_env db (NewRuntime example_options)) = None"
proof -
  have env: "rt_environment (NewRuntime example_options) = ''development''"
    "rt_current (NewRuntime example_options) = None" "rt_allowlist (NewRuntime example_options) = [Cidr (V4 0x0A000000) 8]"
    by (simp_all add: NewRuntime_def example_options_def)
  have "\<exists>s. buildSnapshot (\<lambda>_. None) 200 2 ''development'' example_contents [] [Cidr (V4 0x0A000000) 8] = Inr s"
    by (simp add: snapshot_eval example_contents_def raw_listener_of_def example_listener_row_def)
  then obtain s where "buildSnapshot (\<lambda>_. None) 200 2 ''development'' example_contents [] [Cidr (V4 0x0A000000) 8] = Inr s" ..
  with assms show ?thesis
    by (simp add: Load_def read_snapshot_def env example_load_env_def live_credentials_def Let_def)
qed


theorem publication_delivers_witness:
  "\<exists>db t sn l. rt_current (lp_runtime (fst (Run_step example_load_env example_context (\<lambda>_. Unreachable) (Notified t)
       \<lparr>lp_runtime = NewRuntime example_options, lp_running = True, lp_events = True\<rparr> db))) = Some sn
     \<and> sn_Version sn = 2 \<and> dom (sn_Listeners sn) = {4100} \<and> sn_Listeners sn 4100 = Some l
     \<and> l_RequiredPermission l = ''billing:v1:read'' \<and> l_UnprotectedRouteRegex l = None
     \<and> l_RequestTimeout l = 30000000000 \<and> image_mset upstream_fields (mset (l_Upstreams l))
       = {#(''ups_1'', ''http'', Some (V4 0x0A000001), 8080, 100, ''/health'')#}"
proof -
  let ?lp = "\<lparr>lp_runtime = NewRuntime example_options, lp_running = True, lp_events = True\<rparr>"
  let ?cfg = "configuration_of ''development'' (example_configuration ''draft'')"
  obtain b n where create: "CreateConfiguration (lib_host example_libraries) example_context ''alice'' ''development'' example_allocated
     = (Inr ?cfg, with_audit b n (with_configurations [bootstrap_configuration 0 1 ''development'', example_configuration ''draft''] []))"
    using example_create by blast
  let ?db1 = "with_audit b n (with_configurations [bootstrap_configuration 0 1 ''development'', example_configuration ''draft''] [])"
  obtain b' n' where validate: "snd (ValidateConfiguration example_context ''alice'' ''development'' 2 ?db1) = with_audit b' n' example_proposed"
    using example_validate by blast
  have "store_step example_store example_libraries ?db1 (with_audit b' n' example_proposed)"
    unfolding validate [symmetric] by (rule store_step.call, rule store_call.validate_configuration)
  then have run: "store_run example_store example_libraries ?db1 (with_audit b' n' example_proposed)"
    by (rule store_run.step [OF store_run.start])
  obtain cfg db ev where act: "ActivateConfiguration example_publisher example_context ''alice'' ''development'' (cf_id (CF_row ?cfg)) None
      (with_audit b' n' example_proposed) = ((Inr cfg, db), ev)"
    and db: "active_row db ''development'' = Some (example_configuration ''active'')" "t_keys db = []"
    using example_activate [of b' n'] by (auto simp: configuration_of_def) (metis prod.collapse)
  have ok: "configurations_ok example_allocated"
    by (simp add: configurations_ok_def environments_ok_def example_allocated_def example_database_def bootstrap_configuration_def)
  have pub: "st_publisher example_publisher" by (simp add: example_publisher_def example_store_def)
  have lp: "rt_environment (lp_runtime ?lp) = ''development''" "lp_events ?lp"
    by (simp_all add: NewRuntime_def example_options_def)
  have "fst (Load example_load_env db (lp_runtime ?lp)) = None" using example_publication_loads [OF db] by simp
  have le_none: "le_compile example_load_env = (\<lambda>_. None)" by (simp add: example_load_env_def)
  from publication_delivers [OF create ok run act pub lp \<open>fst (Load example_load_env db (lp_runtime ?lp)) = None\<close>, of example_context "\<lambda>_. Unreachable"]
  obtain t sn where sn: "rt_current (lp_runtime (fst (Run_step example_load_env example_context (\<lambda>_. Unreachable) (Notified t) ?lp db))) = Some sn"
    "sn_Version sn = 2" "dom (sn_Listeners sn) = ls_listen_port ` traffic_rows example_allocated ''development''"
    "\<forall>r \<in> traffic_rows example_allocated ''development''. \<exists>l. sn_Listeners sn (ls_listen_port r) = Some l \<and> serves (\<lambda>_. None) (lib_host example_libraries) example_allocated r l"
    by (auto simp: configuration_of_def le_none)
  have rows: "traffic_rows example_allocated ''development'' = {example_listener_row}"
    by (auto simp: traffic_rows_def example_allocated_def in_environment_def example_database_def example_listener_row_def)
  then obtain l where l: "sn_Listeners sn 4100 = Some l" "serves (\<lambda>_. None) (lib_host example_libraries) example_allocated example_listener_row l"
    using sn(4) by (auto simp: example_listener_row_def)
  have usable: "usable_rows example_allocated ''ver_1'' = mset (t_upstreams example_database)"
    by (simp add: usable_rows_def example_allocated_def example_database_def)
  from l(2) obtain v where v: "v \<in> set (t_versions example_allocated)"
    "serves_version (lib_host example_libraries) example_allocated example_listener_row l v"
    by (auto simp: serves_def)
  have v1: "vr_id v = ''ver_1''" "vr_health_check_path v = ''/health''" "vr_request_timeout_ms v = 30000"
    using v by (auto simp: example_allocated_def example_database_def)
  have "image_mset upstream_fields (mset (l_Upstreams l))
      = {#(''ups_1'', ''http'', Some (V4 0x0A000001), 8080, 100, ''/health'')#}"
    using v(2) unfolding serves_version_def v1 usable
    by (simp add: example_database_def row_fields_def or_default_def example_libraries_def parse_addr_def parse_v4_def
        v4_word_def byte_eval Let_def)
  moreover have "l_RequiredPermission l = ''billing:v1:read''" "l_UnprotectedRouteRegex l = None"
    using l(2) by (simp_all add: serves_def example_listener_row_def public_routes_def)
  moreover have "l_RequestTimeout l = 30000000000"
    using v(2) by (simp add: serves_version_def v1 milliseconds_def int64_def)
  moreover have "ls_listen_port example_listener_row = 4100" by (simp add: example_listener_row_def)
  ultimately show ?thesis using sn(1-3) l(1) unfolding rows by (intro exI conjI) (assumption | simp)+
qed

end
