(* ===== verification/Spec2Isabelle.thy ===== *)
theory Spec2Isabelle
  imports Gateway_Policy Gateway_Access Round_Robin Snapshot_Build Rate_Limit Correlation Metrics
    Limited_Body Process Event_Bus Serving Exposition Connections Load_Test Migration_Lock
    Isolation Publication
begin

text \<open>
  \<^bold>\<open>A verification library of the Shinmon API gateway.\<close>

  Shinmon is one Go program in two roles. The \<^emph>\<open>admin\<close> process serves an HTTP API on which operators
  register services, upstreams, listeners, permissions, consumers and API keys, and publish
  configurations. A \<^emph>\<open>gateway\<close> process loads the active configuration and the live keys of its
  environment from the database, and forwards the requests that its listeners admit. The processes
  share a PostgreSQL database and a Redis server (windows of the rate limits, circuits, events).

  \<^bold>\<open>Parts and theories.\<close> The names of the definitions are those of the code; paths are under
  \<^verbatim>\<open>src/internal\<close>.

    \<^item> Foundations: \<open>Prelude\<close> (results of fallible functions, 64-bit arithmetic, tables as lists of
      rows, the collections \<open>result_simps\<close> and \<open>table_simps\<close>), \<open>Go_Strings\<close> and \<open>Netip\<close> (what the program uses
      of \<^verbatim>\<open>strings\<close>, \<^verbatim>\<open>strconv\<close>, \<^verbatim>\<open>net\<close>, \<^verbatim>\<open>net/textproto\<close>, \<^verbatim>\<open>fmt\<close> and \<^verbatim>\<open>net/netip\<close>), \<open>Machines\<close> (the locales
      \<open>machine\<close>, \<open>terminating\<close> and \<open>simulation\<close>).
    \<^item> Gateway requests, \<^verbatim>\<open>dataplane/handler.go\<close>: \<open>Gateway\<close> (\<open>ServeHTTP\<close> as the sequence \<open>admit\<close>,
      \<open>apply_policy\<close>, \<open>check_circuits\<close>, \<open>choose_upstream\<close>, \<open>forward_request\<close>, with \<open>httputil.ReverseProxy\<close> as the
      handler configures it), \<open>Limited_Body\<close>; properties in \<open>Gateway_Access\<close> (who gets through, what is sent,
      how the others are answered) and \<open>Gateway_Policy\<close> (the calls of the coordinator and their order).
    \<^item> Snapshots, \<^verbatim>\<open>dataplane/snapshot.go\<close>: \<open>Snapshot\<close> (\<open>buildSnapshot\<close>, \<open>SelectUpstreamWhere\<close>); \<open>Snapshot_Build\<close>
      (everything in a snapshot is well formed) and \<open>Round_Robin\<close> (weighted fairness).
    \<^item> The runtime, \<^verbatim>\<open>dataplane/runtime.go\<close>: \<open>Runtime\<close> (\<open>Load\<close>, \<open>probe\<close>, \<open>report\<close>, and \<open>Run_step\<close>, one pass of the
      loop for each event its select can receive); \<open>Key_Properties\<close>, \<open>Runtime_Properties\<close>; \<open>Serving\<close> interleaves
      the passes with requests.
    \<^item> Coordination, \<^verbatim>\<open>coordination/redis.go\<close>: \<open>Coordination\<close> (keys, the two scripts, the client),
      \<open>Rate_Limit\<close> (bounds for every interleaving of clients), \<open>Event_Bus\<close> (\<open>Publish\<close> and \<open>Events\<close>).
    \<^item> The store, \<^verbatim>\<open>controlplane/store.go\<close> and \<^verbatim>\<open>types.go\<close>: \<open>Store_Base\<close> (tables, \<open>withTx\<close>, \<open>audit\<close>, input),
      \<open>Store_Catalog\<close>, \<open>Store_Ports\<close>, \<open>Store_Access\<close>, \<open>Store_Config\<close>; \<open>Store_Steps\<close> makes every mutating call a step
      of one machine; \<open>Port_Inventory\<close>, \<open>Config_Lifecycle\<close> (the abstract machine of configurations),
      \<open>Store_Lifecycle\<close> and \<open>Config_Properties\<close> (the store refines it); \<open>Publication\<close> (from the tables through a configuration to what
      the gateways serve). \<open>Store_Initial\<close> holds the databases of
      the witnesses.
    \<^item> The admin API, \<^verbatim>\<open>controlplane/handler.go\<close>: \<open>Admin_Input\<close>, \<open>Admin_Handler\<close>, \<open>Admin_Properties\<close>;
      \<open>Tenants\<close> (the view an environment has of the shared tables, and what each call of the store does to the
      views of others) and \<open>Isolation\<close> (the admin process of one environment and the gateways of another).
    \<^item> Around both: \<open>Correlation\<close> (\<^verbatim>\<open>correlation\<close>), \<open>Metrics\<close> and \<open>Exposition\<close> (\<^verbatim>\<open>observability\<close>), \<open>Http_Api\<close>
      (\<^verbatim>\<open>httpapi\<close>: health, metrics, the admin token, access log), \<open>Config\<close> (\<^verbatim>\<open>config\<close>), \<open>Connections\<close>
      (the pool of \<^verbatim>\<open>database\<close>, the transport and the Redis client), \<open>Migrate\<close> and \<open>Migration_Lock\<close> (the
      migrations of \<^verbatim>\<open>database\<close>, alone and by several processes at once), \<open>Server\<close> (\<^verbatim>\<open>server\<close>, \<^verbatim>\<open>health\<close>),
      \<open>Process\<close> (\<^verbatim>\<open>bootstrap\<close> and the \<^verbatim>\<open>main\<close> functions), \<open>Load_Test\<close> (\<^verbatim>\<open>cmd/shinmon-loadtest\<close>).

  \<^bold>\<open>How state and calls correspond.\<close> A Go struct is a record, an error a value of a sum type, a slice a
  list. A method that changes its receiver returns the new state. The database is a record of tables;
  a transaction that fails returns the database it was given; it can fail to begin and to commit
  (\<open>ce_begin_ok\<close>, \<open>ce_commit_ok\<close>) and at the constraints that its statements meet. A COMMIT that is answered
  with an error can have taken effect all the same (\<open>ce_commit_kept\<close>): then the changes are in the database
  behind the error. The Redis server has a clock: \<open>rd_pass\<close> lets time pass and keys expire, and every call on
  it happens at a time of arrival. A snapshot is shared by pointer in the code: the gateway's copy carries the
  cursors of the round robin, upstream health is a map over the identities \<open>u_ref\<close>, and \<open>Serving.shares\<close>
  relates the handler's view to the runtime's. Integers that can wrap are words or are reduced by
  \<open>int64\<close>; times are integers in the unit their source has.

  \<^bold>\<open>Interfaces.\<close> \<open>redis_server\<close> (the commands the scripts use and the expiry of keys, interpreted on a server in memory),
  \<open>body_reader\<close> (the contract of \<open>io.Reader\<close>, interpreted on strings) and its extension \<open>steady_reader\<close> (one that makes progress), \<open>snapshot_source\<close> (what the handler relies on,
  interpreted on the runtime), \<open>machine\<close> (interpreted on the store, the lifecycle, the loop, the gateway at
  work, the migrating processes and the pool of the load test), \<open>terminating\<close> (the pool) and \<open>simulation\<close> (the store by the lifecycle).

  \<^bold>\<open>What is shown.\<close>

    \<^item> Requests: nothing reaches an upstream unless the peer is trusted and the key, permission, method,
      media type and size are in order; every policy that applies was asked first; with the
      coordinator down a policed listener sends nothing; an attempt is recorded once, except an answer 101
      whose connection cannot be handed over; what is sent carries no credential, and goes to
      an upstream inside the allowlist after any interleaving with reloads and probes.
    \<^item> Policies: grants per second are at most rate plus burst over all clients, while the counter of the
      second lives (a second from its first request), and a circuit opens at its threshold for failures within
      the time its counter lives; the round robin is exactly weighted, and passes over an eligible upstream
      only when health changes during a selection.
    \<^item> Configurations: one is active per environment, what is live was approved by enough others, and the
      history never changes; ports and listeners stay in step. A configuration that is activated is
      what the gateways then serve: the listeners, versions and upstreams of the tables when it was created,
      with everything that the tables say of them.
    \<^item> Keys: an issued key is accepted after the next load; a revoked one is in no later snapshot, and its
      event makes the gateways load. Polling alone can miss a revocation (\<open>poll_misses_revocation\<close>).
    \<^item> Administration: the database of the admin process changes only by requests with the token, every
      change is in the audit trail in the actor's name (also one that a lost COMMIT leaves behind an error), and every run of requests is a run of the store. It never
      changes anything of another environment, nor what the gateways of another environment load.
    \<^item> Processes: a configuration that loads is complete; a gateway that serves has a valid snapshot and
      keeps one, and from its environment variables to the wire it sends only for trusted peers, to
      allowed addresses, over verified connections; migrations resume and are applied once even when
      several processes start together; the load test ends; the metrics read back.

  \<^bold>\<open>Termination and fuel.\<close> No definition uses fuel: the loops of the code run over finite lists and are
  structural recursion, and the loops that do not end by themselves (the runtime's select, the pool of
  the load test, sequences of requests) are step relations with runs of any length.

  \<^bold>\<open>Parameters.\<close> HMAC-SHA256 and SHA-256, random bytes and clocks, the compiler of regular
  expressions, the media type parser, the JSON scanner and the decoding of times, \<open>time.ParseDuration\<close> and
  \<open>url.Parse\<close>, the printing of floating point numbers, the parsers of the database and Redis drivers, the
  certificate store, and the answers of upstreams, database and network are arguments of the definitions
  that use them. The witnesses instantiate each of them.

  \<^bold>\<open>Not modelled.\<close> The text of SQL statements and migrations (each statement is its effect on the tables;
  isolation is that of one transaction after another, except for the rows that \<open>SKIP LOCKED\<close> passes over, an
  argument; a sequence of the database has no gaps, and text is ordered by its bytes), the bytes of JSON answers and log lines, the HTTP server and client of the library,
  signals, contexts and goroutines beyond the interleavings above, the parsing of command line flags,
  the web console.
\<close>

section \<open>Revocation, from the admin API to the gateway\<close>

lemma RevokeKey_events:
  "RevokeKey st c a env kid db = ((Inr (), db1), ev) \<Longrightarrow> st_publisher st \<Longrightarrow> ev = [(env, ''credentials'')]"
  by (auto simp: RevokeKey_def notify_def Let_def)

text \<open>
  Claim C15: A revocation takes effect through the event it publishes. The event reaches a gateway
  of the environment with an empty event channel, as one that the gateway knows; the pass of the
  gateway's loop that receives it, whatever else has been done to the store by then, leaves a
  snapshot in which no credential is the revoked key, provided that the snapshot loads.
\<close>

theorem revocation_reaches_gateway:
  assumes "RevokeKey st c a env kid db = ((Inr (), db1), ev)" and "keys_ok db" and "st_publisher st"
    and "store_run st' lib db1 db2"
    and "lp_events lp" and "fst (Load e db2 (lp_runtime lp)) = None"
  shows "\<exists>t s. foldl (\<lambda>q m. Events env m q) [] (map Publish ev) = [t]
    \<and> rt_current (lp_runtime (fst (Run_step e c' outcome (Notified t) lp db2))) = Some s
    \<and> (\<forall>p cr. sn_Credentials s p = Some cr \<longrightarrow> c_ID cr \<noteq> kid)"
proof -
  obtain r' where load: "Load e db2 (lp_runtime lp) = (None, r')"
    using assms(6) by (metis prod.collapse)
  from revoked_absent [OF assms(1,2,4) load] obtain s where s: "rt_current r' = Some s"
    "\<forall>p cr. sn_Credentials s p = Some cr \<longrightarrow> c_ID cr \<noteq> kid" by blast
  have "foldl (\<lambda>q m. Events env m q) [] (map Publish ev) = [''credentials'']"
    using RevokeKey_events [OF assms(1,3)] by (simp add: Events_Publish known_event_def event_buffer_def)
  moreover have "rt_current (lp_runtime (fst (Run_step e c' outcome (Notified ''credentials'') lp db2))) = Some s"
    using assms(5) s(1) by (simp add: load)
  ultimately show ?thesis using s(2) by blast
qed

text \<open>A gateway of the example environment, before its first load.\<close>

definition example_loop :: loop where
  "example_loop = \<lparr>lp_runtime = NewRuntime example_options, lp_running = True, lp_events = True\<rparr>"

theorem revocation_reaches_gateway_witness:
  "\<exists>db ev t s. snd (RevokeKey example_store (example_context\<lparr>ce_now := 150\<rparr>) ''alice'' ''development''
       (ky_id example_key_row) (with_audit [] 0 (example_database\<lparr>t_keys := [example_key_row]\<rparr>))) = ev
     \<and> foldl (\<lambda>q m. Events ''development'' m q) [] (map Publish ev) = [t]
     \<and> rt_current (lp_runtime (fst (Run_step example_load_env example_context (\<lambda>_. Unreachable)
         (Notified t) example_loop db))) = Some s
     \<and> (\<nexists>p. map_option c_ID (sn_Credentials s p) = Some (ky_id example_key_row))"
proof -
  obtain a' n' ev where revoke: "RevokeKey example_store (example_context\<lparr>ce_now := 150\<rparr>) ''alice'' ''development''
      (ky_id example_key_row) (with_audit [] 0 (example_database\<lparr>t_keys := [example_key_row]\<rparr>))
    = ((Inr (), with_audit a' n' (example_database\<lparr>t_keys := [example_revoked_row]\<rparr>)), ev)"
    using example_revoke by blast
  let ?db = "with_audit a' n' (example_database\<lparr>t_keys := [example_revoked_row]\<rparr>)"
  have "length (ky_verifier example_revoked_row) = 32" "ky_prefix example_revoked_row \<noteq> []"
    using example_key_lengths by (simp_all add: example_revoked_row_def)
  from example_load [OF this, of a' n']
  have load: "fst (Load example_load_env ?db (lp_runtime example_loop)) = None"
    by (simp add: example_loop_def)
  have "st_publisher example_store" and "lp_events example_loop"
    by (simp_all add: example_store_def example_loop_def)
  from revocation_reaches_gateway [OF revoke example_keys_ok(2) this(1)
      store_run.start [of example_store example_libraries] this(2) load, of example_context "\<lambda>_. Unreachable"]
  obtain t s where ts: "foldl (\<lambda>q m. Events ''development'' m q) [] (map Publish ev) = [t]"
    "rt_current (lp_runtime (fst (Run_step example_load_env example_context (\<lambda>_. Unreachable)
         (Notified t) example_loop ?db))) = Some s"
    "\<forall>p cr. sn_Credentials s p = Some cr \<longrightarrow> c_ID cr \<noteq> ky_id example_key_row" by blast
  then have "\<nexists>p. map_option c_ID (sn_Credentials s p) = Some (ky_id example_key_row)" by auto
  with revoke ts(1,2) show ?thesis by (metis snd_conv)
qed

end
